(* ===== verification/Prelude.thy ===== *)
theory Prelude
  imports Main "HOL-Library.List_Lexorder" "HOL-Library.Char_ord"
    "HOL-Library.Product_Lexorder" "HOL-Library.Multiset"
begin

text \<open>
  What every component shares: the result type of the fallible Rust functions
  (\<open>Inl\<close> the error, \<open>Inr\<close> the value), the ordered map that stands for
  \<open>std::collections::BTreeMap\<close> (an association list in ascending key order, so that
  iterating it is reading it), counters over such a map, and keeping the first
  element of each key (the \<open>BTreeSet::insert\<close> filter idiom).
\<close>

named_theorems result_simps \<open>rewriting of fallible computations\<close>
named_theorems bt_simps \<open>lookups in ordered maps\<close>

section \<open>Results\<close>

type_synonym ('e, 'a) result = "'e + 'a"

definition and_then :: "'e + 'a \<Rightarrow> ('a \<Rightarrow> 'e + 'b) \<Rightarrow> 'e + 'b" where
  "and_then r f = (case r of Inl e \<Rightarrow> Inl e | Inr x \<Rightarrow> f x)"

definition ok_or :: "'e \<Rightarrow> 'a option \<Rightarrow> 'e + 'a" where
  "ok_or e x = (case x of None \<Rightarrow> Inl e | Some y \<Rightarrow> Inr y)"

definition guard_or :: "'e \<Rightarrow> bool \<Rightarrow> 'e + unit" where
  "guard_or e b = (if b then Inr () else Inl e)"

definition map_err :: "'d \<Rightarrow> 'e + 'a \<Rightarrow> 'd + 'a" where
  "map_err d r = (case r of Inl _ \<Rightarrow> Inl d | Inr x \<Rightarrow> Inr x)"

definition is_ok :: "'e + 'a \<Rightarrow> bool" where
  "is_ok r = (case r of Inl _ \<Rightarrow> False | Inr _ \<Rightarrow> True)"

lemma and_then_simps [simp, result_simps]:
  "and_then (Inl e) f = Inl e"
  "and_then (Inr x) f = f x"
  by (simp_all add: and_then_def)

lemma and_then_Inr [result_simps]:
  "and_then r f = Inr y \<longleftrightarrow> (\<exists>x. r = Inr x \<and> f x = Inr y)"
  by (cases r) simp_all

lemma and_then_Inl [result_simps]:
  "and_then r f = Inl e \<longleftrightarrow> r = Inl e \<or> (\<exists>x. r = Inr x \<and> f x = Inl e)"
  by (cases r) simp_all

lemma ok_or_simps [simp, result_simps]:
  "ok_or e (Some x) = Inr x"
  "ok_or e None = Inl e"
  by (simp_all add: ok_or_def)

lemma ok_or_Inr [result_simps]: "ok_or e x = Inr y \<longleftrightarrow> x = Some y"
  by (cases x) simp_all

lemma guard_or_Inr [result_simps]: "guard_or e b = Inr u \<longleftrightarrow> b"
  by (simp add: guard_or_def)

lemma guard_or_Inl [result_simps]: "guard_or e b = Inl d \<longleftrightarrow> \<not> b \<and> d = e"
  by (auto simp: guard_or_def)

lemma guard_or_simps [simp]: "guard_or e True = Inr ()" "guard_or e False = Inl e"
  by (simp_all add: guard_or_def)

lemma map_err_Inr [result_simps]: "map_err d r = Inr x \<longleftrightarrow> r = Inr x"
  by (cases r) (simp_all add: map_err_def)

lemma map_err_simps [simp]: "map_err d (Inl e) = Inl d" "map_err d (Inr x) = Inr x"
  by (simp_all add: map_err_def)

lemma map_sum_eq_Inr: "map_sum f g r = Inr b \<longleftrightarrow> (\<exists>a. r = Inr a \<and> g a = b)"
  by (cases r) auto

lemma is_ok_iff [result_simps]: "is_ok r \<longleftrightarrow> (\<exists>x. r = Inr x)"
  by (cases r) (simp_all add: is_ok_def)

text \<open>A loop that checks every element and stops at the first error.\<close>

fun for_all_ok :: "('a \<Rightarrow> 'e + unit) \<Rightarrow> 'a list \<Rightarrow> 'e + unit" where
  "for_all_ok f [] = Inr ()"
| "for_all_ok f (x # xs) = (case f x of Inl e \<Rightarrow> Inl e | Inr _ \<Rightarrow> for_all_ok f xs)"

lemma for_all_ok_Inr [result_simps]:
  "for_all_ok f xs = Inr u \<longleftrightarrow> (\<forall>x \<in> set xs. f x = Inr ())"
  by (induction xs) (auto split: sum.splits)

text \<open>The \<open>collect::<Result<Vec<_>, _>>()\<close> idiom.\<close>

fun map_ok :: "('a \<Rightarrow> 'e + 'b) \<Rightarrow> 'a list \<Rightarrow> 'e + 'b list" where
  "map_ok f [] = Inr []"
| "map_ok f (x # xs) = (case f x of Inl e \<Rightarrow> Inl e
     | Inr y \<Rightarrow> (case map_ok f xs of Inl e \<Rightarrow> Inl e | Inr ys \<Rightarrow> Inr (y # ys)))"

lemma map_ok_Inr [result_simps]:
  "map_ok f xs = Inr ys \<longleftrightarrow> list_all2 (\<lambda>x y. f x = Inr y) xs ys"
proof (induction xs arbitrary: ys)
  case Nil
  then show ?case by auto
next
  case (Cons x xs)
  show ?case
  proof (cases "map_ok f xs")
    case (Inl e)
    then have "\<not> list_all2 (\<lambda>x y. f x = Inr y) xs zs" for zs
      using Cons.IH[of zs] by simp
    with Inl show ?thesis by (auto simp: list_all2_Cons1 split: sum.splits)
  next
    case (Inr zs)
    then have "list_all2 (\<lambda>x y. f x = Inr y) xs us \<longleftrightarrow> us = zs" for us
      using Cons.IH[of us] by auto
    with Inr show ?thesis by (auto simp: list_all2_Cons1 split: sum.splits)
  qed
qed

section \<open>Ordered maps\<close>

text \<open>The contract of \<open>BTreeMap\<close> that the code relies on: lookups see the last insert,
  keys stay distinct and iteration is in ascending key order.\<close>

locale ordered_map =
  fixes ins :: "'k::linorder \<Rightarrow> 'v \<Rightarrow> 'm \<Rightarrow> 'm"
    and get :: "'m \<Rightarrow> 'k \<Rightarrow> 'v option"
    and entries :: "'m \<Rightarrow> ('k \<times> 'v) list"
    and wf :: "'m \<Rightarrow> bool"
    and nil :: "'m"
  assumes wf_nil: "wf nil"
    and get_nil: "get nil = (\<lambda>_. None)"
    and wf_ins: "wf m \<Longrightarrow> wf (ins k v m)"
    and get_ins: "wf m \<Longrightarrow> get (ins k v m) = (get m)(k \<mapsto> v)"
    and entries_get: "wf m \<Longrightarrow> map_of (entries m) = get m"
    and entries_sorted: "wf m \<Longrightarrow> sorted_wrt (<) (map fst (entries m))"
begin

definition collect :: "('k \<times> 'v) list \<Rightarrow> 'm" where
  "collect xs = fold (\<lambda>(k, v). ins k v) xs nil"

lemma wf_fold_ins: "wf m \<Longrightarrow> wf (fold (\<lambda>(k, v). ins k v) xs m)"
  by (induction xs arbitrary: m) (auto intro: wf_ins)

lemma get_fold_ins:
  "wf m \<Longrightarrow> get (fold (\<lambda>(k, v). ins k v) xs m) = get m ++ map_of (rev xs)"
proof (induction xs arbitrary: m)
  case Nil
  then show ?case by simp
next
  case (Cons x xs)
  then show ?case
    by (cases x) (auto simp: wf_ins get_ins map_add_def fun_eq_iff split: option.splits)
qed

lemma wf_collect: "wf (collect xs)"
  by (simp add: collect_def wf_fold_ins wf_nil)

lemma get_collect: "get (collect xs) = map_of (rev xs)"
  by (simp add: collect_def get_fold_ins wf_nil get_nil)

lemma entries_distinct: "wf m \<Longrightarrow> distinct (map fst (entries m))"
  using entries_sorted strict_sorted_iff by blast

lemma entries_unique:
  assumes "wf m" "wf m'" "get m = get m'"
  shows "entries m = entries m'"
proof -
  have d: "distinct (map fst (entries m))" "distinct (map fst (entries m'))"
    using assms(1,2) by (simp_all add: entries_distinct)
  have "set (entries m) = set (entries m')"
    using assms d by (metis entries_get map_of_eqI map_of_inject_set)
  moreover have "sorted (map fst (entries m))" "sorted (map fst (entries m'))"
    using entries_sorted assms(1,2) strict_sorted_iff by blast+
  ultimately show ?thesis
    using d by (intro map_sorted_distinct_set_unique[of fst])
      (auto simp: distinct_map)
qed

end

fun bt_insert :: "'k::linorder \<Rightarrow> 'v \<Rightarrow> ('k \<times> 'v) list \<Rightarrow> ('k \<times> 'v) list" where
  "bt_insert k v [] = [(k, v)]"
| "bt_insert k v (e # m) =
     (if k < fst e then (k, v) # e # m
      else if k = fst e then (k, v) # m
      else e # bt_insert k v m)"

definition bt_wf :: "('k::linorder \<times> 'v) list \<Rightarrow> bool" where
  "bt_wf m \<longleftrightarrow> sorted_wrt (<) (map fst m)"

abbreviation bt_get :: "('k \<times> 'v) list \<Rightarrow> 'k \<Rightarrow> 'v option" where
  "bt_get \<equiv> map_of"

definition bt_of_list :: "('k::linorder \<times> 'v) list \<Rightarrow> ('k \<times> 'v) list" where
  "bt_of_list xs = fold (\<lambda>(k, v). bt_insert k v) xs []"

lemma bt_insert_keys [simp]: "fst ` set (bt_insert k v m) = insert k (fst ` set m)"
  by (induction m) auto

lemma bt_wf_insert [intro]: "bt_wf m \<Longrightarrow> bt_wf (bt_insert k v m)"
proof (induction m)
  case Nil
  then show ?case by (simp add: bt_wf_def)
next
  case (Cons e m)
  then have IH: "sorted_wrt (<) (map fst (bt_insert k v m))"
    and lt: "\<forall>x \<in> fst ` set m. fst e < x"
    by (auto simp: bt_wf_def)
  have "\<forall>x \<in> set (map fst (bt_insert k v m)). x = k \<or> x \<in> fst ` set m"
    using bt_insert_keys[of k v m] by auto
  then show ?case
    using Cons.prems IH lt by (auto simp: bt_wf_def)
qed

lemma bt_get_insert [bt_simps]: "map_of (bt_insert k v m) = (map_of m)(k \<mapsto> v)"
  by (induction m) auto

interpretation bt: ordered_map bt_insert bt_get "\<lambda>m. m" bt_wf "[]"
  by unfold_locales (auto simp: bt_get_insert bt_wf_def intro: bt_wf_insert[unfolded bt_wf_def])

lemma bt_collect_eq: "bt.collect xs = bt_of_list xs"
  by (simp add: bt.collect_def bt_of_list_def)

lemmas bt_of_list_wf [simp, intro] = bt.wf_collect[unfolded bt_collect_eq]
  and bt_get_of_list [bt_simps] = bt.get_collect[unfolded bt_collect_eq]
  and bt_unique = bt.entries_unique

lemma bt_of_list_keys: "fst ` set (bt_of_list xs) = fst ` set xs"
proof -
  have "k \<in> fst ` set (bt_of_list xs) \<longleftrightarrow> bt_get (bt_of_list xs) k \<noteq> None" for k
    by (simp add: map_of_eq_None_iff)
  then have "k \<in> fst ` set (bt_of_list xs) \<longleftrightarrow> k \<in> fst ` set xs" for k
    unfolding bt_get_of_list by (simp add: map_of_eq_None_iff)
  then show ?thesis by blast
qed

lemma bt_wf_Nil [simp]: "bt_wf []"
  by (simp add: bt_wf_def)

lemma bt_wf_distinct: "bt_wf m \<Longrightarrow> distinct (map fst m)"
  by (rule bt.entries_distinct)

section \<open>Counting and grouping into an ordered map\<close>

text \<open>\<open>*m.entry(k).or_insert(0) += 1\<close> and \<open>m.entry(k).or_default().push(x)\<close>.\<close>

definition bt_incr :: "'k::linorder \<Rightarrow> ('k \<times> nat) list \<Rightarrow> ('k \<times> nat) list" where
  "bt_incr k m = bt_insert k (case bt_get m k of None \<Rightarrow> 1 | Some n \<Rightarrow> Suc n) m"

definition bt_push :: "'k::linorder \<Rightarrow> 'v \<Rightarrow> ('k \<times> 'v list) list \<Rightarrow> ('k \<times> 'v list) list" where
  "bt_push k v m = bt_insert k (case bt_get m k of None \<Rightarrow> [v] | Some vs \<Rightarrow> vs @ [v]) m"

definition count_by :: "('a \<Rightarrow> 'k::linorder) \<Rightarrow> 'a list \<Rightarrow> ('k \<times> nat) list" where
  "count_by f xs = fold (\<lambda>x. bt_incr (f x)) xs []"

definition group_by :: "('a \<Rightarrow> 'k::linorder) \<Rightarrow> 'a list \<Rightarrow> ('k \<times> 'a list) list" where
  "group_by f xs = fold (\<lambda>x. bt_push (f x) x) xs []"

lemma sum_bt_insert:
  "bt_wf m \<Longrightarrow>
    sum_list (map snd (bt_insert k n m)) + (case bt_get m k of None \<Rightarrow> 0 | Some i \<Rightarrow> i)
      = sum_list (map snd m) + (n::nat)"
proof (induction m)
  case Nil
  then show ?case by simp
next
  case (Cons e m)
  have notin: "bt_get m k = None" if "k < fst e \<or> k = fst e"
  proof -
    have "k \<notin> fst ` set m" using Cons.prems that by (auto simp: bt_wf_def dest: less_trans)
    then show ?thesis by (simp add: map_of_eq_None_iff)
  qed
  have "bt_wf m" using Cons.prems by (simp add: bt_wf_def)
  then show ?case
    using Cons.IH notin by (cases e) (auto simp: not_less_iff_gr_or_eq split: option.splits)
qed

lemma bt_wf_incr [intro]: "bt_wf m \<Longrightarrow> bt_wf (bt_incr k m)"
  by (auto simp: bt_incr_def)

lemma sum_bt_incr: "bt_wf m \<Longrightarrow> sum_list (map snd (bt_incr k m)) = Suc (sum_list (map snd m))"
  using sum_bt_insert[of m k "case bt_get m k of None \<Rightarrow> 1 | Some n \<Rightarrow> Suc n"]
  by (auto simp: bt_incr_def split: option.splits)

lemma fold_incr:
  "bt_wf m \<Longrightarrow> bt_wf (fold (\<lambda>x. bt_incr (f x)) xs m) \<and>
    sum_list (map snd (fold (\<lambda>x. bt_incr (f x)) xs m)) = sum_list (map snd m) + length xs"
proof (induction xs arbitrary: m)
  case Nil
  then show ?case by simp
next
  case (Cons x xs)
  then show ?case
    using Cons.IH[of "bt_incr (f x) m"] by (simp add: sum_bt_incr bt_wf_incr)
qed

lemma count_by_wf [simp, intro]: "bt_wf (count_by f xs)"
  and count_by_sum: "sum_list (map snd (count_by f xs)) = length xs"
  using fold_incr[of "[]" f xs] by (simp_all add: count_by_def)

lemma bt_get_incr [bt_simps]:
  "bt_get (bt_incr k m) = (bt_get m)(k \<mapsto> Suc (case bt_get m k of None \<Rightarrow> 0 | Some n \<Rightarrow> n))"
  by (auto simp: bt_incr_def bt_get_insert fun_eq_iff split: option.splits)

lemma bt_get_count_fold:
  "(case bt_get (fold (\<lambda>x. bt_incr (f x)) xs m) k of None \<Rightarrow> 0 | Some n \<Rightarrow> n)
     = (case bt_get m k of None \<Rightarrow> 0 | Some n \<Rightarrow> n) + count_list (map f xs) k"
  by (induction xs arbitrary: m) (auto simp: bt_get_incr)

lemma bt_get_count_by:
  "(case bt_get (count_by f xs) k of None \<Rightarrow> 0 | Some n \<Rightarrow> n) = count_list (map f xs) k"
  by (simp add: count_by_def bt_get_count_fold)

lemma bt_wf_push [intro]: "bt_wf m \<Longrightarrow> bt_wf (bt_push k v m)"
  by (auto simp: bt_push_def)

lemma fold_push_wf: "bt_wf m \<Longrightarrow> bt_wf (fold (\<lambda>x. bt_push (f x) x) xs m)"
  by (induction xs arbitrary: m) auto

lemma group_by_wf [simp, intro]: "bt_wf (group_by f xs)"
  by (simp add: group_by_def fold_push_wf)

lemma bt_get_push_fold:
  "bt_get (fold (\<lambda>x. bt_push (f x) x) xs m) k =
     (case (case bt_get m k of None \<Rightarrow> [] | Some vs \<Rightarrow> vs) @ filter (\<lambda>x. f x = k) xs of
        [] \<Rightarrow> bt_get m k | ys \<Rightarrow> Some ys)"
proof (induction xs arbitrary: m)
  case Nil
  then show ?case by (auto split: option.splits list.splits)
next
  case (Cons x xs)
  have "bt_get (bt_push (f x) x m) = (bt_get m)(f x \<mapsto>
      (case bt_get m (f x) of None \<Rightarrow> [] | Some vs \<Rightarrow> vs) @ [x])"
    by (auto simp: bt_push_def bt_get_insert fun_eq_iff split: option.splits)
  then show ?case
    by (auto simp: Cons.IH split: option.splits list.splits)
qed

lemma bt_get_group_by [bt_simps]:
  "bt_get (group_by f xs) k =
     (if k \<in> f ` set xs then Some (filter (\<lambda>x. f x = k) xs) else None)"
proof -
  have "filter (\<lambda>x. f x = k) xs = [] \<longleftrightarrow> k \<notin> f ` set xs"
    by (auto simp: filter_empty_conv)
  then show ?thesis
    by (auto simp: group_by_def bt_get_push_fold split: list.splits)
qed

lemma group_by_entry:
  "(k, g) \<in> set (group_by f xs) \<longleftrightarrow> k \<in> f ` set xs \<and> g = filter (\<lambda>x. f x = k) xs"
proof -
  have "(k, g) \<in> set (group_by f xs) \<longleftrightarrow> bt_get (group_by f xs) k = Some g"
    by (rule map_of_eq_Some_iff[symmetric]) (rule bt_wf_distinct, rule group_by_wf)
  then show ?thesis by (auto simp: bt_get_group_by)
qed

lemma group_by_keys [simp]: "fst ` set (group_by f xs) = f ` set xs"
  unfolding dom_map_of_conv_image_fst[symmetric] by (auto simp: bt_get_group_by split: if_splits)

lemma group_by_nonempty: "(k, g) \<in> set (group_by f xs) \<Longrightarrow> g \<noteq> []"
  by (auto simp: group_by_entry filter_empty_conv)

section \<open>Ordered sets and mixed results\<close>

text \<open>A \<open>BTreeSet\<close> collected from a list and iterated.\<close>

definition bt_set :: "'a::linorder list \<Rightarrow> 'a list" where
  "bt_set xs = sort (remdups xs)"

lemma set_bt_set [simp]: "set (bt_set xs) = set xs"
  and bt_set_sorted [simp]: "sorted (bt_set xs)"
  and bt_set_distinct [simp]: "distinct (bt_set xs)"
  by (simp_all add: bt_set_def)

lemma bt_set_cong: "set xs = set ys \<Longrightarrow> bt_set xs = bt_set ys"
  by (rule sorted_distinct_set_unique) simp_all

text \<open>A loop that pushes the successes and the failures of its elements to two vectors.\<close>

fun oks :: "('e + 'a) list \<Rightarrow> 'a list" where
  "oks [] = []"
| "oks (Inr x # rs) = x # oks rs"
| "oks (Inl e # rs) = oks rs"

fun errs :: "('e + 'a) list \<Rightarrow> 'e list" where
  "errs [] = []"
| "errs (Inr x # rs) = errs rs"
| "errs (Inl e # rs) = e # errs rs"

lemma oks_errs_length: "length (oks rs) + length (errs rs) = length rs"
  by (induction rs rule: oks.induct) auto

lemma set_oks: "x \<in> set (oks rs) \<longleftrightarrow> Inr x \<in> set rs"
  by (induction rs rule: oks.induct) auto

lemma set_errs: "e \<in> set (errs rs) \<longleftrightarrow> Inl e \<in> set rs"
  by (induction rs rule: errs.induct) auto

lemma mset_oks_eq: "mset (oks rs) = image_mset projr (filter_mset (\<lambda>r. \<not> isl r) (mset rs))"
  by (induction rs rule: oks.induct) auto

lemma mset_errs_eq: "mset (errs rs) = image_mset projl (filter_mset isl (mset rs))"
  by (induction rs rule: errs.induct) auto

lemma mset_oks: "mset rs = mset rs' \<Longrightarrow> mset (oks rs) = mset (oks rs')"
  and mset_errs: "mset rs = mset rs' \<Longrightarrow> mset (errs rs) = mset (errs rs')"
  by (simp_all add: mset_oks_eq mset_errs_eq)

lemma group_by_eq: "group_by f xs = map (\<lambda>k. (k, filter (\<lambda>x. f x = k) xs)) (bt_set (map f xs))"
proof -
  have "map fst (group_by f xs) = bt_set (map f xs)"
  proof (rule sorted_distinct_set_unique)
    show "sorted (map fst (group_by f xs))" "distinct (map fst (group_by f xs))"
      using group_by_wf[of f xs] by (auto simp: bt_wf_def strict_sorted_iff)
    show "set (map fst (group_by f xs)) = set (bt_set (map f xs))" by simp
  qed simp_all
  moreover have "snd e = filter (\<lambda>x. f x = fst e) xs" if "e \<in> set (group_by f xs)" for e
    using that group_by_entry[of "fst e" "snd e" f xs] by simp
  ultimately show ?thesis
    by (intro nth_equalityI) (auto simp: list_eq_iff_nth_eq prod_eq_iff dest: nth_mem)
qed

section \<open>Sorting by a key\<close>

lemma insort_key_map: "insort_key f (h x) (map h xs) = map h (insort_key (\<lambda>x. f (h x)) x xs)"
  by (induction xs) auto

lemma sort_key_map: "sort_key f (map h xs) = map h (sort_key (\<lambda>x. f (h x)) xs)"
  by (induction xs) (auto simp: insort_key_map)

lemma map_sort_key: "map f (sort_key f xs) = sort (map f xs)"
  using sort_key_map[of "\<lambda>x. x" f xs] by simp

lemma sort_key_sorted: "sorted (map f xs) \<Longrightarrow> sort_key f xs = xs"
  by (rule properties_for_sort_key) auto

lemma sort_key_perm: "mset xs = mset ys \<Longrightarrow> inj_on f (set xs) \<Longrightarrow> sort_key f xs = sort_key f ys"
  by (rule sort_key_inj_key_eq) simp_all

section \<open>Keeping the first element of each key\<close>

text \<open>\<open>xs.into_iter().filter(|x| seen.insert(key(x)))\<close>.\<close>

fun keep_first :: "('a \<Rightarrow> 'k) \<Rightarrow> 'k set \<Rightarrow> 'a list \<Rightarrow> 'a list" where
  "keep_first f S [] = []"
| "keep_first f S (x # xs) =
     (if f x \<in> S then keep_first f S xs else x # keep_first f (insert (f x) S) xs)"

lemma keep_first_keys: "f ` set (keep_first f S xs) = f ` set xs - S"
  by (induction xs arbitrary: S) auto

lemma keep_first_distinct: "distinct (map f (keep_first f S xs))"
  by (induction xs arbitrary: S) (auto simp: keep_first_keys)

lemma keep_first_subset: "set (keep_first f S xs) \<subseteq> set xs"
  by (induction xs arbitrary: S) auto

lemma keep_first_length: "length (keep_first f S xs) \<le> length xs"
  by (induction xs arbitrary: S) (auto intro: le_SucI)

lemma keep_first_id: "distinct (map f xs) \<Longrightarrow> f ` set xs \<inter> S = {} \<Longrightarrow> keep_first f S xs = xs"
  by (induction xs arbitrary: S) auto

lemma keep_first_idem: "keep_first f {} (keep_first f {} xs) = keep_first f {} xs"
  by (rule keep_first_id) (simp_all add: keep_first_distinct)

lemma keep_first_find:
  "k \<notin> S \<Longrightarrow> find (\<lambda>x. f x = k) (keep_first f S xs) = find (\<lambda>x. f x = k) xs"
  by (induction xs arbitrary: S) auto

lemma keep_first_count: "distinct (map f xs) \<longleftrightarrow> length (keep_first f {} xs) = length xs"
proof
  assume "distinct (map f xs)"
  then show "length (keep_first f {} xs) = length xs" by (simp add: keep_first_id)
next
  assume len: "length (keep_first f {} xs) = length xs"
  have "card (f ` set xs) = length (keep_first f {} xs)"
    using distinct_card[OF keep_first_distinct[of f "{}" xs]] by (simp add: keep_first_keys)
  then show "distinct (map f xs)"
    using len by (intro card_distinct) simp
qed

end
