(* ===== verification/Rust_Str.thy ===== *)
theory Rust_Str
  imports Prelude "HOL-Library.Sublist"
begin

text \<open>
  Rust's \<open>str\<close>: a \<open>string\<close> is the list of the UTF-8 bytes (a HOL \<open>char\<close> is a byte),
  so \<open>length\<close> is \<open>str::len\<close> and the order of \<open>HOL-Library.List_Lexorder\<close> is the byte
  order of \<open>str::cmp\<close>.  The theory holds what the program uses of the standard
  library's strings: decoding and lossy decoding, trimming of Unicode white space,
  splitting, prefixes, decimal formatting and parsing.
\<close>

named_theorems str_simps \<open>rewriting of string operations\<close>

section \<open>Bytes\<close>

abbreviation byte :: "char \<Rightarrow> nat" where
  "byte c \<equiv> of_char c"

definition in_range :: "nat \<Rightarrow> nat \<Rightarrow> char \<Rightarrow> bool" where
  "in_range lo hi c \<longleftrightarrow> lo \<le> byte c \<and> byte c \<le> hi"

definition is_digit :: "char \<Rightarrow> bool" where
  "is_digit c \<longleftrightarrow> in_range 48 57 c"

definition is_lower_hex :: "char \<Rightarrow> bool" where
  "is_lower_hex c \<longleftrightarrow> is_digit c \<or> in_range 97 102 c"

definition is_hexdigit :: "char \<Rightarrow> bool" where
  "is_hexdigit c \<longleftrightarrow> is_lower_hex c \<or> in_range 65 70 c"

definition is_alphanumeric :: "char \<Rightarrow> bool" where
  "is_alphanumeric c \<longleftrightarrow> is_digit c \<or> in_range 97 122 c \<or> in_range 65 90 c"

definition is_ascii :: "char \<Rightarrow> bool" where
  "is_ascii c \<longleftrightarrow> byte c < 128"

definition is_cont :: "char \<Rightarrow> bool" where
  "is_cont c \<longleftrightarrow> in_range 128 191 c"

definition digit_val :: "char \<Rightarrow> nat" where
  "digit_val c =
     (if is_digit c then byte c - 48
      else if in_range 97 102 c then byte c - 87
      else if in_range 65 70 c then byte c - 55
      else 0)"

lemmas byte_class_defs = is_digit_def is_lower_hex_def is_hexdigit_def is_alphanumeric_def
  is_ascii_def is_cont_def in_range_def

lemma byte_lt [simp]: "byte c < 256"
  by (metis of_char_mod_256 mod_less_divisor zero_less_numeral)

lemma byte_inject [simp]: "byte c = byte d \<longleftrightarrow> c = d"
  by (metis char_of_char)

section \<open>UTF-8\<close>

text \<open>One step of decoding: whether the bytes start with a well-formed character, and how
  many bytes it (or the maximal ill-formed part, replaced as a unit) takes.  The tables
  are those of \<open>core::str::lossy\<close>.\<close>

definition utf8_second :: "nat \<Rightarrow> char \<Rightarrow> bool" where
  "utf8_second b c =
     (if b = 224 then in_range 160 191 c
      else if b = 237 then in_range 128 159 c
      else if b = 240 then in_range 144 191 c
      else if b = 244 then in_range 128 143 c
      else is_cont c)"

fun utf8_step :: "string \<Rightarrow> bool \<times> nat" where
  "utf8_step [] = (False, 0)"
| "utf8_step (c # s) =
     (let b = byte c in
      if b < 128 then (True, 1)
      else if 194 \<le> b \<and> b \<le> 223 then
        (case s of c1 # _ \<Rightarrow> if is_cont c1 then (True, 2) else (False, 1) | [] \<Rightarrow> (False, 1))
      else if 224 \<le> b \<and> b \<le> 239 then
        (case s of
           c1 # s1 \<Rightarrow> if utf8_second b c1
             then (case s1 of c2 # _ \<Rightarrow> if is_cont c2 then (True, 3) else (False, 2)
                   | [] \<Rightarrow> (False, 2))
             else (False, 1)
         | [] \<Rightarrow> (False, 1))
      else if 240 \<le> b \<and> b \<le> 244 then
        (case s of
           c1 # s1 \<Rightarrow> if utf8_second b c1
             then (case s1 of
                 c2 # s2 \<Rightarrow> if is_cont c2
                   then (case s2 of c3 # _ \<Rightarrow> if is_cont c3 then (True, 4) else (False, 3)
                         | [] \<Rightarrow> (False, 3))
                   else (False, 2)
               | [] \<Rightarrow> (False, 2))
             else (False, 1)
         | [] \<Rightarrow> (False, 1))
      else (False, 1))"

lemma utf8_step_pos: "s \<noteq> [] \<Longrightarrow> 0 < snd (utf8_step s)"
  by (cases s) (auto simp: Let_def split: list.splits)

function from_utf8_ok :: "string \<Rightarrow> bool" where
  "from_utf8_ok s =
     (if s = [] then True
      else fst (utf8_step s) \<and> from_utf8_ok (drop (snd (utf8_step s)) s))"
  by pat_completeness auto
termination
  by (relation "measure length") (auto simp: utf8_step_pos)

function from_utf8_lossy :: "string \<Rightarrow> string" where
  "from_utf8_lossy s =
     (if s = [] then []
      else (if fst (utf8_step s) then take (snd (utf8_step s)) s
            else [CHR 0xEF, CHR 0xBF, CHR 0xBD])
           @ from_utf8_lossy (drop (snd (utf8_step s)) s))"
  by pat_completeness auto
termination
  by (relation "measure length") (auto simp: utf8_step_pos)

declare from_utf8_ok.simps [simp del] from_utf8_lossy.simps [simp del]

lemma from_utf8_ok_simps [simp]:
  "from_utf8_ok []"
  "byte c < 128 \<Longrightarrow> from_utf8_ok (c # s) = from_utf8_ok s"
  by (simp_all add: from_utf8_ok.simps)

lemma from_utf8_ok_ascii: "list_all is_ascii s \<Longrightarrow> from_utf8_ok s"
  by (induction s) (auto simp: is_ascii_def)

lemma from_utf8_lossy_ok: "from_utf8_ok s \<Longrightarrow> from_utf8_lossy s = s"
proof (induction s rule: from_utf8_lossy.induct)
  case (1 s)
  show ?case
  proof (cases "s = []")
    case True
    then show ?thesis by (simp add: from_utf8_lossy.simps)
  next
    case False
    with "1.prems" have "fst (utf8_step s)" "from_utf8_ok (drop (snd (utf8_step s)) s)"
      by (simp_all add: from_utf8_ok.simps[of s])
    with "1.IH" False show ?thesis by (simp add: from_utf8_lossy.simps[of s])
  qed
qed

text \<open>The number of characters (\<open>chars().count()\<close>).\<close>

definition char_count :: "string \<Rightarrow> nat" where
  "char_count s = length (filter (\<lambda>c. \<not> is_cont c) s)"

lemma char_count_le: "char_count s \<le> length s"
  by (simp add: char_count_def)

text \<open>\<open>str::is_char_boundary(i)\<close>, the condition under which slicing at \<open>i\<close> does not
  panic.\<close>

definition is_char_boundary :: "string \<Rightarrow> nat \<Rightarrow> bool" where
  "is_char_boundary s i \<longleftrightarrow> i = 0 \<or> i = length s \<or> (i < length s \<and> \<not> is_cont (s ! i))"

definition slice_from :: "string \<Rightarrow> nat \<Rightarrow> string option" where
  "slice_from s i = (if is_char_boundary s i then Some (drop i s) else None)"

section \<open>White space and control characters\<close>

text \<open>The UTF-8 encodings of the characters with the Unicode property White_Space.\<close>

definition ws_chars :: "string list" where
  "ws_chars = '' '' # [CHR 0x0A] # [CHR 0x0D] # [CHR 0x09] # [CHR 0x0B] # [CHR 0x0C] #
     [CHR 0xC2, CHR 0x85] # [CHR 0xC2, CHR 0xA0] # [CHR 0xE1, CHR 0x9A, CHR 0x80] #
     [CHR 0xE2, CHR 0x80, CHR 0x80] # [CHR 0xE2, CHR 0x80, CHR 0x81] #
     [CHR 0xE2, CHR 0x80, CHR 0x82] # [CHR 0xE2, CHR 0x80, CHR 0x83] #
     [CHR 0xE2, CHR 0x80, CHR 0x84] # [CHR 0xE2, CHR 0x80, CHR 0x85] #
     [CHR 0xE2, CHR 0x80, CHR 0x86] # [CHR 0xE2, CHR 0x80, CHR 0x87] #
     [CHR 0xE2, CHR 0x80, CHR 0x88] # [CHR 0xE2, CHR 0x80, CHR 0x89] #
     [CHR 0xE2, CHR 0x80, CHR 0x8A] # [CHR 0xE2, CHR 0x80, CHR 0xA8] #
     [CHR 0xE2, CHR 0x80, CHR 0xA9] # [CHR 0xE2, CHR 0x80, CHR 0xAF] #
     [CHR 0xE2, CHR 0x81, CHR 0x9F] # [CHR 0xE3, CHR 0x80, CHR 0x80] # []"

definition lead_len :: "string list \<Rightarrow> string \<Rightarrow> nat" where
  "lead_len ws s = (case find (\<lambda>w. prefix w s) ws of None \<Rightarrow> 0 | Some w \<Rightarrow> length w)"

function strip_lead :: "string list \<Rightarrow> string \<Rightarrow> string" where
  "strip_lead ws s =
     (if lead_len ws s = 0 \<or> s = [] then s else strip_lead ws (drop (lead_len ws s) s))"
  by pat_completeness auto
termination
  by (relation "measure (\<lambda>(ws, s). length s)") auto

declare strip_lead.simps [simp del]

definition trim_start :: "string \<Rightarrow> string" where
  "trim_start s = strip_lead ws_chars s"

definition trim_end :: "string \<Rightarrow> string" where
  "trim_end s = rev (strip_lead (map rev ws_chars) (rev s))"

definition trim :: "string \<Rightarrow> string" where
  "trim s = trim_end (trim_start s)"

definition blank :: "string \<Rightarrow> bool" where
  "blank s \<longleftrightarrow> trim s = []"

lemma lead_len_0: "[] \<notin> set ws \<Longrightarrow> lead_len ws s = 0 \<longleftrightarrow> (\<forall>w \<in> set ws. \<not> prefix w s)"
proof -
  assume nn: "[] \<notin> set ws"
  show ?thesis
  proof (cases "find (\<lambda>w. prefix w s) ws")
    case None
    then have "\<forall>w \<in> set ws. \<not> prefix w s" by (simp add: find_None_iff)
    with None show ?thesis by (simp add: lead_len_def)
  next
    case (Some w)
    then have "w \<in> set ws" "prefix w s" by (auto simp: find_Some_iff)
    with Some nn show ?thesis by (auto simp: lead_len_def)
  qed
qed

lemma strip_lead_suffix: "suffix (strip_lead ws s) s"
proof (induction ws s rule: strip_lead.induct)
  case (1 ws s)
  then show ?case
    by (metis strip_lead.simps suffix_drop suffix_order.order_refl suffix_order.trans)
qed

lemma strip_lead_done: "lead_len ws (strip_lead ws s) = 0 \<or> strip_lead ws s = []"
proof (induction ws s rule: strip_lead.induct)
  case (1 ws s)
  then show ?case by (metis strip_lead.simps)
qed

lemma strip_lead_idem: "strip_lead ws (strip_lead ws s) = strip_lead ws s"
  using strip_lead_done[of ws s] strip_lead.simps[of ws "strip_lead ws s"] by auto

lemma strip_lead_id: "lead_len ws s = 0 \<Longrightarrow> strip_lead ws s = s"
  by (simp add: strip_lead.simps)

lemma nil_notin_ws [simp]: "[] \<notin> set ws_chars" "[] \<notin> set (map rev ws_chars)"
  by (simp_all add: ws_chars_def)

lemma trim_end_prefix: "prefix (trim_end s) s"
proof -
  have "suffix (strip_lead (map rev ws_chars) (rev s)) (rev s)"
    by (rule strip_lead_suffix)
  then show ?thesis by (simp add: trim_end_def suffix_to_prefix)
qed

lemma trim_end_idem: "trim_end (trim_end s) = trim_end s"
  by (simp add: trim_end_def strip_lead_idem)

lemma trim_start_trim_end: "trim_start (trim_end (trim_start s)) = trim_end (trim_start s)"
proof -
  let ?t = "trim_start s"
  have "lead_len ws_chars (trim_end ?t) = 0"
  proof (cases "?t = []")
    case True
    then show ?thesis
      using trim_end_prefix[of ?t] by (simp add: lead_len_0) (auto simp: ws_chars_def)
  next
    case False
    then have "\<forall>w \<in> set ws_chars. \<not> prefix w ?t"
      using strip_lead_done[of ws_chars s] by (simp add: trim_start_def lead_len_0)
    then show ?thesis
      using trim_end_prefix[of ?t] by (auto simp: lead_len_0 dest: prefix_order.trans)
  qed
  then show ?thesis by (simp add: trim_start_def strip_lead_id)
qed

lemma trim_idem [simp]: "trim (trim s) = trim s"
  by (simp add: trim_def trim_start_trim_end trim_end_idem)

lemma blank_Nil [simp]: "blank []"
  by (simp add: blank_def trim_def trim_start_def trim_end_def strip_lead.simps)

lemma trim_Nil [simp]: "trim [] = []"
  using blank_Nil by (simp add: blank_def)

text \<open>A string that starts and ends with a visible ASCII character is not changed.\<close>

definition is_visible :: "char \<Rightarrow> bool" where
  "is_visible c \<longleftrightarrow> in_range 33 126 c"

lemma ws_hd: "w \<in> set ws_chars \<Longrightarrow> \<not> is_visible (hd w)"
  and ws_last: "w \<in> set ws_chars \<Longrightarrow> \<not> is_visible (last w)"
  by (auto simp: ws_chars_def is_visible_def in_range_def)

lemma trim_start_visible: "is_visible c \<Longrightarrow> trim_start (c # s) = c # s"
proof -
  assume v: "is_visible c"
  have "\<not> prefix w (c # s)" if "w \<in> set ws_chars" for w
    using ws_hd[OF that] v that by (cases w) auto
  then show ?thesis by (simp add: trim_start_def strip_lead_id lead_len_0)
qed

lemma trim_end_visible: "is_visible c \<Longrightarrow> trim_end (s @ [c]) = s @ [c]"
proof -
  assume v: "is_visible c"
  have "\<not> prefix w (c # rev s)" if "w \<in> set (map rev ws_chars)" for w
  proof -
    from that obtain u where u: "u \<in> set ws_chars" "w = rev u" by auto
    then have "u \<noteq> []" by auto
    with u ws_last[OF u(1)] v show ?thesis by (cases u rule: rev_cases) auto
  qed
  then have "\<forall>w \<in> set (map rev ws_chars). \<not> prefix w (c # rev s)" by blast
  then have "lead_len (map rev ws_chars) (c # rev s) = 0"
    using lead_len_0[OF nil_notin_ws(2)] by blast
  then show ?thesis by (simp add: trim_end_def strip_lead_id)
qed

lemma trim_visible:
  assumes "s \<noteq> []" "is_visible (hd s)" "is_visible (last s)"
  shows "trim s = s"
  using assms trim_start_visible[of "hd s" "tl s"] trim_end_visible[of "last s" "butlast s"]
  by (simp add: trim_def)

text \<open>A string that contains a visible ASCII character is not blank.\<close>

lemma strip_lead_keeps:
  assumes "c \<in> set s" "\<forall>w \<in> set ws. c \<notin> set w"
  shows "c \<in> set (strip_lead ws s)"
  using assms
proof (induction ws s rule: strip_lead.induct)
  case (1 ws s)
  have "c \<in> set (drop (lead_len ws s) s)" if nz: "lead_len ws s \<noteq> 0"
  proof -
    from nz obtain w where "find (\<lambda>w. prefix w s) ws = Some w" "lead_len ws s = length w"
      by (auto simp: lead_len_def split: option.splits)
    then have w: "w \<in> set ws" "prefix w s" "lead_len ws s = length w"
      by (auto simp: find_Some_iff)
    then obtain v where "s = w @ v" by (auto simp: prefix_def)
    then show ?thesis using w "1.prems" by auto
  qed
  with 1 show ?case by (subst strip_lead.simps) auto
qed

lemma visible_notin_ws: "is_visible c \<Longrightarrow> w \<in> set ws_chars \<Longrightarrow> c \<notin> set w"
  by (auto simp: ws_chars_def is_visible_def in_range_def)

lemma trim_keeps_visible: "c \<in> set s \<Longrightarrow> is_visible c \<Longrightarrow> c \<in> set (trim s)"
proof -
  assume c: "c \<in> set s" "is_visible c"
  then have "c \<in> set (trim_start s)"
    unfolding trim_start_def by (intro strip_lead_keeps) (auto dest: visible_notin_ws)
  then have "c \<in> set (strip_lead (map rev ws_chars) (rev (trim_start s)))"
    using c(2) by (intro strip_lead_keeps) (auto dest: visible_notin_ws)
  then show "c \<in> set (trim s)" by (simp add: trim_def trim_end_def)
qed

lemma blank_visible: "c \<in> set s \<Longrightarrow> is_visible c \<Longrightarrow> \<not> blank s"
  using trim_keeps_visible[of c s] by (auto simp: blank_def)

text \<open>\<open>chars().any(char::is_whitespace)\<close> and \<open>chars().any(char::is_control)\<close>: a white-space
  character, or a C0, DEL or C1 control character, anywhere in the string.\<close>

definition has_whitespace :: "string \<Rightarrow> bool" where
  "has_whitespace s \<longleftrightarrow> list_ex (\<lambda>w. sublist w s) ws_chars"

fun has_control :: "string \<Rightarrow> bool" where
  "has_control [] = False"
| "has_control (c # s) =
     (byte c < 32 \<or> byte c = 127 \<or>
      (byte c = 194 \<and> (case s of d # _ \<Rightarrow> in_range 128 159 d | [] \<Rightarrow> False)) \<or> has_control s)"

text \<open>\<open>split_whitespace\<close>: the maximal runs of non-white-space characters; a white-space
  character is recognised by its bytes, which no other character contains as a whole.\<close>

function split_ws :: "string \<Rightarrow> string \<Rightarrow> string list" where
  "split_ws word s =
     (if s = [] then (if word = [] then [] else [word])
      else if lead_len ws_chars s = 0 then split_ws (word @ [hd s]) (tl s)
      else (if word = [] then [] else [word]) @ split_ws [] (drop (lead_len ws_chars s) s))"
  by pat_completeness auto
termination
  by (relation "measure (\<lambda>(word, s). length s)") auto

declare split_ws.simps [simp del]

definition split_whitespace :: "string \<Rightarrow> string list" where
  "split_whitespace s = split_ws [] s"

section \<open>Splitting and joining\<close>

fun split_on :: "char \<Rightarrow> string \<Rightarrow> string list" where
  "split_on d [] = [[]]"
| "split_on d (c # s) =
     (if c = d then [] # split_on d s
      else (case split_on d s of [] \<Rightarrow> [[c]] | w # ws \<Rightarrow> (c # w) # ws))"

fun join :: "string \<Rightarrow> string list \<Rightarrow> string" where
  "join d [] = []"
| "join d [w] = w"
| "join d (w # v # ws) = w @ d @ join d (v # ws)"

definition split_once :: "char \<Rightarrow> string \<Rightarrow> (string \<times> string) option" where
  "split_once d s = (if d \<in> set s
     then Some (takeWhile (\<lambda>c. c \<noteq> d) s, tl (dropWhile (\<lambda>c. c \<noteq> d) s)) else None)"

definition rsplit_once :: "char \<Rightarrow> string \<Rightarrow> (string \<times> string) option" where
  "rsplit_once d s =
     map_option (\<lambda>(a, b). (rev b, rev a)) (split_once d (rev s))"

definition strip_prefix :: "string \<Rightarrow> string \<Rightarrow> string option" where
  "strip_prefix p s = (if prefix p s then Some (drop (length p) s) else None)"

definition strip_suffix :: "string \<Rightarrow> string \<Rightarrow> string option" where
  "strip_suffix p s = (if suffix p s then Some (take (length s - length p) s) else None)"

definition trim_end_matches :: "char \<Rightarrow> string \<Rightarrow> string" where
  "trim_end_matches d s = rev (dropWhile (\<lambda>c. c = d) (rev s))"

text \<open>\<open>str::contains(&str)\<close>.\<close>

definition contains_str :: "string \<Rightarrow> string \<Rightarrow> bool" where
  "contains_str s p = sublist p s"

lemma split_on_nonempty [simp]: "split_on d s \<noteq> []"
  by (induction s) (auto split: list.splits)

lemma join_Cons: "ws \<noteq> [] \<Longrightarrow> join d (w # ws) = w @ d @ join d ws"
  by (cases ws) auto

lemma join_split_on [str_simps]: "join [d] (split_on d s) = s"
proof (induction s)
  case Nil
  then show ?case by simp
next
  case (Cons c s)
  obtain w ws where "split_on d s = w # ws" by (cases "split_on d s") auto
  with Cons show ?case by (cases ws) auto
qed

lemma split_on_parts: "w \<in> set (split_on d s) \<Longrightarrow> d \<notin> set w"
proof (induction s arbitrary: w)
  case Nil
  then show ?case by simp
next
  case (Cons c s)
  then show ?case by (cases "split_on d s") (auto split: if_splits)
qed

lemma split_on_mem: "w \<in> set (split_on d s) \<Longrightarrow> set w \<subseteq> set s"
proof (induction s arbitrary: w)
  case Nil
  then show ?case by simp
next
  case (Cons c s)
  have "w' \<in> set (split_on d s) \<Longrightarrow> x \<in> set w' \<Longrightarrow> x \<in> set s" for w' x
    using Cons.IH by blast
  with Cons.prems show ?case
    by (cases "split_on d s") (fastforce split: if_splits)+
qed

lemma split_on_none: "d \<notin> set s \<Longrightarrow> split_on d s = [s]"
  by (induction s) auto

lemma split_on_append: "d \<notin> set w \<Longrightarrow> split_on d (w @ d # s) = w # split_on d s"
  by (induction w) auto

lemma split_on_app: "split_on d (a @ d # b) = split_on d a @ split_on d b"
proof (induction a)
  case Nil
  then show ?case by simp
next
  case (Cons c a)
  then show ?case by (cases "split_on d a") auto
qed

lemma split_on_join [str_simps]:
  "ws \<noteq> [] \<Longrightarrow> \<forall>w \<in> set ws. d \<notin> set w \<Longrightarrow> split_on d (join [d] ws) = ws"
proof (induction ws rule: induct_list012)
  case 1
  then show ?case by simp
next
  case (2 w)
  then show ?case by (simp add: split_on_none)
next
  case (3 w v ws)
  then show ?case by (simp add: split_on_append)
qed

lemma split_once_Some:
  "split_once d s = Some (a, b) \<longleftrightarrow> s = a @ d # b \<and> d \<notin> set a"
proof
  assume "split_once d s = Some (a, b)"
  then have d: "d \<in> set s" and a: "a = takeWhile (\<lambda>c. c \<noteq> d) s"
    and b: "b = tl (dropWhile (\<lambda>c. c \<noteq> d) s)"
    by (auto simp: split_once_def split: if_splits)
  from d have ne: "dropWhile (\<lambda>c. c \<noteq> d) s \<noteq> []" by (auto simp: dropWhile_eq_Nil_conv)
  then have "hd (dropWhile (\<lambda>c. c \<noteq> d) s) = d" using hd_dropWhile by blast
  then have "dropWhile (\<lambda>c. c \<noteq> d) s = d # b" using ne b by (metis list.collapse)
  then have "s = a @ d # b" using a by (metis takeWhile_dropWhile_id)
  moreover have "d \<notin> set a" using a by (auto dest: set_takeWhileD)
  ultimately show "s = a @ d # b \<and> d \<notin> set a" by simp
next
  assume h: "s = a @ d # b \<and> d \<notin> set a"
  then have "\<forall>c \<in> set a. c \<noteq> d" by auto
  then have "takeWhile (\<lambda>c. c \<noteq> d) s = a" "dropWhile (\<lambda>c. c \<noteq> d) s = d # b"
    using h by (simp_all add: takeWhile_append2 dropWhile_append2)
  then show "split_once d s = Some (a, b)" using h by (simp add: split_once_def)
qed

lemma split_once_None: "split_once d s = None \<longleftrightarrow> d \<notin> set s"
  by (simp add: split_once_def)

lemma rsplit_once_Some:
  "rsplit_once d s = Some (a, b) \<longleftrightarrow> s = a @ d # b \<and> d \<notin> set b"
proof -
  have "rsplit_once d s = Some (a, b) \<longleftrightarrow> split_once d (rev s) = Some (rev b, rev a)"
    by (auto simp: rsplit_once_def)
  also have "\<dots> \<longleftrightarrow> rev s = rev b @ d # rev a \<and> d \<notin> set b"
    by (simp add: split_once_Some)
  also have "rev s = rev b @ d # rev a \<longleftrightarrow> s = a @ d # b"
    by (metis append.assoc append_Cons append_Nil rev.simps(2) rev_append rev_rev_ident)
  finally show ?thesis .
qed

lemma strip_prefix_Some [str_simps]: "strip_prefix p s = Some r \<longleftrightarrow> s = p @ r"
  by (auto simp: strip_prefix_def prefix_def)

lemma strip_prefix_None: "strip_prefix p s = None \<longleftrightarrow> \<not> prefix p s"
  by (simp add: strip_prefix_def)

lemma strip_suffix_Some [str_simps]: "strip_suffix p s = Some r \<longleftrightarrow> s = r @ p"
  by (auto simp: strip_suffix_def suffix_def)

lemma trim_end_matches_last: "trim_end_matches d s \<noteq> [] \<Longrightarrow> last (trim_end_matches d s) \<noteq> d"
proof -
  assume "trim_end_matches d s \<noteq> []"
  then have "dropWhile (\<lambda>c. c = d) (rev s) \<noteq> []" by (simp add: trim_end_matches_def)
  then have "hd (dropWhile (\<lambda>c. c = d) (rev s)) \<noteq> d" by (rule hd_dropWhile)
  then show ?thesis by (simp add: trim_end_matches_def last_rev)
qed

lemma trim_end_matches_id: "s = [] \<or> last s \<noteq> d \<Longrightarrow> trim_end_matches d s = s"
  by (cases s rule: rev_cases) (auto simp: trim_end_matches_def)

text \<open>\<open>str::replace\<close> of a non-empty pattern: the occurrences are found from left to right and do
  not overlap.\<close>

function replace_str :: "string \<Rightarrow> string \<Rightarrow> string \<Rightarrow> string" where
  "replace_str pat rep s =
     (if s = [] \<or> pat = [] then s
      else if prefix pat s then rep @ replace_str pat rep (drop (length pat) s)
      else hd s # replace_str pat rep (tl s))"
  by pat_completeness auto
termination
  by (relation "measure (\<lambda>(_, _, s). length s)") auto

declare replace_str.simps [simp del]

section \<open>Decimal numbers\<close>

definition digit_char :: "nat \<Rightarrow> char" where
  "digit_char n = char_of (48 + n)"

fun nat_str :: "nat \<Rightarrow> string" where
  "nat_str n = (if n < 10 then [digit_char n] else nat_str (n div 10) @ [digit_char (n mod 10)])"

declare nat_str.simps [simp del]

definition int_str :: "int \<Rightarrow> string" where
  "int_str i = (if i < 0 then CHR ''-'' # nat_str (nat (- i)) else nat_str (nat i))"

definition digits_val :: "string \<Rightarrow> nat" where
  "digits_val s = foldl (\<lambda>n c. n * 10 + digit_val c) 0 s"

text \<open>\<open>str::parse\<close> for an unsigned type with values below \<open>bound\<close>: one leading \<open>+\<close> is
  accepted, an empty digit string is not.\<close>

definition parse_uint :: "nat \<Rightarrow> string \<Rightarrow> nat option" where
  "parse_uint bound s =
     (let ds = (case s of CHR ''+'' # r \<Rightarrow> r | _ \<Rightarrow> s)
      in if ds \<noteq> [] \<and> list_all is_digit ds \<and> digits_val ds < bound
         then Some (digits_val ds) else None)"

lemma byte_digit_char: "n < 10 \<Longrightarrow> byte (digit_char n) = 48 + n"
  by (simp add: digit_char_def)

lemma is_digit_digit_char [simp]: "n < 10 \<Longrightarrow> is_digit (digit_char n)"
  by (simp add: is_digit_def in_range_def byte_digit_char)

lemma digit_val_digit_char [simp]: "n < 10 \<Longrightarrow> digit_val (digit_char n) = n"
  by (simp add: digit_val_def byte_digit_char)

lemma nat_str_nonempty [simp]: "nat_str n \<noteq> []"
  by (subst nat_str.simps) simp

lemma nat_str_digits: "list_all is_digit (nat_str n)"
proof (induction n rule: nat_str.induct)
  case (1 n)
  then show ?case by (subst nat_str.simps) (simp add: list_all_append)
qed

lemma digits_val_snoc: "digits_val (s @ [c]) = digits_val s * 10 + digit_val c"
  by (simp add: digits_val_def)

lemma digits_val_nat_str [simp]: "digits_val (nat_str n) = n"
proof (induction n rule: nat_str.induct)
  case (1 n)
  show ?case
  proof (cases "n < 10")
    case True
    then show ?thesis by (subst nat_str.simps) (simp add: digits_val_def)
  next
    case False
    with 1 show ?thesis by (subst nat_str.simps) (simp add: digits_val_snoc)
  qed
qed

lemma nat_str_inject [simp]: "nat_str m = nat_str n \<longleftrightarrow> m = n"
  by (metis digits_val_nat_str)

lemma nat_str_mem: "c \<in> set (nat_str n) \<Longrightarrow> is_digit c"
  using nat_str_digits by (auto simp: list_all_iff)

lemma int_str_inject [simp]: "int_str i = int_str j \<longleftrightarrow> i = j"
proof -
  have minus: "nat_str m \<noteq> CHR ''-'' # s" for m s
    using nat_str_mem[of "CHR ''-''" m] by (auto simp: is_digit_def in_range_def)
  show ?thesis
    by (auto simp: int_str_def minus minus[symmetric] split: if_splits)
qed

lemma parse_uint_nat_str: "n < bound \<Longrightarrow> parse_uint bound (nat_str n) = Some n"
proof -
  assume "n < bound"
  moreover have "(case nat_str n of CHR ''+'' # r \<Rightarrow> r | _ \<Rightarrow> nat_str n) = nat_str n"
  proof (cases "nat_str n")
    case Nil
    then show ?thesis by simp
  next
    case (Cons c s)
    then have "is_digit c" using nat_str_mem[of c n] by simp
    then have "c \<noteq> CHR ''+''" by (auto simp: is_digit_def in_range_def)
    with Cons show ?thesis by (simp split: char.split bool.split)
  qed
  ultimately show ?thesis by (simp add: parse_uint_def nat_str_digits)
qed

lemma parse_uint_chars: "parse_uint bound s = Some n \<Longrightarrow> c \<in> set s \<Longrightarrow> c = CHR ''+'' \<or> is_digit c"
proof -
  assume p: "parse_uint bound s = Some n" and c: "c \<in> set s"
  define ds where "ds = (case s of CHR ''+'' # r \<Rightarrow> r | _ \<Rightarrow> s)"
  have "list_all is_digit ds" using p by (simp add: parse_uint_def ds_def[symmetric] Let_def split: if_splits)
  moreover have "s = ds \<or> s = CHR ''+'' # ds"
    unfolding ds_def by (simp split: list.split char.split bool.split)
  ultimately show ?thesis using c by (auto simp: list_all_iff)
qed

section \<open>Case\<close>

definition ascii_lower :: "char \<Rightarrow> char" where
  "ascii_lower c = (if in_range 65 90 c then char_of (byte c + 32) else c)"

definition ascii_upper :: "char \<Rightarrow> char" where
  "ascii_upper c = (if in_range 97 122 c then char_of (byte c - 32) else c)"

definition eq_ignore_ascii_case :: "string \<Rightarrow> string \<Rightarrow> bool" where
  "eq_ignore_ascii_case a b \<longleftrightarrow> map ascii_lower a = map ascii_lower b"

text \<open>\<open>str::to_lowercase\<close>: the ASCII part is computed; \<open>uni\<close> stands for the Unicode tables
  of the standard library, consulted only for a string with a non-ASCII byte.\<close>

definition to_lowercase :: "(string \<Rightarrow> string) \<Rightarrow> string \<Rightarrow> string" where
  "to_lowercase uni s = (if list_all is_ascii s then map ascii_lower s else uni s)"

definition to_uppercase :: "(string \<Rightarrow> string) \<Rightarrow> string \<Rightarrow> string" where
  "to_uppercase uni s = (if list_all is_ascii s then map ascii_upper s else uni s)"

text \<open>\<open>str::chars\<close>: the characters, each as its bytes; a slice of a string panics off a character boundary.\<close>

function chars :: "string \<Rightarrow> string list" where
  "chars [] = []"
| "chars (c # s) = (c # takeWhile is_cont s) # chars (dropWhile is_cont s)"
  by pat_completeness auto

termination by (relation "measure length") (simp_all add: le_imp_less_Suc length_dropWhile_le)

definition str_slice :: "string \<Rightarrow> nat \<Rightarrow> nat \<Rightarrow> string option" where
  "str_slice s i j = (if i \<le> j \<and> is_char_boundary s i \<and> is_char_boundary s j then Some (take (j - i) (drop i s)) else None)"

end
