(* ===== verification/App_Error.thy ===== *)
theory App_Error
  imports Rust_Str
begin

text \<open>
  The error type of the backend (\<open>backend/src/error.rs\<close>): the failure classes of the AI provider
  and of delivery, \<open>AppError\<close> with its texts, HTTP status codes and the message a client may see.
  The payload of a wrapped third-party error (\<open>sqlx::Error\<close>) is the text it displays.
\<close>

section \<open>Provider and delivery failures\<close>

datatype generation_error =
    GenNotConfigured
  | GenAuthentication
  | GenAuthorization
  | GenInvalidRequest
  | GenRateLimited
  | GenUnavailable
  | GenTimeout
  | GenResponseTooLarge nat
  | GenTransport
  | GenMalformed

fun generation_text :: "generation_error \<Rightarrow> string" where
  "generation_text GenNotConfigured =
     ''AI narrative generation is not configured (missing provider credential or model)''"
| "generation_text GenAuthentication = ''AI provider rejected the configured credential''"
| "generation_text GenAuthorization = ''AI provider denied access for the configured credential''"
| "generation_text GenInvalidRequest = ''AI provider rejected the request as invalid''"
| "generation_text GenRateLimited = ''AI provider rate limit exceeded''"
| "generation_text GenUnavailable = ''AI provider unavailable''"
| "generation_text GenTimeout = ''AI provider request timed out''"
| "generation_text (GenResponseTooLarge n) = ''AI provider response exceeded '' @ nat_str n @ '' bytes''"
| "generation_text GenTransport = ''AI provider connection failed''"
| "generation_text GenMalformed = ''AI provider returned a response with no usable model text''"

fun generation_category :: "generation_error \<Rightarrow> string" where
  "generation_category GenNotConfigured = ''not_configured''"
| "generation_category GenAuthentication = ''provider_authentication''"
| "generation_category GenAuthorization = ''provider_authorization''"
| "generation_category GenInvalidRequest = ''provider_invalid_request''"
| "generation_category GenRateLimited = ''provider_rate_limited''"
| "generation_category GenUnavailable = ''provider_unavailable''"
| "generation_category GenTimeout = ''provider_timeout''"
| "generation_category (GenResponseTooLarge _) = ''provider_response_too_large''"
| "generation_category GenTransport = ''provider_transport''"
| "generation_category GenMalformed = ''provider_malformed_response''"

definition generation_transient :: "generation_error \<Rightarrow> bool" where
  "generation_transient e \<longleftrightarrow> e = GenRateLimited \<or> e = GenUnavailable"

datatype delivery_error =
    DelNotConfigured
  | DelInvalidRecipient
  | DelAuthentication
  | DelRecipientRejected
  | DelRateLimited
  | DelUnavailable
  | DelTimeout
  | DelTransport
  | DelMalformed
  | DelResponseTooLarge nat

fun delivery_text :: "delivery_error \<Rightarrow> string" where
  "delivery_text DelNotConfigured = ''Email delivery is not configured on this server''"
| "delivery_text DelInvalidRecipient = ''Email recipient address is not a valid address''"
| "delivery_text DelAuthentication = ''Email provider rejected the configured credential''"
| "delivery_text DelRecipientRejected = ''Email provider rejected the recipient''"
| "delivery_text DelRateLimited = ''Email provider rate limited the request''"
| "delivery_text DelUnavailable = ''Email provider unavailable''"
| "delivery_text DelTimeout = ''Email delivery timed out''"
| "delivery_text DelTransport = ''Email provider connection failed''"
| "delivery_text DelMalformed = ''Email provider returned an unexpected response''"
| "delivery_text (DelResponseTooLarge n) = ''Delivery provider response exceeded '' @ nat_str n @ '' bytes''"

fun delivery_category :: "delivery_error \<Rightarrow> string" where
  "delivery_category DelNotConfigured = ''not_configured''"
| "delivery_category DelInvalidRecipient = ''destination_invalid''"
| "delivery_category DelAuthentication = ''provider_authentication''"
| "delivery_category DelRecipientRejected = ''destination_rejected''"
| "delivery_category DelRateLimited = ''provider_rate_limited''"
| "delivery_category DelUnavailable = ''provider_unavailable''"
| "delivery_category DelTimeout = ''provider_timeout''"
| "delivery_category DelTransport = ''provider_transport''"
| "delivery_category DelMalformed = ''provider_malformed_response''"
| "delivery_category (DelResponseTooLarge _) = ''provider_response_too_large''"

definition delivery_transient :: "delivery_error \<Rightarrow> bool" where
  "delivery_transient e \<longleftrightarrow> e = DelRateLimited \<or> e = DelUnavailable"

section \<open>The application error\<close>

datatype app_error =
    Delivery delivery_error
  | BadRequest string
  | Unauthorized string
  | Forbidden string
  | NotFound string
  | Conflict string
  | Cancelled string
  | PayloadTooLarge
  | RateLimited
  | InvalidCredentials
  | TokenExpired
  | InvalidToken
  | TokenRevoked
  | AccountLocked
  | MfaRequired
  | MfaVerificationFailed
  | Database string
  | MigrationError string
  | GraphDatabase string
  | StorageError string
  | RedisError string
  | EmailError string
  | LlmError string
  | Generation generation_error
  | HttpClientError string
  | TimedOutError string
  | OutputLimitExceeded string nat
  | ValidationError string
  | Internal string
  | UnavailableError string
  | NotImplemented string

text \<open>\<open>Display\<close>.\<close>

fun error_text :: "app_error \<Rightarrow> string" where
  "error_text (Delivery e) = ''Email delivery failed: '' @ delivery_text e"
| "error_text (BadRequest m) = ''Bad request: '' @ m"
| "error_text (Unauthorized m) = ''Unauthorized: '' @ m"
| "error_text (Forbidden m) = ''Forbidden: '' @ m"
| "error_text (NotFound m) = ''Not found: '' @ m"
| "error_text (Conflict m) = ''Conflict: '' @ m"
| "error_text (Cancelled m) = ''Cancelled: '' @ m"
| "error_text PayloadTooLarge = ''Payload too large''"
| "error_text RateLimited = ''Rate limit exceeded''"
| "error_text InvalidCredentials = ''Invalid credentials''"
| "error_text TokenExpired = ''Token expired''"
| "error_text InvalidToken = ''Invalid token''"
| "error_text TokenRevoked = ''Token revoked''"
| "error_text AccountLocked = ''Account locked due to too many failed attempts''"
| "error_text MfaRequired = ''MFA required''"
| "error_text MfaVerificationFailed = ''MFA verification failed''"
| "error_text (Database m) = ''Database error: '' @ m"
| "error_text (MigrationError m) = ''Migration error: '' @ m"
| "error_text (GraphDatabase m) = ''Graph database error: '' @ m"
| "error_text (StorageError m) = ''Storage error: '' @ m"
| "error_text (RedisError m) = ''Redis error: '' @ m"
| "error_text (EmailError m) = ''Email error: '' @ m"
| "error_text (LlmError m) = ''LLM error: '' @ m"
| "error_text (Generation e) = ''AI generation failed: '' @ generation_text e"
| "error_text (HttpClientError m) = ''HTTP client error: '' @ m"
| "error_text (TimedOutError m) = ''Operation timed out: '' @ m"
| "error_text (OutputLimitExceeded stream cap) =
     ''Output limit exceeded on '' @ stream @ '' (cap '' @ nat_str cap @ '' bytes)''"
| "error_text (ValidationError m) = ''Validation error: '' @ m"
| "error_text (Internal m) = ''Internal server error: '' @ m"
| "error_text (UnavailableError m) = ''Service unavailable: '' @ m"
| "error_text (NotImplemented m) = ''Not implemented: '' @ m"

fun status_code :: "app_error \<Rightarrow> nat" where
  "status_code (BadRequest _) = 400"
| "status_code (Unauthorized _) = 401"
| "status_code (Forbidden _) = 403"
| "status_code (NotFound _) = 404"
| "status_code (Conflict _) = 409"
| "status_code (Cancelled _) = 409"
| "status_code PayloadTooLarge = 413"
| "status_code RateLimited = 429"
| "status_code InvalidCredentials = 401"
| "status_code TokenExpired = 401"
| "status_code InvalidToken = 401"
| "status_code TokenRevoked = 401"
| "status_code AccountLocked = 401"
| "status_code MfaRequired = 403"
| "status_code MfaVerificationFailed = 403"
| "status_code (Database _) = 500"
| "status_code (MigrationError _) = 500"
| "status_code (GraphDatabase _) = 500"
| "status_code (StorageError _) = 500"
| "status_code (RedisError _) = 500"
| "status_code (EmailError _) = 500"
| "status_code (LlmError _) = 502"
| "status_code (Delivery e) =
     (case e of DelNotConfigured \<Rightarrow> 501 | DelRateLimited \<Rightarrow> 429 | DelTimeout \<Rightarrow> 504
      | DelInvalidRecipient \<Rightarrow> 400 | _ \<Rightarrow> 502)"
| "status_code (Generation e) =
     (case e of GenNotConfigured \<Rightarrow> 503 | GenRateLimited \<Rightarrow> 429 | GenTimeout \<Rightarrow> 504 | _ \<Rightarrow> 502)"
| "status_code (HttpClientError _) = 502"
| "status_code (TimedOutError _) = 504"
| "status_code (OutputLimitExceeded _ _) = 500"
| "status_code (ValidationError _) = 422"
| "status_code (Internal _) = 500"
| "status_code (UnavailableError _) = 503"
| "status_code (NotImplemented _) = 501"

definition is_internal :: "app_error \<Rightarrow> bool" where
  "is_internal e =
     (case e of Database _ \<Rightarrow> True | GraphDatabase _ \<Rightarrow> True | Internal _ \<Rightarrow> True
      | StorageError _ \<Rightarrow> True | RedisError _ \<Rightarrow> True | EmailError _ \<Rightarrow> True
      | MigrationError _ \<Rightarrow> True | _ \<Rightarrow> False)"

fun client_text :: "app_error \<Rightarrow> string" where
  "client_text (BadRequest m) = m"
| "client_text (Unauthorized m) = m"
| "client_text (Forbidden m) = m"
| "client_text (NotFound m) = m"
| "client_text (Conflict m) = m"
| "client_text (Cancelled m) = m"
| "client_text PayloadTooLarge = ''Payload too large''"
| "client_text RateLimited = ''Rate limit exceeded''"
| "client_text InvalidCredentials = ''Invalid credentials''"
| "client_text TokenExpired = ''Token expired''"
| "client_text InvalidToken = ''Invalid token''"
| "client_text TokenRevoked = ''Token revoked''"
| "client_text AccountLocked = ''Account locked due to too many failed attempts''"
| "client_text MfaRequired = ''MFA required''"
| "client_text MfaVerificationFailed = ''MFA verification failed''"
| "client_text (Database _) = ''Internal database error''"
| "client_text (MigrationError _) = ''Internal migration error''"
| "client_text (GraphDatabase _) = ''Internal graph database error''"
| "client_text (StorageError _) = ''Internal storage error''"
| "client_text (RedisError _) = ''Internal cache error''"
| "client_text (EmailError _) = ''Internal email error''"
| "client_text (LlmError _) = ''Internal LLM error''"
| "client_text (Delivery e) = delivery_text e"
| "client_text (Generation e) = generation_text e"
| "client_text (HttpClientError _) = ''Internal HTTP client error''"
| "client_text (TimedOutError m) = m"
| "client_text (OutputLimitExceeded stream cap) =
     ''Sandbox output limit exceeded on '' @ stream @ '' (cap '' @ nat_str cap @ '' bytes)''"
| "client_text (ValidationError m) = m"
| "client_text (Internal _) = ''Internal server error''"
| "client_text (UnavailableError m) = m"
| "client_text (NotImplemented _) = ''Not implemented''"

definition safe_message :: "app_error \<Rightarrow> bool \<Rightarrow> string" where
  "safe_message e debug = (if debug then error_text e else client_text e)"

text \<open>The response: the status and the detail; \<open>debug_setting\<close> is the environment variable
  \<open>APP_DEBUG\<close>.\<close>

definition into_response :: "string option \<Rightarrow> app_error \<Rightarrow> nat \<times> string" where
  "into_response debug_setting e =
     (status_code e,
      safe_message e (case debug_setting of Some v \<Rightarrow> v = ''true'' \<or> v = ''1'' | None \<Rightarrow> False))"

section \<open>What a client learns\<close>



end
