(* ===== verification/Json_Value.thy ===== *)
theory Json_Value
  imports Rust_Str "HOL-Library.Word"
begin

text \<open>
  The document type of the third-party crate \<open>serde_json\<close> as the program uses it:
  the constructors of \<open>serde_json::Value\<close> and the accessors (\<open>as_str\<close>, \<open>as_array\<close>,
  \<open>get\<close>, ...) it calls.  Parsing and printing text are parameters of the definitions
  that need them.  An object is a \<open>BTreeMap\<close> (the crate is built without
  \<open>preserve_order\<close>), so it is an association list in ascending key order.
\<close>

text \<open>\<open>serde_json::Number\<close>: unsigned, negative, or the bits of a double.\<close>

datatype jnum = PosInt "64 word" | NegInt "64 word" | Float "64 word"

datatype json =
    JNull
  | JBool bool
  | JNum jnum
  | JStr string
  | JArr "json list"
  | JObj "(string \<times> json) list"

fun as_str :: "json \<Rightarrow> string option" where
  "as_str (JStr s) = Some s"
| "as_str _ = None"

fun as_bool :: "json \<Rightarrow> bool option" where
  "as_bool (JBool b) = Some b"
| "as_bool _ = None"

fun as_array :: "json \<Rightarrow> json list option" where
  "as_array (JArr xs) = Some xs"
| "as_array _ = None"

fun as_object :: "json \<Rightarrow> (string \<times> json) list option" where
  "as_object (JObj m) = Some m"
| "as_object _ = None"

fun as_u64 :: "json \<Rightarrow> 64 word option" where
  "as_u64 (JNum (PosInt n)) = Some n"
| "as_u64 _ = None"

fun as_i64 :: "json \<Rightarrow> int option" where
  "as_i64 (JNum (PosInt n)) = (if uint n < 2 ^ 63 then Some (uint n) else None)"
| "as_i64 (JNum (NegInt n)) = Some (sint n)"
| "as_i64 _ = None"

definition is_null :: "json \<Rightarrow> bool" where
  "is_null v \<longleftrightarrow> v = JNull"

text \<open>\<open>Value::get(key)\<close>: only an object has members.\<close>

definition member :: "json \<Rightarrow> string \<Rightarrow> json option" where
  "member v k = (case v of JObj m \<Rightarrow> bt_get m k | _ \<Rightarrow> None)"

lemma as_str_Some [simp]: "as_str v = Some s \<longleftrightarrow> v = JStr s"
  by (cases v) auto

lemma as_bool_Some [simp]: "as_bool v = Some b \<longleftrightarrow> v = JBool b"
  by (cases v) auto

lemma as_array_Some [simp]: "as_array v = Some xs \<longleftrightarrow> v = JArr xs"
  by (cases v) auto

lemma as_object_Some [simp]: "as_object v = Some m \<longleftrightarrow> v = JObj m"
  by (cases v) auto

lemma as_u64_Some: "as_u64 v = Some n \<longleftrightarrow> v = JNum (PosInt n)"
  by (induction v rule: as_u64.induct) auto

lemma as_i64_bound: "as_i64 v = Some i \<Longrightarrow> - (2 ^ 63) \<le> i \<and> i < 2 ^ 63"
proof (induction v rule: as_i64.induct)
  case (1 n)
  then show ?case by (auto split: if_splits intro: order_trans[OF _ uint_ge_0])
next
  case (2 n)
  then show ?case using sint_ge[of n] sint_lt[of n] by auto
qed simp_all

text \<open>The well-formed documents: every object is in ascending key order.\<close>

fun json_wf :: "json \<Rightarrow> bool" where
  "json_wf (JArr xs) = list_all json_wf xs"
| "json_wf (JObj m) = (bt_wf m \<and> list_all (\<lambda>(k, v). json_wf v) m)"
| "json_wf _ = True"

end
