(* ===== verification/Authz_Wire.thy ===== *)
theory Authz_Wire
  imports Json_Value
begin

text \<open>
  The wire level of the Docker authorization plugin (\<open>docker-authz-plugin/src/lib.rs\<close>):
  the request shape, the strict base64 decoder, the canonical form of the request path,
  query parameters, the scanner container names and the lexical check of host paths.
\<close>

unbundle bit_operations_syntax

section \<open>Constants\<close>

definition APPROVED_IMAGES :: "string list" where
  "APPROVED_IMAGES = [''ghcr.io/gitleaks/gitleaks:v8.18.4'',
     ''ghcr.io/google/osv-scanner:v2.2.4'', ''semgrep/semgrep:1.96.0'']"

definition SCAN_NAME_PREFIX :: string where
  "SCAN_NAME_PREFIX = ''firecrow-scan-''"

definition SANDBOX_USER :: string where
  "SANDBOX_USER = ''65534:65534''"

definition ALLOWED_BIND_TARGETS :: "string list" where
  "ALLOWED_BIND_TARGETS = [''/scan'', ''/config'']"

definition DENIED_HOST_EXACT :: "string list" where
  "DENIED_HOST_EXACT = [''/'', ''/var/run/docker.sock'', ''/run/docker.sock'']"

definition DENIED_HOST_PREFIXES :: "string list" where
  "DENIED_HOST_PREFIXES = [''/proc/'', ''/sys/'', ''/dev/'', ''/etc/'', ''/root/'', ''/var/run/'',
     ''/run/'', ''/var/lib/docker/'', ''/boot/'', ''/home/'']"

definition ALLOWED_NETWORKS :: "string list" where
  "ALLOWED_NETWORKS = [''none'', ''scanners-internal'']"

definition MAX_BODY_BYTES :: int where
  "MAX_BODY_BYTES = 8 * 1024 * 1024"

section \<open>Strict base64\<close>

type_synonym u8 = "8 word"

definition str_bytes :: "string \<Rightarrow> u8 list" where
  "str_bytes s = map (\<lambda>c. word_of_nat (byte c)) s"

definition bytes_str :: "u8 list \<Rightarrow> string" where
  "bytes_str ws = map (\<lambda>w. char_of (unat w)) ws"

text \<open>\<open>String::from_utf8\<close>.\<close>

definition from_utf8 :: "u8 list \<Rightarrow> string option" where
  "from_utf8 ws = (if from_utf8_ok (bytes_str ws) then Some (bytes_str ws) else None)"

definition is_ascii_whitespace :: "u8 \<Rightarrow> bool" where
  "is_ascii_whitespace b \<longleftrightarrow> b \<in> {32, 9, 10, 12, 13}"

definition PAD :: u8 where "PAD = 61"

definition b64_table :: "u8 \<Rightarrow> u8 option" where
  "b64_table c =
     (if 65 \<le> c \<and> c \<le> 90 then Some (c - 65)
      else if 97 \<le> c \<and> c \<le> 122 then Some (c - 97 + 26)
      else if 48 \<le> c \<and> c \<le> 57 then Some (c - 48 + 52)
      else if c = 43 then Some 62
      else if c = 47 then Some 63
      else None)"

definition b64_emit :: "u8 \<Rightarrow> u8 \<Rightarrow> u8 \<Rightarrow> u8 \<Rightarrow> nat \<Rightarrow> u8 list" where
  "b64_emit a b c d n =
     [push_bit 2 a OR drop_bit 4 b]
     @ (if 2 \<le> n then [push_bit 4 b OR drop_bit 2 c] else [])
     @ (if 3 \<le> n then [push_bit 6 c OR d] else [])"

text \<open>The loop over \<open>bytes.chunks(4)\<close>; the quantum is the last one when nothing follows.\<close>

fun b64_quanta :: "u8 list \<Rightarrow> u8 list option" where
  "b64_quanta (c0 # c1 # c2 # c3 # rest) =
     (case (b64_table c0, b64_table c1) of
        (Some a, Some b) \<Rightarrow>
          (let last = (rest = []);
               q = (if c2 = PAD \<and> c3 = PAD \<and> last then Some (0, 0, 1)
                    else if c3 = PAD \<and> last then map_option (\<lambda>c. (c, 0, 2)) (b64_table c2)
                    else if c2 \<noteq> PAD \<and> c3 \<noteq> PAD then
                      (case (b64_table c2, b64_table c3) of
                         (Some c, Some d) \<Rightarrow> Some (c, d, 3) | _ \<Rightarrow> None)
                    else None)
           in case q of
                None \<Rightarrow> None
              | Some (c, d, n) \<Rightarrow> map_option (\<lambda>out. b64_emit a b c d n @ out) (b64_quanta rest))
      | _ \<Rightarrow> None)"
| "b64_quanta [] = Some []"
| "b64_quanta _ = None"

definition b64_padding_ok :: "u8 list \<Rightarrow> bool" where
  "b64_padding_ok bytes =
     (bytes ! 0 \<noteq> PAD \<and> bytes ! 1 \<noteq> PAD \<and>
      (PAD \<notin> set bytes \<or>
       (let pos = length (takeWhile (\<lambda>b. b \<noteq> PAD) bytes) in
        \<not> pos < length bytes - 2 \<and> list_all (\<lambda>b. b = PAD) (drop pos bytes)
        \<and> \<not> length bytes - pos > 2)))"

definition b64_decode :: "string \<Rightarrow> u8 list option" where
  "b64_decode s =
     (let bytes = filter (\<lambda>b. \<not> is_ascii_whitespace b) (str_bytes s)
      in if bytes = [] \<or> length bytes mod 4 \<noteq> 0 then None
         else if \<not> b64_padding_ok bytes then None
         else b64_quanta bytes)"

section \<open>The request\<close>

record authz_request =
  req_method :: string
  req_uri :: string
  req_user :: "string option"
  req_user_authn :: "string option"
  req_body :: "string option"

definition nonempty :: "string option \<Rightarrow> string option" where
  "nonempty x = (case x of Some s \<Rightarrow> if s = [] then None else Some s | None \<Rightarrow> None)"

definition parse_body :: "(string \<times> json) list \<Rightarrow> string + string option" where
  "parse_body obj =
     (case bt_get obj ''RequestBody'' of
        Some (JStr s) \<Rightarrow>
          (case b64_decode s of
             None \<Rightarrow> Inl ''body-undecodable''
           | Some raw \<Rightarrow> (case from_utf8 raw of
               None \<Rightarrow> Inl ''body-undecodable'' | Some t \<Rightarrow> Inr (Some t)))
      | _ \<Rightarrow> Inr None)"

definition parse_request :: "json \<Rightarrow> string + authz_request" where
  "parse_request v =
     and_then (ok_or ''payload-not-object'' (as_object v)) (\<lambda>obj.
       let get_str = (\<lambda>k. Option.bind (bt_get obj k) as_str) in
       and_then (ok_or ''uri-missing''
           (nonempty (case get_str ''RequestUri'' of Some u \<Rightarrow> Some u
                      | None \<Rightarrow> get_str ''RequestURI''))) (\<lambda>uri.
       and_then (ok_or ''method-missing'' (nonempty (get_str ''RequestMethod''))) (\<lambda>method.
       and_then (parse_body obj) (\<lambda>body.
         Inr \<lparr>req_method = method, req_uri = uri, req_user = get_str ''User'',
              req_user_authn = get_str ''UserAuthNMethod'', req_body = body\<rparr>))))"

section \<open>Paths, queries and names\<close>

text \<open>The outcome \<open>None\<close> is the panic of the slice \<open>&ver[1..]\<close>, which Rust raises when
  byte 1 of the first path segment is inside a multi-byte character.\<close>

definition normalize_path :: "string \<Rightarrow> string option" where
  "normalize_path uri =
     (let raw = takeWhile (\<lambda>c. c \<noteq> CHR ''?'' \<and> c \<noteq> CHR ''#'') uri in
      if raw = [] \<or> hd raw \<noteq> CHR ''/'' then Some []
      else if contains_str raw ''%2f'' \<or> contains_str raw ''%2F'' \<or> contains_str raw ''%00''
      then Some []
      else
        (let parts = split_on (CHR ''/'') raw; segs = filter (\<lambda>s. s \<noteq> []) parts in
         if ''.'' \<in> set parts \<or> ''..'' \<in> set parts then Some []
         else if segs = [] then Some []
         else
           (let rest = join ''/'' segs; joined = CHR ''/'' # rest in
            case split_once (CHR ''/'') rest of
              None \<Rightarrow> Some joined
            | Some (ver, tail) \<Rightarrow>
                (case slice_from ver 1 of
                   None \<Rightarrow> None
                 | Some digits \<Rightarrow>
                     if tail \<noteq> [] \<and> prefix ''v'' ver \<and> digits \<noteq> []
                        \<and> list_all (\<lambda>c. is_digit c \<or> c = CHR ''.'') digits
                     then Some (CHR ''/'' # tail)
                     else Some joined))))"

text \<open>A \<open>%\<close> starts an escape only when at least two more bytes follow.\<close>

fun percent_bytes :: "string \<Rightarrow> string" where
  "percent_bytes (c # h # l # r) =
     (if c = CHR ''%'' \<and> is_hexdigit h \<and> is_hexdigit l
      then char_of (digit_val h * 16 + digit_val l) # percent_bytes r
      else c # percent_bytes (h # l # r))"
| "percent_bytes s = s"

definition percent_decode :: "string \<Rightarrow> string" where
  "percent_decode s = from_utf8_lossy (percent_bytes s)"

fun find_pair :: "string \<Rightarrow> string list \<Rightarrow> string option" where
  "find_pair key [] = None"
| "find_pair key (pair # pairs) =
     (case split_once (CHR ''='') pair of
        Some (k, v) \<Rightarrow> if k = key then Some v else find_pair key pairs
      | None \<Rightarrow> find_pair key pairs)"

definition query_param :: "string \<Rightarrow> string \<Rightarrow> string option" where
  "query_param uri key =
     (case split_once (CHR ''?'') uri of
        None \<Rightarrow> None
      | Some (_, q) \<Rightarrow> map_option percent_decode (find_pair key (split_on (CHR ''&'') q)))"

definition container_target :: "string \<Rightarrow> string option" where
  "container_target path =
     (case strip_prefix ''/containers/'' path of
        None \<Rightarrow> None
      | Some rest \<Rightarrow> nonempty (Some (hd (split_on (CHR ''/'') rest))))"

definition is_lifecycle_op :: "string \<Rightarrow> bool" where
  "is_lifecycle_op path \<longleftrightarrow>
     suffix ''/start'' path \<or> suffix ''/attach'' path \<or> suffix ''/wait'' path
     \<or> suffix ''/stop'' path \<or> suffix ''/kill'' path"

definition is_container_delete :: "string \<Rightarrow> bool" where
  "is_container_delete path =
     (case strip_prefix ''/containers/'' path of
        None \<Rightarrow> False
      | Some rest \<Rightarrow> rest \<noteq> [] \<and> CHR ''/'' \<notin> set rest)"

text \<open>The scan of the 36 bytes after the prefix, with the set of the positions where a
  dash was seen (the array \<open>dash\<close>).\<close>

fun scan_uuid :: "nat \<Rightarrow> nat list \<Rightarrow> string \<Rightarrow> nat list option" where
  "scan_uuid i dash [] = Some dash"
| "scan_uuid i dash (b # s) =
     (if is_lower_hex b then scan_uuid (Suc i) dash s
      else if b = CHR ''-'' \<and> i \<in> {8, 13, 18, 23} then scan_uuid (Suc i) (i # dash) s
      else None)"

definition is_scanner_name :: "string \<Rightarrow> bool" where
  "is_scanner_name name =
     (case strip_prefix SCAN_NAME_PREFIX name of
        None \<Rightarrow> False
      | Some sfx \<Rightarrow>
          length sfx = 36 \<and>
          (case scan_uuid 0 [] sfx of
             None \<Rightarrow> False
           | Some dash \<Rightarrow> 8 \<in> set dash \<and> 13 \<in> set dash \<and> 18 \<in> set dash \<and> 23 \<in> set dash))"

definition push_component :: "string \<Rightarrow> string list \<Rightarrow> string list" where
  "push_component component parts =
     (if component = [] \<or> component = ''.'' then parts
      else if component = ''..'' then butlast parts
      else parts @ [component])"

definition canonical_host_path :: "string \<Rightarrow> string" where
  "canonical_host_path host_path =
     CHR ''/'' # join ''/'' (fold push_component (split_on (CHR ''/'') host_path) [])"

definition host_source_denied :: "string \<Rightarrow> bool" where
  "host_source_denied host_path =
     (if \<not> prefix ''/'' host_path then True
      else
        (let cleaned = canonical_host_path host_path in
         cleaned \<in> set DENIED_HOST_EXACT \<or>
         list_ex (\<lambda>p. cleaned = trim_end_matches (CHR ''/'') p \<or> prefix p cleaned)
           DENIED_HOST_PREFIXES))"

section \<open>Base64: the reference encoder and the round trip\<close>

definition b64_alpha :: "u8 \<Rightarrow> u8" where
  "b64_alpha v =
     (if v < 26 then v + 65 else if v < 52 then v - 26 + 97 else if v < 62 then v - 52 + 48
      else if v = 62 then 43 else 47)"

text \<open>The four sextets of a quantum.\<close>

definition sextet1 :: "u8 \<Rightarrow> u8" where "sextet1 x = drop_bit 2 x"
definition sextet2 :: "u8 \<Rightarrow> u8 \<Rightarrow> u8" where
  "sextet2 x y = push_bit 4 (x AND 3) OR drop_bit 4 y"
definition sextet3 :: "u8 \<Rightarrow> u8 \<Rightarrow> u8" where
  "sextet3 y z = push_bit 2 (y AND 15) OR drop_bit 6 z"
definition sextet4 :: "u8 \<Rightarrow> u8" where "sextet4 z = z AND 63"

lemmas sextet_defs = sextet1_def sextet2_def sextet3_def sextet4_def

fun b64_encode :: "u8 list \<Rightarrow> u8 list" where
  "b64_encode (x # y # z # r) =
     b64_alpha (sextet1 x) # b64_alpha (sextet2 x y) # b64_alpha (sextet3 y z)
     # b64_alpha (sextet4 z) # b64_encode r"
| "b64_encode [x, y] = [b64_alpha (sextet1 x), b64_alpha (sextet2 x y), b64_alpha (sextet3 y 0), PAD]"
| "b64_encode [x] = [b64_alpha (sextet1 x), b64_alpha (sextet2 x 0), PAD, PAD]"
| "b64_encode [] = []"

lemma b64_alpha_all:
  "list_all (\<lambda>n. b64_table (b64_alpha (word_of_nat n)) = Some (word_of_nat n)
      \<and> b64_alpha (word_of_nat n) \<noteq> PAD
      \<and> \<not> is_ascii_whitespace (b64_alpha (word_of_nat n))) [0..<64]"
  by code_simp

lemma b64_alpha_inv:
  assumes "v < (64 :: u8)"
  shows "b64_table (b64_alpha v) = Some v" "b64_alpha v \<noteq> PAD"
    "\<not> is_ascii_whitespace (b64_alpha v)"
proof -
  have "unat v < 64" using assms by (simp add: word_less_nat_alt)
  then have "unat v \<in> set [0..<64]" by simp
  with b64_alpha_all have "b64_table (b64_alpha (word_of_nat (unat v))) = Some (word_of_nat (unat v))
      \<and> b64_alpha (word_of_nat (unat v)) \<noteq> PAD
      \<and> \<not> is_ascii_whitespace (b64_alpha (word_of_nat (unat v)))"
    unfolding list_all_iff by blast
  then show "b64_table (b64_alpha v) = Some v" "b64_alpha v \<noteq> PAD"
    "\<not> is_ascii_whitespace (b64_alpha v)" by simp_all
qed

lemma sextet_bounds [simp]:
  "sextet1 x < 64" "sextet2 x y < 64" "sextet3 y z < 64" "sextet4 z < 64"
proof -
  have *: "w < 64" if "\<not> bit w 6" "\<not> bit w 7" for w :: u8
  proof -
    have "w = take_bit 6 w"
    proof (rule bit_word_eqI)
      fix n assume "n < LENGTH(8)"
      then have "n < 6 \<or> n = 6 \<or> n = 7" by auto
      then show "bit w n = bit (take_bit 6 w) n" using that by (auto simp: bit_simps)
    qed
    then have "unat w < 2 ^ 6" by (metis take_bit_nat_less_exp unsigned_take_bit_eq)
    then show ?thesis by (simp add: word_less_nat_alt)
  qed
  show "sextet1 x < 64" "sextet2 x y < 64" "sextet3 y z < 64" "sextet4 z < 64"
    by (rule *; auto simp: sextet_defs bit_simps bit_numeral_rec dest: bit_imp_le_length)+
qed

lemma emit_inverse:
  "push_bit 2 (sextet1 x) OR drop_bit 4 (sextet2 x y) = x"
  "push_bit 4 (sextet2 x y) OR drop_bit 2 (sextet3 y z) = y"
  "push_bit 6 (sextet3 y z) OR sextet4 z = z"
proof -
  have n8: "n < LENGTH(8) \<longleftrightarrow> n \<in> {0, 1, 2, 3, 4, 5, 6, 7}" for n by auto
  show "push_bit 2 (sextet1 x) OR drop_bit 4 (sextet2 x y) = x"
    "push_bit 4 (sextet2 x y) OR drop_bit 2 (sextet3 y z) = y"
    "push_bit 6 (sextet3 y z) OR sextet4 z = z"
    by (rule bit_word_eqI; unfold n8; elim insertE emptyE;
        auto simp: sextet_defs bit_simps bit_numeral_rec dest: bit_imp_le_length)+
qed

lemma PAD_not_space [simp]: "\<not> is_ascii_whitespace PAD"
  by (simp add: is_ascii_whitespace_def PAD_def)

lemmas alpha_sextet [simp] = b64_alpha_inv[OF sextet_bounds(1)] b64_alpha_inv[OF sextet_bounds(2)]
  b64_alpha_inv[OF sextet_bounds(3)] b64_alpha_inv[OF sextet_bounds(4)]

lemma b64_quanta_encode: "b64_quanta (b64_encode ws) = Some ws"
  by (induction ws rule: b64_encode.induct) (simp_all add: b64_emit_def emit_inverse Let_def)

lemma b64_encode_len: "length (b64_encode ws) mod 4 = 0"
  by (induction ws rule: b64_encode.induct) simp_all

lemma b64_encode_no_space: "b \<in> set (b64_encode ws) \<Longrightarrow> \<not> is_ascii_whitespace b"
  by (induction ws rule: b64_encode.induct) auto

lemma b64_encode_pad:
  "\<exists>body pad. b64_encode ws = body @ pad \<and> PAD \<notin> set body \<and> pad \<in> {[], [PAD], [PAD, PAD]}
     \<and> (ws \<noteq> [] \<longrightarrow> 2 \<le> length body)"
proof (induction ws rule: b64_encode.induct)
  case (1 x y z r)
  then obtain body pad where IH: "b64_encode r = body @ pad" "PAD \<notin> set body"
    "pad \<in> {[], [PAD], [PAD, PAD]}" by blast
  show ?case
    by (rule exI[of _ "b64_alpha (sextet1 x) # b64_alpha (sextet2 x y)
          # b64_alpha (sextet3 y z) # b64_alpha (sextet4 z) # body"], rule exI[of _ pad])
      (use IH in \<open>simp add: alpha_sextet(2,5,8,11)[symmetric]\<close>)
next
  case (2 x y)
  show ?case
    by (rule exI[of _ "[b64_alpha (sextet1 x), b64_alpha (sextet2 x y), b64_alpha (sextet3 y 0)]"],
        rule exI[of _ "[PAD]"]) (simp add: alpha_sextet(2,5,8,11)[symmetric])
next
  case (3 x)
  show ?case
    by (rule exI[of _ "[b64_alpha (sextet1 x), b64_alpha (sextet2 x 0)]"],
        rule exI[of _ "[PAD, PAD]"]) (simp add: alpha_sextet(2,5,8,11)[symmetric])
qed simp

lemma str_bytes_str [simp]: "str_bytes (bytes_str ws) = ws"
proof -
  have "word_of_nat (byte (char_of (unat w) :: char)) = w" for w :: u8
  proof -
    have "unat w < 2 ^ LENGTH(8)" by (rule unsigned_less)
    then show ?thesis by simp
  qed
  then show ?thesis by (simp add: str_bytes_def bytes_str_def map_idI)
qed

lemma bytes_str_bytes [simp]: "bytes_str (str_bytes s) = s"
  by (induction s) (simp_all add: str_bytes_def bytes_str_def unat_of_nat take_bit_eq_mod)

lemma b64_padding_encode: "ws \<noteq> [] \<Longrightarrow> b64_padding_ok (b64_encode ws)"
proof -
  assume "ws \<noteq> []"
  with b64_encode_pad[of ws] obtain body pad where e: "b64_encode ws = body @ pad"
    and nb: "PAD \<notin> set body" and pad: "pad \<in> {[], [PAD], [PAD, PAD]}" and len: "2 \<le> length body"
    by blast
  from nb have tw: "takeWhile (\<lambda>b. b \<noteq> PAD) (body @ pad) = body"
    using pad by (auto simp: takeWhile_append takeWhile_eq_all_conv)
  have "(body @ pad) ! 0 \<noteq> PAD" "(body @ pad) ! 1 \<noteq> PAD"
    using nb len by (cases body; cases "tl body"; auto)+
  then show ?thesis
    using pad by (auto simp: b64_padding_ok_def e tw Let_def)
qed

text \<open>Base64 round trip: the plugin's strict decoder inverts standard base64 encoding on
  every non-empty byte sequence, so no request body the daemon encodes is lost or altered.\<close>

theorem b64_roundtrip: "ws \<noteq> [] \<Longrightarrow> b64_decode (bytes_str (b64_encode ws)) = Some ws"
proof -
  assume ne: "ws \<noteq> []"
  have "filter (\<lambda>b. \<not> is_ascii_whitespace b) (b64_encode ws) = b64_encode ws"
    using b64_encode_no_space by (simp add: filter_id_conv)
  moreover have "b64_encode ws \<noteq> []" using ne by (cases ws rule: b64_encode.cases) auto
  ultimately show ?thesis
    using ne by (simp add: b64_decode_def b64_encode_len b64_padding_encode b64_quanta_encode Let_def)
qed

theorem b64_roundtrip_witness:
  "b64_decode (bytes_str (b64_encode [104, 0, 255, 61])) = Some [104, 0, 255, 61]"
  using b64_roundtrip[of "[104, 0, 255, 61]"] by simp

section \<open>Host paths: the lexical form and its segments\<close>

text \<open>The clean segments of an absolute path; what \<open>canonical_host_path\<close> prints.\<close>

definition host_segs :: "string \<Rightarrow> string list" where
  "host_segs p = fold push_component (split_on (CHR ''/'') p) []"

definition clean_seg :: "string \<Rightarrow> bool" where
  "clean_seg s \<longleftrightarrow> s \<noteq> [] \<and> s \<noteq> ''.'' \<and> s \<noteq> ''..'' \<and> CHR ''/'' \<notin> set s"

lemma push_component_clean:
  "CHR ''/'' \<notin> set c \<Longrightarrow> list_all clean_seg parts \<Longrightarrow> list_all clean_seg (push_component c parts)"
  by (auto simp: push_component_def clean_seg_def list_all_iff dest: in_set_butlastD)

lemma fold_push_clean:
  "list_all (\<lambda>c. CHR ''/'' \<notin> set c) cs \<Longrightarrow> list_all clean_seg parts
     \<Longrightarrow> list_all clean_seg (fold push_component cs parts)"
  by (induction cs arbitrary: parts) (simp_all add: push_component_clean)

lemma host_segs_clean: "list_all clean_seg (host_segs p)"
  unfolding host_segs_def by (rule fold_push_clean) (auto simp: list_all_iff dest: split_on_parts)

lemma fold_push_clean_id:
  "list_all clean_seg cs \<Longrightarrow> fold push_component cs parts = parts @ cs"
  by (induction cs arbitrary: parts) (auto simp: push_component_def clean_seg_def)

lemma split_on_join_clean:
  "list_all clean_seg cs \<Longrightarrow> cs \<noteq> [] \<Longrightarrow> split_on (CHR ''/'') (join ''/'' cs) = cs"
  by (rule split_on_join) (auto simp: list_all_iff clean_seg_def)

lemma host_segs_of_clean:
  "list_all clean_seg cs \<Longrightarrow> host_segs (CHR ''/'' # join ''/'' cs) = cs"
proof (cases "cs = []")
  case True
  then show ?thesis by (simp add: host_segs_def push_component_def)
next
  case False
  assume "list_all clean_seg cs"
  with False show ?thesis
    by (simp add: host_segs_def split_on_join_clean fold_push_clean_id)
      (simp add: push_component_def fold_push_clean_id)
qed

lemma canonical_segs: "canonical_host_path p = CHR ''/'' # join ''/'' (host_segs p)"
  by (simp add: canonical_host_path_def host_segs_def)

lemma host_segs_canonical [simp]: "host_segs (canonical_host_path p) = host_segs p"
  by (simp add: canonical_segs host_segs_of_clean host_segs_clean)

lemma canonical_idem: "canonical_host_path (canonical_host_path p) = canonical_host_path p"
  by (simp add: canonical_segs[of "canonical_host_path p"]) (simp add: canonical_segs)

lemma under_dir:
  assumes "list_all clean_seg d" "d \<noteq> []" "list_all clean_seg xs"
  shows "(join ''/'' xs = join ''/'' d \<or> prefix (join ''/'' d @ ''/'') (join ''/'' xs)) \<longleftrightarrow> prefix d xs"
proof
  assume l: "join ''/'' xs = join ''/'' d \<or> prefix (join ''/'' d @ ''/'') (join ''/'' xs)"
  have nd: "join ''/'' d \<noteq> []" using assms(1,2)
    by (cases d rule: remdups_adj.cases) (auto simp: clean_seg_def)
  have "xs \<noteq> []" using l nd by auto
  then have sx: "split_on (CHR ''/'') (join ''/'' xs) = xs" using assms(3) by (simp add: split_on_join_clean)
  have sd: "split_on (CHR ''/'') (join ''/'' d) = d" using assms(1,2) by (simp add: split_on_join_clean)
  from l show "prefix d xs"
  proof
    assume "join ''/'' xs = join ''/'' d"
    then have "split_on (CHR ''/'') (join ''/'' xs) = split_on (CHR ''/'') (join ''/'' d)" by simp
    then have "xs = d" by (simp only: sx sd)
    then show ?thesis by simp
  next
    assume "prefix (join ''/'' d @ ''/'') (join ''/'' xs)"
    then obtain r where "join ''/'' xs = join ''/'' d @ CHR ''/'' # r" by (auto simp: prefix_def)
    then have "split_on (CHR ''/'') (join ''/'' xs)
        = split_on (CHR ''/'') (join ''/'' d) @ split_on (CHR ''/'') r"
      by (simp add: split_on_app)
    then have "xs = d @ split_on (CHR ''/'') r" by (simp only: sx sd)
    then show ?thesis by simp
  qed
next
  assume "prefix d xs"
  then obtain r where xs: "xs = d @ r" by (auto simp: prefix_def)
  have j: "join ''/'' (d @ r) = join ''/'' d @ ''/'' @ join ''/'' r" if "r \<noteq> []"
    using \<open>d \<noteq> []\<close> that by (induction d rule: induct_list012) (auto simp: join_Cons)
  show "join ''/'' xs = join ''/'' d \<or> prefix (join ''/'' d @ ''/'') (join ''/'' xs)"
    using xs j by (cases "r = []") auto
qed

text \<open>The protected directory trees, as segment lists.\<close>

definition PROTECTED_TREES :: "string list list" where
  "PROTECTED_TREES = [[''proc''], [''sys''], [''dev''], [''etc''], [''root''], [''var'', ''run''],
     [''run''], [''var'', ''lib'', ''docker''], [''boot''], [''home'']]"

definition host_path_forbidden :: "string \<Rightarrow> bool" where
  "host_path_forbidden p \<longleftrightarrow>
     \<not> prefix ''/'' p \<or> host_segs p = [] \<or> (\<exists>d \<in> set PROTECTED_TREES. prefix d (host_segs p))"

lemma protected_trees_prefixes:
  "DENIED_HOST_PREFIXES = map (\<lambda>d. CHR ''/'' # join ''/'' d @ ''/'') PROTECTED_TREES"
  by (simp add: DENIED_HOST_PREFIXES_def PROTECTED_TREES_def)

lemma protected_trees_clean: "d \<in> set PROTECTED_TREES \<Longrightarrow> list_all clean_seg d \<and> d \<noteq> []"
  by (auto simp: PROTECTED_TREES_def clean_seg_def)

lemma denied_prefix_iff:
  assumes "d \<in> set PROTECTED_TREES"
  shows "(canonical_host_path p = trim_end_matches (CHR ''/'') (CHR ''/'' # join ''/'' d @ ''/'')
      \<or> prefix (CHR ''/'' # join ''/'' d @ ''/'') (canonical_host_path p))
    \<longleftrightarrow> prefix d (host_segs p)"
proof -
  have "trim_end_matches (CHR ''/'') (CHR ''/'' # join ''/'' d @ ''/'') = CHR ''/'' # join ''/'' d"
    using assms by (auto simp: PROTECTED_TREES_def trim_end_matches_def)
  then show ?thesis
    using under_dir[of d "host_segs p"] protected_trees_clean[OF assms] host_segs_clean[of p]
    by (auto simp: canonical_segs)
qed

lemma socket_under_run:
  "canonical_host_path p \<in> set DENIED_HOST_EXACT \<longleftrightarrow>
     host_segs p = [] \<or> host_segs p = [''var'', ''run'', ''docker.sock'']
     \<or> host_segs p = [''run'', ''docker.sock'']"
proof -
  have inj: "canonical_host_path p = CHR ''/'' # join ''/'' cs \<longleftrightarrow> host_segs p = cs"
    if "list_all clean_seg cs" for cs
    using host_segs_of_clean[OF that] canonical_segs[of p] host_segs_canonical[of p] by metis
  have e: "DENIED_HOST_EXACT = [CHR ''/'' # join ''/'' [],
      CHR ''/'' # join ''/'' [''var'', ''run'', ''docker.sock''],
      CHR ''/'' # join ''/'' [''run'', ''docker.sock'']]"
    by (simp add: DENIED_HOST_EXACT_def)
  have "canonical_host_path p = CHR ''/'' # join ''/'' [] \<longleftrightarrow> host_segs p = []"
    "canonical_host_path p = CHR ''/'' # join ''/'' [''var'', ''run'', ''docker.sock'']
      \<longleftrightarrow> host_segs p = [''var'', ''run'', ''docker.sock'']"
    "canonical_host_path p = CHR ''/'' # join ''/'' [''run'', ''docker.sock'']
      \<longleftrightarrow> host_segs p = [''run'', ''docker.sock'']"
    by (rule inj; simp add: clean_seg_def)+
  then show ?thesis unfolding e by simp
qed

text \<open>The host-path check of bind mounts is exact: a source is refused if and only if it is
  relative, is the root, or its lexical canonical form (after resolving dot, dot-dot and
  repeated slashes) lies at or below one of the protected trees, so no spelling of a path
  reaches a protected directory.\<close>

theorem host_source_denied_iff: "host_source_denied p \<longleftrightarrow> host_path_forbidden p"
proof -
  have "list_ex (\<lambda>q. canonical_host_path p = trim_end_matches (CHR ''/'') q
          \<or> prefix q (canonical_host_path p)) DENIED_HOST_PREFIXES
      \<longleftrightarrow> (\<exists>d \<in> set PROTECTED_TREES. prefix d (host_segs p))"
    unfolding protected_trees_prefixes list_ex_iff
    using denied_prefix_iff[of _ p] by (auto simp del: append.simps)
  then show ?thesis
    by (auto simp: host_source_denied_def host_path_forbidden_def socket_under_run Let_def
        PROTECTED_TREES_def)
qed

section \<open>Scanner names\<close>

definition uuid_shape :: "string \<Rightarrow> bool" where
  "uuid_shape s \<longleftrightarrow> length s = 36 \<and>
     (\<forall>i < 36. if i \<in> {8, 13, 18, 23} then s ! i = CHR ''-'' else is_lower_hex (s ! i))"

lemma dash_not_hex [simp]: "\<not> is_lower_hex (CHR ''-'')"
  by (simp add: byte_class_defs)

lemma scan_uuid_Some:
  "scan_uuid i dash s = Some dash' \<longleftrightarrow>
     (\<forall>j < length s. is_lower_hex (s ! j) \<or> (s ! j = CHR ''-'' \<and> i + j \<in> {8, 13, 18, 23}))
     \<and> dash' = rev (map ((+) i) (filter (\<lambda>j. s ! j = CHR ''-'') [0..<length s])) @ dash"
proof (induction s arbitrary: i dash)
  case Nil
  then show ?case by auto
next
  case (Cons b s)
  have up: "[0..<length (b # s)] = 0 # map Suc [0..<length s]"
    by (metis length_Cons list.size(4) map_Suc_upt plus_nat.add_0 upt_conv_Cons zero_less_Suc)
  have flt: "map ((+) i) (filter (\<lambda>j. (b # s) ! j = CHR ''-'') [0..<length (b # s)])
      = (if b = CHR ''-'' then [i] else [])
        @ map ((+) (Suc i)) (filter (\<lambda>j. s ! j = CHR ''-'') [0..<length s])"
    unfolding up by (simp add: filter_map comp_def)
  have all: "(\<forall>j < length (b # s). P ((b # s) ! j) (i + j))
      \<longleftrightarrow> P b i \<and> (\<forall>j < length s. P (s ! j) (Suc i + j))" for P
    by (auto simp: nth_Cons' less_Suc_eq_0_disj)
  show ?case
    unfolding flt all[of "\<lambda>c k. is_lower_hex c \<or> (c = CHR ''-'' \<and> k \<in> {8, 13, 18, 23})"]
    using Cons.IH[of "Suc i" dash] Cons.IH[of "Suc i" "i # dash"] by auto
qed

text \<open>Scanner names: the check accepts exactly \<open>firecrow-scan-\<close> followed by a lower-case
  UUID (36 bytes, dashes at 8, 13, 18 and 23, lower-case hex elsewhere), so no slash, dot or
  percent sign can widen the scope of a lifecycle operation.\<close>

theorem is_scanner_name_iff:
  "is_scanner_name name \<longleftrightarrow> (\<exists>u. name = SCAN_NAME_PREFIX @ u \<and> uuid_shape u)"
proof -
  have key: "(case scan_uuid 0 [] u of None \<Rightarrow> False
        | Some dash \<Rightarrow> 8 \<in> set dash \<and> 13 \<in> set dash \<and> 18 \<in> set dash \<and> 23 \<in> set dash)
      \<longleftrightarrow> uuid_shape u" if len: "length u = 36" for u
  proof -
    let ?ok = "\<forall>j < length u. is_lower_hex (u ! j) \<or> (u ! j = CHR ''-'' \<and> j \<in> {8, 13, 18, 23})"
    let ?dash = "rev (map ((+) 0) (filter (\<lambda>j. u ! j = CHR ''-'') [0..<length u])) @ []"
    have mem: "k \<in> set ?dash \<longleftrightarrow> k < 36 \<and> u ! k = CHR ''-''" for k using len by auto
    show ?thesis
    proof (cases "scan_uuid 0 [] u")
      case None
      then have "\<not> ?ok" using scan_uuid_Some[of 0 "[]" u ?dash] by auto
      moreover have "?ok" if shape: "uuid_shape u"
      proof (intro allI impI)
        fix j assume "j < length u"
        with shape have "if j \<in> {8, 13, 18, 23} then u ! j = CHR ''-'' else is_lower_hex (u ! j)"
          by (simp add: uuid_shape_def)
        then show "is_lower_hex (u ! j) \<or> (u ! j = CHR ''-'' \<and> j \<in> {8, 13, 18, 23})"
          by (simp split: if_splits)
      qed
      ultimately show ?thesis using None by auto
    next
      case (Some d)
      then have ok: ?ok and d: "d = ?dash" using scan_uuid_Some[of 0 "[]" u d] by auto
      have "(8 \<in> set d \<and> 13 \<in> set d \<and> 18 \<in> set d \<and> 23 \<in> set d)
          \<longleftrightarrow> (\<forall>k \<in> {8, 13, 18, 23}. u ! k = CHR ''-'')"
        unfolding d mem by simp
      also have "\<dots> \<longleftrightarrow> uuid_shape u"
        using ok len by (fastforce simp: uuid_shape_def)
      finally show ?thesis using Some by simp
    qed
  qed
  show ?thesis
  proof (cases "strip_prefix SCAN_NAME_PREFIX name")
    case None
    then have "\<not> prefix SCAN_NAME_PREFIX name" by (simp add: strip_prefix_None)
    then show ?thesis using None by (auto simp: is_scanner_name_def)
  next
    case (Some u)
    then have name: "name = SCAN_NAME_PREFIX @ u" by (simp add: strip_prefix_Some)
    have "is_scanner_name name \<longleftrightarrow> length u = 36 \<and> uuid_shape u"
      using key[of u] by (auto simp: is_scanner_name_def Some)
    then show ?thesis by (auto simp: name uuid_shape_def)
  qed
qed

section \<open>The canonical request path\<close>

text \<open>A clean relative path: non-empty segments, none of them a dot or dot-dot.\<close>

definition clean_rel :: "string \<Rightarrow> bool" where
  "clean_rel r \<longleftrightarrow> list_all clean_seg (split_on (CHR ''/'') r)"

definition version_seg :: "string \<Rightarrow> bool" where
  "version_seg v \<longleftrightarrow> (\<exists>ds. v = CHR ''v'' # ds \<and> ds \<noteq> []
     \<and> list_all (\<lambda>c. is_digit c \<or> c = CHR ''.'') ds)"

lemma clean_rel_join: "list_all clean_seg segs \<Longrightarrow> segs \<noteq> [] \<Longrightarrow> clean_rel (join ''/'' segs)"
  by (simp add: clean_rel_def split_on_join_clean)

lemma filter_clean:
  assumes "''.'' \<notin> set (split_on (CHR ''/'') raw)" "''..'' \<notin> set (split_on (CHR ''/'') raw)"
  shows "list_all clean_seg (filter (\<lambda>s. s \<noteq> []) (split_on (CHR ''/'') raw))"
  using assms split_on_parts[of _ "CHR ''/''" raw] by (auto simp: list_all_iff clean_seg_def)

text \<open>The canonical path: when the normalisation returns a non-empty path, it is absolute and
  every segment is non-empty and neither a dot nor a dot-dot, and it carries no query or
  fragment; anything else is the empty path, which no endpoint rule matches.\<close>

theorem normalize_path_clean:
  assumes "normalize_path uri = Some p" "p \<noteq> []"
  shows "\<exists>r. p = CHR ''/'' # r \<and> clean_rel r \<and> CHR ''?'' \<notin> set p \<and> CHR ''#'' \<notin> set p"
proof -
  let ?raw = "takeWhile (\<lambda>c. c \<noteq> CHR ''?'' \<and> c \<noteq> CHR ''#'') uri"
  let ?parts = "split_on (CHR ''/'') ?raw"
  let ?segs = "filter (\<lambda>s. s \<noteq> []) ?parts"
  let ?rest = "join ''/'' ?segs"
  have nd: "''.'' \<notin> set ?parts" "''..'' \<notin> set ?parts" "?segs \<noteq> []"
    and p: "p = CHR ''/'' # ?rest \<or> (\<exists>ver. split_once (CHR ''/'') ?rest = Some (ver, tl p)
              \<and> tl p \<noteq> [] \<and> hd p = CHR ''/'')"
    using assms by (auto simp: normalize_path_def Let_def split: if_splits option.splits)
  have cl: "list_all clean_seg ?segs" using nd by (intro filter_clean) auto
  have "c \<noteq> CHR ''?'' \<and> c \<noteq> CHR ''#''" if "c \<in> set s" "s \<in> set ?segs" for c s
    using that split_on_mem[of s "CHR ''/''" ?raw] by (auto dest!: set_takeWhileD)
  then have "c \<noteq> CHR ''?'' \<and> c \<noteq> CHR ''#''" if "c \<in> set (join ''/'' ss)" "set ss \<subseteq> set ?segs" for c ss
    using that by (induction "''/'' :: string" ss rule: join.induct) auto
  then have nq: "CHR ''?'' \<notin> set ?rest \<and> CHR ''#'' \<notin> set ?rest" by blast
  from p show ?thesis
  proof
    assume "p = CHR ''/'' # ?rest"
    then show ?thesis using nq clean_rel_join[OF cl nd(3)] by auto
  next
    assume "\<exists>ver. split_once (CHR ''/'') ?rest = Some (ver, tl p) \<and> tl p \<noteq> [] \<and> hd p = CHR ''/''"
    then obtain ver where sp: "?rest = ver @ CHR ''/'' # tl p" and tp: "tl p \<noteq> []" "hd p = CHR ''/''"
      by (auto simp: split_once_Some)
    have "split_on (CHR ''/'') ?rest = ?segs" using cl nd(3) by (rule split_on_join_clean)
    then have "?segs = split_on (CHR ''/'') ver @ split_on (CHR ''/'') (tl p)"
      unfolding sp by (simp add: split_on_app)
    then have "list_all clean_seg (split_on (CHR ''/'') ver @ split_on (CHR ''/'') (tl p))"
      using cl by (simp only:)
    then have "clean_rel (tl p)" by (simp add: clean_rel_def)
    moreover have "CHR ''?'' \<notin> set (tl p) \<and> CHR ''#'' \<notin> set (tl p)" using nq unfolding sp by simp
    moreover obtain r where r: "p = CHR ''/'' # r" using tp assms(2) by (cases p) auto
    ultimately show ?thesis by auto
  qed
qed

definition plain_rel :: "string \<Rightarrow> bool" where
  "plain_rel r \<longleftrightarrow> clean_rel r \<and> CHR ''?'' \<notin> set r \<and> CHR ''#'' \<notin> set r \<and> CHR ''%'' \<notin> set r"

lemma no_percent: "CHR ''%'' \<notin> set s \<Longrightarrow> p \<noteq> [] \<Longrightarrow> hd p = CHR ''%'' \<Longrightarrow> \<not> contains_str s p"
  by (cases p) (auto simp: contains_str_def sublist_def)

lemma normalize_plain:
  assumes "plain_rel r"
  shows "normalize_path (CHR ''/'' # r) =
     (case split_once (CHR ''/'') r of
        None \<Rightarrow> Some (CHR ''/'' # r)
      | Some (ver, tail) \<Rightarrow>
          (case slice_from ver 1 of
             None \<Rightarrow> None
           | Some digits \<Rightarrow>
               if tail \<noteq> [] \<and> prefix ''v'' ver \<and> digits \<noteq> []
                  \<and> list_all (\<lambda>c. is_digit c \<or> c = CHR ''.'') digits
               then Some (CHR ''/'' # tail) else Some (CHR ''/'' # r)))"
proof -
  let ?f = "\<lambda>c. c \<noteq> CHR ''?'' \<and> c \<noteq> CHR ''#''"
  have raw: "takeWhile ?f (CHR ''/'' # r) = CHR ''/'' # r"
    using assms by (auto simp: plain_rel_def takeWhile_eq_all_conv)
  have sp: "split_on (CHR ''/'') (CHR ''/'' # r) = [] # split_on (CHR ''/'') r" by simp
  have cl: "list_all clean_seg (split_on (CHR ''/'') r)"
    using assms by (simp add: plain_rel_def clean_rel_def)
  then have fl: "filter (\<lambda>s. s \<noteq> []) ([] # split_on (CHR ''/'') r) = split_on (CHR ''/'') r"
    by (auto simp: filter_id_conv clean_seg_def list_all_iff)
  have nd: "''.'' \<notin> set ([] # split_on (CHR ''/'') r)" "''..'' \<notin> set ([] # split_on (CHR ''/'') r)"
    using cl by (auto simp: clean_seg_def list_all_iff)
  have np: "CHR ''%'' \<notin> set (CHR ''/'' # r)" using assms by (simp add: plain_rel_def)
  show ?thesis
    unfolding normalize_path_def raw Let_def sp fl join_split_on
    using nd no_percent[OF np, of "''%2f''"] no_percent[OF np, of "''%2F''"] no_percent[OF np, of "''%00''"]
    by simp
qed

lemma version_seg_facts:
  assumes "version_seg v"
  shows "CHR ''/'' \<notin> set v" "clean_seg v" "CHR ''?'' \<notin> set v" "CHR ''#'' \<notin> set v" "CHR ''%'' \<notin> set v"
    "slice_from v 1 = Some (tl v)" "prefix ''v'' v" "tl v \<noteq> []"
    "list_all (\<lambda>c. is_digit c \<or> c = CHR ''.'') (tl v)"
proof -
  obtain d ds where v: "v = CHR ''v'' # d # ds"
    and all: "list_all (\<lambda>c. is_digit c \<or> c = CHR ''.'') (d # ds)"
    using assms by (auto simp: version_seg_def neq_Nil_conv)
  have "c \<notin> set (d # ds)" if "\<not> is_digit c" "c \<noteq> CHR ''.''" for c
    using all that by (auto simp: list_all_iff)
  then show "CHR ''/'' \<notin> set v" "clean_seg v" "CHR ''?'' \<notin> set v" "CHR ''#'' \<notin> set v"
    "CHR ''%'' \<notin> set v"
    unfolding v by (auto simp: clean_seg_def is_digit_def in_range_def)
  show "slice_from v 1 = Some (tl v)" "prefix ''v'' v" "tl v \<noteq> []"
    "list_all (\<lambda>c. is_digit c \<or> c = CHR ''.'') (tl v)"
    using all unfolding v
    by (auto simp: slice_from_def is_char_boundary_def is_digit_def is_cont_def in_range_def)
qed

text \<open>API versions are transparent: a path behind a version segment (\<open>/v1.45/...\<close>)
  normalises to the same path without it, so versioned and unversioned spellings of an
  endpoint meet the same rule of the matrix.\<close>

theorem normalize_path_version:
  assumes "version_seg v" "plain_rel r"
  shows "normalize_path (CHR ''/'' # v @ CHR ''/'' # r) = Some (CHR ''/'' # r)"
proof -
  note f = version_seg_facts[OF assms(1)]
  have ne: "r \<noteq> []" using assms(2) by (auto simp: plain_rel_def clean_rel_def clean_seg_def)
  have "split_on (CHR ''/'') (v @ CHR ''/'' # r) = v # split_on (CHR ''/'') r"
    using f(1) by (rule split_on_append)
  then have "plain_rel (v @ CHR ''/'' # r)"
    using f assms(2) by (simp add: plain_rel_def clean_rel_def)
  moreover have "split_once (CHR ''/'') (v @ CHR ''/'' # r) = Some (v, r)"
    using f(1) by (simp add: split_once_Some)
  ultimately show ?thesis using f ne by (simp add: normalize_plain)
qed

theorem normalize_path_version_witness:
  "normalize_path ''/v1.45/containers/create'' = Some ''/containers/create''"
proof -
  have "version_seg ''v1.45''" by (auto simp: version_seg_def is_digit_def in_range_def)
  moreover have "plain_rel ''containers/create''"
    by (simp add: plain_rel_def clean_rel_def clean_seg_def)
  ultimately show ?thesis
    using normalize_path_version[of "''v1.45''" "''containers/create''"] by simp
qed

theorem normalize_path_clean_witness:
  "normalize_path ''/v1.45//containers/x/start?t=5'' = Some ''/containers/x/start''
     \<and> (\<exists>r. ''/containers/x/start'' = CHR ''/'' # r \<and> clean_rel r
          \<and> CHR ''?'' \<notin> set ''/containers/x/start'' \<and> CHR ''#'' \<notin> set ''/containers/x/start'')"
proof -
  have n: "normalize_path ''/v1.45//containers/x/start?t=5'' = Some ''/containers/x/start''"
    by code_simp
  show ?thesis using n normalize_path_clean[OF n] by blast
qed

lemma slice_from_panic:
  "s \<noteq> [] \<Longrightarrow> slice_from s 1 = None \<longleftrightarrow> 1 < length s \<and> is_cont (s ! 1)"
  by (cases s rule: list.exhaust; cases "tl s") (auto simp: slice_from_def is_char_boundary_def)

lemma normalize_path_ascii: "list_all is_ascii uri \<Longrightarrow> normalize_path uri \<noteq> None"
proof
  assume a: "list_all is_ascii uri" and n: "normalize_path uri = None"
  let ?raw = "takeWhile (\<lambda>c. c \<noteq> CHR ''?'' \<and> c \<noteq> CHR ''#'') uri"
  let ?segs = "filter (\<lambda>s. s \<noteq> []) (split_on (CHR ''/'') ?raw)"
  from n obtain ver tail where sp: "join ''/'' ?segs = ver @ CHR ''/'' # tail"
    and sl: "slice_from ver 1 = None" and vs: "CHR ''/'' \<notin> set ver" and ne: "?segs \<noteq> []"
    and nd: "''.'' \<notin> set (split_on (CHR ''/'') ?raw)" "''..'' \<notin> set (split_on (CHR ''/'') ?raw)"
    by (auto simp: normalize_path_def Let_def split_once_Some split: if_splits option.splits)
  have "list_all clean_seg ?segs" using nd by (rule filter_clean)
  then have "?segs = split_on (CHR ''/'') (join ''/'' ?segs)"
    using ne by (rule split_on_join_clean[symmetric])
  also have "\<dots> = ver # split_on (CHR ''/'') tail"
    unfolding sp using vs by (rule split_on_append)
  finally have v: "ver \<in> set ?segs" by simp
  then have "ver \<noteq> []" and sub: "set ver \<subseteq> set uri"
    using split_on_mem[of ver "CHR ''/''" ?raw] by (auto dest!: set_takeWhileD)
  with sl have c: "is_cont (ver ! 1) \<and> 1 < length ver"
    using slice_from_panic[of ver] by blast
  then have "ver ! 1 \<in> set uri" using sub nth_mem[of 1 ver] by blast
  with c have "is_cont (ver ! 1)" "ver ! 1 \<in> set uri" by simp_all
  with a show False by (auto simp: list_all_iff byte_class_defs)
qed

end
