(* ===== verification/Sandbox.thy ===== *)
theory Sandbox
  imports App_Error Authz_Wire
begin

text \<open>
  The hardened sandbox (\<open>backend/src/services/sandbox.rs\<close>): the specification of a run, its
  validation, the execution policy, the argument vector handed to the Docker client, the bounded
  readers and the supervision of the running process.  Doubles are their 64 bits; other integers
  are only compared and printed, so they are natural numbers.  \<open>formats\<close> holds what the standard
  library prints for a double and for a quoted string.
\<close>

section \<open>Constants\<close>

definition SANDBOX_UID :: string where "SANDBOX_UID = ''65534:65534''"
definition SCAN_MOUNT :: string where "SCAN_MOUNT = ''/scan''"
definition WORK_DIR :: string where "WORK_DIR = ''/work''"
definition WORK_TMPFS_SIZE :: string where "WORK_TMPFS_SIZE = ''64m''"
definition EXTRA_TMPFS_SIZE :: string where "EXTRA_TMPFS_SIZE = ''32m''"
definition MAX_STDOUT_BYTES :: int where "MAX_STDOUT_BYTES = 16 * 1024 * 1024"
definition MAX_STDERR_BYTES :: int where "MAX_STDERR_BYTES = 1024 * 1024"
definition MAX_TIMEOUT_SECS :: nat where "MAX_TIMEOUT_SECS = 3600"
definition CONFIG_MOUNT :: string where "CONFIG_MOUNT = ''/config''"

definition ALLOWED_CONTAINER_PATHS :: "string list" where
  "ALLOWED_CONTAINER_PATHS = [SCAN_MOUNT, CONFIG_MOUNT]"

record formats =
  show_f64 :: "64 word \<Rightarrow> string"
  debug_str :: "string \<Rightarrow> string"

section \<open>Specifications\<close>

record sandbox_mount =
  sm_host :: string
  sm_container :: string
  sm_read_only :: bool

definition as_docker_spec :: "sandbox_mount \<Rightarrow> string" where
  "as_docker_spec m =
     sm_host m @ '':'' @ sm_container m @ (if sm_read_only m then '':ro'' else [])"

record sandbox_output =
  so_stdout :: string
  so_stderr :: string
  so_success :: bool

record resource_limits =
  rl_cpus :: "64 word"
  rl_memory :: string
  rl_pids :: nat

definition default_limits :: resource_limits where
  "default_limits = \<lparr>rl_cpus = 0x3FF0000000000000, rl_memory = ''512m'', rl_pids = 256\<rparr>"

definition as_docker_args :: "formats \<Rightarrow> resource_limits \<Rightarrow> string list" where
  "as_docker_args F l =
     [''--cpus='' @ show_f64 F (rl_cpus l), ''-m='' @ rl_memory l,
      ''--memory-swap='' @ rl_memory l, ''--pids-limit='' @ nat_str (rl_pids l)]"

text \<open>\<open>is_finite\<close>, \<open>> 0.0\<close> and \<open><= 8.0\<close> on the bits: a positive double is ordered as its bits.\<close>

definition f64_finite :: "64 word \<Rightarrow> bool" where
  "f64_finite w \<longleftrightarrow> uint w div 2 ^ 52 mod 2 ^ 11 \<noteq> 2 ^ 11 - 1"
definition f64_positive :: "64 word \<Rightarrow> bool" where
  "f64_positive w \<longleftrightarrow> 0 < uint w \<and> uint w < 2 ^ 63"
definition f64_at_most_8 :: "64 word \<Rightarrow> bool" where
  "f64_at_most_8 w \<longleftrightarrow> 2 ^ 63 \<le> uint w \<or> uint w \<le> 0x4020000000000000"

definition valid_memory :: "string \<Rightarrow> bool" where
  "valid_memory memory =
     (if memory \<noteq> [] \<and> last memory \<in> set ''mMgGkK'' then
        (case parse_uint (2 ^ 64) (butlast memory) of Some n \<Rightarrow> n > 0 | None \<Rightarrow> False)
      else False)"

definition validate_limits :: "formats \<Rightarrow> resource_limits \<Rightarrow> app_error + unit" where
  "validate_limits F l =
     (if \<not> (f64_finite (rl_cpus l) \<and> f64_positive (rl_cpus l) \<and> f64_at_most_8 (rl_cpus l))
      then Inl (BadRequest (''sandbox cpus must be in (0, 8], got '' @ show_f64 F (rl_cpus l)))
      else if \<not> valid_memory (rl_memory l)
      then Inl (BadRequest (''sandbox memory '' @ debug_str F (rl_memory l)
        @ '' must look like \"512m\" or \"2g\"''))
      else if rl_pids l = 0 \<or> rl_pids l > 2048
      then Inl (BadRequest (''sandbox pids_limit must be in 1..=2048, got '' @ nat_str (rl_pids l)))
      else Inr ())"

datatype network_mode = NetNone | Bridge | Filtered

fun as_docker_arg :: "network_mode \<Rightarrow> string" where
  "as_docker_arg NetNone = ''--network=none''"
| "as_docker_arg Bridge = ''--network=bridge''"
| "as_docker_arg Filtered = ''--network=scanners-internal''"

fun network_str :: "network_mode \<Rightarrow> string" where
  "network_str NetNone = ''none''"
| "network_str Bridge = ''bridge''"
| "network_str Filtered = ''filtered''"

definition is_excepted :: "network_mode \<Rightarrow> bool" where
  "is_excepted n \<longleftrightarrow> n = Filtered"

record sandbox_spec =
  sp_image :: string
  sp_entrypoint :: "string option"
  sp_network :: network_mode
  sp_command :: "string list"
  sp_mounts :: "sandbox_mount list"
  sp_extra_tmpfs :: "string list"
  sp_env :: "(string \<times> string) list"
  sp_timeout :: nat
  sp_limits :: resource_limits
  sp_max_stdout :: int
  sp_max_stderr :: int

definition new_spec ::
  "string \<Rightarrow> string list \<Rightarrow> sandbox_mount list \<Rightarrow> nat \<Rightarrow> resource_limits \<Rightarrow> sandbox_spec" where
  "new_spec img command mounts timeout limits =
     \<lparr>sp_image = img, sp_entrypoint = None, sp_network = NetNone, sp_command = command,
      sp_mounts = mounts, sp_extra_tmpfs = [], sp_env = [], sp_timeout = timeout,
      sp_limits = limits, sp_max_stdout = MAX_STDOUT_BYTES, sp_max_stderr = MAX_STDERR_BYTES\<rparr>"

definition with_extra_tmpfs :: "string list \<Rightarrow> sandbox_spec \<Rightarrow> sandbox_spec" where
  "with_extra_tmpfs paths spec =
     spec\<lparr>sp_extra_tmpfs := fold (\<lambda>p ps. if p \<noteq> WORK_DIR \<and> p \<notin> set ps then ps @ [p] else ps)
       paths (sp_extra_tmpfs spec)\<rparr>"

definition with_env :: "(string \<times> string) list \<Rightarrow> sandbox_spec \<Rightarrow> sandbox_spec" where
  "with_env vars spec =
     spec\<lparr>sp_env := fold (\<lambda>(n, v) e. if n \<notin> fst ` set e then e @ [(n, v)] else e) vars (sp_env spec)\<rparr>"

definition with_entrypoint :: "string option \<Rightarrow> sandbox_spec \<Rightarrow> sandbox_spec" where
  "with_entrypoint e spec = spec\<lparr>sp_entrypoint := e\<rparr>"

definition with_network :: "network_mode \<Rightarrow> sandbox_spec \<Rightarrow> sandbox_spec" where
  "with_network n spec = spec\<lparr>sp_network := n\<rparr>"

definition with_output_caps :: "int \<Rightarrow> int \<Rightarrow> sandbox_spec \<Rightarrow> sandbox_spec" where
  "with_output_caps out err spec = spec\<lparr>sp_max_stdout := out, sp_max_stderr := err\<rparr>"

section \<open>Validation\<close>

definition validate_mount :: "sandbox_mount \<Rightarrow> app_error + unit" where
  "validate_mount m =
     (if blank (sm_host m) \<or> blank (sm_container m)
      then Inl (BadRequest ''sandbox mount needs a host and a container path'')
      else if \<not> prefix ''/'' (sm_container m)
      then Inl (BadRequest (''sandbox container path '' @ sm_container m @ '' must be absolute''))
      else if sm_container m \<notin> set ALLOWED_CONTAINER_PATHS
      then Inl (BadRequest (''sandbox container path must be one of [\"/scan\", \"/config\"], got ''
        @ sm_container m))
      else if \<not> sm_read_only m
      then Inl (BadRequest (''sandbox mount at '' @ sm_container m @ '' must be read-only''))
      else if \<exists>c \<in> set (sm_host m). c \<in> {CHR '':'', CHR 0x0A, CHR 0x0D, CHR 0x00}
      then Inl (BadRequest ''sandbox host path contains an invalid character'')
      else Inr ())"

definition split_image_ref :: "string \<Rightarrow> string \<times> string option" where
  "split_image_ref im =
     (case rsplit_once (CHR ''@'') im of
        Some (n, d) \<Rightarrow> (n, Some d)
      | None \<Rightarrow>
          (let (dir, base) = (case rsplit_once (CHR ''/'') im of
                                Some (d, b) \<Rightarrow> (d @ ''/'', b) | None \<Rightarrow> ([], im))
           in case rsplit_once (CHR '':'') base of
                Some (n, t) \<Rightarrow> (dir @ n, Some t)
              | None \<Rightarrow> (im, None)))"

definition validate_pinned_image :: "formats \<Rightarrow> string \<Rightarrow> app_error + unit" where
  "validate_pinned_image F raw =
     (let img = trim raw in
      if img = [] then Inl (BadRequest ''scanner image must be explicitly configured'')
      else if prefix ''-'' img \<or> has_whitespace img \<or> has_control img
      then Inl (BadRequest (''scanner image '' @ debug_str F img @ '' is not a valid pinned reference''))
      else
        (case split_image_ref img of
           (name, ref) \<Rightarrow>
             if name = [] then Inl (BadRequest (''scanner image '' @ debug_str F img @ '' has no image name''))
             else
               (case ref of
                  None \<Rightarrow> Inl (BadRequest (''scanner image '' @ debug_str F img
                    @ '' is not pinned: name it with an explicit version tag or digest''))
                | Some digest \<Rightarrow>
                    (case strip_prefix ''sha256:'' digest of
                       Some hex \<Rightarrow>
                         if length hex = 64 \<and> list_all is_hexdigit hex then Inr ()
                         else Inl (BadRequest (''scanner image '' @ debug_str F img @ '' has a malformed digest''))
                     | None \<Rightarrow>
                         if digest = [] then Inl (BadRequest (''scanner image '' @ debug_str F img
                           @ '' has an empty version tag''))
                         else if digest = ''latest'' then Inl (BadRequest (''scanner image '' @ debug_str F img
                           @ '' must not use :latest'' @ [CHR '' '', CHR 0xE2, CHR 0x80, CHR 0x94]
                           @ '' pin an explicit version or digest so results stay reproducible''))
                         else Inr ()))))"

definition validate_tmpfs_path :: "formats \<Rightarrow> string \<Rightarrow> app_error + unit" where
  "validate_tmpfs_path F path =
     (if \<not> prefix ''/'' path \<or> length path < 2
      then Inl (BadRequest (''sandbox scratch path '' @ debug_str F path @ '' must be an absolute path''))
      else if has_whitespace path \<or> has_control path \<or> (\<exists>c \<in> set path. c \<in> set '':,='')
      then Inl (BadRequest (''sandbox scratch path '' @ debug_str F path @ '' contains an invalid character''))
      else if path = SCAN_MOUNT
      then Inl (BadRequest (''sandbox scratch path must not shadow '' @ SCAN_MOUNT))
      else Inr ())"

definition validate_env :: "formats \<Rightarrow> string \<times> string \<Rightarrow> app_error + unit" where
  "validate_env F = (\<lambda>(name, v).
     if \<not> (name \<noteq> [] \<and> list_all (\<lambda>c. is_alphanumeric c \<or> c = CHR ''_'') name \<and> \<not> is_digit (hd name))
     then Inl (BadRequest (''sandbox env name '' @ debug_str F name @ '' is not a valid identifier''))
     else if \<exists>c \<in> set v. c \<in> {CHR 0x0A, CHR 0x0D, CHR 0x00}
     then Inl (BadRequest (''sandbox env value for '' @ debug_str F name @ '' contains a control character''))
     else Inr ())"

definition validate_entrypoint :: "formats \<Rightarrow> string option \<Rightarrow> app_error + unit" where
  "validate_entrypoint F e =
     (case e of
        None \<Rightarrow> Inr ()
      | Some s \<Rightarrow>
          if blank s \<or> prefix ''-'' s \<or> has_whitespace s \<or> has_control s
          then Inl (BadRequest (''sandbox entrypoint '' @ debug_str F s @ '' is not a valid binary''))
          else Inr ())"

definition validate_spec :: "formats \<Rightarrow> sandbox_spec \<Rightarrow> app_error + unit" where
  "validate_spec F spec =
     and_then (validate_pinned_image F (sp_image spec)) (\<lambda>_.
     and_then (validate_limits F (sp_limits spec)) (\<lambda>_.
       if sp_timeout spec = 0 \<or> sp_timeout spec > MAX_TIMEOUT_SECS
       then Inl (BadRequest (''sandbox timeout must be in 1..='' @ nat_str MAX_TIMEOUT_SECS
         @ ''s, got '' @ nat_str (sp_timeout spec)))
       else if sp_command spec = [] then Inl (BadRequest ''sandbox command must not be empty'')
       else
         and_then (validate_entrypoint F (sp_entrypoint spec)) (\<lambda>_.
         and_then (for_all_ok validate_mount (sp_mounts spec)) (\<lambda>_.
         and_then (for_all_ok (validate_tmpfs_path F) (sp_extra_tmpfs spec)) (\<lambda>_.
           for_all_ok (validate_env F) (sp_env spec))))))"

section \<open>The argument vector\<close>

definition docker_argv :: "formats \<Rightarrow> sandbox_spec \<Rightarrow> string \<Rightarrow> string list" where
  "docker_argv F spec name =
     [''run'', ''--rm'', ''--name'', name, ''--init'', as_docker_arg (sp_network spec), ''--read-only'',
      ''--cap-drop=ALL'', ''--security-opt=no-new-privileges'', ''--user='' @ SANDBOX_UID]
     @ (case sp_entrypoint spec of Some e \<Rightarrow> [''--entrypoint='' @ e] | None \<Rightarrow> [])
     @ as_docker_args F (sp_limits spec)
     @ [''--tmpfs'', WORK_DIR @ '':rw,noexec,nosuid,nodev,size='' @ WORK_TMPFS_SIZE]
     @ concat (map (\<lambda>p. [''--tmpfs'', p @ '':rw,noexec,nosuid,nodev,size='' @ EXTRA_TMPFS_SIZE])
         (sp_extra_tmpfs spec))
     @ concat (map (\<lambda>m. [''-v'', as_docker_spec m]) (sp_mounts spec))
     @ concat (map (\<lambda>(n, v). [''-e'', n @ ''='' @ v]) (sp_env spec))
     @ [sp_image spec] @ sp_command spec"

section \<open>The execution policy\<close>

definition APPROVED_SCANNER_EXECUTIONS :: "(string \<times> network_mode) list" where
  "APPROVED_SCANNER_EXECUTIONS =
     [(''ghcr.io/gitleaks/gitleaks:v8.18.4'', NetNone),
      (''ghcr.io/google/osv-scanner:v2.2.4'', Filtered),
      (''semgrep/semgrep:1.96.0'', NetNone)]"

definition canonical_source_path :: "string \<Rightarrow> string" where
  "canonical_source_path path =
     CHR ''/'' # join ''/'' (fold (\<lambda>part parts.
       if part = [] \<or> part = ''.'' then parts
       else if part = ''..'' then butlast parts else parts @ [part]) (split_on (CHR ''/'') path) [])"

definition SENSITIVE_EXACT :: "string list" where
  "SENSITIVE_EXACT = [''/'', ''/var/run/docker.sock'']"

definition SENSITIVE_PREFIXES :: "string list" where
  "SENSITIVE_PREFIXES =
     [''/proc/'', ''/sys/'', ''/dev/'', ''/etc/'', ''/root/'', ''/var/run/'', ''/run/'']"

definition reject_sensitive_host_path :: "formats \<Rightarrow> string \<Rightarrow> app_error + unit" where
  "reject_sensitive_host_path F path =
     (if \<not> prefix ''/'' path then Inl (BadRequest ''sandbox host path must be absolute'')
      else
        (let cleaned = canonical_source_path path in
         if cleaned \<in> set SENSITIVE_EXACT \<or>
            list_ex (\<lambda>p. prefix p cleaned \<or> cleaned = trim_end_matches (CHR ''/'') p) SENSITIVE_PREFIXES
         then Inl (BadRequest (''sandbox host path '' @ debug_str F path
           @ '' is not an observable scanner input''))
         else Inr ()))"

definition REQUIRED_FLAGS :: "string list" where
  "REQUIRED_FLAGS =
     [''run'', ''--rm'', ''--init'', ''--read-only'', ''--cap-drop=ALL'',
      ''--security-opt=no-new-privileges'', ''--user=65534:65534'']"

definition forbidden_arg :: "string \<Rightarrow> bool" where
  "forbidden_arg a \<longleftrightarrow>
     a = ''--privileged'' \<or> prefix ''--pid='' a \<or> a = ''--network=host'' \<or> prefix ''--uts='' a
     \<or> prefix ''--ipc='' a \<or> prefix ''--cap-add'' a \<or> a = ''--device'' \<or> prefix ''--device='' a
     \<or> a = ''--volumes-from'' \<or> a = ''exec'' \<or> contains_str a ''docker.sock''"

definition assert_hardened_argv :: "formats \<Rightarrow> string list \<Rightarrow> network_mode \<Rightarrow> app_error + unit" where
  "assert_hardened_argv F argv network =
     and_then (for_all_ok (\<lambda>flag.
         if flag \<notin> set argv then Inl (Internal (''sandbox argv lost required flag '' @ flag)) else Inr ())
         REQUIRED_FLAGS) (\<lambda>_.
       if as_docker_arg network \<notin> set argv
       then Inl (Internal ''sandbox argv lost its declared network mode'')
       else if argv = [] \<or> hd argv \<noteq> ''run''
       then Inl (Internal ''sandbox argv must be a `run` invocation'')
       else for_all_ok (\<lambda>a.
         if forbidden_arg a
         then Inl (Internal (''sandbox argv contains a forbidden Docker capability: '' @ debug_str F a))
         else Inr ()) argv)"

definition enforce_execution_policy :: "formats \<Rightarrow> sandbox_spec \<Rightarrow> app_error + unit" where
  "enforce_execution_policy F spec =
     (if (sp_image spec, sp_network spec) \<notin> set APPROVED_SCANNER_EXECUTIONS
      then Inl (BadRequest (''sandbox execution is not an approved scanner run: ''
        @ debug_str F (sp_image spec) @ '' ('' @ network_str (sp_network spec) @ '')''))
      else if (case sp_entrypoint spec of Some e \<Rightarrow> e \<noteq> ''sh'' | None \<Rightarrow> False)
      then Inl (BadRequest (''sandbox entrypoint '' @ debug_str F (the (sp_entrypoint spec))
        @ '' is not an approved scanner entrypoint''))
      else
        and_then (for_all_ok (\<lambda>m. reject_sensitive_host_path F (sm_host m)) (sp_mounts spec)) (\<lambda>_.
          assert_hardened_argv F (docker_argv F spec ''firecrow-policy-check'') (sp_network spec)))"

section \<open>The Docker client\<close>

definition validated_docker_host :: "string \<Rightarrow> string option" where
  "validated_docker_host raw =
     (if \<not> from_utf8_ok raw then None
      else
        Option.bind (strip_prefix ''tcp://'' raw) (\<lambda>rest.
        Option.bind (rsplit_once (CHR '':'') rest) (\<lambda>(host, port).
          if host = [] \<or> hd host \<in> set ''.-''
             \<or> \<not> list_all (\<lambda>c. is_alphanumeric c \<or> c = CHR ''.'' \<or> c = CHR ''-'') host
          then None
          else
            Option.bind (parse_uint (2 ^ 16) port) (\<lambda>p.
              if p = 0 then None else Some (''tcp://'' @ host @ '':'' @ nat_str p)))))"

fun version_nums :: "nat \<Rightarrow> string list \<Rightarrow> nat list option" where
  "version_nums 0 parts = Some []"
| "version_nums (Suc k) [] = Some []"
| "version_nums (Suc k) (part # parts) =
     (let digits = takeWhile is_digit part in
      if digits = [] then None
      else Option.bind (parse_uint (2 ^ 32) digits) (\<lambda>n.
        map_option ((#) n) (version_nums k parts)))"

definition parse_docker_cli_version :: "string \<Rightarrow> (nat \<times> nat \<times> nat) option" where
  "parse_docker_cli_version stdout =
     Option.bind (List.find (\<lambda>p. p \<noteq> [] \<and> is_digit (hd p)) (split_whitespace stdout)) (\<lambda>token.
     Option.bind (version_nums 3 (split_on (CHR ''.'') token)) (\<lambda>nums.
       case nums of [a, b, c] \<Rightarrow> Some (a, b, c) | _ \<Rightarrow> None))"

text \<open>What \<open>docker --version\<close> did: it could not be started, or it ran, with its exit status and
  its output.\<close>

datatype cli_probe = CliMissing string | CliRan bool string

definition older :: "nat \<times> nat \<times> nat \<Rightarrow> nat \<times> nat \<times> nat \<Rightarrow> bool" where
  "older = (\<lambda>(a, b, c) (x, y, z). a < x \<or> a = x \<and> (b < y \<or> b = y \<and> c < z))"

definition validate_docker_cli_version :: "cli_probe \<Rightarrow> app_error + unit" where
  "validate_docker_cli_version probe =
     (case probe of
        CliMissing e \<Rightarrow> Inl (Internal (''docker CLI not found: '' @ e))
      | CliRan success stdout \<Rightarrow>
          if \<not> success then Inl (Internal ''docker --version exited non-zero'')
          else
            and_then (ok_or (Internal ''could not parse docker version'')
                (parse_docker_cli_version (from_utf8_lossy stdout))) (\<lambda>v.
              if older v (24, 0, 0)
              then (case v of (a, b, c) \<Rightarrow>
                Inl (Internal (''docker CLI version '' @ nat_str a @ ''.'' @ nat_str b @ ''.'' @ nat_str c
                  @ '' is too old; minimum required is 24.0.0 for daemon API compatibility (F-G2-05)'')))
              else Inr ()))"

section \<open>Reading the output\<close>

text \<open>A reader delivers chunks, or an error; the empty chunk is the end of the stream, as is the
  end of the list.\<close>

fun read_capped :: "int \<Rightarrow> string \<Rightarrow> string \<Rightarrow> (string + string) list \<Rightarrow> app_error + string" where
  "read_capped cap stream out [] = Inr out"
| "read_capped cap stream out (Inl e # chunks) =
     Inl (Internal (''failed to read sandbox '' @ stream @ '': '' @ e))"
| "read_capped cap stream out (Inr chunk # chunks) =
     (if chunk = [] then Inr out
      else if int (length out + length chunk) > cap then Inl (OutputLimitExceeded stream (nat cap))
      else read_capped cap stream (out @ chunk) chunks)"

section \<open>Supervising the process\<close>

datatype run_stop = Finished bool | OutputExceeded app_error | StopTimeout | StopCancelled

text \<open>What the select of the loop can observe: the process exited (with its success) or could not be
  waited for, a reader is done, the deadline has passed, the poll ticked.\<close>

datatype run_event =
    Exited bool
  | WaitFailed string
  | StdoutDone "app_error + string"
  | StderrDone "app_error + string"
  | DeadlinePassed
  | PollTick

record supervision =
  sv_status :: "bool option"
  sv_out :: "string option"
  sv_out_err :: "app_error option"
  sv_err :: "string option"
  sv_err_err :: "app_error option"

definition fresh_supervision :: supervision where
  "fresh_supervision = \<lparr>sv_status = None, sv_out = None, sv_out_err = None, sv_err = None, sv_err_err = None\<rparr>"

definition out_settled :: "supervision \<Rightarrow> bool" where
  "out_settled v \<longleftrightarrow> sv_out v \<noteq> None \<or> sv_out_err v \<noteq> None"
definition err_settled :: "supervision \<Rightarrow> bool" where
  "err_settled v \<longleftrightarrow> sv_err v \<noteq> None \<or> sv_err_err v \<noteq> None"

text \<open>The tests at the head of the loop.\<close>

definition loop_head :: "supervision \<Rightarrow> run_stop option" where
  "loop_head v =
     (case sv_status v of
        Some status \<Rightarrow>
          if out_settled v \<and> err_settled v then Some (Finished status)
          else (case sv_out_err v of Some e \<Rightarrow> Some (OutputExceeded e)
                | None \<Rightarrow> map_option OutputExceeded (sv_err_err v))
      | None \<Rightarrow> (case sv_out_err v of Some e \<Rightarrow> Some (OutputExceeded e)
                | None \<Rightarrow> map_option OutputExceeded (sv_err_err v)))"

text \<open>One pass of the loop on the next event.  A branch whose guard is false is disabled, so its
  event is not observed; the guard of the poll is the cancel flag as it was when the pass began.
  Otherwise the result is the next state, a reason to stop, or the error that leaves the function.\<close>

datatype pass = Disabled | Continue supervision | Stopped run_stop | Left app_error

definition loop_pass :: "bool \<Rightarrow> supervision \<Rightarrow> run_event \<Rightarrow> pass" where
  "loop_pass cancel v ev =
     (case ev of
        Exited status \<Rightarrow>
          if sv_status v = None then Continue (v\<lparr>sv_status := Some status\<rparr>) else Disabled
      | WaitFailed e \<Rightarrow>
          if sv_status v = None then Left (Internal (''Failed waiting on sandbox: '' @ e)) else Disabled
      | StdoutDone r \<Rightarrow>
          if out_settled v then Disabled
          else (case r of Inr bytes \<Rightarrow> Continue (v\<lparr>sv_out := Some bytes\<rparr>)
                | Inl e \<Rightarrow> Continue (v\<lparr>sv_out_err := Some e\<rparr>))
      | StderrDone r \<Rightarrow>
          if err_settled v then Disabled
          else (case r of Inr bytes \<Rightarrow> Continue (v\<lparr>sv_err := Some bytes\<rparr>)
                | Inl e \<Rightarrow> Continue (v\<lparr>sv_err_err := Some e\<rparr>))
      | DeadlinePassed \<Rightarrow> Stopped StopTimeout
      | PollTick \<Rightarrow> if cancel then Stopped StopCancelled else Disabled)"

text \<open>The loop; \<open>None\<close> when it still waits after the given events.  \<open>cancel i\<close> is what the \<open>i\<close>-th call
  of the cancel closure returns; it is called once as a pass begins.\<close>

datatype supervised = Verdict run_stop supervision | Abandoned app_error

fun run_loop :: "(nat \<Rightarrow> bool) \<Rightarrow> nat \<Rightarrow> supervision \<Rightarrow> run_event list \<Rightarrow> supervised option" where
  "run_loop cancel i v evs =
     (case loop_head v of
        Some stop \<Rightarrow> Some (Verdict stop v)
      | None \<Rightarrow>
          (case evs of
             [] \<Rightarrow> None
           | ev # evs' \<Rightarrow>
               (case loop_pass (cancel i) v ev of
                  Disabled \<Rightarrow> run_loop cancel i v evs'
                | Continue v' \<Rightarrow> run_loop cancel (Suc i) v' evs'
                | Stopped stop \<Rightarrow> Some (Verdict stop v)
                | Left e \<Rightarrow> Some (Abandoned e))))"

declare run_loop.simps [simp del]

section \<open>A run\<close>

text \<open>The effects on the host: a client process with its environment and arguments is spawned,
  killed, reaped, and the container is removed by name.\<close>

datatype host_effect =
    Spawn "(string \<times> string) list" "string list"
  | Kill
  | Reap
  | ForceRemove "(string \<times> string) list" string

definition tls_env :: "string \<Rightarrow> (string \<times> string) list" where
  "tls_env host = [(''DOCKER_HOST'', host), (''DOCKER_TLS_VERIFY'', ''1''),
     (''DOCKER_CERT_PATH'', ''/etc/firecrow/docker-tls'')]"

definition client_env :: "string option \<Rightarrow> (string \<times> string) list" where
  "client_env docker_host =
     (case Option.bind docker_host validated_docker_host of Some h \<Rightarrow> tls_env h | None \<Rightarrow> [])"

text \<open>\<open>terminate\<close> restores the variable as it is, when it is UTF-8.\<close>

definition terminate_run :: "string option \<Rightarrow> string \<Rightarrow> host_effect list" where
  "terminate_run docker_host name =
     [Kill, Reap, ForceRemove
        (case docker_host of Some h \<Rightarrow> if from_utf8_ok h then tls_env h else [] | None \<Rightarrow> []) name]"

text \<open>\<open>host\<close>: the variable \<open>DOCKER_HOST\<close>, what the version probe did, whether the client could be
  spawned and its pipes taken, the events of the loop and the answers of the cancel closure.\<close>

record host =
  ho_docker_host :: "string option"
  ho_probe :: cli_probe
  ho_spawn_error :: "string option"
  ho_pipes :: bool
  ho_events :: "run_event list"
  ho_cancel :: "nat \<Rightarrow> bool"

definition stop_error :: "nat \<Rightarrow> run_stop \<Rightarrow> app_error" where
  "stop_error timeout stop =
     (case stop of
        OutputExceeded e \<Rightarrow> e
      | StopTimeout \<Rightarrow> TimedOutError (''Sandbox execution timed out after '' @ nat_str timeout @ ''s'')
      | StopCancelled \<Rightarrow> Cancelled ''scan cancelled by operator''
      | Finished _ \<Rightarrow> Internal [])"

definition finish_output :: "bool \<Rightarrow> supervision \<Rightarrow> sandbox_output" where
  "finish_output status v =
     \<lparr>so_stdout = from_utf8_lossy (case sv_out v of Some s \<Rightarrow> s | None \<Rightarrow> []),
      so_stderr = from_utf8_lossy (case sv_err v of Some s \<Rightarrow> s | None \<Rightarrow> []), so_success = status\<rparr>"

definition run_spawned ::
  "host \<Rightarrow> sandbox_spec \<Rightarrow> string \<Rightarrow> (host_effect list \<times> (app_error + sandbox_output)) option" where
  "run_spawned h spec name =
     (if \<not> ho_pipes h
      then Some (terminate_run (ho_docker_host h) name,
                 Inl (Internal ''Failed to capture sandbox output pipes''))
      else
        (case run_loop (ho_cancel h) 0 fresh_supervision (ho_events h) of
           None \<Rightarrow> None
         | Some (Abandoned e) \<Rightarrow> Some ([Kill], Inl e)
         | Some (Verdict (Finished status) v) \<Rightarrow> Some ([], Inr (finish_output status v))
         | Some (Verdict stop v) \<Rightarrow>
             Some (terminate_run (ho_docker_host h) name, Inl (stop_error (sp_timeout spec) stop))))"

text \<open>\<open>SandboxManager::run\<close> in a container; \<open>uuid\<close> is the fresh identifier of the name.\<close>

definition container_name :: "string \<Rightarrow> string" where
  "container_name uuid = ''firecrow-scan-'' @ uuid"

definition sandbox_run ::
  "formats \<Rightarrow> host \<Rightarrow> string \<Rightarrow> sandbox_spec
     \<Rightarrow> (host_effect list \<times> (app_error + sandbox_output)) option" where
  "sandbox_run F h uuid spec =
     (case and_then (validate_spec F spec) (\<lambda>_. enforce_execution_policy F spec) of
        Inl e \<Rightarrow> Some ([], Inl e)
      | Inr _ \<Rightarrow>
          (case validate_docker_cli_version (ho_probe h) of
             Inl e \<Rightarrow> Some ([], Inl e)
           | Inr _ \<Rightarrow>
               (case ho_spawn_error h of
                  Some e \<Rightarrow> Some ([], Inl (Internal (''Failed to execute sandbox: '' @ e)))
                | None \<Rightarrow>
                    map_option (\<lambda>(es, r).
                        (Spawn (client_env (ho_docker_host h))
                           (docker_argv F spec (container_name uuid)) # es, r))
                      (run_spawned h spec (container_name uuid)))))"

datatype execution_mode = Container | Native

definition resolve_mode :: "string option \<Rightarrow> execution_mode" where
  "resolve_mode setting =
     (case setting of Some v \<Rightarrow> if trim v = ''native'' then Native else Container | None \<Rightarrow> Container)"

end
