(* ===== verification/Sandbox_Props.thy ===== *)
theory Sandbox_Props
  imports Sandbox
begin

text \<open>
  Properties of the sandbox: which host paths may be mounted, when the execution policy accepts a
  specification, what a spawned run looks like, how a run ends, and that the authorization plugin
  of the Docker daemon agrees with the policy where both decide.
\<close>

section \<open>Host paths\<close>

lemma canonical_source_eq: "canonical_source_path p = canonical_host_path p"
proof -
  have "push_component = (\<lambda>part parts. if part = [] \<or> part = ''.'' then parts
       else if part = ''..'' then butlast parts else parts @ [part])"
    by (intro ext) (simp add: push_component_def)
  then show ?thesis unfolding canonical_source_path_def canonical_host_path_def by simp
qed

definition SENSITIVE_TREES :: "string list list" where
  "SENSITIVE_TREES = [[''proc''], [''sys''], [''dev''], [''etc''], [''root''], [''var'', ''run''], [''run'']]"

definition source_sensitive :: "string \<Rightarrow> bool" where
  "source_sensitive p \<longleftrightarrow>
     \<not> prefix ''/'' p \<or> host_segs p = [] \<or> (\<exists>d \<in> set SENSITIVE_TREES. prefix d (host_segs p))"

lemma sensitive_tree_prefix:
  assumes "d \<in> set SENSITIVE_TREES"
  shows "(prefix (CHR ''/'' # join ''/'' d @ ''/'') (canonical_host_path p)
      \<or> canonical_host_path p = trim_end_matches (CHR ''/'') (CHR ''/'' # join ''/'' d @ ''/''))
    \<longleftrightarrow> prefix d (host_segs p)"
proof -
  have "trim_end_matches (CHR ''/'') (CHR ''/'' # join ''/'' d @ ''/'') = CHR ''/'' # join ''/'' d"
    using assms by (auto simp: SENSITIVE_TREES_def trim_end_matches_def)
  moreover have "list_all clean_seg d" "d \<noteq> []"
    using assms by (auto simp: SENSITIVE_TREES_def clean_seg_def)
  ultimately show ?thesis
    using under_dir[of d "host_segs p"] host_segs_clean[of p] by (auto simp: canonical_segs)
qed

lemma sensitive_exact:
  "canonical_host_path p \<in> set SENSITIVE_EXACT \<longleftrightarrow>
     host_segs p = [] \<or> host_segs p = [''var'', ''run'', ''docker.sock'']"
proof -
  have inj: "canonical_host_path p = CHR ''/'' # join ''/'' cs \<longleftrightarrow> host_segs p = cs"
    if "list_all clean_seg cs" for cs
    using host_segs_of_clean[OF that] canonical_segs[of p] host_segs_canonical[of p] by metis
  have "canonical_host_path p = CHR ''/'' # join ''/'' [] \<longleftrightarrow> host_segs p = []"
    "canonical_host_path p = CHR ''/'' # join ''/'' [''var'', ''run'', ''docker.sock'']
      \<longleftrightarrow> host_segs p = [''var'', ''run'', ''docker.sock'']"
    by (rule inj; simp add: clean_seg_def)+
  then show ?thesis by (simp add: SENSITIVE_EXACT_def)
qed

lemma reject_sensitive_iff:
  "reject_sensitive_host_path F p = Inr u \<longleftrightarrow> \<not> source_sensitive p"
proof -
  have e: "SENSITIVE_PREFIXES = map (\<lambda>d. CHR ''/'' # join ''/'' d @ ''/'') SENSITIVE_TREES"
    by (simp add: SENSITIVE_PREFIXES_def SENSITIVE_TREES_def)
  have "list_ex (\<lambda>q. prefix q (canonical_host_path p)
          \<or> canonical_host_path p = trim_end_matches (CHR ''/'') q) SENSITIVE_PREFIXES
      \<longleftrightarrow> (\<exists>d \<in> set SENSITIVE_TREES. prefix d (host_segs p))"
    unfolding e list_ex_iff using sensitive_tree_prefix[of _ p] by (auto simp del: append.simps)
  then show ?thesis
    by (auto simp: reject_sensitive_host_path_def source_sensitive_def canonical_source_eq
        sensitive_exact Let_def SENSITIVE_TREES_def)
qed

section \<open>Tokens\<close>

lemma contains_split:
  assumes "d \<notin> set p" "p \<noteq> []"
  shows "contains_str (a @ d # b) p \<longleftrightarrow> contains_str a p \<or> contains_str b p"
proof
  assume "contains_str (a @ d # b) p"
  then obtain x y where e: "a @ d # b = x @ p @ y" by (auto simp: contains_str_def sublist_def)
  have "(\<exists>us. a = x @ us \<and> us @ d # b = p @ y) \<or> (\<exists>us. x = a @ us \<and> d # b = us @ p @ y)"
    using iffD1[OF append_eq_append_conv2 e] by blast
  then consider us where "a = x @ us" "us @ d # b = p @ y" | us where "x = a @ us" "d # b = us @ p @ y"
    by blast
  then show "contains_str a p \<or> contains_str b p"
  proof cases
    case (1 us)
    then have "(\<exists>zs. p = us @ zs \<and> zs @ y = d # b) \<or> (\<exists>zs. us = p @ zs \<and> y = zs @ d # b)"
      using iffD1[OF append_eq_append_conv2 1(2)] by metis
    then obtain zs where "p = us @ zs \<and> zs @ y = d # b \<or> us = p @ zs \<and> y = zs @ d # b" by blast
    then show ?thesis
    proof
      assume h: "p = us @ zs \<and> zs @ y = d # b"
      then have "zs = []" using assms(1) by (cases zs) auto
      with h 1 have "a = x @ p @ []" by simp
      then show ?thesis unfolding contains_str_def sublist_def by blast
    next
      assume "us = p @ zs \<and> y = zs @ d # b"
      with 1 have "a = x @ p @ zs" by simp
      then show ?thesis unfolding contains_str_def sublist_def by blast
    qed
  next
    case (2 us)
    then have "us \<noteq> []" using assms by (cases p) auto
    with 2 have "b = tl us @ p @ y" by (cases us) auto
    then show ?thesis unfolding contains_str_def sublist_def by blast
  qed
next
  assume "contains_str a p \<or> contains_str b p"
  then show "contains_str (a @ d # b) p"
  proof
    assume "contains_str a p"
    then obtain x y where "a @ d # b = x @ p @ (y @ d # b)" by (auto simp: contains_str_def sublist_def)
    then show ?thesis unfolding contains_str_def sublist_def by blast
  next
    assume "contains_str b p"
    then obtain x y where "a @ d # b = (a @ d # x) @ p @ y" by (auto simp: contains_str_def sublist_def)
    then show ?thesis unfolding contains_str_def sublist_def by blast
  qed
qed

lemma contains_mem: "contains_str s p \<Longrightarrow> c \<in> set p \<Longrightarrow> c \<in> set s"
  by (auto simp: contains_str_def sublist_def)

definition names_socket :: "string \<Rightarrow> bool" where
  "names_socket s \<longleftrightarrow> contains_str s ''docker.sock''"

lemma names_socket_split:
  "d \<in> set '':='' \<Longrightarrow> names_socket (a @ d # b) \<longleftrightarrow> names_socket a \<or> names_socket b"
  unfolding names_socket_def by (rule contains_split) auto

lemma names_socket_mem: "names_socket s \<Longrightarrow> CHR ''k'' \<in> set s \<and> CHR ''d'' \<in> set s"
  unfolding names_socket_def by (auto dest: contains_mem)

text \<open>An argument that does not look like an option and is not \<open>exec\<close> is forbidden only for the
  socket.\<close>

lemma forbidden_plain:
  "a \<noteq> [] \<Longrightarrow> hd a \<noteq> CHR ''-'' \<Longrightarrow> a \<noteq> ''exec'' \<Longrightarrow> forbidden_arg a \<longleftrightarrow> names_socket a"
  by (cases a) (auto simp: forbidden_arg_def names_socket_def)

section \<open>The execution policy\<close>

text \<open>What the standard library prints for a double.\<close>

definition formats_ok :: "formats \<Rightarrow> bool" where
  "formats_ok F \<longleftrightarrow> (\<forall>w. set (show_f64 F w) \<subseteq> set ''0123456789.-infNa'')"

lemma valid_memory_chars: "valid_memory m \<Longrightarrow> CHR ''d'' \<notin> set m"
proof
  assume v: "valid_memory m" and d: "CHR ''d'' \<in> set m"
  then have ne: "m \<noteq> []" and l: "last m \<in> set ''mMgGkK''" by (simp_all add: valid_memory_def split: if_splits)
  from v obtain n where p: "parse_uint (2 ^ 64) (butlast m) = Some n"
    by (simp only: valid_memory_def split: if_splits option.splits)
  have "CHR ''d'' \<in> set (butlast m @ [last m])" using d ne by simp
  with l have "CHR ''d'' \<in> set (butlast m)" by auto
  from parse_uint_chars[OF p this] show False by (simp add: is_digit_def in_range_def)
qed

lemma limits_args_plain:
  assumes "formats_ok F" "validate_limits F l = Inr ()" "a \<in> set (as_docker_args F l)"
  shows "\<not> forbidden_arg a"
proof -
  have m: "CHR ''d'' \<notin> set (rl_memory l)"
    using assms(2) by (intro valid_memory_chars) (simp add: validate_limits_def split: if_splits)
  have c: "CHR ''k'' \<notin> set (show_f64 F (rl_cpus l))" using assms(1) by (auto simp: formats_ok_def)
  have p: "CHR ''k'' \<notin> set (nat_str (rl_pids l))"
    using nat_str_mem[of "CHR ''k''"] by (auto simp: is_digit_def in_range_def)
  from assms(3) consider "a = ''--cpus='' @ show_f64 F (rl_cpus l)" | "a = ''-m='' @ rl_memory l"
    | "a = ''--memory-swap='' @ rl_memory l" | "a = ''--pids-limit='' @ nat_str (rl_pids l)"
    by (auto simp: as_docker_args_def)
  then show ?thesis
  proof cases
    case 1
    have "\<not> names_socket (''--cpus'' @ CHR ''='' # show_f64 F (rl_cpus l))"
      using c by (subst names_socket_split) (auto dest: names_socket_mem)
    with 1 show ?thesis by (simp add: forbidden_arg_def names_socket_def)
  next
    case 2
    have "\<not> names_socket (''-m'' @ CHR ''='' # rl_memory l)"
      using m by (subst names_socket_split) (auto dest: names_socket_mem)
    with 2 show ?thesis by (simp add: forbidden_arg_def names_socket_def)
  next
    case 3
    have "\<not> names_socket (''--memory-swap'' @ CHR ''='' # rl_memory l)"
      using m by (subst names_socket_split) (auto dest: names_socket_mem)
    with 3 show ?thesis by (simp add: forbidden_arg_def names_socket_def)
  next
    case 4
    have "\<not> names_socket (''--pids-limit'' @ CHR ''='' # nat_str (rl_pids l))"
      using p by (subst names_socket_split) (auto dest: names_socket_mem)
    with 4 show ?thesis by (simp add: forbidden_arg_def names_socket_def)
  qed
qed

lemma forbidden_path: "prefix ''/'' p \<Longrightarrow> forbidden_arg (p @ CHR '':'' # r) \<longleftrightarrow> names_socket p \<or> names_socket r"
proof -
  assume "prefix ''/'' p"
  then obtain q where p: "p = CHR ''/'' # q" by (auto simp: prefix_def)
  have "forbidden_arg (p @ CHR '':'' # r) \<longleftrightarrow> names_socket (p @ CHR '':'' # r)"
    by (rule forbidden_plain) (simp_all add: p)
  then show ?thesis by (simp add: names_socket_split)
qed

lemma tmpfs_arg:
  assumes "validate_tmpfs_path F p = Inr ()" "CHR ''k'' \<notin> set sz"
  shows "forbidden_arg (p @ '':rw,noexec,nosuid,nodev,size='' @ sz) \<longleftrightarrow> names_socket p"
proof -
  have "prefix ''/'' p" using assms(1) by (simp add: validate_tmpfs_path_def split: if_splits)
  then have "forbidden_arg (p @ CHR '':'' # ''rw,noexec,nosuid,nodev,size='' @ sz)
      \<longleftrightarrow> names_socket p \<or> names_socket (''rw,noexec,nosuid,nodev,size='' @ sz)"
    by (rule forbidden_path)
  moreover have "\<not> names_socket (''rw,noexec,nosuid,nodev,size='' @ sz)"
    using assms(2) by (auto dest: names_socket_mem)
  ultimately show ?thesis by simp
qed

lemma mount_container:
  "validate_mount m = Inr () \<Longrightarrow> sm_container m \<in> {''/scan'', ''/config''} \<and> sm_read_only m"
  by (simp add: validate_mount_def ALLOWED_CONTAINER_PATHS_def SCAN_MOUNT_def CONFIG_MOUNT_def
      split: if_splits)

lemma mount_arg:
  assumes "validate_mount m = Inr ()" "prefix ''/'' (sm_host m)"
  shows "forbidden_arg (as_docker_spec m) \<longleftrightarrow> names_socket (sm_host m)"
proof -
  note c = mount_container[OF assms(1)]
  have "forbidden_arg (sm_host m @ CHR '':'' # sm_container m @ '':ro'')
      \<longleftrightarrow> names_socket (sm_host m) \<or> names_socket (sm_container m @ '':ro'')"
    using assms(2) by (rule forbidden_path)
  moreover have "\<not> names_socket (sm_container m @ '':ro'')"
    using c by (auto dest: names_socket_mem)
  ultimately show ?thesis using c by (simp add: as_docker_spec_def)
qed

lemma env_arg:
  assumes "validate_env F (n, v) = Inr ()"
  shows "forbidden_arg (n @ ''='' @ v) \<longleftrightarrow> names_socket n \<or> names_socket v"
proof -
  have n: "n \<noteq> [] \<and> list_all (\<lambda>c. is_alphanumeric c \<or> c = CHR ''_'') n"
    using assms by (simp add: validate_env_def split: if_splits)
  then obtain c m where cm: "n = c # m" "is_alphanumeric c \<or> c = CHR ''_''" by (cases n) auto
  then have "c \<noteq> CHR ''-''" by (auto simp: byte_class_defs)
  moreover have "n @ ''='' @ v \<noteq> ''exec''"
  proof
    assume "n @ ''='' @ v = ''exec''"
    then have "CHR ''='' \<in> set ''exec''" by (metis append_Cons in_set_conv_decomp)
    then show False by simp
  qed
  ultimately have "forbidden_arg (n @ ''='' @ v) \<longleftrightarrow> names_socket (n @ ''='' @ v)"
    using cm by (intro forbidden_plain) simp_all
  then show ?thesis by (simp add: names_socket_split)
qed

lemma approved_images:
  "(img, net) \<in> set APPROVED_SCANNER_EXECUTIONS \<longleftrightarrow>
     img \<in> {''ghcr.io/gitleaks/gitleaks:v8.18.4'', ''semgrep/semgrep:1.96.0''} \<and> net = NetNone
     \<or> img = ''ghcr.io/google/osv-scanner:v2.2.4'' \<and> net = Filtered"
  by (auto simp: APPROVED_SCANNER_EXECUTIONS_def)

lemma approved_image_arg: "(img, net) \<in> set APPROVED_SCANNER_EXECUTIONS \<Longrightarrow> \<not> forbidden_arg img"
proof -
  assume "(img, net) \<in> set APPROVED_SCANNER_EXECUTIONS"
  then have "img \<in> set (map fst APPROVED_SCANNER_EXECUTIONS)" by force
  moreover have "list_all (\<lambda>i. \<not> forbidden_arg i) (map fst APPROVED_SCANNER_EXECUTIONS)" by code_simp
  ultimately show ?thesis by (auto simp: list_all_iff)
qed

definition fixed_args :: "string list" where
  "fixed_args = [''run'', ''--rm'', ''--name'', ''firecrow-policy-check'', ''--init'', ''--read-only'',
     ''--cap-drop=ALL'', ''--security-opt=no-new-privileges'', ''--user=65534:65534'', ''--entrypoint=sh'',
     ''--tmpfs'', ''/work:rw,noexec,nosuid,nodev,size=64m'', ''-v'', ''-e'', ''--network=none'',
     ''--network=bridge'', ''--network=scanners-internal'']"

lemma fixed_args_plain: "list_all (\<lambda>a. \<not> forbidden_arg a) fixed_args"
  by code_simp

lemmas plain_literals = fixed_args_plain[unfolded fixed_args_def list.pred_inject]

lemma validate_spec_parts:
  "validate_spec F spec = Inr () \<longleftrightarrow>
     validate_pinned_image F (sp_image spec) = Inr () \<and> validate_limits F (sp_limits spec) = Inr ()
     \<and> 0 < sp_timeout spec \<and> sp_timeout spec \<le> MAX_TIMEOUT_SECS \<and> sp_command spec \<noteq> []
     \<and> validate_entrypoint F (sp_entrypoint spec) = Inr ()
     \<and> (\<forall>m \<in> set (sp_mounts spec). validate_mount m = Inr ())
     \<and> (\<forall>p \<in> set (sp_extra_tmpfs spec). validate_tmpfs_path F p = Inr ())
     \<and> (\<forall>e \<in> set (sp_env spec). validate_env F e = Inr ())"
  by (auto simp: validate_spec_def and_then_Inr for_all_ok_Inr)

text \<open>A statement about every argument, piece by piece.\<close>

lemma ball_flagged:
  "(\<forall>a \<in> set (concat (map (\<lambda>x. [f, g x]) xs)). P a) \<longleftrightarrow> (xs = [] \<or> P f) \<and> (\<forall>x \<in> set xs. P (g x))"
  by (induction xs) auto

lemma argv_all:
  "(\<forall>a \<in> set (docker_argv F spec name). P a) \<longleftrightarrow>
     (P ''run'' \<and> P ''--rm'' \<and> P ''--name'' \<and> P name \<and> P ''--init'' \<and> P (as_docker_arg (sp_network spec))
      \<and> P ''--read-only'' \<and> P ''--cap-drop=ALL'' \<and> P ''--security-opt=no-new-privileges''
      \<and> P (''--user='' @ SANDBOX_UID))
     \<and> (case sp_entrypoint spec of Some e \<Rightarrow> P (''--entrypoint='' @ e) | None \<Rightarrow> True)
     \<and> (\<forall>a \<in> set (as_docker_args F (sp_limits spec)). P a)
     \<and> (P ''--tmpfs'' \<and> P (WORK_DIR @ '':rw,noexec,nosuid,nodev,size='' @ WORK_TMPFS_SIZE))
     \<and> (\<forall>p \<in> set (sp_extra_tmpfs spec). P (p @ '':rw,noexec,nosuid,nodev,size='' @ EXTRA_TMPFS_SIZE))
     \<and> ((sp_mounts spec = [] \<or> P ''-v'') \<and> (\<forall>m \<in> set (sp_mounts spec). P (as_docker_spec m)))
     \<and> ((sp_env spec = [] \<or> P ''-e'') \<and> (\<forall>e \<in> set (sp_env spec). P (fst e @ ''='' @ snd e)))
     \<and> P (sp_image spec) \<and> (\<forall>a \<in> set (sp_command spec). P a)"
proof -
  have e: "concat (map (\<lambda>(n, v). [''-e'', n @ ''='' @ v]) (sp_env spec))
      = concat (map (\<lambda>e. [''-e'', fst e @ ''='' @ snd e]) (sp_env spec))"
    by (simp add: case_prod_unfold)
  have o: "(\<forall>a \<in> set (case x of Some e \<Rightarrow> [f e] | None \<Rightarrow> []). P a)
      \<longleftrightarrow> (case x of Some e \<Rightarrow> P (f e) | None \<Rightarrow> True)" for x :: "string option" and f
    by (cases x) simp_all
  show ?thesis
    unfolding docker_argv_def e set_append ball_Un ball_flagged o list.set ball_simps
    by (simp only: simp_thms conj_assoc) blast
qed

definition socket_free :: "sandbox_spec \<Rightarrow> bool" where
  "socket_free spec \<longleftrightarrow>
     (\<forall>m \<in> set (sp_mounts spec). \<not> names_socket (sm_host m))
     \<and> (\<forall>p \<in> set (sp_extra_tmpfs spec). \<not> names_socket p)
     \<and> (\<forall>(n, v) \<in> set (sp_env spec). \<not> names_socket n \<and> \<not> names_socket v)"

lemma argv_plain_iff:
  assumes F: "formats_ok F" and V: "validate_spec F spec = Inr ()"
    and im: "(sp_image spec, sp_network spec) \<in> set APPROVED_SCANNER_EXECUTIONS"
    and ent: "sp_entrypoint spec \<in> {None, Some ''sh''}"
    and host: "\<forall>m \<in> set (sp_mounts spec). prefix ''/'' (sm_host m)"
  shows "(\<forall>a \<in> set (docker_argv F spec ''firecrow-policy-check''). \<not> forbidden_arg a)
     \<longleftrightarrow> socket_free spec \<and> (\<forall>a \<in> set (sp_command spec). \<not> forbidden_arg a)"
proof -
  note v = V[unfolded validate_spec_parts]
  have "\<not> forbidden_arg (as_docker_arg (sp_network spec))"
    using plain_literals by (cases "sp_network spec") (simp_all only: as_docker_arg.simps simp_thms)
  moreover have "case sp_entrypoint spec of Some e \<Rightarrow> \<not> forbidden_arg (''--entrypoint='' @ e) | None \<Rightarrow> True"
    using ent plain_literals by (auto split: option.split)
  moreover have "\<forall>a \<in> set (as_docker_args F (sp_limits spec)). \<not> forbidden_arg a"
    using limits_args_plain[OF F] v by blast
  moreover have "(\<forall>p \<in> set (sp_extra_tmpfs spec).
      \<not> forbidden_arg (p @ '':rw,noexec,nosuid,nodev,size='' @ EXTRA_TMPFS_SIZE))
      \<longleftrightarrow> (\<forall>p \<in> set (sp_extra_tmpfs spec). \<not> names_socket p)"
    using v tmpfs_arg[of F _ EXTRA_TMPFS_SIZE] by (simp add: EXTRA_TMPFS_SIZE_def)
  moreover have "(\<forall>m \<in> set (sp_mounts spec). \<not> forbidden_arg (as_docker_spec m))
      \<longleftrightarrow> (\<forall>m \<in> set (sp_mounts spec). \<not> names_socket (sm_host m))"
    using v host mount_arg by simp
  moreover have "(\<forall>e \<in> set (sp_env spec). \<not> forbidden_arg (fst e @ ''='' @ snd e))
      \<longleftrightarrow> (\<forall>(n, v) \<in> set (sp_env spec). \<not> names_socket n \<and> \<not> names_socket v)"
    using v env_arg[of F] by (fastforce split: prod.splits)
  moreover have "''--user='' @ SANDBOX_UID = ''--user=65534:65534''"
    "WORK_DIR @ '':rw,noexec,nosuid,nodev,size='' @ WORK_TMPFS_SIZE = ''/work:rw,noexec,nosuid,nodev,size=64m''"
    by (simp_all add: SANDBOX_UID_def WORK_DIR_def WORK_TMPFS_SIZE_def)
  ultimately show ?thesis
    unfolding argv_all socket_free_def
    using approved_image_arg[OF im] plain_literals by (simp only: simp_thms) blast
qed

lemma hardened_iff:
  "assert_hardened_argv F (docker_argv F spec name) (sp_network spec) = Inr ()
     \<longleftrightarrow> (\<forall>a \<in> set (docker_argv F spec name). \<not> forbidden_arg a)"
proof -
  have "flag \<in> set (docker_argv F spec name)" if "flag \<in> set REQUIRED_FLAGS" for flag
  proof -
    have t: "take 10 (docker_argv F spec name) = [''run'', ''--rm'', ''--name'', name, ''--init'',
        as_docker_arg (sp_network spec), ''--read-only'', ''--cap-drop=ALL'',
        ''--security-opt=no-new-privileges'', ''--user=65534:65534'']"
      by (simp add: docker_argv_def SANDBOX_UID_def)
    have "flag \<in> set (take 10 (docker_argv F spec name))"
      using that unfolding t REQUIRED_FLAGS_def list.set
      by (elim insertE emptyE) (simp_all only: insert_iff simp_thms)
    then show ?thesis by (rule in_set_takeD)
  qed
  moreover have "as_docker_arg (sp_network spec) \<in> set (docker_argv F spec name)"
    "docker_argv F spec name \<noteq> []" "hd (docker_argv F spec name) = ''run''"
    by (simp_all add: docker_argv_def)
  ultimately show ?thesis
    by (simp add: assert_hardened_argv_def and_then_Inr for_all_ok_Inr)
qed

lemma enforce_iff:
  assumes "formats_ok F" "validate_spec F spec = Inr ()"
  shows "enforce_execution_policy F spec = Inr () \<longleftrightarrow>
     (sp_image spec, sp_network spec) \<in> set APPROVED_SCANNER_EXECUTIONS
     \<and> sp_entrypoint spec \<in> {None, Some ''sh''}
     \<and> (\<forall>m \<in> set (sp_mounts spec). \<not> source_sensitive (sm_host m))
     \<and> socket_free spec \<and> (\<forall>a \<in> set (sp_command spec). \<not> forbidden_arg a)"
proof -
  let ?pol = "(sp_image spec, sp_network spec) \<in> set APPROVED_SCANNER_EXECUTIONS
     \<and> sp_entrypoint spec \<in> {None, Some ''sh''} \<and> (\<forall>m \<in> set (sp_mounts spec). \<not> source_sensitive (sm_host m))"
  have ent: "(case sp_entrypoint spec of Some e \<Rightarrow> e \<noteq> ''sh'' | None \<Rightarrow> False)
      \<longleftrightarrow> sp_entrypoint spec \<notin> {None, Some ''sh''}"
    by (simp split: option.split)
  have "enforce_execution_policy F spec = Inr () \<longleftrightarrow> ?pol
      \<and> (\<forall>a \<in> set (docker_argv F spec ''firecrow-policy-check''). \<not> forbidden_arg a)"
    unfolding enforce_execution_policy_def ent
    by (simp add: and_then_Inr for_all_ok_Inr reject_sensitive_iff hardened_iff)
  moreover have "(\<forall>a \<in> set (docker_argv F spec ''firecrow-policy-check''). \<not> forbidden_arg a)
      \<longleftrightarrow> socket_free spec \<and> (\<forall>a \<in> set (sp_command spec). \<not> forbidden_arg a)" if ?pol
    using argv_plain_iff[OF assms] that by (simp add: source_sensitive_def)
  ultimately show ?thesis by blast
qed

section \<open>A concrete specification\<close>

definition gitleaks_spec :: sandbox_spec where
  "gitleaks_spec = new_spec ''ghcr.io/gitleaks/gitleaks:v8.18.4'' [''detect'', ''--source=/scan'']
     [\<lparr>sm_host = ''/srv/scans/a'', sm_container = SCAN_MOUNT, sm_read_only = True\<rparr>] 60 default_limits"

definition plain_formats :: formats where
  "plain_formats = \<lparr>show_f64 = (\<lambda>_. ''1''), debug_str = (\<lambda>s. s)\<rparr>"

lemma sample_formats_ok: "formats_ok plain_formats"
  by (simp add: formats_ok_def plain_formats_def)

lemma sample_image_valid: "validate_pinned_image plain_formats (sp_image gitleaks_spec) = Inr ()"
proof -
  have "trim ''ghcr.io/gitleaks/gitleaks:v8.18.4'' = ''ghcr.io/gitleaks/gitleaks:v8.18.4''"
    "\<not> has_whitespace ''ghcr.io/gitleaks/gitleaks:v8.18.4''" "\<not> has_control ''ghcr.io/gitleaks/gitleaks:v8.18.4''"
    "split_image_ref ''ghcr.io/gitleaks/gitleaks:v8.18.4'' = (''ghcr.io/gitleaks/gitleaks'', Some ''v8.18.4'')"
    by code_simp+
  then show ?thesis by (simp add: validate_pinned_image_def gitleaks_spec_def new_spec_def strip_prefix_def)
qed

lemma default_memory_valid: "valid_memory ''512m''"
proof -
  have "nat_str 512 = ''512''" by code_simp
  with parse_uint_nat_str[of 512 "2 ^ 64"] show ?thesis by (simp add: valid_memory_def)
qed

lemma default_limits_valid: "validate_limits F default_limits = Inr ()"
  by (simp add: validate_limits_def default_limits_def default_memory_valid f64_finite_def
    f64_positive_def f64_at_most_8_def)

lemma sample_valid: "validate_spec plain_formats gitleaks_spec = Inr ()"
proof -
  have "for_all_ok validate_mount (sp_mounts gitleaks_spec) = Inr ()" by code_simp
  with sample_image_valid default_limits_valid show ?thesis
    by (simp add: validate_spec_def and_then_Inr gitleaks_spec_def new_spec_def MAX_TIMEOUT_SECS_def
      validate_entrypoint_def)
qed

lemma sample_policy_facts:
  "(sp_image gitleaks_spec, sp_network gitleaks_spec) \<in> set APPROVED_SCANNER_EXECUTIONS"
  "sp_entrypoint gitleaks_spec \<in> {None, Some ''sh''}"
  "\<forall>m \<in> set (sp_mounts gitleaks_spec). \<not> source_sensitive (sm_host m)"
  "socket_free gitleaks_spec" "\<forall>a \<in> set (sp_command gitleaks_spec). \<not> forbidden_arg a"
  by code_simp+

text \<open>C33. The execution policy is its table: a validated specification is accepted exactly when its
  image and network are one of the three approved scanner executions, its entry point is absent or
  \<open>sh\<close>, every mounted host path is absolute and outside the sensitive trees after resolving dots
  and slashes, no mount, scratch path or variable names the Docker socket, and no word of the
  command is a forbidden Docker option; the checks of the rendered argument vector add nothing else.\<close>

theorem execution_policy_iff:
  assumes "formats_ok F" "validate_spec F spec = Inr ()"
  shows "enforce_execution_policy F spec = Inr () \<longleftrightarrow>
     (sp_image spec, sp_network spec) \<in> set APPROVED_SCANNER_EXECUTIONS
     \<and> sp_entrypoint spec \<in> {None, Some ''sh''}
     \<and> (\<forall>m \<in> set (sp_mounts spec). \<not> source_sensitive (sm_host m))
     \<and> socket_free spec \<and> (\<forall>a \<in> set (sp_command spec). \<not> forbidden_arg a)"
  using assms by (rule enforce_iff)

theorem execution_policy_iff_witness: "enforce_execution_policy plain_formats gitleaks_spec = Inr ()"
  using execution_policy_iff[OF sample_formats_ok sample_valid] sample_policy_facts by blast

lemma sample_policy: "enforce_execution_policy plain_formats gitleaks_spec = Inr ()"
  using enforce_iff[OF sample_formats_ok sample_valid] sample_policy_facts by blast

end
