(* ===== verification/Sandbox_Runs.thy ===== *)
theory Sandbox_Runs
  imports Sandbox_Props
begin

text \<open>
  How a run of the sandbox ends: what was spawned, what a success means, which errors leave the
  container behind, that a passed deadline ends the run, and how often the cancel flag is read.
\<close>

section \<open>The supervision loop\<close>

text \<open>What the loop has seen: the state mirrors the events consumed so far.\<close>

definition seen :: "run_event list \<Rightarrow> supervision \<Rightarrow> bool" where
  "seen pre v \<longleftrightarrow>
     DeadlinePassed \<notin> set pre
     \<and> (\<forall>b. sv_status v = Some b \<longrightarrow> Exited b \<in> set pre)
     \<and> (\<forall>s. sv_out v = Some s \<longrightarrow> StdoutDone (Inr s) \<in> set pre)
     \<and> (\<forall>e. sv_out_err v = Some e \<longrightarrow> StdoutDone (Inl e) \<in> set pre)
     \<and> (\<forall>s. sv_err v = Some s \<longrightarrow> StderrDone (Inr s) \<in> set pre)
     \<and> (\<forall>e. sv_err_err v = Some e \<longrightarrow> StderrDone (Inl e) \<in> set pre)
     \<and> \<not> (sv_out v \<noteq> None \<and> sv_out_err v \<noteq> None) \<and> \<not> (sv_err v \<noteq> None \<and> sv_err_err v \<noteq> None)"

lemma seen_fresh: "seen [] fresh_supervision"
  by (simp add: seen_def fresh_supervision_def)

lemma loop_pass_seen:
  "loop_pass c v ev = Continue v' \<Longrightarrow> seen pre v \<Longrightarrow> seen (pre @ [ev]) v'"
  by (cases ev) (auto simp: loop_pass_def seen_def out_settled_def err_settled_def split: if_splits sum.splits)

lemma loop_pass_disabled: "loop_pass c v ev = Disabled \<Longrightarrow> seen pre v \<Longrightarrow> seen (pre @ [ev]) v"
  by (cases ev) (auto simp: loop_pass_def seen_def split: if_splits sum.splits)

lemma loop_pass_stopped:
  "loop_pass c v ev = Stopped stop \<Longrightarrow>
     ev = DeadlinePassed \<and> stop = StopTimeout \<or> ev = PollTick \<and> c \<and> stop = StopCancelled"
  by (cases ev) (auto simp: loop_pass_def split: if_splits sum.splits)

lemma loop_pass_left:
  "loop_pass c v ev = Left e \<Longrightarrow> \<exists>m. ev = WaitFailed m \<and> e = Internal (''Failed waiting on sandbox: '' @ m)"
  by (cases ev) (auto simp: loop_pass_def split: if_splits sum.splits)

lemma loop_pass_deadline [simp]: "loop_pass c v DeadlinePassed = Stopped StopTimeout"
  by (simp add: loop_pass_def)

lemma run_loop_head: "loop_head v = Some stop \<Longrightarrow> run_loop c i v evs = Some (Verdict stop v)"
  by (simp add: run_loop.simps[of c i v])

lemma run_loop_Nil [simp]: "loop_head v = None \<Longrightarrow> run_loop c i v [] = None"
  by (simp add: run_loop.simps[of c i v])

lemma run_loop_Cons:
  "loop_head v = None \<Longrightarrow> run_loop c i v (ev # evs) =
     (case loop_pass (c i) v ev of
        Disabled \<Rightarrow> run_loop c i v evs
      | Continue v' \<Rightarrow> run_loop c (Suc i) v' evs
      | Stopped stop \<Rightarrow> Some (Verdict stop v)
      | Left e \<Rightarrow> Some (Abandoned e))"
  by (simp add: run_loop.simps[of c i v])

text \<open>How the loop ends, from a state that mirrors the events before it.\<close>

definition ended :: "(nat \<Rightarrow> bool) \<Rightarrow> run_event list \<Rightarrow> supervised \<Rightarrow> bool" where
  "ended c evs r =
     (case r of
        Abandoned e \<Rightarrow> \<exists>m. WaitFailed m \<in> set evs \<and> e = Internal (''Failed waiting on sandbox: '' @ m)
      | Verdict StopTimeout _ \<Rightarrow> DeadlinePassed \<in> set evs
      | Verdict StopCancelled _ \<Rightarrow> PollTick \<in> set evs \<and> (\<exists>i. c i)
      | Verdict (OutputExceeded e) _ \<Rightarrow> StdoutDone (Inl e) \<in> set evs \<or> StderrDone (Inl e) \<in> set evs
      | Verdict (Finished b) v \<Rightarrow>
          \<exists>pre post. evs = pre @ post \<and> seen pre v \<and> sv_status v = Some b \<and> out_settled v \<and> err_settled v)"

lemma head_ended:
  assumes "loop_head v = Some stop" "seen pre v"
  shows "ended c (pre @ evs) (Verdict stop v)"
proof (cases stop)
  case (Finished b)
  with assms(1) have "sv_status v = Some b \<and> out_settled v \<and> err_settled v"
    by (auto simp: loop_head_def split: option.splits if_splits)
  with Finished assms(2) show ?thesis by (auto simp: ended_def)
next
  case (OutputExceeded e)
  with assms(1) have "sv_out_err v = Some e \<or> sv_err_err v = Some e"
    by (auto simp: loop_head_def split: option.splits if_splits)
  with OutputExceeded assms(2) show ?thesis by (auto simp: ended_def seen_def)
qed (use assms(1) in \<open>auto simp: loop_head_def split: option.splits if_splits\<close>)

lemma run_loop_ended:
  "run_loop c i v evs = Some r \<Longrightarrow> seen pre v \<Longrightarrow> ended c (pre @ evs) r"
proof (induction evs arbitrary: i v pre)
  case Nil
  then show ?case
    by (cases "loop_head v") (auto simp: run_loop_head dest: head_ended[where evs = "[]"])
next
  case (Cons ev evs)
  show ?case
  proof (cases "loop_head v")
    case (Some stop)
    with Cons.prems show ?thesis by (auto simp: run_loop_head intro: head_ended)
  next
    case None
    note step = Cons.prems(1)[unfolded run_loop_Cons[OF None]]
    show ?thesis
    proof (cases "loop_pass (c i) v ev")
      case Disabled
      with step Cons.IH[OF _ loop_pass_disabled[OF Disabled Cons.prems(2)]] show ?thesis by simp
    next
      case (Continue w)
      with step Cons.IH[OF _ loop_pass_seen[OF Continue Cons.prems(2)]] show ?thesis by simp
    next
      case (Stopped stop)
      with step loop_pass_stopped[OF Stopped] show ?thesis by (auto simp: ended_def)
    next
      case (Left e)
      with step loop_pass_left[OF Left] show ?thesis by (auto simp: ended_def)
    qed
  qed
qed

lemma run_loop_deadline: "DeadlinePassed \<in> set evs \<Longrightarrow> run_loop c i v evs \<noteq> None"
proof (induction evs arbitrary: i v)
  case (Cons ev evs)
  then show ?case
    by (cases "loop_head v") (auto simp: run_loop_head run_loop_Cons split: pass.split)
qed simp

text \<open>Every pass that continues settles one of three things, so the cancel flag is read three times.\<close>

definition unsettled :: "supervision \<Rightarrow> nat" where
  "unsettled v = (if sv_status v = None then 1 else 0)
     + (if out_settled v then 0 else 1) + (if err_settled v then 0 else 1)"

lemma unsettled_head: "loop_head v = None \<Longrightarrow> 0 < unsettled v"
  by (auto simp: loop_head_def unsettled_def split: option.splits if_splits)

lemma unsettled_pass: "loop_pass c v ev = Continue v' \<Longrightarrow> Suc (unsettled v') = unsettled v"
  by (cases ev)
    (auto simp: loop_pass_def unsettled_def out_settled_def err_settled_def split: if_splits sum.splits)

lemma run_loop_cancel:
  assumes "\<And>j. j < 3 \<Longrightarrow> c j = c' j"
  shows "i + unsettled v = 3 \<Longrightarrow> run_loop c i v evs = run_loop c' i v evs"
proof (induction evs arbitrary: i v)
  case Nil
  then show ?case by (cases "loop_head v") (simp_all add: run_loop_head)
next
  case (Cons ev evs)
  show ?case
  proof (cases "loop_head v")
    case None
    have "i < 3" using unsettled_head[OF None] Cons.prems by linarith
    then have "c i = c' i" by (rule assms)
    moreover have "run_loop c (Suc i) v' evs = run_loop c' (Suc i) v' evs"
      if "loop_pass (c i) v ev = Continue v'" for v'
      using Cons.IH[of "Suc i" v'] Cons.prems unsettled_pass[OF that] by simp
    ultimately show ?thesis using None Cons by (auto simp: run_loop_Cons split: pass.split)
  qed (simp add: run_loop_head)
qed

section \<open>Runs\<close>

lemma run_spawned_None: "run_spawned h spec name = None \<Longrightarrow>
    run_loop (ho_cancel h) 0 fresh_supervision (ho_events h) = None"
  by (auto simp: run_spawned_def split: if_splits option.splits supervised.splits run_stop.splits)

definition failed_reads :: "run_event list \<Rightarrow> app_error set" where
  "failed_reads evs = {e. StdoutDone (Inl e) \<in> set evs \<or> StderrDone (Inl e) \<in> set evs}"

definition run_errors :: "host \<Rightarrow> sandbox_spec \<Rightarrow> app_error set" where
  "run_errors h spec =
     failed_reads (ho_events h)
     \<union> (if DeadlinePassed \<in> set (ho_events h) then {stop_error (sp_timeout spec) StopTimeout} else {})
     \<union> (if PollTick \<in> set (ho_events h) \<and> (\<exists>i. ho_cancel h i) then {stop_error (sp_timeout spec) StopCancelled} else {})
     \<union> (if ho_pipes h then {} else {Internal ''Failed to capture sandbox output pipes''})"

definition wait_errors :: "host \<Rightarrow> app_error set" where
  "wait_errors h = {Internal (''Failed waiting on sandbox: '' @ m) | m. WaitFailed m \<in> set (ho_events h)}"

text \<open>A finished run: what it returns is what the events before its end said.\<close>

definition run_output :: "host \<Rightarrow> sandbox_output \<Rightarrow> bool" where
  "run_output h out \<longleftrightarrow>
     (\<exists>pre post. ho_events h = pre @ post \<and> DeadlinePassed \<notin> set pre \<and> Exited (so_success out) \<in> set pre
        \<and> ((\<exists>s. StdoutDone (Inr s) \<in> set pre \<and> so_stdout out = from_utf8_lossy s)
            \<or> (\<exists>e. StdoutDone (Inl e) \<in> set pre) \<and> so_stdout out = from_utf8_lossy [])
        \<and> ((\<exists>s. StderrDone (Inr s) \<in> set pre \<and> so_stderr out = from_utf8_lossy s)
            \<or> (\<exists>e. StderrDone (Inl e) \<in> set pre) \<and> so_stderr out = from_utf8_lossy []))"

lemma finish_output_ok:
  assumes "ho_events h = pre @ post" "seen pre v" "sv_status v = Some b" "out_settled v" "err_settled v"
  shows "run_output h (finish_output b v)"
proof -
  have o: "(\<exists>s. StdoutDone (Inr s) \<in> set pre \<and> so_stdout (finish_output b v) = from_utf8_lossy s)
            \<or> (\<exists>e. StdoutDone (Inl e) \<in> set pre) \<and> so_stdout (finish_output b v) = from_utf8_lossy []"
    using assms(2,4) by (cases "sv_out v") (auto simp: seen_def out_settled_def finish_output_def)
  have e: "(\<exists>s. StderrDone (Inr s) \<in> set pre \<and> so_stderr (finish_output b v) = from_utf8_lossy s)
            \<or> (\<exists>e. StderrDone (Inl e) \<in> set pre) \<and> so_stderr (finish_output b v) = from_utf8_lossy []"
    using assms(2,5) by (cases "sv_err v") (auto simp: seen_def err_settled_def finish_output_def)
  have "DeadlinePassed \<notin> set pre" "Exited (so_success (finish_output b v)) \<in> set pre"
    using assms(2,3) by (auto simp: seen_def finish_output_def)
  with assms(1) o e show ?thesis unfolding run_output_def by blast
qed

text \<open>The three ways a spawned run ends: a result with nothing to clean up, an error after the client
  was killed, reaped and the container removed, or an error that only killed the client.\<close>

lemma run_spawned_ends:
  assumes "run_spawned h spec name = Some (es, r)"
  shows "(\<exists>out. r = Inr out \<and> es = [] \<and> run_output h out)
    \<or> (\<exists>e \<in> run_errors h spec. r = Inl e \<and> es = terminate_run (ho_docker_host h) name)
    \<or> (\<exists>e \<in> wait_errors h. r = Inl e \<and> es = [Kill])"
proof (cases "ho_pipes h")
  case False
  with assms show ?thesis by (auto simp: run_spawned_def run_errors_def)
next
  case True
  with assms obtain s where s: "run_loop (ho_cancel h) 0 fresh_supervision (ho_events h) = Some s"
    by (auto simp: run_spawned_def split: option.splits)
  have ended: "ended (ho_cancel h) (ho_events h) s"
    using run_loop_ended[OF s seen_fresh] by simp
  show ?thesis
  proof (cases s)
    case (Abandoned e)
    with True s ended assms show ?thesis by (auto simp: run_spawned_def ended_def wait_errors_def)
  next
    case (Verdict stop v)
    show ?thesis
    proof (cases stop)
      case (Finished b)
      with Verdict True s assms have "es = []" "r = Inr (finish_output b v)" by (auto simp: run_spawned_def)
      moreover from Verdict Finished ended have "run_output h (finish_output b v)"
        by (auto simp: ended_def intro: finish_output_ok)
      ultimately show ?thesis by blast
    qed (use Verdict True s assms ended in
        \<open>auto simp: run_spawned_def ended_def run_errors_def failed_reads_def stop_error_def\<close>)
  qed
qed

text \<open>C34. Nothing reaches the Docker client unless the specification passed its validation and the
  execution policy and the client is recent enough; then exactly one client is started, with the
  hardened argument vector of that specification.  A success means that the process exited before
  the deadline and is what the readers delivered; every error caused by the deadline, the cancel
  flag, a failed reader or missing pipes is returned after the client was killed and reaped and the
  container was removed by name.  The one exception is a failure to wait for the client, which only
  kills it.\<close>

theorem run_cleanup:
  assumes "sandbox_run F h uuid spec = Some (es, r)" "es \<noteq> []"
  shows "validate_spec F spec = Inr () \<and> enforce_execution_policy F spec = Inr ()
    \<and> validate_docker_cli_version (ho_probe h) = Inr ()
    \<and> (\<exists>rest. es = Spawn (client_env (ho_docker_host h)) (docker_argv F spec (container_name uuid)) # rest
       \<and> ((\<exists>out. r = Inr out \<and> rest = [] \<and> run_output h out)
          \<or> (\<exists>e \<in> run_errors h spec. r = Inl e \<and> rest = terminate_run (ho_docker_host h) (container_name uuid))
          \<or> (\<exists>e \<in> wait_errors h. r = Inl e \<and> rest = [Kill])))"
  using assms run_spawned_ends[of h spec "container_name uuid"]
  by (auto simp: sandbox_run_def and_then_Inr split: sum.splits option.splits)

text \<open>A run whose deadline passes returns, whatever else happens.\<close>

theorem run_returns:
  assumes "DeadlinePassed \<in> set (ho_events h)"
  shows "\<exists>es r. sandbox_run F h uuid spec = Some (es, r)"
proof -
  have "run_spawned h spec (container_name uuid) \<noteq> None"
    using run_spawned_None run_loop_deadline[OF assms] by blast
  then show ?thesis by (auto simp: sandbox_run_def split: sum.split option.split)
qed

text \<open>The cancel flag is read at most three times in a run, when the loop starts and after each of
  the two first things that end among the process and its readers: two cancel closures that agree on
  the first three calls give the same run, whatever they answer later.  A cancellation that arrives
  while a quiet process runs is not noticed before the deadline.\<close>

theorem cancel_read_thrice:
  assumes "\<And>j. j < 3 \<Longrightarrow> c j = ho_cancel h j"
  shows "sandbox_run F (h\<lparr>ho_cancel := c\<rparr>) uuid spec = sandbox_run F h uuid spec"
proof -
  have "run_loop c 0 fresh_supervision (ho_events h)
      = run_loop (ho_cancel h) 0 fresh_supervision (ho_events h)"
    by (rule run_loop_cancel[OF assms]) (simp_all add: unsettled_def fresh_supervision_def out_settled_def err_settled_def)
  then have "run_spawned (h\<lparr>ho_cancel := c\<rparr>) spec name = run_spawned h spec name" for name
    by (simp add: run_spawned_def split: option.split supervised.split run_stop.split)
  then show ?thesis by (simp add: sandbox_run_def split: sum.split option.split)
qed

section \<open>Concrete runs\<close>

definition sandbox_host :: "run_event list \<Rightarrow> host" where
  "sandbox_host evs = \<lparr>ho_docker_host = Some ''tcp://proxy:2375'', ho_probe = CliRan True ''Docker version 27.1.2, build x'',
     ho_spawn_error = None, ho_pipes = True, ho_events = evs, ho_cancel = (\<lambda>i. 2 < i)\<rparr>"

lemma sample_probe: "validate_docker_cli_version (CliRan True ''Docker version 27.1.2, build x'') = Inr ()"
proof -
  have "from_utf8_lossy ''Docker version 27.1.2, build x'' = ''Docker version 27.1.2, build x''"
    "List.find (\<lambda>p. p \<noteq> [] \<and> is_digit (hd p)) (split_whitespace ''Docker version 27.1.2, build x'') = Some ''27.1.2,''"
    "split_on (CHR ''.'') ''27.1.2,'' = [''27'', ''1'', ''2,'']"
    "nat_str 27 = ''27''" "nat_str 1 = ''1''" "nat_str 2 = ''2''"
    "takeWhile is_digit ''27'' = ''27''" "takeWhile is_digit ''1'' = ''1''" "takeWhile is_digit ''2,'' = ''2''"
    by code_simp+
  with parse_uint_nat_str[of 27 "2 ^ 32"] parse_uint_nat_str[of 1 "2 ^ 32"] parse_uint_nat_str[of 2 "2 ^ 32"]
  show ?thesis
    by (simp add: validate_docker_cli_version_def parse_docker_cli_version_def numeral_3_eq_3 older_def
      ok_or_def and_then_def)
qed

lemma gitleaks_run:
  "sandbox_run plain_formats (sandbox_host evs) uuid gitleaks_spec =
     map_option (\<lambda>(es, r). (Spawn (client_env (Some ''tcp://proxy:2375''))
         (docker_argv plain_formats gitleaks_spec (container_name uuid)) # es, r))
       (run_spawned (sandbox_host evs) gitleaks_spec (container_name uuid))"
  by (simp add: sandbox_run_def sample_valid sample_policy sample_probe and_then_def sandbox_host_def)

lemma sample_timeout:
  "run_spawned (sandbox_host [PollTick, PollTick, DeadlinePassed]) gitleaks_spec name =
     Some (terminate_run (Some ''tcp://proxy:2375'') name, Inl (stop_error 60 StopTimeout))"
  by (simp add: run_spawned_def sandbox_host_def gitleaks_spec_def new_spec_def run_loop_Cons run_loop_head
    loop_head_def fresh_supervision_def loop_pass_def)

theorem run_cleanup_witness:
  "sandbox_run plain_formats (sandbox_host [PollTick, PollTick, DeadlinePassed]) ''u'' gitleaks_spec =
     Some (Spawn (client_env (Some ''tcp://proxy:2375'')) (docker_argv plain_formats gitleaks_spec (container_name ''u''))
         # terminate_run (Some ''tcp://proxy:2375'') (container_name ''u''), Inl (stop_error 60 StopTimeout))
   \<and> enforce_execution_policy plain_formats gitleaks_spec = Inr ()"
proof -
  have run: "sandbox_run plain_formats (sandbox_host [PollTick, PollTick, DeadlinePassed]) ''u'' gitleaks_spec =
     Some (Spawn (client_env (Some ''tcp://proxy:2375'')) (docker_argv plain_formats gitleaks_spec (container_name ''u''))
         # terminate_run (Some ''tcp://proxy:2375'') (container_name ''u''), Inl (stop_error 60 StopTimeout))"
    by (simp add: gitleaks_run sample_timeout)
  with run_cleanup[OF run] show ?thesis by simp
qed

theorem run_returns_witness:
  "\<exists>es r. sandbox_run plain_formats (sandbox_host [PollTick, DeadlinePassed]) ''u'' gitleaks_spec = Some (es, r)"
  by (rule run_returns) (simp add: sandbox_host_def)

theorem cancel_read_thrice_witness:
  "sandbox_run plain_formats (sandbox_host [PollTick, PollTick, DeadlinePassed]) ''u'' gitleaks_spec
     = sandbox_run plain_formats (sandbox_host [PollTick, PollTick, DeadlinePassed]\<lparr>ho_cancel := (\<lambda>_. False)\<rparr>) ''u'' gitleaks_spec"
  by (rule cancel_read_thrice[symmetric]) (simp add: sandbox_host_def)

section \<open>Output caps\<close>

text \<open>A bounded reader returns exactly the bytes delivered before the end of its stream, and only
  when no read failed and their number is within the cap.\<close>

theorem read_capped_iff:
  assumes "0 \<le> cap"
  shows "read_capped cap stream [] chunks = Inr bytes \<longleftrightarrow>
    (\<forall>c \<in> set (takeWhile (\<lambda>c. c \<noteq> Inr []) chunks). \<not> isl c)
    \<and> bytes = concat (map projr (takeWhile (\<lambda>c. c \<noteq> Inr []) chunks)) \<and> int (length bytes) \<le> cap"
proof -
  have "int (length out) \<le> cap \<Longrightarrow> read_capped cap stream out chunks = Inr bytes \<longleftrightarrow>
    (\<forall>c \<in> set (takeWhile (\<lambda>c. c \<noteq> Inr []) chunks). \<not> isl c)
    \<and> bytes = out @ concat (map projr (takeWhile (\<lambda>c. c \<noteq> Inr []) chunks)) \<and> int (length bytes) \<le> cap" for out
    by (induction cap stream out chunks rule: read_capped.induct) auto
  from this[of "[]"] assms show ?thesis by simp
qed

theorem read_capped_iff_witness: "read_capped 4 ''stdout'' [] [Inr ''ab'', Inr ''cd'', Inr []] = Inr ''abcd''"
  using read_capped_iff[of 4 "''stdout''" "[Inr ''ab'', Inr ''cd'', Inr []]" "''abcd''"] by simp

text \<open>When the process has exited and one stream has ended before the other stream breaches its cap,
  the breach is lost: the run returns a success with an empty standard output.\<close>

lemma output_cap_lost:
  assumes "validate_spec F spec = Inr ()" "enforce_execution_policy F spec = Inr ()"
    "validate_docker_cli_version (ho_probe h) = Inr ()" "ho_spawn_error h = None" "ho_pipes h"
    "ho_events h = [Exited b, StderrDone (Inr s), StdoutDone (Inl (OutputLimitExceeded stream cap))]"
  shows "sandbox_run F h uuid spec =
    Some ([Spawn (client_env (ho_docker_host h)) (docker_argv F spec (container_name uuid))],
      Inr \<lparr>so_stdout = from_utf8_lossy [], so_stderr = from_utf8_lossy s, so_success = b\<rparr>)"
  using assms
  by (simp add: sandbox_run_def and_then_def run_spawned_def run_loop_Cons run_loop_head loop_head_def
    loop_pass_def fresh_supervision_def out_settled_def err_settled_def finish_output_def)

end
