(* ===== verification/Authz_Policy.thy ===== *)
theory Authz_Policy
  imports Authz_Wire
begin

text \<open>
  The decision engine of the Docker authorization plugin
  (\<open>docker-authz-plugin/src/lib.rs\<close>, \<open>Plugin\<close>): the identity gate, the endpoint
  matrix, the pull, create and target policies, the registry of observed container ids
  and the decision log.  Every check of \<open>create_policy\<close> is one definition that returns
  the denial or passes; \<open>parse_json\<close> stands for the JSON parser of \<open>serde_json\<close>.
\<close>

section \<open>Decisions and state\<close>

record decision =
  allow :: bool
  rule :: string
  msg :: string
  target :: "string option"

definition allow_by :: "string \<Rightarrow> string option \<Rightarrow> decision" where
  "allow_by r t = \<lparr>allow = True, rule = r, msg = [], target = t\<rparr>"

definition deny_by :: "string \<Rightarrow> string \<Rightarrow> string option \<Rightarrow> decision" where
  "deny_by r m t = \<lparr>allow = False, rule = r, msg = m, target = t\<rparr>"

record log_record =
  log_allow :: bool
  log_rule :: string
  log_msg :: string
  log_method :: string
  log_uri :: string
  log_user :: "string option"
  log_user_authn :: "string option"
  log_target :: "string option"

record plugin =
  allowed_cns :: "string set"
  registry :: "string set"
  logged :: "log_record list"

definition new_plugin :: "string set \<Rightarrow> plugin" where
  "new_plugin cns = \<lparr>allowed_cns = cns, registry = {}, logged = []\<rparr>"

type_synonym check = "decision + unit"

definition deny :: "string \<Rightarrow> string \<Rightarrow> check" where
  "deny r m = Inl (deny_by r m None)"

definition pass :: check where
  "pass = Inr ()"

definition require :: "bool \<Rightarrow> string \<Rightarrow> string \<Rightarrow> check" where
  "require b r m = (if b then pass else deny r m)"

definition quoted :: "string \<Rightarrow> string \<Rightarrow> string \<Rightarrow> string" where
  "quoted before s after = before @ [CHR 0x27] @ s @ [CHR 0x27] @ after"

section \<open>The create policy\<close>

type_synonym obj = "(string \<times> json) list"

definition hget :: "obj option \<Rightarrow> string \<Rightarrow> json option" where
  "hget hc k = Option.bind hc (\<lambda>h. bt_get h k)"

definition check_name :: "string \<Rightarrow> check" where
  "check_name uri =
     require (is_scanner_name (case query_param uri ''name'' of Some n \<Rightarrow> n | None \<Rightarrow> []))
       ''create-name'' ''container name must be firecrow-scan-<uuid>''"

definition check_image :: "obj \<Rightarrow> check" where
  "check_image obj =
     (case bt_get obj ''Image'' of
        Some (JStr s) \<Rightarrow> require (s \<in> set APPROVED_IMAGES) ''create-image''
                            (quoted ''image '' s '' is not approved'')
      | _ \<Rightarrow> deny ''create-image'' ''container Image must be an approved string'')"

definition check_privileged :: "obj option \<Rightarrow> check" where
  "check_privileged hc =
     (case hget hc ''Privileged'' of
        None \<Rightarrow> pass
      | Some v \<Rightarrow> require (as_bool v = Some False) ''create-privileged''
                    ''Privileged must be explicitly false'')"

text \<open>Null and the empty array are Docker's encodings of "none present".\<close>

definition null_or_empty :: "json \<Rightarrow> bool" where
  "null_or_empty v \<longleftrightarrow> is_null v \<or> as_array v = Some []"

definition check_capadd :: "obj option \<Rightarrow> check" where
  "check_capadd hc =
     (case hget hc ''CapAdd'' of
        None \<Rightarrow> pass
      | Some v \<Rightarrow> require (null_or_empty v) ''create-capadd'' ''capability additions are denied'')"

definition check_capdrop :: "obj option \<Rightarrow> check" where
  "check_capdrop hc =
     require (Option.bind (hget hc ''CapDrop'') as_array = Some [JStr ''ALL''])
       ''create-capdrop'' ''CapDrop must be exactly [ALL]''"

definition check_bind :: "json \<Rightarrow> check" where
  "check_bind b =
     (case as_str b of
        None \<Rightarrow> deny ''create-binds'' ''bind entries must be strings''
      | Some s \<Rightarrow>
          (let parts = split_on (CHR '':'') s;
               part = (\<lambda>i. if i < length parts then parts ! i else []);
               host = part 0; container = part 1; opts = part 2 in
           if length parts > 3 \<or> host = [] \<or> container = [] then
             deny ''create-binds'' (quoted ''bind '' s '' has an unsupported shape'')
           else if host_source_denied host then
             deny ''create-binds'' (quoted ''bind host source '' host '' is not permitted'')
           else require (container \<in> set ALLOWED_BIND_TARGETS
                         \<and> ''ro'' \<in> set (split_on (CHR '','') opts))
             ''create-binds'' (quoted ''bind '' s '' is not one of the read-only staging mounts'')))"

definition check_binds :: "obj option \<Rightarrow> check" where
  "check_binds hc =
     (case hget hc ''Binds'' of
        None \<Rightarrow> pass
      | Some v \<Rightarrow>
          if is_null v then pass
          else (case as_array v of
                  None \<Rightarrow> deny ''create-binds'' ''Binds must be an array''
                | Some binds \<Rightarrow> for_all_ok check_bind binds))"

definition check_mounts :: "obj option \<Rightarrow> check" where
  "check_mounts hc =
     (case hget hc ''Mounts'' of
        None \<Rightarrow> pass
      | Some v \<Rightarrow> require (null_or_empty v) ''create-mounts'' ''structured Mounts are denied'')"

definition check_volumesfrom :: "obj option \<Rightarrow> check" where
  "check_volumesfrom hc =
     (case hget hc ''VolumesFrom'' of
        None \<Rightarrow> pass
      | Some v \<Rightarrow> require (null_or_empty v) ''create-volumesfrom'' ''VolumesFrom is denied'')"

definition check_network :: "obj option \<Rightarrow> check" where
  "check_network hc =
     (case hget hc ''NetworkMode'' of
        Some (JStr s) \<Rightarrow> require (s \<in> set ALLOWED_NETWORKS) ''create-network''
                            (quoted ''network mode '' s '' is not permitted'')
      | _ \<Rightarrow> deny ''create-network'' ''NetworkMode must be an explicit permitted string'')"

definition NAMESPACE_KEYS :: "string list" where
  "NAMESPACE_KEYS = [''PidMode'', ''IpcMode'', ''UTSMode'', ''UsernsMode'']"

definition check_namespace :: "obj option \<Rightarrow> string \<Rightarrow> check" where
  "check_namespace hc key =
     (case hget hc key of
        None \<Rightarrow> pass
      | Some v \<Rightarrow> require (v = JStr []) ''create-namespace''
                    (key @ '' must be absent or empty (host '' @ key @ '' is denied)''))"

definition check_devices :: "obj option \<Rightarrow> check" where
  "check_devices hc =
     (case hget hc ''Devices'' of
        None \<Rightarrow> pass
      | Some v \<Rightarrow> require (null_or_empty v) ''create-devices'' ''device passthrough is denied'')"

definition check_entrypoint :: "obj \<Rightarrow> check" where
  "check_entrypoint obj =
     (case bt_get obj ''Entrypoint'' of
        None \<Rightarrow> pass
      | Some v \<Rightarrow> require (case v of JNull \<Rightarrow> True | JStr s \<Rightarrow> s = ''sh''
                             | JArr a \<Rightarrow> a = [JStr ''sh''] | _ \<Rightarrow> False)
                    ''create-entrypoint'' ''Entrypoint override must be absent or exactly sh'')"

definition check_cmd :: "obj \<Rightarrow> check" where
  "check_cmd obj =
     (case bt_get obj ''Cmd'' of
        None \<Rightarrow> pass
      | Some v \<Rightarrow> require (case v of
                               JArr a \<Rightarrow> a \<noteq> [] \<and> list_all (\<lambda>e. as_str e \<noteq> None) a
                             | _ \<Rightarrow> False)
                    ''create-cmd'' ''Cmd must be a non-empty string array'')"

definition check_user :: "obj \<Rightarrow> check" where
  "check_user obj =
     require (Option.bind (bt_get obj ''User'') as_str = Some SANDBOX_USER)
       ''create-user'' (''container User must be '' @ SANDBOX_USER)"

definition check_readonly :: "obj option \<Rightarrow> check" where
  "check_readonly hc =
     require (Option.bind (hget hc ''ReadonlyRootfs'') as_bool = Some True)
       ''create-readonly'' ''HostConfig.ReadonlyRootfs must be true''"

definition NNP_SPELLINGS :: "string list" where
  "NNP_SPELLINGS = [''no-new-privileges'', ''no-new-privileges=true'', ''no-new-privileges:true'']"

definition all_strings :: "json list \<Rightarrow> string list option" where
  "all_strings a = those (map as_str a)"

definition check_secopt :: "string \<Rightarrow> check" where
  "check_secopt opt =
     require (opt \<in> set NNP_SPELLINGS) ''create-securityopt''
       (quoted ''security option '' opt '' is not permitted on this channel'')"

definition check_securityopt :: "obj option \<Rightarrow> check" where
  "check_securityopt hc =
     (case Option.bind (Option.bind (hget hc ''SecurityOpt'') as_array) all_strings of
        Some (s # ss) \<Rightarrow> for_all_ok check_secopt (s # ss)
      | _ \<Rightarrow> deny ''create-securityopt''
               ''SecurityOpt must be a non-empty string list enabling no-new-privileges'')"

definition TMPFS_KEYS :: "string list" where
  "TMPFS_KEYS = [''rw'', ''noexec'', ''nosuid'', ''nodev'', ''size'']"

fun check_tmpfs_flags :: "string \<Rightarrow> string list \<Rightarrow> string list \<Rightarrow> check" where
  "check_tmpfs_flags opts seen [] = pass"
| "check_tmpfs_flags opts seen (flag # flags) =
     (let key = hd (split_on (CHR ''='') flag) in
      if key \<notin> set TMPFS_KEYS then
        deny ''create-tmpfs'' (quoted ''tmpfs option '' flag '' is not permitted'')
      else if key \<in> set seen then
        deny ''create-tmpfs'' (quoted ''duplicate tmpfs option in '' opts '''')
      else check_tmpfs_flags opts (key # seen) flags)"

definition check_tmpfs_entry :: "string \<times> json \<Rightarrow> check" where
  "check_tmpfs_entry entry =
     (case entry of (dest, opts) \<Rightarrow>
        if \<not> (dest = ''/work'' \<or> prefix ''/work/'' dest) then
          deny ''create-tmpfs'' (quoted ''tmpfs destination '' dest '' is not under /work'')
        else
          (case as_str opts of
             None \<Rightarrow> pass
           | Some o' \<Rightarrow>
               and_then (check_tmpfs_flags o' [] (split_on (CHR '','') o')) (\<lambda>_.
                 require (contains_str o' ''noexec'' \<and> contains_str o' ''nosuid''
                          \<and> contains_str o' ''nodev'')
                   ''create-tmpfs'' ''tmpfs must carry noexec,nosuid,nodev'')))"

definition check_tmpfs :: "obj option \<Rightarrow> check" where
  "check_tmpfs hc =
     (case hget hc ''Tmpfs'' of
        None \<Rightarrow> pass
      | Some v \<Rightarrow>
          (case as_object v of
             None \<Rightarrow> deny ''create-tmpfs'' ''Tmpfs must be an object''
           | Some tmpfs \<Rightarrow> for_all_ok check_tmpfs_entry tmpfs))"

definition restart_disabled :: "json \<Rightarrow> bool" where
  "restart_disabled v =
     (case v of
        JNull \<Rightarrow> True
      | JObj m \<Rightarrow>
          m = [] \<or>
          (let name = (case Option.bind (bt_get m ''Name'') as_str of Some n \<Rightarrow> n | None \<Rightarrow> []);
               count = (case Option.bind (bt_get m ''MaximumRetryCount'') as_u64 of
                          Some c \<Rightarrow> c | None \<Rightarrow> 0)
           in (name = [] \<or> name = ''none'' \<or> name = ''no'') \<and> count = 0)
      | _ \<Rightarrow> False)"

definition check_restartpolicy :: "obj option \<Rightarrow> check" where
  "check_restartpolicy hc =
     (case hget hc ''RestartPolicy'' of
        None \<Rightarrow> pass
      | Some v \<Rightarrow> require (restart_disabled v) ''create-restartpolicy'' ''RestartPolicy is denied'')"

text \<open>The checks of the specification, in the order of the code.\<close>

definition check_spec :: "string \<Rightarrow> obj \<Rightarrow> check" where
  "check_spec uri obj =
     (let hc = Option.bind (bt_get obj ''HostConfig'') as_object in
      for_all_ok (\<lambda>c. c)
        [check_name uri, check_image obj, check_privileged hc, check_capadd hc,
         check_capdrop hc, check_binds hc, check_mounts hc, check_volumesfrom hc,
         check_network hc, for_all_ok (check_namespace hc) NAMESPACE_KEYS, check_devices hc,
         check_entrypoint obj, check_cmd obj, check_user obj, check_readonly hc,
         check_securityopt hc, check_tmpfs hc, check_restartpolicy hc])"

definition create_policy :: "(string \<Rightarrow> json option) \<Rightarrow> authz_request \<Rightarrow> decision" where
  "create_policy parse_json req =
     (case req_body req of
        None \<Rightarrow> deny_by ''create-body-required''
                  ''create spec body is required and must be visible'' None
      | Some body \<Rightarrow>
          if \<not> int (length body) \<le> MAX_BODY_BYTES
          then deny_by ''body-too-large'' ''create body exceeds cap'' None
          else
            (case parse_json body of
               None \<Rightarrow> deny_by ''create-body-unparseable'' ''create body is not valid JSON'' None
             | Some spec \<Rightarrow>
                 (case as_object spec of
                    None \<Rightarrow> deny_by ''create-body-unparseable''
                              ''create body is not an object'' None
                  | Some obj \<Rightarrow>
                      (case check_spec (req_uri req) obj of
                         Inl d \<Rightarrow> d
                       | Inr _ \<Rightarrow> allow_by ''create-allowed'' None))))"

section \<open>The pull and target policies\<close>

fun collect_params :: "string \<Rightarrow> string list \<Rightarrow> string list" where
  "collect_params key [] = []"
| "collect_params key (pair # pairs) =
     (case split_once (CHR ''='') pair of
        Some (k, v) \<Rightarrow> (if k = key then percent_decode v # collect_params key pairs
                       else collect_params key pairs)
      | None \<Rightarrow> collect_params key pairs)"

text \<open>The decision over the collected parameters.\<close>

definition pull_reference :: "string list \<Rightarrow> string list \<Rightarrow> decision + string" where
  "pull_reference from_images tags =
     (case from_images of
        [from_] \<Rightarrow>
          if from_ = [] then Inl (deny_by ''pull-image'' ''image ref is missing'' None)
          else if tags = [] then Inr from_
          else
            (case tags of
               [tag] \<Rightarrow>
                 if tag = [] then
                   Inl (deny_by ''pull-image'' ''image tag must be a single non-empty value'' None)
                 else if CHR ''@'' \<in> set from_ then
                   Inl (deny_by ''pull-image'' ''digest image ref must not carry a tag parameter'' None)
                 else
                   (case rsplit_once (CHR '':'') from_ of
                      Some (_, embedded) \<Rightarrow>
                        if embedded \<noteq> tag then
                          Inl (deny_by ''pull-image'' ''image fromImage/tag conflict is denied'' None)
                        else Inr from_
                    | None \<Rightarrow> Inr (from_ @ '':'' @ tag))
             | _ \<Rightarrow> Inl (deny_by ''pull-image'' ''image tag must be a single non-empty value'' None))
      | _ \<Rightarrow> Inl (deny_by ''pull-image'' ''image ref must carry exactly one fromImage'' None))"

definition pull_policy :: "authz_request \<Rightarrow> decision" where
  "pull_policy req =
     (let query = (case split_once (CHR ''?'') (req_uri req) of Some (_, q) \<Rightarrow> q | None \<Rightarrow> []);
          pairs = filter (\<lambda>p. p \<noteq> []) (split_on (CHR ''&'') query)
      in case pull_reference (collect_params ''fromImage'' pairs) (collect_params ''tag'' pairs) of
           Inl d \<Rightarrow> d
         | Inr candidate \<Rightarrow>
             if candidate \<in> set APPROVED_IMAGES then allow_by ''pull-allowed'' None
             else deny_by ''pull-image'' (quoted ''image ref '' candidate '' is not approved'') None)"

definition target_policy :: "plugin \<Rightarrow> string \<Rightarrow> decision" where
  "target_policy p t =
     (if t \<in> registry p then allow_by ''target-registered'' (Some t)
      else if is_scanner_name t then allow_by ''target-name'' (Some t)
      else deny_by ''target-unknown'' (quoted ''container '' t '' is not owned by this channel'')
             (Some t))"

section \<open>The whole policy\<close>

definition identity_of :: "authz_request \<Rightarrow> string option" where
  "identity_of req =
     (case (req_user_authn req, req_user req) of
        (Some a, Some cn) \<Rightarrow> if a = ''TLS'' \<and> cn \<noteq> [] then Some cn else None
      | _ \<Rightarrow> None)"

definition decide_endpoint ::
  "plugin \<Rightarrow> (string \<Rightarrow> json option) \<Rightarrow> authz_request \<Rightarrow> string \<Rightarrow> decision" where
  "decide_endpoint p parse_json req path =
     (let tgt = container_target path; m = req_method req in
      if (m = ''HEAD'' \<or> m = ''GET'') \<and> path = ''/_ping'' \<or> m = ''GET'' \<and> path = ''/version''
      then allow_by ''negotiation'' tgt
      else if m = ''POST'' \<and> path = ''/containers/create'' then create_policy parse_json req
      else if m = ''POST'' \<and> path = ''/images/create'' then pull_policy req
      else if m = ''POST'' \<and> path = ''/grpc''
      then deny_by ''grpc-door'' ''gRPC denied on this channel (O-3)'' tgt
      else
        (case tgt of
           Some t \<Rightarrow>
             if m = ''POST'' \<and> is_lifecycle_op path then target_policy p t
             else if m = ''DELETE'' \<and> is_container_delete path then target_policy p t
             else deny_by ''endpoint-denied''
                    (m @ '' '' @ path @ '' is not permitted on this channel'') tgt
         | None \<Rightarrow> deny_by ''endpoint-denied''
                    (m @ '' '' @ path @ '' is not permitted on this channel'') tgt))"

text \<open>\<open>None\<close> is the panic of \<open>normalize_path\<close>: the connection's thread dies and the
  daemon gets no answer.\<close>

definition decide ::
  "plugin \<Rightarrow> (string \<Rightarrow> json option) \<Rightarrow> authz_request \<Rightarrow> decision option" where
  "decide p parse_json req =
     (case identity_of req of
        None \<Rightarrow> Some (deny_by ''identity-required''
                 ''TLS client identity required on this channel'' None)
      | Some identity \<Rightarrow>
          if identity \<notin> allowed_cns p then
            Some (deny_by ''identity-not-allowed''
                   (quoted ''identity '' identity '' is not on the allowlist'') None)
          else map_option (decide_endpoint p parse_json req) (normalize_path (req_uri req)))"

section \<open>Observing responses and logging\<close>

definition observed_id :: "(string \<Rightarrow> json option) \<Rightarrow> json \<Rightarrow> string option" where
  "observed_id parse_json res =
     Option.bind (Option.bind (member res ''ResponseBody'') as_str) (\<lambda>body.
     Option.bind (b64_decode body) (\<lambda>raw.
     Option.bind (from_utf8 raw) (\<lambda>t.
     Option.bind (Option.bind (parse_json t) as_object) (\<lambda>obj.
       nonempty (Option.bind (bt_get obj ''Id'') as_str)))))"

definition observe :: "(string \<Rightarrow> json option) \<Rightarrow> json \<Rightarrow> plugin \<Rightarrow> bool \<times> plugin" where
  "observe parse_json res p =
     (case observed_id parse_json res of
        None \<Rightarrow> (False, p)
      | Some i \<Rightarrow> (True, p\<lparr>registry := insert i (registry p)\<rparr>))"

definition log_decision :: "decision \<Rightarrow> authz_request \<Rightarrow> plugin \<Rightarrow> plugin" where
  "log_decision d req p =
     p\<lparr>logged := logged p @
        [\<lparr>log_allow = allow d, log_rule = rule d, log_msg = msg d, log_method = req_method req,
          log_uri = req_uri req, log_user = req_user req, log_user_authn = req_user_authn req,
          log_target = target d\<rparr>]\<rparr>"

end
