(* ===== verification/Authz_Server.thy ===== *)
theory Authz_Server
  imports Authz_Policy
begin

text \<open>
  The plugin-protocol server (\<open>docker-authz-plugin/src/main.rs\<close>): reading one HTTP request
  from the daemon's connection, the dispatch of a request to the policy, and the loop that
  serves a connection.  The connection's input is the list of the bytes still to be read;
  \<open>parse_json\<close> and \<open>quote_json\<close> stand for \<open>serde_json\<close>.  Writing a response can fail, so the
  loop takes for every response whether it was written.
\<close>

section \<open>Requests\<close>

definition MAX_REQUEST_BODY :: int where
  "MAX_REQUEST_BODY = 64 * 1024 * 1024"

record raw_request =
  raw_method :: string
  raw_path :: string
  raw_body :: string
  raw_close :: bool

text \<open>\<open>BufRead::read_line\<close> appends up to and including the next line feed, and fails on bytes
  that are not UTF-8.\<close>

definition read_line :: "string \<Rightarrow> (string \<times> string) option" where
  "read_line input =
     (let body = takeWhile (\<lambda>c. c \<noteq> CHR 0x0A) input;
          rest = dropWhile (\<lambda>c. c \<noteq> CHR 0x0A) input;
          line = body @ take 1 rest
      in if from_utf8_ok line then Some (line, drop 1 rest) else None)"

text \<open>Outcomes of reading: an error, the end of the input, or a value.\<close>

datatype 'a read = ReadError | Eof | Got 'a

text \<open>The header loop; a header line never yields more input than it was given.\<close>

lemma read_line_shrinks:
  "read_line input = Some (line, rest) \<Longrightarrow> line \<noteq> [] \<Longrightarrow> length rest < length input"
proof -
  assume r: "read_line input = Some (line, rest)" and ne: "line \<noteq> []"
  then have "line = takeWhile (\<lambda>c. c \<noteq> CHR 0x0A) input @ take 1 (dropWhile (\<lambda>c. c \<noteq> CHR 0x0A) input)"
    "rest = drop 1 (dropWhile (\<lambda>c. c \<noteq> CHR 0x0A) input)"
    by (auto simp: read_line_def Let_def split: if_splits)
  then have "line @ rest = input" by simp
  then have "length line + length rest = length input" by (metis length_append)
  with ne show ?thesis by (cases line) auto
qed

function read_headers :: "nat \<Rightarrow> bool \<Rightarrow> string \<Rightarrow> (nat \<times> bool \<times> string) read" where
  "read_headers content_length connection_close input =
     (case read_line input of
        None \<Rightarrow> ReadError
      | Some (header, rest) \<Rightarrow>
          if header = [] then Eof
          else if header = [CHR 0x0D, CHR 0x0A] \<or> header = [CHR 0x0A]
          then Got (content_length, connection_close, rest)
          else
            (case split_once (CHR '':'') header of
               None \<Rightarrow> ReadError
             | Some (k, v) \<Rightarrow>
                 if eq_ignore_ascii_case k ''content-length'' then
                   (case parse_uint (2 ^ 64) (trim v) of
                      None \<Rightarrow> ReadError
                    | Some n \<Rightarrow> read_headers n connection_close rest)
                 else read_headers content_length
                        (connection_close \<or> eq_ignore_ascii_case k ''connection''
                           \<and> eq_ignore_ascii_case (trim v) ''close'') rest))"
  by pat_completeness auto
termination
  by (relation "measure (\<lambda>(_, _, input). length input)") (auto dest: read_line_shrinks)

declare read_headers.simps [simp del]

definition read_request :: "string \<Rightarrow> (raw_request \<times> string) read" where
  "read_request input =
     (case read_line input of
        None \<Rightarrow> ReadError
      | Some (line, rest) \<Rightarrow>
          if line = [] then Eof
          else
            (case split_whitespace line of
               method # path # _ # _ \<Rightarrow>
                 (case read_headers 0 False rest of
                    Got (n, close, rest') \<Rightarrow>
                      if int n > MAX_REQUEST_BODY then ReadError
                      else if length rest' < n then ReadError
                      else Got (\<lparr>raw_method = method, raw_path = path, raw_body = take n rest',
                                raw_close = close\<rparr>, drop n rest')
                  | ReadError \<Rightarrow> ReadError
                  | Eof \<Rightarrow> Eof)
             | _ \<Rightarrow> ReadError))"

section \<open>Dispatch\<close>

definition dq :: string where "dq = [CHR 0x22]"
definition crlf :: string where "crlf = [CHR 0x0D, CHR 0x0A]"

definition authz_payload :: "(string \<Rightarrow> string) \<Rightarrow> decision \<Rightarrow> string" where
  "authz_payload quote_json d =
     ''{'' @ dq @ ''Allow'' @ dq @ '':'' @ (if allow d then ''true'' else ''false'') @ '',''
     @ dq @ ''Msg'' @ dq @ '':'' @ quote_json (msg d) @ ''}''"

definition http_response :: "string \<Rightarrow> string \<Rightarrow> string" where
  "http_response status payload =
     ''HTTP/1.1 '' @ status @ crlf @ ''Content-Type: application/json'' @ crlf
     @ ''Content-Length: '' @ nat_str (length payload) @ crlf @ crlf @ payload"

definition unusable :: "string \<Rightarrow> decision \<times> authz_request" where
  "unusable reason =
     (\<lparr>allow = False, rule = reason, msg = ''unusable authorization request: '' @ reason,
       target = None\<rparr>,
      \<lparr>req_method = [], req_uri = [], req_user = None, req_user_authn = None, req_body = None\<rparr>)"

text \<open>The answer to \<open>/AuthZPlugin.AuthZReq\<close>: the decision and the request it is logged with.\<close>

definition authz_req ::
  "(string \<Rightarrow> json option) \<Rightarrow> plugin \<Rightarrow> string \<Rightarrow> (decision \<times> authz_request) option" where
  "authz_req parse_json p body =
     (let v = (case parse_json body of Some v \<Rightarrow> v | None \<Rightarrow> JNull) in
      case parse_request v of
        Inl reason \<Rightarrow> Some (unusable reason)
      | Inr req \<Rightarrow> map_option (\<lambda>d. (d, req)) (decide p parse_json req))"

text \<open>\<open>None\<close> is the panic of the decision: nothing is answered, nothing is logged.\<close>

definition dispatch ::
  "(string \<Rightarrow> json option) \<Rightarrow> (string \<Rightarrow> string) \<Rightarrow> raw_request \<Rightarrow> plugin
     \<Rightarrow> (string \<times> bool \<times> plugin) option" where
  "dispatch parse_json quote_json req p =
     (if raw_method req = ''POST'' \<and> raw_path req = ''/Plugin.Activate'' then
        Some (http_response ''200 OK''
                (''{'' @ dq @ ''Implements'' @ dq @ '':['' @ dq @ ''authz'' @ dq @ '']}''),
              raw_close req, p)
      else if raw_method req = ''POST'' \<and> raw_path req = ''/AuthZPlugin.AuthZReq'' then
        (case authz_req parse_json p (raw_body req) of
           None \<Rightarrow> None
         | Some (d, logged_req) \<Rightarrow>
             Some (http_response ''200 OK'' (authz_payload quote_json d), raw_close req,
                   log_decision d logged_req p))
      else if raw_method req = ''POST'' \<and> raw_path req = ''/AuthZPlugin.AuthZRes'' then
        (let v = (case parse_json (raw_body req) of Some v \<Rightarrow> v | None \<Rightarrow> JNull) in
         Some (http_response ''200 OK'' (''{'' @ dq @ ''Allow'' @ dq @ '':true}''), raw_close req,
               snd (observe parse_json v p)))
      else
        Some (http_response ''404 Not Found''
                (''{'' @ dq @ ''Allow'' @ dq @ '':false,'' @ dq @ ''Msg'' @ dq @ '':''
                 @ dq @ ''unknown plugin method'' @ dq @ ''}''), True, p))"

lemma read_headers_shrinks:
  "read_headers n c input = Got (m, d, rest) \<Longrightarrow> length rest < length input"
proof (induction n c input rule: read_headers.induct)
  case (1 n c input)
  from "1.prems" obtain header r where h: "read_line input = Some (header, r)" "header \<noteq> []"
    by (subst (asm) read_headers.simps) (auto split: option.splits if_splits)
  note sh = read_line_shrinks[OF h]
  show ?case
  proof (cases "header = [CHR 0x0D, CHR 0x0A] \<or> header = [CHR 0x0A]")
    case True
    then show ?thesis using "1.prems" h sh by (subst (asm) read_headers.simps) auto
  next
    case False
    with "1.prems" h obtain k v where kv: "split_once (CHR '':'') header = Some (k, v)"
      by (subst (asm) read_headers.simps) (auto split: option.splits)
    show ?thesis
    proof (cases "eq_ignore_ascii_case k ''content-length''")
      case True
      with "1.prems" h kv False obtain l where l: "parse_uint (2 ^ 64) (trim v) = Some l"
        and rec: "read_headers l c r = Got (m, d, rest)"
        by (subst (asm) read_headers.simps) (auto split: option.splits)
      have "length rest < length r"
        by (rule "1.IH"(1)[OF h(1) refl h(2) False kv refl True l rec])
      with sh show ?thesis by simp
    next
      case False': False
      from "1.prems" h kv False False'
      have rec: "read_headers n (c \<or> eq_ignore_ascii_case k ''connection''
            \<and> eq_ignore_ascii_case (trim v) ''close'') r = Got (m, d, rest)"
        by (subst (asm) read_headers.simps) (auto split: option.splits)
      have "length rest < length r"
        by (rule "1.IH"(2)[OF h(1) refl h(2) False kv refl False' rec])
      with sh show ?thesis by simp
    qed
  qed
qed

lemma read_request_shrinks:
  assumes "read_request input = Got (req, rest)"
  shows "length rest < length input"
proof -
  from assms obtain line r where l: "read_line input = Some (line, r)" "line \<noteq> []"
    by (auto simp: read_request_def split: option.splits if_splits)
  with assms obtain n c r' where h: "read_headers 0 False r = Got (n, c, r')"
    and rest: "rest = drop n r'"
    by (auto simp: read_request_def split: list.splits read.splits if_splits)
  from read_line_shrinks[OF l] read_headers_shrinks[OF h] show ?thesis by (simp add: rest)
qed

text \<open>The connection loop.  It stops at the end of the input, at an unreadable request, at a
  response that could not be written, after a response that closes, and when the thread
  panics; \<open>written\<close> says of every response whether the socket took it.\<close>

function handle_conn ::
  "(string \<Rightarrow> json option) \<Rightarrow> (string \<Rightarrow> string) \<Rightarrow> (nat \<Rightarrow> bool) \<Rightarrow> string \<Rightarrow> plugin
     \<Rightarrow> string list \<times> plugin" where
  "handle_conn parse_json quote_json written input p =
     (case read_request input of
        Got (req, rest) \<Rightarrow>
          (case dispatch parse_json quote_json req p of
             None \<Rightarrow> ([], p)
           | Some (resp, close, p') \<Rightarrow>
               if \<not> written 0 then ([], p')
               else if close then ([resp], p')
               else
                 (let (resps, p'') =
                    handle_conn parse_json quote_json (\<lambda>n. written (Suc n)) rest p'
                  in (resp # resps, p'')))
      | _ \<Rightarrow> ([], p))"
  by pat_completeness auto
termination
  by (relation "measure (\<lambda>(_, _, _, input, _). length input)") (auto dest: read_request_shrinks)

declare handle_conn.simps [simp del]

end
