(* ===== verification/Authz_Props.thy ===== *)
theory Authz_Props
  imports Authz_Server
begin

text \<open>
  What the authorization plugin guarantees: the identity gate, the endpoint matrix, the
  hardened create specification, the pull rule, ownership of lifecycle targets over whole
  runs, and that every answered decision is logged.  The ownership contract is a locale
  that is interpreted on the plugin's registry.
\<close>

section \<open>The decision of an endpoint\<close>

lemmas decision_defs = allow_by_def deny_by_def

lemma allow_by_simps [simp]:
  "allow (allow_by r t)" "rule (allow_by r t) = r" "target (allow_by r t) = t"
  "\<not> allow (deny_by r m t)" "rule (deny_by r m t) = r" "target (deny_by r m t) = t"
  by (simp_all add: decision_defs)

lemma require_Inr [simp]: "require b r m = Inr () \<longleftrightarrow> b"
  by (simp add: require_def pass_def deny_def)

lemma require_Inl: "require b r m = Inl d \<Longrightarrow> \<not> allow d"
  by (auto simp: require_def pass_def deny_def split: if_splits)

lemma deny_not_pass [simp]: "deny r m \<noteq> Inr ()" "pass = Inr ()" "deny r m = Inl d \<longleftrightarrow> d = deny_by r m None"
  by (auto simp: deny_def pass_def)

section \<open>The hardened specification\<close>

text \<open>What an accepted container looks like, field by field, without the order of the checks
  or their messages.\<close>

definition safe_bind :: "string \<Rightarrow> bool" where
  "safe_bind s \<longleftrightarrow> (\<exists>host container opts. split_on (CHR '':'') s = [host, container, opts]
     \<and> \<not> host_path_forbidden host \<and> container \<in> {''/scan'', ''/config''}
     \<and> ''ro'' \<in> set (split_on (CHR '','') opts))"

definition safe_binds :: "json option \<Rightarrow> bool" where
  "safe_binds v \<longleftrightarrow> v \<in> {None, Some JNull} \<or>
     (\<exists>ss. v = Some (JArr (map JStr ss)) \<and> (\<forall>s \<in> set ss. safe_bind s))"

definition absent_or_empty :: "json option \<Rightarrow> bool" where
  "absent_or_empty v \<longleftrightarrow> v \<in> {None, Some JNull, Some (JArr [])}"

definition flag_key :: "string \<Rightarrow> string" where
  "flag_key flag = hd (split_on (CHR ''='') flag)"

definition safe_tmpfs_entry :: "string \<times> json \<Rightarrow> bool" where
  "safe_tmpfs_entry e \<longleftrightarrow>
     (fst e = ''/work'' \<or> prefix ''/work/'' (fst e)) \<and>
     (\<forall>o'. snd e = JStr o' \<longrightarrow>
        distinct (map flag_key (split_on (CHR '','') o')) \<and>
        flag_key ` set (split_on (CHR '','') o') \<subseteq> set TMPFS_KEYS \<and>
        contains_str o' ''noexec'' \<and> contains_str o' ''nosuid'' \<and> contains_str o' ''nodev'')"

definition safe_tmpfs :: "json option \<Rightarrow> bool" where
  "safe_tmpfs v \<longleftrightarrow> v = None \<or> (\<exists>m. v = Some (JObj m) \<and> (\<forall>e \<in> set m. safe_tmpfs_entry e))"

definition safe_securityopt :: "json option \<Rightarrow> bool" where
  "safe_securityopt v \<longleftrightarrow>
     (\<exists>ss. v = Some (JArr (map JStr ss)) \<and> ss \<noteq> [] \<and> set ss \<subseteq> set NNP_SPELLINGS)"

definition safe_entrypoint :: "json option \<Rightarrow> bool" where
  "safe_entrypoint v \<longleftrightarrow> v \<in> {None, Some JNull, Some (JStr ''sh''), Some (JArr [JStr ''sh''])}"

definition safe_cmd :: "json option \<Rightarrow> bool" where
  "safe_cmd v \<longleftrightarrow> v = None \<or> (\<exists>ss. v = Some (JArr (map JStr ss)) \<and> ss \<noteq> [])"

definition hardened :: "string \<Rightarrow> obj \<Rightarrow> bool" where
  "hardened uri obj \<longleftrightarrow>
     (let h = hget (Option.bind (bt_get obj ''HostConfig'') as_object) in
      (\<exists>u. query_param uri ''name'' = Some (SCAN_NAME_PREFIX @ u) \<and> uuid_shape u)
      \<and> (\<exists>s \<in> set APPROVED_IMAGES. bt_get obj ''Image'' = Some (JStr s))
      \<and> h ''Privileged'' \<in> {None, Some (JBool False)}
      \<and> absent_or_empty (h ''CapAdd'')
      \<and> h ''CapDrop'' = Some (JArr [JStr ''ALL''])
      \<and> safe_binds (h ''Binds'')
      \<and> absent_or_empty (h ''Mounts'') \<and> absent_or_empty (h ''VolumesFrom'')
      \<and> h ''NetworkMode'' \<in> {Some (JStr ''none''), Some (JStr ''scanners-internal'')}
      \<and> (\<forall>k \<in> {''PidMode'', ''IpcMode'', ''UTSMode'', ''UsernsMode''}. h k \<in> {None, Some (JStr [])})
      \<and> absent_or_empty (h ''Devices'')
      \<and> safe_entrypoint (bt_get obj ''Entrypoint'')
      \<and> safe_cmd (bt_get obj ''Cmd'')
      \<and> bt_get obj ''User'' = Some (JStr ''65534:65534'')
      \<and> h ''ReadonlyRootfs'' = Some (JBool True)
      \<and> safe_securityopt (h ''SecurityOpt'')
      \<and> safe_tmpfs (h ''Tmpfs'')
      \<and> (case h ''RestartPolicy'' of None \<Rightarrow> True | Some v \<Rightarrow> restart_disabled v))"

lemma map_as_str: "those (map as_str a) = Some ss \<longleftrightarrow> a = map JStr ss"
proof (induction a arbitrary: ss)
  case Nil
  then show ?case by auto
next
  case (Cons v a)
  then show ?case by (cases v) (auto simp: Cons.IH split: option.splits)
qed

lemma for_all_ok_Inl: "for_all_ok f xs = Inl d \<Longrightarrow> \<exists>x \<in> set xs. f x = Inl d"
  by (induction xs) (auto split: sum.splits)

lemma null_or_empty_absent:
  "(case v of None \<Rightarrow> pass | Some x \<Rightarrow> require (null_or_empty x) r m) = Inr () \<longleftrightarrow> absent_or_empty v"
  by (auto simp: null_or_empty_def is_null_def absent_or_empty_def split: option.splits)

lemma check_bind_iff: "check_bind b = Inr () \<longleftrightarrow> (\<exists>s. b = JStr s \<and> safe_bind s)"
proof (cases "as_str b")
  case None
  then show ?thesis by (cases b) (auto simp: check_bind_def)
next
  case (Some s)
  let ?p = "split_on (CHR '':'') s"
  have nil: "\<not> ''ro'' \<in> set (split_on (CHR '','') [])" by simp
  have hf: "host_path_forbidden []"
    unfolding host_source_denied_iff[symmetric] by (simp add: host_source_denied_def)
  consider a where "?p = [a]" | a b where "?p = [a, b]" | a b c where "?p = [a, b, c]"
    | a b c d e where "?p = a # b # c # d # e"
    by (metis list.exhaust split_on_nonempty)
  then have "check_bind (JStr s) = Inr () \<longleftrightarrow> safe_bind s"
  proof cases
    case (3 h c o')
    then show ?thesis
      using hf
      by (auto simp: check_bind_def safe_bind_def Let_def host_source_denied_iff
          ALLOWED_BIND_TARGETS_def)
  qed (use nil in \<open>auto simp: check_bind_def safe_bind_def Let_def\<close>)
  then show ?thesis using Some by auto
qed

lemma check_binds_iff: "check_binds hc = Inr () \<longleftrightarrow> safe_binds (hget hc ''Binds'')"
proof -
  have "(\<forall>b \<in> set bs. \<exists>s. b = JStr s \<and> safe_bind s)
      \<longleftrightarrow> (\<exists>ss. bs = map JStr ss \<and> (\<forall>s \<in> set ss. safe_bind s))" for bs
  proof (induction bs)
    case (Cons b bs)
    then show ?case
      by (auto simp: Cons_eq_map_conv) (metis list.set_intros(1) list.set_intros(2) set_ConsD)
  qed simp
  then show ?thesis
    by (auto simp: check_binds_def safe_binds_def is_null_def for_all_ok_Inr check_bind_iff
        split: option.splits)
qed

lemma check_tmpfs_flags_iff:
  "check_tmpfs_flags o' seen flags = Inr () \<longleftrightarrow>
     distinct (map flag_key flags) \<and> flag_key ` set flags \<subseteq> set TMPFS_KEYS
     \<and> flag_key ` set flags \<inter> set seen = {}"
  by (induction flags arbitrary: seen) (auto simp: Let_def flag_key_def)

lemma check_tmpfs_iff: "check_tmpfs hc = Inr () \<longleftrightarrow> safe_tmpfs (hget hc ''Tmpfs'')"
proof -
  have entry: "check_tmpfs_entry e = Inr () \<longleftrightarrow> safe_tmpfs_entry e" for e
  proof (cases e)
    case (Pair dest opts)
    show ?thesis
    proof (cases "as_str opts")
      case None
      then have "opts \<noteq> JStr o'" for o' by auto
      then show ?thesis using None by (simp add: Pair check_tmpfs_entry_def safe_tmpfs_entry_def)
    next
      case (Some o')
      then have "opts = JStr o'" by simp
      then show ?thesis
        by (simp add: Pair check_tmpfs_entry_def safe_tmpfs_entry_def and_then_Inr
            check_tmpfs_flags_iff)
    qed
  qed
  show ?thesis
  proof (cases "hget hc ''Tmpfs''")
    case None
    then show ?thesis by (simp add: check_tmpfs_def safe_tmpfs_def)
  next
    case (Some v)
    show ?thesis
    proof (cases "as_object v")
      case None
      then have "v \<noteq> JObj m" for m by auto
      with None Some show ?thesis by (simp add: check_tmpfs_def safe_tmpfs_def)
    next
      case (Some m)
      then have v: "v = JObj m" by simp
      have "check_tmpfs hc = Inr () \<longleftrightarrow> (\<forall>e \<in> set m. safe_tmpfs_entry e)"
        unfolding check_tmpfs_def \<open>hget hc ''Tmpfs'' = Some v\<close> v by (simp add: for_all_ok_Inr entry)
      then show ?thesis
        unfolding safe_tmpfs_def \<open>hget hc ''Tmpfs'' = Some v\<close> v by simp
    qed
  qed
qed

lemma check_securityopt_iff:
  "check_securityopt hc = Inr () \<longleftrightarrow> safe_securityopt (hget hc ''SecurityOpt'')"
proof -
  have "Option.bind (Option.bind v as_array) all_strings = Some ss \<longleftrightarrow> v = Some (JArr (map JStr ss))"
    for v ss
  proof (cases "Option.bind v as_array")
    case None
    then have "v \<noteq> Some (JArr a)" for a by auto
    with None show ?thesis by simp
  next
    case (Some a)
    then have "v = Some (JArr a)" by (cases v) auto
    with Some show ?thesis by (simp add: all_strings_def map_as_str)
  qed
  note eq = this[of "hget hc ''SecurityOpt''"]
  show ?thesis
  proof (cases "Option.bind (Option.bind (hget hc ''SecurityOpt'') as_array) all_strings")
    case None
    then show ?thesis using eq by (auto simp: check_securityopt_def safe_securityopt_def)
  next
    case (Some ss)
    then have "hget hc ''SecurityOpt'' = Some (JArr (map JStr ss))" using eq by blast
    then have "safe_securityopt (hget hc ''SecurityOpt'') \<longleftrightarrow> ss \<noteq> [] \<and> set ss \<subseteq> set NNP_SPELLINGS"
      by (auto simp: safe_securityopt_def inj_map_eq_map inj_def)
    then show ?thesis
      using Some
      by (cases ss) (auto simp: check_securityopt_def for_all_ok_Inr check_secopt_def
          simp del: for_all_ok.simps)
  qed
qed

lemma check_entrypoint_iff: "check_entrypoint obj = Inr () \<longleftrightarrow> safe_entrypoint (bt_get obj ''Entrypoint'')"
  by (auto simp: check_entrypoint_def safe_entrypoint_def split: option.splits json.splits)

lemma check_cmd_iff: "check_cmd obj = Inr () \<longleftrightarrow> safe_cmd (bt_get obj ''Cmd'')"
proof -
  have *: "list_all (\<lambda>e. \<exists>y. e = JStr y) a \<longleftrightarrow> (\<exists>ss. a = map JStr ss)" for a
    by (induction a) (auto simp: Cons_eq_map_conv)
  show ?thesis
  proof (cases "bt_get obj ''Cmd''")
    case None
    then show ?thesis by (simp add: check_cmd_def safe_cmd_def)
  next
    case (Some v)
    then show ?thesis unfolding check_cmd_def safe_cmd_def by (cases v) (simp_all add: *, auto)
  qed
qed

lemmas check_iffs = check_binds_iff check_tmpfs_iff check_securityopt_iff check_entrypoint_iff
  check_cmd_iff

lemma check_namespace_iff: "check_namespace hc k = Inr () \<longleftrightarrow> hget hc k \<in> {None, Some (JStr [])}"
  by (auto simp: check_namespace_def split: option.splits)

lemma check_name_iff:
  "check_name uri = Inr () \<longleftrightarrow>
     (\<exists>u. query_param uri ''name'' = Some (SCAN_NAME_PREFIX @ u) \<and> uuid_shape u)"
proof -
  have "\<not> is_scanner_name []" by (auto simp: is_scanner_name_iff SCAN_NAME_PREFIX_def)
  then show ?thesis
    by (cases "query_param uri ''name''") (auto simp: check_name_def is_scanner_name_iff)
qed

lemma check_spec_iff: "check_spec uri obj = Inr () \<longleftrightarrow> hardened uri obj"
proof -
  let ?hc = "Option.bind (bt_get obj ''HostConfig'') as_object"
  have image: "check_image obj = Inr () \<longleftrightarrow> (\<exists>s \<in> set APPROVED_IMAGES. bt_get obj ''Image'' = Some (JStr s))"
    by (auto simp: check_image_def split: option.splits json.splits)
  have priv: "check_privileged ?hc = Inr () \<longleftrightarrow> hget ?hc ''Privileged'' \<in> {None, Some (JBool False)}"
    by (auto simp: check_privileged_def split: option.splits)
  have net: "check_network ?hc = Inr () \<longleftrightarrow>
      hget ?hc ''NetworkMode'' \<in> {Some (JStr ''none''), Some (JStr ''scanners-internal'')}"
    by (auto simp: check_network_def ALLOWED_NETWORKS_def split: option.splits json.splits)
  have ns: "for_all_ok (check_namespace ?hc) NAMESPACE_KEYS = Inr () \<longleftrightarrow>
      (\<forall>k \<in> {''PidMode'', ''IpcMode'', ''UTSMode'', ''UsernsMode''}. hget ?hc k \<in> {None, Some (JStr [])})"
    unfolding for_all_ok_Inr NAMESPACE_KEYS_def check_namespace_iff by simp
  have bind_Some: "Option.bind v f = Some x \<longleftrightarrow> (\<exists>y. v = Some y \<and> f y = Some x)" for v f and x :: 'b
    by (cases v) auto
  have capdrop: "check_capdrop ?hc = Inr () \<longleftrightarrow> hget ?hc ''CapDrop'' = Some (JArr [JStr ''ALL''])"
    by (auto simp: check_capdrop_def bind_Some)
  have user: "check_user obj = Inr () \<longleftrightarrow> bt_get obj ''User'' = Some (JStr ''65534:65534'')"
    by (cases "bt_get obj ''User''") (auto simp: check_user_def SANDBOX_USER_def)
  have ro: "check_readonly ?hc = Inr () \<longleftrightarrow> hget ?hc ''ReadonlyRootfs'' = Some (JBool True)"
    by (cases "hget ?hc ''ReadonlyRootfs''") (auto simp: check_readonly_def)
  have restart: "check_restartpolicy ?hc = Inr () \<longleftrightarrow>
      (case hget ?hc ''RestartPolicy'' of None \<Rightarrow> True | Some v \<Rightarrow> restart_disabled v)"
    by (auto simp: check_restartpolicy_def split: option.splits)
  have empties: "check_capadd ?hc = Inr () \<longleftrightarrow> absent_or_empty (hget ?hc ''CapAdd'')"
    "check_mounts ?hc = Inr () \<longleftrightarrow> absent_or_empty (hget ?hc ''Mounts'')"
    "check_volumesfrom ?hc = Inr () \<longleftrightarrow> absent_or_empty (hget ?hc ''VolumesFrom'')"
    "check_devices ?hc = Inr () \<longleftrightarrow> absent_or_empty (hget ?hc ''Devices'')"
    by (simp_all add: check_capadd_def check_mounts_def check_volumesfrom_def check_devices_def
        null_or_empty_absent)
  show ?thesis
    unfolding check_spec_def Let_def for_all_ok_Inr hardened_def
    by (simp only: list.set ball_simps image priv net ns capdrop user ro restart empties
        check_iffs check_name_iff simp_thms)
qed

section \<open>A failing check denies\<close>

definition denies :: "check \<Rightarrow> bool" where
  "denies r \<longleftrightarrow> (\<forall>d. r = Inl d \<longrightarrow> \<not> allow d)"

lemma denies_basic [simp, intro]:
  "denies (deny r m)" "denies pass" "denies (require b r m)" "denies (Inr ())"
  "denies (Inl (deny_by r m t))"
  by (simp_all add: denies_def require_def pass_def deny_def)

lemma denies_for_all [intro]: "(\<And>x. denies (f x)) \<Longrightarrow> denies (for_all_ok f xs)"
  unfolding denies_def by (metis for_all_ok_Inl)

lemma denies_and_then: "denies r \<Longrightarrow> denies (f ()) \<Longrightarrow> denies (and_then r f)"
  by (cases r) (auto simp: denies_def)

lemma denies_split:
  "denies x \<Longrightarrow> (\<And>v. denies (f v)) \<Longrightarrow> denies (case ov of None \<Rightarrow> x | Some v \<Rightarrow> f v)"
  by (cases ov) auto

lemma denies_if: "denies x \<Longrightarrow> denies y \<Longrightarrow> denies (if b then x else y)"
  by simp

lemma denies_flags: "denies (check_tmpfs_flags o' seen flags)"
  by (induction flags arbitrary: seen) (auto simp: Let_def)

lemma denies_bind: "denies (check_bind b)"
  unfolding check_bind_def Let_def by (intro denies_split denies_if denies_basic)

lemma denies_tmpfs_entry: "denies (check_tmpfs_entry e)"
  unfolding check_tmpfs_entry_def
  by (cases e) (auto intro!: denies_split denies_and_then denies_flags)

lemma denies_checks:
  "denies (check_name uri)" "denies (check_image obj)" "denies (check_privileged hc)"
  "denies (check_capadd hc)" "denies (check_capdrop hc)" "denies (check_binds hc)"
  "denies (check_mounts hc)" "denies (check_volumesfrom hc)" "denies (check_network hc)"
  "denies (check_namespace hc k)" "denies (check_devices hc)" "denies (check_entrypoint obj)"
  "denies (check_cmd obj)" "denies (check_user obj)" "denies (check_readonly hc)"
  "denies (check_secopt s)" "denies (check_tmpfs hc)" "denies (check_restartpolicy hc)"
  unfolding check_name_def check_image_def check_privileged_def check_capadd_def check_capdrop_def
    check_binds_def check_mounts_def check_volumesfrom_def check_network_def check_namespace_def
    check_devices_def check_entrypoint_def check_cmd_def check_user_def check_readonly_def
    check_secopt_def check_tmpfs_def check_restartpolicy_def
  by (auto intro!: denies_split denies_for_all denies_bind denies_tmpfs_entry split: json.split)

lemma denies_securityopt: "denies (check_securityopt hc)"
  unfolding check_securityopt_def
  by (auto intro!: denies_checks denies_for_all simp del: for_all_ok.simps
      split: option.split list.split)

lemma denies_spec: "denies (check_spec uri obj)"
proof -
  have *: "(\<And>c. c \<in> set cs \<Longrightarrow> denies c) \<Longrightarrow> denies (for_all_ok (\<lambda>c. c) cs)" for cs
    unfolding denies_def by (metis for_all_ok_Inl)
  show ?thesis
    unfolding check_spec_def Let_def
    by (rule *) (auto simp del: for_all_ok.simps intro!: denies_checks denies_securityopt denies_for_all)
qed

text \<open>C3. The create rule: a container is created exactly when the daemon shows a body within the
  cap that parses to an object whose fields all have the hardened values: an approved image, a
  scanner name, no privileges, no added capability and all dropped, only read-only staging binds
  from unprotected host paths, no mounts, devices or shared namespaces, an isolated network, the
  sandbox user, a read-only root, no-new-privileges and scratch space under \<open>/work\<close> only.\<close>

theorem create_allow_iff:
  "allow (create_policy parse_json req) \<longleftrightarrow>
     (\<exists>body obj. req_body req = Some body \<and> int (length body) \<le> MAX_BODY_BYTES
        \<and> parse_json body = Some (JObj obj) \<and> hardened (req_uri req) obj)"
proof -
  show ?thesis
  proof (cases "req_body req")
    case None
    then show ?thesis by (simp add: create_policy_def)
  next
    case (Some body)
    note body = this
    show ?thesis
    proof (cases "Option.bind (parse_json body) as_object")
      case None
      then have "\<not> (\<exists>obj. parse_json body = Some (JObj obj))" by auto
      with None body show ?thesis by (auto simp: create_policy_def split: option.splits)
    next
      case (Some obj)
      then have pj: "parse_json body = Some (JObj obj)" by (cases "parse_json body") auto
      show ?thesis
        using check_spec_iff[of "req_uri req" obj] denies_spec[of "req_uri req" obj]
        by (cases "check_spec (req_uri req) obj") (auto simp: create_policy_def body pj denies_def)
    qed
  qed
qed


section \<open>The frame of the create rule\<close>

definition EXAMINED_TOP :: "string set" where
  "EXAMINED_TOP = {''Image'', ''Entrypoint'', ''Cmd'', ''User''}"

definition EXAMINED_HOST :: "string set" where
  "EXAMINED_HOST = {''Privileged'', ''CapAdd'', ''CapDrop'', ''Binds'', ''Mounts'', ''VolumesFrom'',
     ''NetworkMode'', ''PidMode'', ''IpcMode'', ''UTSMode'', ''UsernsMode'', ''Devices'',
     ''ReadonlyRootfs'', ''SecurityOpt'', ''Tmpfs'', ''RestartPolicy''}"

definition host_config :: "obj \<Rightarrow> obj option" where
  "host_config obj = Option.bind (bt_get obj ''HostConfig'') as_object"

text \<open>What the create rule does not look at: two specifications that agree on the sixteen
  examined keys of \<open>HostConfig\<close> and the four examined top-level keys get the same answer, so every
  other key (\<open>DeviceRequests\<close>, \<open>NetworkingConfig\<close>, \<open>CgroupParent\<close>, a differently cased
  \<open>hostconfig\<close>) passes unseen; the rule is a list of denied values and not of permitted keys.\<close>

theorem create_frame:
  assumes "\<forall>k \<in> EXAMINED_TOP. bt_get obj k = bt_get obj' k"
    and "\<forall>k \<in> EXAMINED_HOST. hget (host_config obj) k = hget (host_config obj') k"
  shows "check_spec uri obj = check_spec uri obj'"
proof -
  have top: "bt_get obj ''Image'' = bt_get obj' ''Image''" "bt_get obj ''Entrypoint'' = bt_get obj' ''Entrypoint''"
    "bt_get obj ''Cmd'' = bt_get obj' ''Cmd''" "bt_get obj ''User'' = bt_get obj' ''User''"
    using assms(1) by (simp_all add: EXAMINED_TOP_def)
  note host = assms(2)[unfolded EXAMINED_HOST_def ball_simps host_config_def]
  note checks = check_name_def check_image_def check_privileged_def check_capadd_def check_capdrop_def
    check_binds_def check_mounts_def check_volumesfrom_def check_network_def check_namespace_def
    check_devices_def check_entrypoint_def check_cmd_def check_user_def check_readonly_def
    check_securityopt_def check_tmpfs_def check_restartpolicy_def
  show ?thesis
    unfolding check_spec_def Let_def NAMESPACE_KEYS_def checks for_all_ok.simps
    by (simp only: top host simp_thms)
qed

section \<open>The pull rule\<close>

definition query_pairs :: "string \<Rightarrow> string list" where
  "query_pairs uri = filter (\<lambda>p. p \<noteq> [])
     (split_on (CHR ''&'') (case split_once (CHR ''?'') uri of Some (_, q) \<Rightarrow> q | None \<Rightarrow> []))"

lemma approved_shape:
  assumes "s \<in> set APPROVED_IMAGES"
  shows "CHR ''@'' \<notin> set s" "s \<noteq> []" "\<exists>n t. s = n @ '':'' @ t \<and> CHR '':'' \<notin> set n \<and> CHR '':'' \<notin> set t \<and> n \<noteq> [] \<and> t \<noteq> []"
proof -
  show "CHR ''@'' \<notin> set s" "s \<noteq> []" using assms by (auto simp: APPROVED_IMAGES_def)
  have "s = n @ '':'' @ t \<and> CHR '':'' \<notin> set n \<and> CHR '':'' \<notin> set t \<and> n \<noteq> [] \<and> t \<noteq> []
     \<Longrightarrow> \<exists>n t. s = n @ '':'' @ t \<and> CHR '':'' \<notin> set n \<and> CHR '':'' \<notin> set t \<and> n \<noteq> [] \<and> t \<noteq> []" for n t
    by blast
  from this[of "''ghcr.io/gitleaks/gitleaks''" "''v8.18.4''"]
    this[of "''ghcr.io/google/osv-scanner''" "''v2.2.4''"] this[of "''semgrep/semgrep''" "''1.96.0''"]
  show "\<exists>n t. s = n @ '':'' @ t \<and> CHR '':'' \<notin> set n \<and> CHR '':'' \<notin> set t \<and> n \<noteq> [] \<and> t \<noteq> []"
    using assms by (auto simp: APPROVED_IMAGES_def)
qed

lemma pull_reference_Inl: "pull_reference froms tags = Inl d \<Longrightarrow> \<not> allow d"
  by (auto simp: pull_reference_def split: list.splits if_splits option.splits)

lemma pull_reference_iff:
  "(\<exists>c. pull_reference froms tags = Inr c \<and> c \<in> set APPROVED_IMAGES) \<longleftrightarrow>
     (\<exists>name tag. name @ '':'' @ tag \<in> set APPROVED_IMAGES \<and> CHR '':'' \<notin> set tag \<and>
        (froms = [name @ '':'' @ tag] \<and> tags \<in> {[], [tag]} \<or> froms = [name] \<and> tags = [tag]))"
    (is "?l \<longleftrightarrow> ?r")
proof
  assume ?l
  then obtain c where c: "pull_reference froms tags = Inr c" and a: "c \<in> set APPROVED_IMAGES" by blast
  obtain n t where nt: "c = n @ '':'' @ t" "CHR '':'' \<notin> set t" using approved_shape(3)[OF a] by auto
  from c obtain f where f: "froms = [f]" "f \<noteq> []"
    by (auto simp: pull_reference_def split: list.splits if_splits)
  show ?r
  proof (cases tags)
    case Nil
    then have "c = f" using c f by (simp add: pull_reference_def)
    with nt a f Nil show ?thesis by blast
  next
    case (Cons tag rest)
    then have r: "rest = []" "tag \<noteq> []" using c f
      by (auto simp: pull_reference_def split: list.splits if_splits)
    show ?thesis
    proof (cases "rsplit_once (CHR '':'') f")
      case None
      then have cf: "c = f @ '':'' @ tag"
        using c f r Cons by (auto simp: pull_reference_def split: if_splits)
      then have "CHR '':'' \<notin> set tag"
        using approved_shape(3)[OF a] None
        by (auto simp: rsplit_once_def split_once_def append_eq_append_conv2 append_eq_Cons_conv
            Cons_eq_append_conv split: if_splits)
      with cf a f r Cons show ?thesis by auto
    next
      case (Some p)
      then obtain n' where "rsplit_once (CHR '':'') f = Some (n', tag)" "c = f"
        using c f r Cons by (cases p) (auto simp: pull_reference_def split: if_splits)
      then have "c = n' @ '':'' @ tag" "CHR '':'' \<notin> set tag" "c = f" by (auto simp: rsplit_once_Some)
      with a f r Cons show ?thesis by blast
    qed
  qed
next
  assume ?r
  then obtain n t where a: "n @ '':'' @ t \<in> set APPROVED_IMAGES" and t: "CHR '':'' \<notin> set t"
    and cases: "froms = [n @ '':'' @ t] \<and> tags \<in> {[], [t]} \<or> froms = [n] \<and> tags = [t]" by blast
  obtain n' t' where s: "n @ '':'' @ t = n' @ '':'' @ t'" "CHR '':'' \<notin> set n'" "CHR '':'' \<notin> set t'"
    "n' \<noteq> []" "t' \<noteq> []" using approved_shape(3)[OF a] by blast
  have sp: "rsplit_once (CHR '':'') (n @ '':'' @ t) = Some (n, t)"
    "rsplit_once (CHR '':'') (n @ '':'' @ t) = Some (n', t')"
    unfolding rsplit_once_Some using t s by auto
  then have nt: "n \<noteq> []" "t \<noteq> []" "CHR '':'' \<notin> set n" using s by auto
  have at: "CHR ''@'' \<notin> set n" "CHR ''@'' \<notin> set (n @ '':'' @ t)"
    using approved_shape(1)[OF a] by auto
  have none: "rsplit_once (CHR '':'') n = None"
    using nt by (simp add: rsplit_once_def split_once_def)
  have sp': "rsplit_once (CHR '':'') (n @ CHR '':'' # t) = Some (n, t)" using sp(1) by simp
  from cases show ?l
    using a nt at none sp' by (auto simp: pull_reference_def)
qed

text \<open>C11. The pull rule: an image is pulled exactly when the request names one approved reference
  \<open>name:tag\<close>, whole in the only \<open>fromImage\<close> (with no \<open>tag\<close>, or the same one repeated) or split
  into the only \<open>fromImage\<close> and the only \<open>tag\<close>.\<close>

theorem pull_allow_iff:
  "allow (pull_policy req) \<longleftrightarrow>
     (\<exists>name tag. name @ '':'' @ tag \<in> set APPROVED_IMAGES \<and> CHR '':'' \<notin> set tag \<and>
        (let froms = collect_params ''fromImage'' (query_pairs (req_uri req));
             tags = collect_params ''tag'' (query_pairs (req_uri req)) in
         froms = [name @ '':'' @ tag] \<and> tags \<in> {[], [tag]} \<or> froms = [name] \<and> tags = [tag]))"
  unfolding pull_reference_iff[symmetric] Let_def query_pairs_def pull_policy_def
  using pull_reference_Inl
  by (auto split: sum.split)


section \<open>The whole decision\<close>

definition verified_identity :: "plugin \<Rightarrow> authz_request \<Rightarrow> bool" where
  "verified_identity p req \<longleftrightarrow> req_user_authn req = Some ''TLS''
     \<and> (\<exists>cn. req_user req = Some cn \<and> cn \<noteq> [] \<and> cn \<in> allowed_cns p)"

definition owned_target :: "plugin \<Rightarrow> string \<Rightarrow> bool" where
  "owned_target p t \<longleftrightarrow> t \<in> registry p \<or> is_scanner_name t"

text \<open>The path addresses container \<open>t\<close>, or something below it.\<close>

definition names_container :: "string \<Rightarrow> string \<Rightarrow> bool" where
  "names_container t path \<longleftrightarrow> t \<noteq> [] \<and> CHR ''/'' \<notin> set t
     \<and> (\<exists>r. path = ''/containers/'' @ t @ r \<and> (r = [] \<or> hd r = CHR ''/''))"

text \<open>The endpoint matrix of the channel.\<close>

definition permitted :: "plugin \<Rightarrow> (string \<Rightarrow> json option) \<Rightarrow> authz_request \<Rightarrow> string \<Rightarrow> bool" where
  "permitted p parse_json req path \<longleftrightarrow>
     (let m = req_method req in
      m \<in> {''HEAD'', ''GET''} \<and> path = ''/_ping''
      \<or> m = ''GET'' \<and> path = ''/version''
      \<or> m = ''POST'' \<and> path = ''/containers/create'' \<and> allow (create_policy parse_json req)
      \<or> m = ''POST'' \<and> path = ''/images/create'' \<and> allow (pull_policy req)
      \<or> (\<exists>t. names_container t path \<and> owned_target p t \<and>
           (m = ''DELETE'' \<and> path = ''/containers/'' @ t \<or> m = ''POST'' \<and> is_lifecycle_op path)))"

lemma identity_of_iff:
  "identity_of req = Some cn \<longleftrightarrow> req_user_authn req = Some ''TLS'' \<and> req_user req = Some cn \<and> cn \<noteq> []"
  by (auto simp: identity_of_def split: option.splits if_splits)

lemma hd_split_on: "hd (split_on d s) = takeWhile (\<lambda>c. c \<noteq> d) s"
proof (induction s)
  case (Cons c s)
  then show ?case by (cases "split_on d s") auto
qed simp

lemma container_target_iff: "container_target path = Some t \<longleftrightarrow> names_container t path"
proof
  assume "container_target path = Some t"
  then obtain s where s: "path = ''/containers/'' @ s" "t = takeWhile (\<lambda>c. c \<noteq> CHR ''/'') s" "t \<noteq> []"
    by (auto simp: container_target_def nonempty_def hd_split_on strip_prefix_Some
        split: option.splits if_splits)
  let ?r = "dropWhile (\<lambda>c. c \<noteq> CHR ''/'') s"
  have "path = ''/containers/'' @ t @ ?r" using s by simp
  moreover have "?r = [] \<or> hd ?r = CHR ''/''" using hd_dropWhile by blast
  moreover have "CHR ''/'' \<notin> set t" using s(2) by (auto dest: set_takeWhileD)
  ultimately show "names_container t path" using s(3) unfolding names_container_def by blast
next
  assume h: "names_container t path"
  then obtain r where path: "path = ''/containers/'' @ t @ r" and r: "r = [] \<or> hd r = CHR ''/''"
    unfolding names_container_def by blast
  have tw: "takeWhile (\<lambda>c. c \<noteq> CHR ''/'') r = []" using r by (cases r) auto
  have "\<forall>c \<in> set t. c \<noteq> CHR ''/''" using h by (auto simp: names_container_def)
  then have "takeWhile (\<lambda>c. c \<noteq> CHR ''/'') (t @ r) = t" by (simp add: tw takeWhile_append2)
  moreover have "strip_prefix ''/containers/'' path = Some (t @ r)"
    unfolding strip_prefix_Some path by simp
  ultimately show "container_target path = Some t"
    using h by (auto simp: container_target_def nonempty_def hd_split_on names_container_def)
qed

lemma container_delete_iff:
  "names_container t path \<Longrightarrow> is_container_delete path \<longleftrightarrow> path = ''/containers/'' @ t"
proof -
  assume t: "names_container t path"
  then obtain r where r: "path = ''/containers/'' @ t @ r" "r = [] \<or> hd r = CHR ''/''"
    unfolding names_container_def by blast
  have "strip_prefix ''/containers/'' path = Some (t @ r)" unfolding strip_prefix_Some r(1) by simp
  then have "is_container_delete path \<longleftrightarrow> t @ r \<noteq> [] \<and> CHR ''/'' \<notin> set (t @ r)"
    by (simp only: is_container_delete_def option.case)
  then show ?thesis
    using r t by (cases r) (auto simp: names_container_def)
qed

lemma target_policy_allow: "allow (target_policy p t) \<longleftrightarrow> owned_target p t"
  by (simp add: target_policy_def owned_target_def)

lemma fixed_paths:
  "container_target ''/_ping'' = None" "container_target ''/version'' = None"
  "container_target ''/images/create'' = None" "container_target ''/grpc'' = None"
  "\<not> is_lifecycle_op ''/containers/create''"
  by (code_simp+)

lemma decide_endpoint_allow:
  "allow (decide_endpoint p pj req path) \<longleftrightarrow> permitted p pj req path"
proof (cases "container_target path")
  case None
  then have no: "\<not> names_container t path" for t using container_target_iff[of path t] by auto
  show ?thesis
    unfolding decide_endpoint_def permitted_def Let_def None option.case
    using no by simp blast
next
  case (Some t)
  then have t: "names_container t path" by (simp add: container_target_iff)
  have same: "t' = t" if "names_container t' path" for t'
    using that Some by (simp add: container_target_iff[symmetric])
  have np: "path \<noteq> ''/_ping''" "path \<noteq> ''/version''" "path \<noteq> ''/images/create''" "path \<noteq> ''/grpc''"
    using Some fixed_paths by auto
  have rhs: "(\<exists>t'. names_container t' path \<and> owned_target p t' \<and>
           (m = ''DELETE'' \<and> path = ''/containers/'' @ t' \<or> m = ''POST'' \<and> is_lifecycle_op path))
      \<longleftrightarrow> owned_target p t \<and> (m = ''DELETE'' \<and> is_container_delete path
            \<or> m = ''POST'' \<and> is_lifecycle_op path)" for m
    using same container_delete_iff[OF t] t by blast
  show ?thesis
    unfolding decide_endpoint_def permitted_def Let_def rhs Some option.case
    using np fixed_paths(5) by (simp add: target_policy_allow) blast
qed

text \<open>C1. The whole policy: a request is allowed exactly when it carries a verified TLS identity from the
  allowlist, its path has a canonical form and the endpoint matrix permits it there: the
  negotiation probes, a hardened create, a pull of an approved image, a lifecycle operation or a
  removal of an owned container.  Everything else is denied.\<close>

theorem decide_allow_iff:
  "(\<exists>d. decide p parse_json req = Some d \<and> allow d) \<longleftrightarrow>
     verified_identity p req \<and>
     (\<exists>path. normalize_path (req_uri req) = Some path \<and> permitted p parse_json req path)"
proof (cases "identity_of req")
  case None
  then have "\<not> verified_identity p req" using identity_of_iff[of req] by (auto simp: verified_identity_def)
  with None show ?thesis by (simp add: decide_def)
next
  case (Some cn)
  then have "verified_identity p req \<longleftrightarrow> cn \<in> allowed_cns p"
    by (auto simp: verified_identity_def identity_of_iff)
  with Some show ?thesis by (auto simp: decide_def decide_endpoint_allow[symmetric])
qed

text \<open>No panic on ASCII: the decision of a request whose URI is ASCII is always made.\<close>

theorem decide_total_ascii:
  assumes "list_all is_ascii (req_uri req)"
  shows "\<exists>d. decide p parse_json req = Some d"
  using normalize_path_ascii[OF assms] by (auto simp: decide_def split: option.splits)

definition accented_uri :: string where
  "accented_uri = [CHR ''/'', CHR 0xC3, CHR 0xA9, CHR ''/'', CHR ''x'']"

text \<open>The panic: for an allowlisted client a URI whose first segment begins with a two-byte
  character makes the decision panic (the slice \<open>&ver[1..]\<close> is not on a character boundary), and the
  dispatch of that request answers nothing and logs nothing.\<close>

theorem dispatch_panics:
  assumes "raw_method raw = ''POST''" "raw_path raw = ''/AuthZPlugin.AuthZReq''"
    and "parse_json (raw_body raw) = Some v" "parse_request v = Inr req"
    and "verified_identity p req" "req_uri req = accented_uri"
  shows "dispatch parse_json quote_json raw p = None"
proof -
  have n: "normalize_path accented_uri = None" by code_simp
  obtain cn where "identity_of req = Some cn" "cn \<in> allowed_cns p"
    using assms(5) by (auto simp: verified_identity_def identity_of_iff)
  then have "decide p parse_json req = None" using n assms(6) by (simp add: decide_def)
  then show ?thesis using assms by (simp add: dispatch_def authz_req_def)
qed



section \<open>Runs of the plugin\<close>

text \<open>The contract between a stream of reports and the set of identities they establish.\<close>

locale owner_log =
  fixes init :: "'s" and observe_event :: "'e \<Rightarrow> 's \<Rightarrow> 's"
    and owns :: "'s \<Rightarrow> 'i \<Rightarrow> bool" and reported :: "'e \<Rightarrow> 'i option"
  assumes init_owns: "\<not> owns init i"
    and step_owns: "owns (observe_event e s) i \<longleftrightarrow> owns s i \<or> reported e = Some i"
begin

lemma owns_fold: "owns (fold observe_event es s) i \<longleftrightarrow> owns s i \<or> (\<exists>e \<in> set es. reported e = Some i)"
  by (induction es arbitrary: s) (auto simp: step_owns)

lemma owns_run: "owns (fold observe_event es init) i \<longleftrightarrow> (\<exists>e \<in> set es. reported e = Some i)"
  by (simp add: owns_fold init_owns)

lemma owns_mono: "owns s i \<Longrightarrow> owns (fold observe_event es s) i"
  by (simp add: owns_fold)

end

datatype plugin_event = Asked authz_request decision | Observed json

fun apply_event :: "(string \<Rightarrow> json option) \<Rightarrow> plugin_event \<Rightarrow> plugin \<Rightarrow> plugin" where
  "apply_event pj (Asked req d) p = log_decision d req p"
| "apply_event pj (Observed v) p = snd (observe pj v p)"

fun reported_id :: "(string \<Rightarrow> json option) \<Rightarrow> plugin_event \<Rightarrow> string option" where
  "reported_id pj (Asked req d) = None"
| "reported_id pj (Observed v) = observed_id pj v"

interpretation own: owner_log "new_plugin cns" "apply_event pj" "\<lambda>p i. i \<in> registry p" "reported_id pj"
  for cns and pj :: "string \<Rightarrow> json option"
proof
  fix e s i
  show "(i \<in> registry (apply_event pj e s)) \<longleftrightarrow> i \<in> registry s \<or> reported_id pj e = Some i"
    by (cases e) (auto simp: log_decision_def observe_def split: option.splits)
qed (simp add: new_plugin_def)

lemma reported_iff:
  "(\<exists>e \<in> set es. reported_id pj e = Some i) \<longleftrightarrow> (\<exists>v. Observed v \<in> set es \<and> observed_id pj v = Some i)"
proof (induction es)
  case (Cons e es)
  show ?case by (rule plugin_event.exhaust[of e]) (use Cons.IH in auto)
qed simp

text \<open>A run: the mutex makes every decision and every observation one step, so the interleaving of the
  connections is a sequence of events; a decision is logged before it is answered.\<close>

inductive plugin_run :: "(string \<Rightarrow> json option) \<Rightarrow> string set \<Rightarrow> plugin_event list \<Rightarrow> plugin \<Rightarrow> bool"
  for pj cns where
  run_start: "plugin_run pj cns [] (new_plugin cns)"
| run_asked: "plugin_run pj cns es p \<Longrightarrow> decide p pj req = Some d \<Longrightarrow>
     plugin_run pj cns (es @ [Asked req d]) (log_decision d req p)"
| run_observed: "plugin_run pj cns es p \<Longrightarrow>
     plugin_run pj cns (es @ [Observed v]) (snd (observe pj v p))"

inductive_cases plugin_run_snoc: "plugin_run pj cns (es @ [e]) p"

lemma plugin_run_fold: "plugin_run pj cns es p \<Longrightarrow> p = fold (apply_event pj) es (new_plugin cns)"
  by (induction rule: plugin_run.induct) auto

lemma plugin_run_allowlist: "plugin_run pj cns es p \<Longrightarrow> allowed_cns p = cns"
  by (induction rule: plugin_run.induct)
    (auto simp: new_plugin_def log_decision_def observe_def split: option.splits)

lemma plugin_run_split:
  "plugin_run pj cns (es @ e # fs) p \<Longrightarrow>
     \<exists>q. plugin_run pj cns es q \<and> (\<forall>req d. e = Asked req d \<longrightarrow> decide q pj req = Some d)"
proof (induction fs arbitrary: p rule: rev_induct)
  case Nil
  then have "plugin_run pj cns (es @ [e]) p" by simp
  then show ?case by (rule plugin_run_snoc) auto
next
  case (snoc f fs)
  then have "plugin_run pj cns ((es @ e # fs) @ [f]) p" by simp
  then show ?case by (rule plugin_run_snoc) (use snoc.IH in auto)
qed

text \<open>C7. Ownership over whole runs: in every interleaving of requests and observed responses, a lifecycle
  operation or removal that was allowed at any point addressed a container whose name is a scanner
  name, or whose id the daemon had reported in a response observed before that request; and the
  client had an identity of the allowlist the plugin was started with.\<close>

theorem run_ownership:
  assumes "plugin_run pj cns (es @ Asked req d # fs) p" "allow d"
    and "normalize_path (req_uri req) = Some path"
    and "req_method req = ''DELETE'' \<or> req_method req = ''POST'' \<and> is_lifecycle_op path"
  shows "(\<exists>cn \<in> cns. req_user req = Some cn)
     \<and> (\<exists>t. names_container t path
          \<and> (is_scanner_name t \<or> (\<exists>v. Observed v \<in> set es \<and> observed_id pj v = Some t)))"
proof -
  obtain q where q: "plugin_run pj cns es q" "decide q pj req = Some d"
    using plugin_run_split[OF assms(1)] by blast
  then have id: "verified_identity q req" and perm: "permitted q pj req path"
    using decide_allow_iff[of q pj req] assms(2,3) by auto
  have "path \<noteq> ''/containers/create'' \<and> path \<noteq> ''/images/create''" if "is_lifecycle_op path"
  proof -
    have "\<not> is_lifecycle_op ''/images/create''" by code_simp
    then show ?thesis using that fixed_paths(5) by auto
  qed
  then obtain t where t: "names_container t path" "owned_target q t"
    using perm assms(4) unfolding permitted_def Let_def by auto
  have "\<exists>v. Observed v \<in> set es \<and> observed_id pj v = Some t" if "t \<in> registry q"
    using that unfolding plugin_run_fold[OF q(1)] own.owns_run reported_iff .
  with t id plugin_run_allowlist[OF q(1)] show ?thesis
    by (auto simp: owned_target_def verified_identity_def)
qed

definition log_entry :: "authz_request \<Rightarrow> decision \<Rightarrow> log_record" where
  "log_entry req d = \<lparr>log_allow = allow d, log_rule = rule d, log_msg = msg d,
     log_method = req_method req, log_uri = req_uri req, log_user = req_user req,
     log_user_authn = req_user_authn req, log_target = target d\<rparr>"

fun event_log :: "plugin_event list \<Rightarrow> log_record list" where
  "event_log [] = []"
| "event_log (Asked req d # es) = log_entry req d # event_log es"
| "event_log (Observed v # es) = event_log es"

lemma event_log_append: "event_log (es @ fs) = event_log es @ event_log fs"
  by (induction es rule: event_log.induct) auto



section \<open>Witnesses\<close>

definition sample_uri :: string where
  "sample_uri = ''/v1.45/containers/create?name=firecrow-scan-01234567-89ab-cdef-0123-456789abcdef''"

definition sample_host :: obj where
  "sample_host =
     [(''Binds'', JArr [JStr ''/var/lib/firecrow/scan/1:/scan:ro'']), (''CapDrop'', JArr [JStr ''ALL'']),
      (''NetworkMode'', JStr ''none''), (''Privileged'', JBool False), (''ReadonlyRootfs'', JBool True),
      (''SecurityOpt'', JArr [JStr ''no-new-privileges'']),
      (''Tmpfs'', JObj [(''/work'', JStr ''rw,noexec,nosuid,nodev,size=64m'')])]"

definition sample_spec :: obj where
  "sample_spec =
     [(''Cmd'', JArr [JStr ''-c'']), (''Entrypoint'', JStr ''sh''), (''HostConfig'', JObj sample_host),
      (''Image'', JStr ''semgrep/semgrep:1.96.0''), (''User'', JStr ''65534:65534'')]"

definition sample_spec_devices :: obj where
  "sample_spec_devices =
     bt_insert ''HostConfig''
       (JObj (bt_insert ''DeviceRequests'' (JArr [JObj [(''Driver'', JStr ''nvidia'')]]) sample_host))
       sample_spec"

lemma sample_spec_ok: "check_spec sample_uri sample_spec = Inr ()"
  by code_simp

theorem create_frame_witness:
  "check_spec sample_uri sample_spec_devices = Inr () \<and> sample_spec_devices \<noteq> sample_spec"
proof -
  have "\<forall>k \<in> EXAMINED_TOP. bt_get sample_spec_devices k = bt_get sample_spec k"
    unfolding EXAMINED_TOP_def by (simp add: sample_spec_devices_def sample_spec_def)
  moreover have "\<forall>k \<in> EXAMINED_HOST.
      hget (host_config sample_spec_devices) k = hget (host_config sample_spec) k"
    unfolding EXAMINED_HOST_def
    by (simp add: host_config_def hget_def sample_spec_devices_def sample_spec_def bt_get_insert)
  ultimately have "check_spec sample_uri sample_spec_devices = check_spec sample_uri sample_spec"
    by (rule create_frame)
  moreover have "sample_spec_devices \<noteq> sample_spec"
    by (simp add: sample_spec_devices_def sample_spec_def sample_host_def)
  ultimately show ?thesis using sample_spec_ok by simp
qed

definition sample_plugin :: plugin where
  "sample_plugin = new_plugin {''firecrow-backend''}"

definition sample_docker_request :: "string \<Rightarrow> string \<Rightarrow> authz_request" where
  "sample_docker_request m uri = \<lparr>req_method = m, req_uri = uri, req_user = Some ''firecrow-backend'',
     req_user_authn = Some ''TLS'', req_body = None\<rparr>"

theorem decide_total_ascii_witness:
  "\<exists>d. decide sample_plugin (\<lambda>_. None) (sample_docker_request ''GET'' ''/v1.45/version'') = Some d"
  by (rule decide_total_ascii) (simp add: sample_docker_request_def is_ascii_def)

definition sample_envelope :: "string \<Rightarrow> string \<Rightarrow> json" where
  "sample_envelope m uri = JObj [(''RequestMethod'', JStr m), (''RequestUri'', JStr uri),
     (''User'', JStr ''firecrow-backend''), (''UserAuthNMethod'', JStr ''TLS'')]"

definition sample_raw :: raw_request where
  "sample_raw = \<lparr>raw_method = ''POST'', raw_path = ''/AuthZPlugin.AuthZReq'', raw_body = ''{}'',
     raw_close = False\<rparr>"

lemma sample_envelope_parses:
  "uri \<noteq> [] \<Longrightarrow> parse_request (sample_envelope ''GET'' uri) = Inr (sample_docker_request ''GET'' uri)"
  by (simp add: parse_request_def sample_envelope_def nonempty_def parse_body_def sample_docker_request_def)

lemma sample_identity: "verified_identity sample_plugin (sample_docker_request m uri)"
  by (simp add: verified_identity_def sample_docker_request_def sample_plugin_def new_plugin_def)

theorem dispatch_panics_witness:
  "dispatch (\<lambda>_. Some (sample_envelope ''GET'' accented_uri)) (\<lambda>s. s) sample_raw sample_plugin = None"
proof (rule dispatch_panics)
  show "parse_request (sample_envelope ''GET'' accented_uri) = Inr (sample_docker_request ''GET'' accented_uri)"
    by (rule sample_envelope_parses) (simp add: accented_uri_def)
  show "verified_identity sample_plugin (sample_docker_request ''GET'' accented_uri)"
    by (rule sample_identity)
qed (simp_all add: sample_raw_def sample_docker_request_def)

lemma sample_answer:
  "dispatch (\<lambda>_. Some (sample_envelope ''GET'' ''/version'')) (\<lambda>s. s) sample_raw sample_plugin
   = Some (http_response ''200 OK'' (authz_payload (\<lambda>s. s) (allow_by ''negotiation'' None)), False,
       log_decision (allow_by ''negotiation'' None) (sample_docker_request ''GET'' ''/version'') sample_plugin)"
proof -
  have "decide sample_plugin pj (sample_docker_request ''GET'' ''/version'') = Some (allow_by ''negotiation'' None)"
    for pj
  proof -
    have "normalize_path ''/version'' = Some ''/version''" by code_simp
    then show ?thesis
      by (simp add: decide_def identity_of_def sample_docker_request_def sample_plugin_def new_plugin_def
          decide_endpoint_def fixed_paths)
  qed
  then show ?thesis
    by (simp add: dispatch_def authz_req_def sample_raw_def sample_envelope_parses)
qed


text \<open>A run: the daemon reports \<open>abc\<close> (the body \<open>e30=\<close> is the base64 of an empty object; the parser
  of the witness maps every text to the report), then the client starts it.\<close>

definition sample_parse :: "string \<Rightarrow> json option" where
  "sample_parse s = Some (JObj [(''Id'', JStr ''abc'')])"

definition sample_report :: json where
  "sample_report = JObj [(''ResponseBody'', JStr ''e30='')]"

definition sample_start :: authz_request where
  "sample_start = sample_docker_request ''POST'' ''/v1.45/containers/abc/start''"

definition sample_events :: "plugin_event list" where
  "sample_events = [Observed sample_report,
     Asked sample_start (allow_by ''target-registered'' (Some ''abc''))]"

lemma sample_observed: "observed_id sample_parse sample_report = Some ''abc''"
  by code_simp

lemma sample_path: "normalize_path (req_uri sample_start) = Some ''/containers/abc/start''"
  by code_simp

lemma sample_run: "\<exists>p. plugin_run sample_parse {''firecrow-backend''} sample_events p"
proof -
  let ?q = "snd (observe sample_parse sample_report sample_plugin)"
  have q: "plugin_run sample_parse {''firecrow-backend''} [Observed sample_report] ?q"
    using run_observed[OF run_start] by (simp add: sample_plugin_def)
  have "registry ?q = {''abc''}" "allowed_cns ?q = {''firecrow-backend''}"
    by (simp_all add: observe_def sample_observed sample_plugin_def new_plugin_def)
  moreover have "container_target ''/containers/abc/start'' = Some ''abc''"
    "is_lifecycle_op ''/containers/abc/start''" by code_simp+
  ultimately have "decide ?q sample_parse sample_start = Some (allow_by ''target-registered'' (Some ''abc''))"
    using sample_path
    by (simp add: decide_def identity_of_def sample_start_def sample_docker_request_def decide_endpoint_def
        target_policy_def)
  from run_asked[OF q this] show ?thesis unfolding sample_events_def by auto
qed

theorem run_ownership_witness:
  "\<exists>t. names_container t ''/containers/abc/start''
     \<and> (is_scanner_name t \<or> (\<exists>v. v = sample_report \<and> observed_id sample_parse v = Some t))"
proof -
  obtain p where p: "plugin_run sample_parse {''firecrow-backend''}
      ([Observed sample_report] @ Asked sample_start (allow_by ''target-registered'' (Some ''abc'')) # []) p"
    using sample_run by (auto simp: sample_events_def)
  have "req_method sample_start = ''POST'' \<and> is_lifecycle_op ''/containers/abc/start''"
    by code_simp
  with run_ownership[OF p allow_by_simps(1) sample_path] show ?thesis by auto
qed


end
