(* ===== verification/Boundary.thy ===== *)
theory Boundary
  imports Sandbox_Runs Authz_Props
begin

text \<open>
  Where the sandbox and the authorization plugin meet: the worker renders a specification as a
  \<open>docker run\<close> command line, the Docker client turns it into a create request, and the plugin
  judges that request.  The client is third-party code; what its documentation says of the options
  used is the predicate \<open>client_create\<close>.
\<close>

section \<open>The create request\<close>

definition tmpfs_options :: "string \<Rightarrow> string" where
  "tmpfs_options sz = ''rw,noexec,nosuid,nodev,size='' @ sz"

text \<open>\<open>--tmpfs path:options\<close> is the entry \<open>path\<close> of \<open>HostConfig.Tmpfs\<close>, \<open>-v\<close> is an entry of
  \<open>Binds\<close>, \<open>--entrypoint=e\<close> is the list of \<open>e\<close>; an option that is not given is absent, null or empty.\<close>

definition client_host_config :: "sandbox_spec \<Rightarrow> obj \<Rightarrow> bool" where
  "client_host_config spec hc \<longleftrightarrow>
     bt_get hc ''Binds'' = Some (JArr (map (\<lambda>m. JStr (as_docker_spec m)) (sp_mounts spec)))
     \<and> (\<exists>n. bt_get hc ''NetworkMode'' = Some (JStr n) \<and> as_docker_arg (sp_network spec) = ''--network='' @ n)
     \<and> bt_get hc ''Privileged'' = Some (JBool False)
     \<and> absent_or_empty (bt_get hc ''CapAdd'') \<and> bt_get hc ''CapDrop'' = Some (JArr [JStr ''ALL''])
     \<and> absent_or_empty (bt_get hc ''Mounts'') \<and> absent_or_empty (bt_get hc ''VolumesFrom'')
     \<and> absent_or_empty (bt_get hc ''Devices'')
     \<and> (\<forall>k \<in> {''PidMode'', ''IpcMode'', ''UTSMode'', ''UsernsMode''}. bt_get hc k \<in> {None, Some (JStr [])})
     \<and> bt_get hc ''ReadonlyRootfs'' = Some (JBool True)
     \<and> bt_get hc ''SecurityOpt'' = Some (JArr [JStr ''no-new-privileges''])
     \<and> (\<exists>t. bt_get hc ''Tmpfs'' = Some (JObj t)
          \<and> set t = insert (WORK_DIR, JStr (tmpfs_options WORK_TMPFS_SIZE))
              ((\<lambda>p. (p, JStr (tmpfs_options EXTRA_TMPFS_SIZE))) ` set (sp_extra_tmpfs spec)))
     \<and> bt_get hc ''RestartPolicy'' =
         Some (JObj [(''MaximumRetryCount'', JNum (PosInt 0)), (''Name'', JStr ''no'')])"

definition client_create :: "sandbox_spec \<Rightarrow> string \<Rightarrow> string \<Rightarrow> obj \<Rightarrow> bool" where
  "client_create spec name uri obj \<longleftrightarrow>
     query_param uri ''name'' = Some name
     \<and> bt_get obj ''Image'' = Some (JStr (sp_image spec))
     \<and> bt_get obj ''Cmd'' = Some (JArr (map JStr (sp_command spec)))
     \<and> bt_get obj ''Entrypoint'' = Some (case sp_entrypoint spec of None \<Rightarrow> JNull | Some e \<Rightarrow> JArr [JStr e])
     \<and> bt_get obj ''User'' = Some (JStr SANDBOX_UID)
     \<and> (\<exists>hc. bt_get obj ''HostConfig'' = Some (JObj hc) \<and> client_host_config spec hc)"

section \<open>Agreement of the two checks\<close>

lemma bind_of_mount:
  assumes "validate_mount m = Inr ()"
  shows "safe_bind (as_docker_spec m) \<longleftrightarrow> \<not> host_path_forbidden (sm_host m)"
proof -
  note c = mount_container[OF assms]
  have colon: "CHR '':'' \<notin> set (sm_host m)" "CHR '':'' \<notin> set (sm_container m)"
  proof -
    show "CHR '':'' \<notin> set (sm_host m)"
      using assms by (simp add: validate_mount_def split: if_splits) blast
    show "CHR '':'' \<notin> set (sm_container m)" using c by (elim conjE insertE emptyE; simp)
  qed
  have spec: "as_docker_spec m = sm_host m @ CHR '':'' # sm_container m @ CHR '':'' # ''ro''"
    using c by (simp add: as_docker_spec_def)
  have ro: "split_on (CHR '':'') ''ro'' = [''ro'']" "split_on (CHR '','') ''ro'' = [''ro'']" by code_simp+
  have e: "split_on (CHR '':'') (as_docker_spec m) = [sm_host m, sm_container m, ''ro'']"
    unfolding spec split_on_append[OF colon(1)] split_on_append[OF colon(2)] ro(1) ..
  have "safe_bind (as_docker_spec m) \<longleftrightarrow> \<not> host_path_forbidden (sm_host m) \<and> sm_container m \<in> {''/scan'', ''/config''}
      \<and> ''ro'' \<in> set (split_on (CHR '','') ''ro'')"
    unfolding safe_bind_def e by blast
  with c show ?thesis unfolding ro by (simp only: list.set insert_iff simp_thms)
qed

lemma tmpfs_options_safe:
  assumes "sz \<in> {WORK_TMPFS_SIZE, EXTRA_TMPFS_SIZE}"
  shows "safe_tmpfs_entry (p, JStr (tmpfs_options sz)) \<longleftrightarrow> p = ''/work'' \<or> prefix ''/work/'' p"
proof -
  have opts: "distinct (map flag_key (split_on (CHR '','') o'))
      \<and> flag_key ` set (split_on (CHR '','') o') \<subseteq> set TMPFS_KEYS
      \<and> contains_str o' ''noexec'' \<and> contains_str o' ''nosuid'' \<and> contains_str o' ''nodev''"
    if "o' \<in> {''rw,noexec,nosuid,nodev,size=64m'', ''rw,noexec,nosuid,nodev,size=32m''}" for o'
    using that by (elim insertE emptyE; hypsubst) (code_simp)+
  have "tmpfs_options sz \<in> {''rw,noexec,nosuid,nodev,size=64m'', ''rw,noexec,nosuid,nodev,size=32m''}"
    using assms by (auto simp: tmpfs_options_def WORK_TMPFS_SIZE_def EXTRA_TMPFS_SIZE_def)
  from opts[OF this] show ?thesis by (auto simp: safe_tmpfs_entry_def)
qed

lemma no_restart:
  "restart_disabled (JObj [(''MaximumRetryCount'', JNum (PosInt 0)), (''Name'', JStr ''no'')])"
  by code_simp

text \<open>The trees the plugin protects and the worker does not.\<close>

definition PLUGIN_ONLY_TREES :: "string list list" where
  "PLUGIN_ONLY_TREES = [[''home''], [''boot''], [''var'', ''lib'', ''docker'']]"

lemma forbidden_split:
  "host_path_forbidden p \<longleftrightarrow> source_sensitive p \<or> (\<exists>d \<in> set PLUGIN_ONLY_TREES. prefix d (host_segs p))"
proof -
  have "set PROTECTED_TREES = set SENSITIVE_TREES \<union> set PLUGIN_ONLY_TREES"
    by (simp only: PROTECTED_TREES_def SENSITIVE_TREES_def PLUGIN_ONLY_TREES_def) code_simp
  then show ?thesis by (auto simp: host_path_forbidden_def source_sensitive_def)
qed

lemma map_JStr_inj: "map JStr xs = map JStr ys \<Longrightarrow> xs = ys"
  by (induction xs arbitrary: ys) auto

lemma safe_binds_strings: "safe_binds (Some (JArr (map JStr ss))) \<longleftrightarrow> (\<forall>s \<in> set ss. safe_bind s)"
  unfolding safe_binds_def by (auto dest: map_JStr_inj)

lemma client_create_hget:
  assumes "bt_get obj ''HostConfig'' = Some (JObj hc)"
  shows "hget (Option.bind (bt_get obj ''HostConfig'') as_object) k = bt_get hc k"
  by (simp add: hget_def assms)

lemma network_modes:
  assumes "as_docker_arg net = ''--network='' @ n"
  shows "n = (case net of NetNone \<Rightarrow> ''none'' | Bridge \<Rightarrow> ''bridge'' | Filtered \<Rightarrow> ''scanners-internal'')"
  using assms by (cases net) simp_all

lemma hardened_client:
  assumes "client_create spec (container_name uuid) uri obj" "uuid_shape uuid"
    "sp_command spec \<noteq> []" "\<forall>m \<in> set (sp_mounts spec). validate_mount m = Inr ()"
    "(sp_image spec, sp_network spec) \<in> set APPROVED_SCANNER_EXECUTIONS"
    "sp_entrypoint spec \<in> {None, Some ''sh''}"
  shows "hardened uri obj \<longleftrightarrow> (\<forall>m \<in> set (sp_mounts spec). \<not> host_path_forbidden (sm_host m))
    \<and> (\<forall>p \<in> set (sp_extra_tmpfs spec). p = ''/work'' \<or> prefix ''/work/'' p)"
proof -
  obtain hc where hc: "bt_get obj ''HostConfig'' = Some (JObj hc)" and host: "client_host_config spec hc"
    using assms(1) by (auto simp: client_create_def)
  note top = assms(1)[unfolded client_create_def, THEN conjunct1]
    assms(1)[unfolded client_create_def, THEN conjunct2, THEN conjunct1]
    assms(1)[unfolded client_create_def, THEN conjunct2, THEN conjunct2, THEN conjunct1]
    assms(1)[unfolded client_create_def, THEN conjunct2, THEN conjunct2, THEN conjunct2, THEN conjunct1]
    assms(1)[unfolded client_create_def, THEN conjunct2, THEN conjunct2, THEN conjunct2, THEN conjunct2, THEN conjunct1]
  have name: "\<exists>u. query_param uri ''name'' = Some (SCAN_NAME_PREFIX @ u) \<and> uuid_shape u"
    using top(1) assms(2) by (auto simp: container_name_def SCAN_NAME_PREFIX_def)
  have image: "\<exists>s \<in> set APPROVED_IMAGES. bt_get obj ''Image'' = Some (JStr s)"
    using top(2) assms(5) by (auto simp: approved_images APPROVED_IMAGES_def)
  have ent: "safe_entrypoint (bt_get obj ''Entrypoint'')"
    using top(4) assms(6) by (auto simp: safe_entrypoint_def)
  have cmd: "safe_cmd (bt_get obj ''Cmd'')" using top(3) assms(3) by (auto simp: safe_cmd_def)
  have user: "bt_get obj ''User'' = Some (JStr ''65534:65534'')" using top(5) by (simp add: SANDBOX_UID_def)
  have net: "bt_get hc ''NetworkMode'' \<in> {Some (JStr ''none''), Some (JStr ''scanners-internal'')}"
  proof -
    obtain n where n: "bt_get hc ''NetworkMode'' = Some (JStr n)" "as_docker_arg (sp_network spec) = ''--network='' @ n"
      using host unfolding client_host_config_def by blast
    have "sp_network spec \<in> {NetNone, Filtered}" using assms(5) unfolding approved_images by blast
    with network_modes[OF n(2)] n(1) show ?thesis by (elim insertE emptyE) simp_all
  qed
  have secopt: "safe_securityopt (bt_get hc ''SecurityOpt'')"
  proof -
    have "bt_get hc ''SecurityOpt'' = Some (JArr (map JStr [''no-new-privileges'']))"
      using host unfolding client_host_config_def by simp
    then show ?thesis unfolding safe_securityopt_def NNP_SPELLINGS_def
      by (intro exI[of _ "[''no-new-privileges'']"]) simp
  qed
  have binds: "safe_binds (bt_get hc ''Binds'') \<longleftrightarrow> (\<forall>m \<in> set (sp_mounts spec). \<not> host_path_forbidden (sm_host m))"
  proof -
    have b: "bt_get hc ''Binds'' = Some (JArr (map JStr (map as_docker_spec (sp_mounts spec))))"
      using host by (simp add: client_host_config_def comp_def)
    have "safe_binds (bt_get hc ''Binds'') \<longleftrightarrow> (\<forall>s \<in> set (map as_docker_spec (sp_mounts spec)). safe_bind s)"
      unfolding b by (rule safe_binds_strings)
    with assms(4) show ?thesis by (simp add: bind_of_mount)
  qed
  have tmpfs: "safe_tmpfs (bt_get hc ''Tmpfs'') \<longleftrightarrow> (\<forall>p \<in> set (sp_extra_tmpfs spec). p = ''/work'' \<or> prefix ''/work/'' p)"
  proof -
    obtain t where t: "bt_get hc ''Tmpfs'' = Some (JObj t)"
      "set t = insert (WORK_DIR, JStr (tmpfs_options WORK_TMPFS_SIZE))
              ((\<lambda>p. (p, JStr (tmpfs_options EXTRA_TMPFS_SIZE))) ` set (sp_extra_tmpfs spec))"
      using host by (auto simp: client_host_config_def)
    then show ?thesis by (auto simp: safe_tmpfs_def tmpfs_options_safe WORK_DIR_def)
  qed
  have rest: "bt_get hc ''Privileged'' \<in> {None, Some (JBool False)}" "absent_or_empty (bt_get hc ''CapAdd'')"
    "bt_get hc ''CapDrop'' = Some (JArr [JStr ''ALL''])" "absent_or_empty (bt_get hc ''Mounts'')"
    "absent_or_empty (bt_get hc ''VolumesFrom'')" "absent_or_empty (bt_get hc ''Devices'')"
    "\<forall>k \<in> {''PidMode'', ''IpcMode'', ''UTSMode'', ''UsernsMode''}. bt_get hc k \<in> {None, Some (JStr [])}"
    "bt_get hc ''ReadonlyRootfs'' = Some (JBool True)"
    "case bt_get hc ''RestartPolicy'' of None \<Rightarrow> True | Some v \<Rightarrow> restart_disabled v"
    using host no_restart by (simp_all only: client_host_config_def) simp_all
  show ?thesis
    unfolding hardened_def Let_def client_create_hget[OF hc] binds tmpfs
    using name image ent cmd user net secopt rest by blast
qed

lemma worker_plugin_agree_iff:
  assumes "formats_ok F" "validate_spec F spec = Inr ()" "enforce_execution_policy F spec = Inr ()"
    "uuid_shape uuid" "client_create spec (container_name uuid) uri obj"
  shows "check_spec uri obj = Inr () \<longleftrightarrow>
    (\<forall>m \<in> set (sp_mounts spec). \<not> (\<exists>d \<in> set PLUGIN_ONLY_TREES. prefix d (host_segs (sm_host m))))
    \<and> (\<forall>p \<in> set (sp_extra_tmpfs spec). p = ''/work'' \<or> prefix ''/work/'' p)"
proof -
  note pol = assms(3)[unfolded enforce_iff[OF assms(1,2)]]
  note val = assms(2)[unfolded validate_spec_parts]
  have "check_spec uri obj = Inr () \<longleftrightarrow> (\<forall>m \<in> set (sp_mounts spec). \<not> host_path_forbidden (sm_host m))
    \<and> (\<forall>p \<in> set (sp_extra_tmpfs spec). p = ''/work'' \<or> prefix ''/work/'' p)"
    unfolding check_spec_iff using pol val assms(4,5) by (intro hardened_client) blast+
  with pol show ?thesis unfolding forbidden_split by blast
qed

text \<open>C35. For a specification the worker accepts, named as the worker names its containers, the plugin
  accepts the create request exactly when, beyond the worker's own policy, no mount lies under
  \<open>/home\<close>, \<open>/boot\<close> or \<open>/var/lib/docker\<close> and every extra scratch path lies under \<open>/work\<close>: on every other
  field (name, image, network, user, capabilities, flags, bind shape, tmpfs options) the two agree.\<close>

theorem worker_plugin_agree:
  assumes "formats_ok F" "validate_spec F spec = Inr ()" "enforce_execution_policy F spec = Inr ()"
    "uuid_shape uuid" "client_create spec (container_name uuid) uri obj"
  shows "check_spec uri obj = Inr () \<longleftrightarrow>
    (\<forall>m \<in> set (sp_mounts spec). \<not> (\<exists>d \<in> set PLUGIN_ONLY_TREES. prefix d (host_segs (sm_host m))))
    \<and> (\<forall>p \<in> set (sp_extra_tmpfs spec). p = ''/work'' \<or> prefix ''/work/'' p)"
  using assms by (rule worker_plugin_agree_iff)

text \<open>A run that needs the scratch path \<open>/tmp\<close> passes the worker's policy and is refused by the plugin.\<close>

lemma tmp_scratch_refused:
  assumes "formats_ok F" "validate_spec F spec = Inr ()" "enforce_execution_policy F spec = Inr ()"
    "uuid_shape uuid" "client_create spec (container_name uuid) uri obj" "''/tmp'' \<in> set (sp_extra_tmpfs spec)"
  shows "check_spec uri obj \<noteq> Inr ()"
proof
  assume "check_spec uri obj = Inr ()"
  from worker_plugin_agree_iff[OF assms(1-5), THEN iffD1, OF this, THEN conjunct2, THEN bspec, OF assms(6)]
  show False by simp
qed

definition sample_body :: obj where
  "sample_body =
    [(''Cmd'', JArr [JStr ''detect'', JStr ''--source=/scan'']), (''Entrypoint'', JNull),
     (''HostConfig'', JObj
       [(''Binds'', JArr [JStr ''/srv/scans/a:/scan:ro'']), (''CapAdd'', JNull), (''CapDrop'', JArr [JStr ''ALL'']),
        (''Devices'', JArr []), (''IpcMode'', JStr []), (''NetworkMode'', JStr ''none''), (''PidMode'', JStr []),
        (''Privileged'', JBool False), (''ReadonlyRootfs'', JBool True),
        (''RestartPolicy'', JObj [(''MaximumRetryCount'', JNum (PosInt 0)), (''Name'', JStr ''no'')]),
        (''SecurityOpt'', JArr [JStr ''no-new-privileges'']),
        (''Tmpfs'', JObj [(''/work'', JStr ''rw,noexec,nosuid,nodev,size=64m'')]),
        (''UTSMode'', JStr []), (''UsernsMode'', JStr []), (''VolumesFrom'', JNull)]),
     (''Image'', JStr ''ghcr.io/gitleaks/gitleaks:v8.18.4''), (''User'', JStr ''65534:65534'')]"

definition sample_uuid :: string where "sample_uuid = ''01234567-89ab-cdef-0123-456789abcdef''"

lemma sample_client_create: "client_create gitleaks_spec (container_name sample_uuid)
    ''/containers/create?name=firecrow-scan-01234567-89ab-cdef-0123-456789abcdef'' sample_body"
  unfolding client_create_def
proof (intro conjI)
  show "\<exists>hc. bt_get sample_body ''HostConfig'' = Some (JObj hc) \<and> client_host_config gitleaks_spec hc"
    by (rule exI, rule conjI, simp add: sample_body_def)
      (simp add: client_host_config_def gitleaks_spec_def new_spec_def as_docker_spec_def SCAN_MOUNT_def
        absent_or_empty_def WORK_DIR_def tmpfs_options_def WORK_TMPFS_SIZE_def)
qed code_simp+

theorem worker_plugin_agree_witness:
  "check_spec ''/containers/create?name=firecrow-scan-01234567-89ab-cdef-0123-456789abcdef'' sample_body = Inr ()"
proof -
  have "uuid_shape sample_uuid" by code_simp
  moreover have "\<forall>m \<in> set (sp_mounts gitleaks_spec). \<not> (\<exists>d \<in> set PLUGIN_ONLY_TREES. prefix d (host_segs (sm_host m)))"
    "\<forall>p \<in> set (sp_extra_tmpfs gitleaks_spec). p = ''/work'' \<or> prefix ''/work/'' p"
    by code_simp+
  ultimately show ?thesis
    using worker_plugin_agree[OF sample_formats_ok sample_valid sample_policy _ sample_client_create] by blast
qed

end
