(* ===== verification/Redaction.thy ===== *)
theory Redaction
  imports Json_Value
begin

text \<open>
  The credential redactor (\<open>backend/src/services/redaction.rs\<close>), and truncation by characters as the
  scanner adapters use it.  The \<open>regex\<close> crate is a parameter: \<open>is_match pattern text\<close> and
  \<open>replace_all pattern replacement text\<close>; the patterns are constants of the source and all compile.
\<close>

text \<open>The classes of white-space and other characters in a pattern (a backslash and a letter).\<close>

definition re_s :: string where "re_s = [CHR 0x5C, CHR ''s'']"
definition re_S :: string where "re_S = [CHR 0x5C, CHR ''S'']"

definition CREDENTIAL_ASSIGNMENT_PATTERNS :: "string list" where
  "CREDENTIAL_ASSIGNMENT_PATTERNS =
    [''(?i)password'' @ re_s @ ''*[=:]'' @ re_s @ ''*'' @ re_S @ ''+'',
     ''(?i)token'' @ re_s @ ''*[=:]'' @ re_s @ ''*'' @ re_S @ ''+'',
     ''(?i)secret'' @ re_s @ ''*[=:]'' @ re_s @ ''*'' @ re_S @ ''+'',
     ''(?i)api[_-]?key'' @ re_s @ ''*[=:]'' @ re_s @ ''*'' @ re_S @ ''+'',
     ''(?i)authorization:'' @ re_s @ ''*'' @ re_S @ ''+'', ''(?i)bearer'' @ re_s @ ''+'' @ re_S @ ''+'',
     ''AKIA[0-9A-Z]{16}'', ''ASIA[0-9A-Z]{16}'', ''gh[pousr]_[A-Za-z0-9]{36,}'',
     ''github_pat_[A-Za-z0-9_]{22,}'']"

definition contains_known_credential_assignment :: "(string \<Rightarrow> string \<Rightarrow> bool) \<Rightarrow> string \<Rightarrow> bool" where
  "contains_known_credential_assignment is_match s = list_ex (\<lambda>p. is_match p s) CREDENTIAL_ASSIGNMENT_PATTERNS"

definition REPLACEMENTS :: "(string \<times> string) list" where
  "REPLACEMENTS =
     zip CREDENTIAL_ASSIGNMENT_PATTERNS
       [''password=[REDACTED]'', ''token=[REDACTED]'', ''secret=[REDACTED]'', ''api_key=[REDACTED]'',
        ''authorization: [REDACTED]'', ''bearer [REDACTED]'', ''[REDACTED]'', ''[REDACTED]'',
        ''[REDACTED]'', ''[REDACTED]'']
     @ [(''[A-Za-z0-9+/]{40,}={0,2}'', ''[BASE64_REDACTED]'')]"

definition TRUNCATED :: string where "TRUNCATED = ''... [truncated]''"

text \<open>\<open>floor_char_boundary\<close>: back off to a byte that does not continue a character.\<close>

fun floor_char_boundary :: "string \<Rightarrow> nat \<Rightarrow> nat" where
  "floor_char_boundary s 0 = 0"
| "floor_char_boundary s (Suc i) =
     (if is_char_boundary s (Suc i) then Suc i else floor_char_boundary s i)"

definition truncate_at_char_boundary :: "string \<Rightarrow> nat \<Rightarrow> string" where
  "truncate_at_char_boundary s m = (if length s > m then take (floor_char_boundary s m) s else s)"

definition redact_text :: "(string \<Rightarrow> string \<Rightarrow> string \<Rightarrow> string) \<Rightarrow> string \<Rightarrow> nat \<Rightarrow> string" where
  "redact_text replace_all s max_length =
     (let r = fold (\<lambda>(p, q). replace_all p q) REPLACEMENTS s in
      if max_length > 0 \<and> length r > max_length
      then truncate_at_char_boundary r max_length @ TRUNCATED else r)"

text \<open>\<open>chars().take(n)\<close>: the bytes before the character after the \<open>n\<close>-th.\<close>

fun take_chars :: "nat \<Rightarrow> string \<Rightarrow> string" where
  "take_chars n [] = []"
| "take_chars n (c # s) =
     (if is_cont c then c # take_chars n s
      else if n = 0 then [] else c # take_chars (n - 1) s)"

definition truncate_chars :: "string \<Rightarrow> nat \<Rightarrow> string" where
  "truncate_chars s m = take_chars m s @ (if char_count s > m then TRUNCATED else [])"

section \<open>Bounds\<close>

lemma floor_char_boundary_le: "floor_char_boundary s i \<le> i"
  by (induction s i rule: floor_char_boundary.induct) auto

lemma truncate_at_char_boundary_le: "length (truncate_at_char_boundary s m) \<le> m"
  using floor_char_boundary_le[of s m] by (auto simp: truncate_at_char_boundary_def)

lemma truncate_at_char_boundary_prefix: "prefix (truncate_at_char_boundary s m) s"
  by (auto simp: truncate_at_char_boundary_def take_is_prefix)

lemma redact_text_le: "0 < m \<Longrightarrow> length (redact_text R s m) \<le> m + length TRUNCATED"
  using truncate_at_char_boundary_le[of "fold (\<lambda>(p, q). R p q) REPLACEMENTS s" m]
  by (auto simp: redact_text_def Let_def)

lemma take_chars_prefix: "prefix (take_chars n s) s"
  by (induction n s rule: take_chars.induct) auto

lemma char_count_Cons: "char_count (c # s) = (if is_cont c then 0 else 1) + char_count s"
  by (simp add: char_count_def)

lemma char_count_take_chars: "char_count (take_chars n s) = min n (char_count s)"
  by (induction n s rule: take_chars.induct) (auto simp: char_count_Cons char_count_def)

end
