(* ===== verification/Lifecycle.thy ===== *)
theory Lifecycle
  imports Rust_Str
begin

text \<open>
  The two life cycles of a scan: the pipeline states of the product contract
  (\<open>backend/src/schemas/scan_contract.rs\<close>, \<open>PipelineState\<close>) and the stored job status
  (\<open>backend/src/models/user.rs\<close>, \<open>JobStatus\<close>), with the severities of the same file.  What a
  life cycle promises (terminal states are final, every step makes progress, every
  unfinished state can fail) is the locale \<open>lifecycle\<close>, interpreted on both.
\<close>

section \<open>The contract of a life cycle\<close>

locale lifecycle =
  fixes terminal :: "'s \<Rightarrow> bool" and step :: "'s \<Rightarrow> 's \<Rightarrow> bool" and rank :: "'s \<Rightarrow> nat"
    and failed :: "'s"
  assumes terminal_final: "terminal s \<Longrightarrow> \<not> step s t"
    and step_rank: "step s t \<Longrightarrow> rank t < rank s"
    and can_fail: "\<not> terminal s \<Longrightarrow> step s failed"
    and failed_terminal: "terminal failed"
begin

definition history :: "'s list \<Rightarrow> bool" where
  "history ss \<longleftrightarrow> successively step ss"

lemma history_simps [simp]:
  "history []" "history [s]" "history (s # t # ss) \<longleftrightarrow> step s t \<and> history (t # ss)"
  by (simp_all add: history_def)

lemma history_rank: "history (s # ss) \<Longrightarrow> t \<in> set ss \<Longrightarrow> rank t < rank s"
proof (induction ss arbitrary: s)
  case (Cons u ss)
  then show ?case using step_rank[of s u] by (auto dest: less_trans)
qed simp

lemma history_bounded: "history (s # ss) \<Longrightarrow> length ss \<le> rank s"
proof (induction ss arbitrary: s)
  case (Cons u ss)
  then show ?case using step_rank[of s u] by fastforce
qed simp

lemma history_distinct: "history ss \<Longrightarrow> distinct ss"
proof (induction ss)
  case (Cons s ss)
  then have "history ss" by (cases ss) auto
  with Cons history_rank[of s ss s] show ?case by auto
qed simp

lemma history_terminal_last: "history (ss @ s # ts) \<Longrightarrow> terminal s \<Longrightarrow> ts = []"
proof (induction ss)
  case Nil
  then show ?case by (cases ts) (auto simp: terminal_final)
next
  case (Cons u ss)
  then show ?case by (cases ss) (auto simp: Cons_eq_append_conv)
qed

text \<open>Every history can be finished: it ends in a terminal state or can be extended to one.\<close>

lemma history_snoc: "history (ss @ [s]) \<Longrightarrow> step s t \<Longrightarrow> history (ss @ [s, t])"
  by (simp add: history_def successively_append_iff)

lemma history_finishes:
  assumes "history (s # ss)"
  shows "\<exists>ts. history (s # ss @ ts) \<and> terminal (last (s # ss @ ts))"
proof (cases "terminal (last (s # ss))")
  case True
  with assms show ?thesis by (intro exI[of _ "[]"]) simp
next
  case False
  obtain us u where u: "s # ss = us @ [u]" by (cases "s # ss" rule: rev_cases) auto
  then have "\<not> terminal u" "history (us @ [u])" using False assms by simp_all
  then have "history ((s # ss) @ [failed])" unfolding u using history_snoc[of us u failed] can_fail by simp
  then show ?thesis using failed_terminal by (intro exI[of _ "[failed]"]) simp
qed

text \<open>A goal that is reached only through one successor.\<close>

lemma history_via:
  assumes "history (s # ss)" "goal \<in> set ss" "\<And>t. step s t \<Longrightarrow> t = n \<or> terminal t \<and> t \<noteq> goal"
  shows "\<exists>ts. ss = n # ts \<and> history (n # ts) \<and> (n = goal \<or> goal \<in> set ts)"
proof -
  obtain t ts where ss: "ss = t # ts" using assms(2) by (cases ss) auto
  then have h: "step s t" "history (t # ts)" using assms(1) by auto
  have "ts = []" if "terminal t" using that h(2) history_terminal_last[of "[]" t ts] by simp
  then show ?thesis using assms(3)[OF h(1)] assms(2) ss h by auto
qed

end

section \<open>Pipeline states\<close>

datatype pipeline_state = PQueued | PFetching | PScanning | PNormalizing | PReporting | PDelivering
  | PCompleted | PPartial | PFailed | PCancelled

fun pipeline_str :: "pipeline_state \<Rightarrow> string" where
  "pipeline_str PQueued = ''queued''"
| "pipeline_str PFetching = ''fetching''"
| "pipeline_str PScanning = ''scanning''"
| "pipeline_str PNormalizing = ''normalizing''"
| "pipeline_str PReporting = ''reporting''"
| "pipeline_str PDelivering = ''delivering''"
| "pipeline_str PCompleted = ''completed''"
| "pipeline_str PPartial = ''partial''"
| "pipeline_str PFailed = ''failed''"
| "pipeline_str PCancelled = ''cancelled''"

definition pipeline_terminal :: "pipeline_state \<Rightarrow> bool" where
  "pipeline_terminal s \<longleftrightarrow> s \<in> {PCompleted, PPartial, PFailed, PCancelled}"

definition pipeline_step :: "pipeline_state \<Rightarrow> pipeline_state \<Rightarrow> bool" where
  "pipeline_step s t \<longleftrightarrow>
     (if pipeline_terminal s then False
      else t \<in> {PFailed, PCancelled}
        \<or> (s, t) \<in> {(PQueued, PFetching), (PFetching, PScanning), (PScanning, PNormalizing),
             (PNormalizing, PReporting), (PReporting, PDelivering), (PDelivering, PCompleted)}
        \<or> s \<in> {PScanning, PNormalizing, PReporting, PDelivering} \<and> t = PPartial)"

definition pipeline_rank :: "pipeline_state \<Rightarrow> nat" where
  "pipeline_rank s = (case s of PQueued \<Rightarrow> 6 | PFetching \<Rightarrow> 5 | PScanning \<Rightarrow> 4 | PNormalizing \<Rightarrow> 3
     | PReporting \<Rightarrow> 2 | PDelivering \<Rightarrow> 1 | _ \<Rightarrow> 0)"

interpretation pipeline: lifecycle pipeline_terminal pipeline_step pipeline_rank PFailed
proof
  show "pipeline_rank t < pipeline_rank s" if "pipeline_step s t" for s t
    using that by (cases s; cases t; simp add: pipeline_step_def pipeline_terminal_def pipeline_rank_def)
qed (simp_all add: pipeline_step_def pipeline_terminal_def)

section \<open>Job status and severity\<close>

datatype job_status = Queued | Running | Completed | Failed | Cancelled | Partial | EngineUnavailable

fun job_str :: "job_status \<Rightarrow> string" where
  "job_str Queued = ''queued''"
| "job_str Running = ''running''"
| "job_str Completed = ''completed''"
| "job_str Failed = ''failed''"
| "job_str Cancelled = ''cancelled''"
| "job_str Partial = ''partial''"
| "job_str EngineUnavailable = ''engine_unavailable''"

definition job_terminal :: "job_status \<Rightarrow> bool" where
  "job_terminal s \<longleftrightarrow> s \<in> {Completed, Failed, Cancelled, Partial, EngineUnavailable}"

definition job_step :: "job_status \<Rightarrow> job_status \<Rightarrow> bool" where
  "job_step s t \<longleftrightarrow>
     (if job_terminal s then False
      else s = Queued \<and> t \<in> {Running, Failed, Cancelled}
        \<or> s = Running \<and> t \<in> {Completed, Partial, Failed, Cancelled, EngineUnavailable})"

definition job_rank :: "job_status \<Rightarrow> nat" where
  "job_rank s = (case s of Queued \<Rightarrow> 2 | Running \<Rightarrow> 1 | _ \<Rightarrow> 0)"

interpretation job: lifecycle job_terminal job_step job_rank Failed
proof
  show "job_step s Failed" if "\<not> job_terminal s" for s
    using that by (cases s) (simp_all add: job_step_def job_terminal_def)
  show "job_rank t < job_rank s" if "job_step s t" for s t
    using that by (cases s; cases t; simp add: job_step_def job_terminal_def job_rank_def)
qed (simp_all add: job_step_def job_terminal_def)

text \<open>\<open>FromStr\<close>: \<open>lower\<close> is \<open>str::to_lowercase\<close>.\<close>

definition parse_job_status :: "(string \<Rightarrow> string) \<Rightarrow> string \<Rightarrow> string + job_status" where
  "parse_job_status uni s =
     (let l = to_lowercase uni s in
      if l = ''queued'' then Inr Queued
      else if l = ''running'' then Inr Running
      else if l = ''completed'' then Inr Completed
      else if l = ''failed'' then Inr Failed
      else if l = ''cancelled'' then Inr Cancelled
      else if l = ''partial'' then Inr Partial
      else if l = ''engine_unavailable'' then Inr EngineUnavailable
      else Inl (''Unknown job status: '' @ s))"

datatype severity = Critical | High | Medium | Low | Info | Unknown

fun severity_str :: "severity \<Rightarrow> string" where
  "severity_str Critical = ''critical''"
| "severity_str High = ''high''"
| "severity_str Medium = ''medium''"
| "severity_str Low = ''low''"
| "severity_str Info = ''info''"
| "severity_str Unknown = ''unknown''"

definition parse_severity :: "(string \<Rightarrow> string) \<Rightarrow> string \<Rightarrow> severity" where
  "parse_severity uni s =
     (let l = to_lowercase uni s in
      if l = ''critical'' then Critical
      else if l = ''high'' then High
      else if l = ''medium'' then Medium
      else if l = ''low'' then Low
      else if l = ''unknown'' then Unknown
      else Info)"

lemma lower_ascii: "list_all is_ascii s \<Longrightarrow> to_lowercase uni s = map ascii_lower s"
  by (simp add: to_lowercase_def)

lemma job_roundtrip: "parse_job_status uni (job_str s) = Inr s"
proof -
  have "list_all is_ascii (job_str s)" "map ascii_lower (job_str s) = job_str s"
    by (cases s; simp add: is_ascii_def ascii_lower_def in_range_def)+
  then show ?thesis by (cases s) (simp_all add: parse_job_status_def lower_ascii)
qed

lemma severity_roundtrip: "parse_severity uni (severity_str s) = s"
proof -
  have "list_all is_ascii (severity_str s)" "map ascii_lower (severity_str s) = severity_str s"
    by (cases s; simp add: is_ascii_def ascii_lower_def in_range_def)+
  then show ?thesis by (cases s) (simp_all add: parse_severity_def lower_ascii)
qed

lemma pipeline_only:
  "(s, n) \<in> {(PQueued, PFetching), (PFetching, PScanning), (PScanning, PNormalizing),
     (PNormalizing, PReporting), (PReporting, PDelivering)} \<Longrightarrow> pipeline_step s t
     \<Longrightarrow> t = n \<or> pipeline_terminal t \<and> t \<noteq> PCompleted"
  by (cases t) (auto simp: pipeline_step_def pipeline_terminal_def)

text \<open>The two life cycles are bounded and final: a history of legal job steps from the queue has at
  most two steps and one of legal pipeline steps at most six, neither repeats a state, nothing
  follows a terminal state, and a job is completed only by a running one, a pipeline only after
  fetching, scanning, normalising, reporting and delivering in this order.\<close>

theorem lifecycle_bounded:
  assumes "job.history (Queued # js)" "pipeline.history (PQueued # ps)"
  shows "length js \<le> 2 \<and> distinct (Queued # js)
       \<and> (Completed \<in> set js \<longrightarrow> js = [Running, Completed])
     \<and> length ps \<le> 6 \<and> distinct (PQueued # ps)
       \<and> (PCompleted \<in> set ps \<longrightarrow>
            ps = [PFetching, PScanning, PNormalizing, PReporting, PDelivering, PCompleted])"
proof -
  have "length js \<le> 2" "length ps \<le> 6"
    using job.history_bounded[OF assms(1)] pipeline.history_bounded[OF assms(2)]
    by (simp_all add: job_rank_def pipeline_rank_def)
  moreover have "js = [Running, Completed]" if c: "Completed \<in> set js"
  proof -
    from job.history_via[OF assms(1) c, of Running]
    obtain ts where ts: "js = Running # ts" "job.history (Running # ts)" "Completed \<in> set ts"
      by (auto simp: job_step_def job_terminal_def)
    from job.history_bounded[OF ts(2)] ts(3) have "ts = [Completed]"
      by (cases ts) (auto simp: job_rank_def)
    with ts show ?thesis by simp
  qed
  moreover have "ps = [PFetching, PScanning, PNormalizing, PReporting, PDelivering, PCompleted]"
    if c: "PCompleted \<in> set ps"
  proof -
    have via: "\<exists>ts. qs = n # ts \<and> pipeline.history (n # ts) \<and> PCompleted \<in> set ts"
      if "pipeline.history (s # qs)" "PCompleted \<in> set qs"
        "(s, n) \<in> {(PQueued, PFetching), (PFetching, PScanning), (PScanning, PNormalizing),
           (PNormalizing, PReporting), (PReporting, PDelivering)}" for s n qs
    proof -
      have "n \<noteq> PCompleted" using that(3) by auto
      then show ?thesis using pipeline.history_via[OF that(1,2) pipeline_only[OF that(3)]] by blast
    qed
    from via[OF assms(2) c, of PFetching] obtain t1 where t1: "ps = PFetching # t1"
      "pipeline.history (PFetching # t1)" "PCompleted \<in> set t1" by auto
    from via[OF t1(2,3), of PScanning] obtain t2 where t2: "t1 = PScanning # t2"
      "pipeline.history (PScanning # t2)" "PCompleted \<in> set t2" by auto
    from via[OF t2(2,3), of PNormalizing] obtain t3 where t3: "t2 = PNormalizing # t3"
      "pipeline.history (PNormalizing # t3)" "PCompleted \<in> set t3" by auto
    from via[OF t3(2,3), of PReporting] obtain t4 where t4: "t3 = PReporting # t4"
      "pipeline.history (PReporting # t4)" "PCompleted \<in> set t4" by auto
    from via[OF t4(2,3), of PDelivering] obtain t5 where t5: "t4 = PDelivering # t5"
      "pipeline.history (PDelivering # t5)" "PCompleted \<in> set t5" by auto
    from pipeline.history_bounded[OF t5(2)] t5(3) have "t5 = [PCompleted]"
      by (cases t5) (auto simp: pipeline_rank_def)
    with t1 t2 t3 t4 t5 show ?thesis by simp
  qed
  ultimately show ?thesis
    using job.history_distinct[OF assms(1)] pipeline.history_distinct[OF assms(2)] by blast
qed

theorem lifecycle_bounded_witness:
  "length [Running, Completed] \<le> 2 \<and> length [PFetching, PScanning, PPartial] \<le> 6"
proof -
  have j: "job.history (Queued # [Running, Completed])"
    by (simp add: job_step_def job_terminal_def)
  have "pipeline.history (PQueued # [PFetching, PScanning, PPartial])"
    by (simp add: pipeline_step_def pipeline_terminal_def)
  from lifecycle_bounded[OF j this] show ?thesis by blast
qed

end
