(* ===== verification/Canonical_Schema.thy ===== *)
theory Canonical_Schema
  imports Lifecycle Json_Value
begin

text \<open>
  The canonical audit contract (\<open>backend/src/schemas/canonical_audit.rs\<close>), the adapters' findings
  (\<open>schemas/audit_state.rs\<close>, \<open>Finding\<close>) and the outcome of a scanner execution
  (\<open>agents/scanner.rs\<close>, \<open>ScannerOutcome\<close>, \<open>ScannerResult\<close>).  Counts (\<open>usize\<close>) are natural numbers,
  lines and columns (\<open>i32\<close>, \<open>i64\<close>) are only compared and printed, so they are integers; a double
  is its 64 bits.  \<open>audit_env\<close> holds what comes from third-party crates: the JSON parser and printer of
  \<open>serde_json\<close> (for documents and, with the derived code, for provenance records), SHA-256 in hex, and the
  credential patterns of the \<open>regex\<close> crate.
\<close>

section \<open>Bounds\<close>

definition CANONICAL_AUDIT_VERSION :: nat where "CANONICAL_AUDIT_VERSION = 1"
definition MAX_CANONICAL_EVIDENCE_CHARS :: int where "MAX_CANONICAL_EVIDENCE_CHARS = 512"
definition MAX_CANONICAL_METADATA_BYTES :: int where "MAX_CANONICAL_METADATA_BYTES = 8192"
definition MAX_CANONICAL_REFERENCES :: int where "MAX_CANONICAL_REFERENCES = 64"
definition MAX_CANONICAL_REFERENCE_URL_CHARS :: int where "MAX_CANONICAL_REFERENCE_URL_CHARS = 2048"
definition MAX_CANONICAL_TEXT_CHARS :: int where "MAX_CANONICAL_TEXT_CHARS = 4096"

section \<open>Scanner executions\<close>

record audit_finding =
  fd_id :: string
  fd_agent_source :: string
  fd_title :: string
  fd_description :: string
  fd_severity :: severity
  fd_cvss_vector :: "string option"
  fd_cvss_score :: "64 word option"
  fd_evidence :: "string option"
  fd_remediation :: "string option"
  fd_cwe_id :: "string option"
  fd_owasp :: "string option"
  fd_confidence :: "string option"
  fd_scanner_name :: "string option"
  fd_scanner_mode :: "string option"
  fd_file_path :: "string option"
  fd_line_number :: "int option"
  fd_route :: "string option"
  fd_metadata_json :: "string option"

datatype scanner_outcome =
    Success nat
  | RunFailed string
  | Timeout nat
  | RunCancelled

definition is_success :: "scanner_outcome \<Rightarrow> bool" where
  "is_success x = (case x of Success _ \<Rightarrow> True | _ \<Rightarrow> False)"

record scanner_result =
  res_scanner :: string
  res_version :: string
  res_mode :: string
  res_outcome :: scanner_outcome
  res_findings :: "audit_finding list"
  res_record :: json

definition usable :: "scanner_result \<Rightarrow> bool" where
  "usable r = is_success (res_outcome r)"

section \<open>The canonical document\<close>

datatype canonical_status =
    SuccessClean
  | SuccessFindings nat
  | StatusFailed string
  | StatusTimeout nat
  | StatusCancelled
  | NoFilesAnalyzed string

fun status_str :: "canonical_status \<Rightarrow> string" where
  "status_str SuccessClean = ''success_clean''"
| "status_str (SuccessFindings _) = ''success_findings''"
| "status_str (StatusFailed _) = ''failed''"
| "status_str (StatusTimeout _) = ''timeout''"
| "status_str StatusCancelled = ''cancelled''"
| "status_str (NoFilesAnalyzed _) = ''no_files_analyzed''"

definition coverage_known :: "canonical_status \<Rightarrow> bool" where
  "coverage_known s = (case s of SuccessClean \<Rightarrow> True | SuccessFindings _ \<Rightarrow> True | _ \<Rightarrow> False)"

definition status_finding_count :: "canonical_status \<Rightarrow> nat option" where
  "status_finding_count s = (case s of SuccessClean \<Rightarrow> Some 0 | SuccessFindings n \<Rightarrow> Some n | _ \<Rightarrow> None)"

datatype coverage_status = Complete | PartialCoverage | Absent

fun coverage_str :: "coverage_status \<Rightarrow> string" where
  "coverage_str Complete = ''complete''"
| "coverage_str PartialCoverage = ''partial''"
| "coverage_str Absent = ''absent''"

record audit_provenance =
  ap_scanner :: string
  ap_version :: string
  ap_parser :: string
  ap_image :: string
  ap_rule_id :: string
  ap_fingerprint :: string
  ap_snapshot :: "string option"

record location =
  loc_file :: string
  loc_line :: int
  loc_start_column :: "int option"
  loc_end_line :: "int option"
  loc_end_column :: "int option"

record reference =
  ref_type :: string
  ref_url :: string

datatype confidence_source = FromScanner | ScannerDefault | NoConfidence

datatype evidence_kind = Secret | Dependency | Source | UnknownKind

record canonical_finding =
  cf_id :: string
  cf_agent_source :: string
  cf_title :: string
  cf_description :: string
  cf_severity :: severity
  cf_confidence :: "string option"
  cf_confidence_source :: confidence_source
  cf_cwe_id :: "string option"
  cf_owasp :: "string option"
  cf_remediation :: "string option"
  cf_provenance :: audit_provenance
  cf_native_id :: string
  cf_location :: location
  cf_evidence :: string
  cf_evidence_kind :: evidence_kind
  cf_evidence_truncated :: bool
  cf_references :: "reference list"
  cf_metadata :: "(string \<times> json) list"

text \<open>The correlation basis has one value and is left out.\<close>

record correlation =
  co_correlation_id :: string
  co_canonical_id :: string
  co_occurrences :: nat
  co_provenance :: "audit_provenance list"

record invalid_finding =
  inv_id :: string
  inv_scanner :: "string option"
  inv_file :: "string option"
  inv_reason :: string
  inv_chars :: "nat option"

record canonical_run =
  cr_scanner :: string
  cr_version :: string
  cr_parser :: string
  cr_mode :: string
  cr_image :: string
  cr_status :: canonical_status
  cr_finding_count :: "nat option"
  cr_coverage_known :: bool
  cr_detail :: "string option"
  cr_limitations :: "string list"

record coverage =
  cov_status :: coverage_status
  cov_complete :: bool
  cov_successful :: "string list"
  cov_unsuccessful :: "(string \<times> string) list"
  cov_limitations :: "string list"

record summary =
  su_finding_count :: nat
  su_valid_count :: nat
  su_invalid_count :: nat
  su_duplicate_groups :: nat
  su_by_scanner :: "(string \<times> nat) list"
  su_by_severity :: "(string \<times> nat) list"
  su_score :: "64 word option"

record audit_document =
  ca_version :: nat
  ca_scan_id :: string
  ca_repository_url :: string
  ca_branch :: string
  ca_owner :: string
  ca_name :: string
  ca_snapshot_commit :: "string option"
  ca_file_count :: nat
  ca_total_size :: nat
  ca_runs :: "canonical_run list"
  ca_coverage :: coverage
  ca_findings :: "canonical_finding list"
  ca_correlations :: "correlation list"
  ca_invalid :: "invalid_finding list"
  ca_limitations :: "string list"
  ca_summary :: summary

datatype audit_error =
    MissingScanId
  | MissingRepository
  | MissingScannerRuns
  | InconsistentScore "64 word option" string
  | MissingSnapshot

section \<open>The third-party services\<close>

record audit_env =
  env_parse :: "string \<Rightarrow> json option"
  env_print :: "json \<Rightarrow> string"
  env_parse_provenance :: "string \<Rightarrow> audit_provenance option"
  env_print_provenance :: "audit_provenance \<Rightarrow> string"
  env_sha256_hex :: "string \<Rightarrow> string"
  env_credential :: "string \<Rightarrow> bool"

section \<open>Metadata\<close>

type_synonym metadata = "(string \<times> json) list"

definition parse_metadata :: "audit_env \<Rightarrow> audit_finding \<Rightarrow> string + metadata" where
  "parse_metadata E f =
     (let raw = (case fd_metadata_json f of Some s \<Rightarrow> s | None \<Rightarrow> ''{}'') in
      and_then (ok_or ''metadata is not valid JSON'' (env_parse E raw)) (\<lambda>v.
        case v of JObj m \<Rightarrow> Inr (bt_of_list m) | _ \<Rightarrow> Inl ''metadata is not a JSON object''))"

fun first_rule :: "metadata \<Rightarrow> string list \<Rightarrow> string + string" where
  "first_rule m [] = Inl ''finding has no rule identity''"
| "first_rule m (k # ks) =
     (case Option.bind (bt_get m k) as_str of
        Some r \<Rightarrow> if \<not> blank r then Inr r else first_rule m ks
      | None \<Rightarrow> first_rule m ks)"

definition native_rule_id :: "metadata \<Rightarrow> string + string" where
  "native_rule_id m = first_rule m [''rule_id'', ''check_id'', ''advisory'']"

definition native_fingerprint :: "metadata \<Rightarrow> string + string" where
  "native_fingerprint m =
     (case Option.bind (bt_get m ''fingerprint'') as_str of
        Some s \<Rightarrow> if \<not> blank s then Inr s else Inl ''finding has no native fingerprint''
      | None \<Rightarrow> Inl ''finding has no native fingerprint'')"

fun sort_json :: "json \<Rightarrow> json" where
  "sort_json (JObj m) = JObj (bt_of_list (map (\<lambda>(k, v). (k, sort_json v)) m))"
| "sort_json (JArr vs) = JArr (map sort_json vs)"
| "sort_json v = v"

fun metadata_strings :: "json \<Rightarrow> string list" where
  "metadata_strings (JStr s) = [s]"
| "metadata_strings (JArr vs) = concat (map metadata_strings vs)"
| "metadata_strings (JObj m) = concat (map (\<lambda>(k, v). metadata_strings v) m)"
| "metadata_strings _ = []"

section \<open>Paths, commits and names\<close>

definition validate_repo_path :: "string \<Rightarrow> string + string" where
  "validate_repo_path path =
     (let trimmed = trim path in
      if trimmed = [] then Inl ''file path is empty''
      else if int (length trimmed) > 1024 then Inl ''file path is too long''
      else if prefix ''/'' trimmed \<or> CHR 0x5C \<in> set trimmed \<or> CHR 0x00 \<in> set trimmed
      then Inl ''file path is not repository-relative''
      else if ''..'' \<in> set (split_on (CHR ''/'') trimmed) then Inl ''file path escapes the repository''
      else if has_control trimmed then Inl ''file path contains control characters''
      else Inr trimmed)"

definition validate_snapshot_commit :: "string option \<Rightarrow> string + string option" where
  "validate_snapshot_commit commit =
     (case commit of
        None \<Rightarrow> Inr None
      | Some v \<Rightarrow>
          if blank v then Inr None
          else if length v = 40 \<and> list_all is_lower_hex v then Inr (Some v)
          else Inl ''snapshot commit is not a 40-character lowercase hex digest'')"

definition sorted_scanners :: "string list \<Rightarrow> string list" where
  "sorted_scanners xs = bt_set (filter (\<lambda>s. \<not> blank s) xs)"

lemma bind_as_str [simp]: "Option.bind v as_str = Some s \<longleftrightarrow> v = Some (JStr s)"
  by (cases v) auto

lemma parse_metadata_wf: "parse_metadata E f = Inr m \<Longrightarrow> bt_wf m"
  unfolding parse_metadata_def Let_def and_then_Inr
  by (elim exE conjE) (simp split: json.splits, auto)

lemma first_rule_Inr:
  "first_rule m ks = Inr r \<Longrightarrow> (\<exists>k \<in> set ks. bt_get m k = Some (JStr r)) \<and> \<not> blank r"
  by (induction ks) (auto split: option.splits if_splits)

lemma native_fingerprint_Inr:
  "native_fingerprint m = Inr s \<longleftrightarrow> bt_get m ''fingerprint'' = Some (JStr s) \<and> \<not> blank s"
  by (auto simp: native_fingerprint_def split: option.splits)

section \<open>Sorting a document\<close>

lemma sort_json_wf: "json_wf (sort_json v)"
proof (induction v rule: sort_json.induct)
  case (1 m)
  have "json_wf v" if "(k, v) \<in> set (bt_of_list (map (\<lambda>(k, v). (k, sort_json v)) m))" for k v
  proof -
    have "bt_get (bt_of_list (map (\<lambda>(k, v). (k, sort_json v)) m)) k = Some v"
      using that bt_wf_distinct[OF bt_of_list_wf] by (intro map_of_is_SomeI)
    then have "(k, v) \<in> set (rev (map (\<lambda>(k, v). (k, sort_json v)) m))"
      unfolding bt_get_of_list by (rule map_of_SomeD)
    then show ?thesis using 1 by auto
  qed
  then show ?case by (auto simp: list_all_iff)
qed (auto simp: list_all_iff)

lemma bt_of_list_id:
  assumes "bt_wf m"
  shows "bt_of_list m = m"
proof (rule bt_unique)
  show "bt_get (bt_of_list m) = bt_get m"
    unfolding bt_get_of_list using bt_wf_distinct[OF assms]
    by (subst map_of_inject_set) (simp_all add: rev_map[symmetric])
qed (use assms in auto)

lemma sort_json_id: "json_wf v \<Longrightarrow> sort_json v = v"
proof (induction v rule: sort_json.induct)
  case (1 m)
  then have "map (\<lambda>(k, v). (k, sort_json v)) m = m"
    by (intro map_idI) (auto simp: list_all_iff)
  with 1 show ?case by (simp add: bt_of_list_id)
next
  case (2 vs)
  then show ?case by (auto simp: list_all_iff intro: map_idI)
qed simp_all

lemma sort_json_idem: "sort_json (sort_json v) = sort_json v"
  by (rule sort_json_id) (rule sort_json_wf)

end
