(* ===== verification/Report_Decode.thy ===== *)
theory Report_Decode
  imports Redaction Canonical_Schema App_Error
begin

text \<open>
  What the scanner adapters (\<open>backend/src/agents/scanner.rs\<close>) share: the reading of a report by the
  derived decoders of \<open>serde\<close>, the building of JSON documents, and the services of other crates and of
  the host.  A decoder returns \<open>None\<close> for an error: the adapters replace every decoding error by a fixed
  text.
\<close>

section \<open>Services\<close>

text \<open>\<open>sc_value\<close> is \<open>from_str::<Value>\<close>; \<open>sc_members\<close> is the document a typed decoder sees, with the
  members of an object in the order of the text and repeated keys kept; \<open>sc_print\<close> is \<open>to_string\<close>;
  \<open>sc_read\<close> reads a file, given by the components of its path, as UTF-8 text; \<open>sc_lower\<close> is the Unicode
  part of \<open>to_lowercase\<close>.\<close>

record scan_env =
  sc_value :: "string \<Rightarrow> json option"
  sc_members :: "string \<Rightarrow> json option"
  sc_print :: "json \<Rightarrow> string"
  sc_sha256_hex :: "string \<Rightarrow> string"
  sc_replace_all :: "string \<Rightarrow> string \<Rightarrow> string \<Rightarrow> string"
  sc_lower :: "string \<Rightarrow> string"
  sc_read :: "string list \<Rightarrow> string option"

abbreviation redact :: "scan_env \<Rightarrow> string \<Rightarrow> nat \<Rightarrow> string" where
  "redact E \<equiv> redact_text (sc_replace_all E)"

section \<open>Derived decoders\<close>

text \<open>The raw value of each field of a struct, in the order of declaration: from an object by key (an
  unknown key is ignored, a repeated one is an error), from an array by position.\<close>

definition struct_fields :: "string list \<Rightarrow> json \<Rightarrow> json option list option" where
  "struct_fields names v =
     (case v of
        JObj m \<Rightarrow>
          if list_all (\<lambda>n. length (filter (\<lambda>e. fst e = n) m) \<le> 1) names
          then Some (map (map_of m) names) else None
      | JArr xs \<Rightarrow>
          if length xs \<le> length names
          then Some (map Some xs @ replicate (length names - length xs) None) else None
      | _ \<Rightarrow> None)"

text \<open>A field with \<open>#[serde(default)]\<close>, and a field without.\<close>

definition dflt :: "'a \<Rightarrow> (json \<Rightarrow> 'a option) \<Rightarrow> json option \<Rightarrow> 'a option" where
  "dflt d dec v = (case v of None \<Rightarrow> Some d | Some j \<Rightarrow> dec j)"

definition need :: "(json \<Rightarrow> 'a option) \<Rightarrow> json option \<Rightarrow> 'a option" where
  "need dec v = Option.bind v dec"

definition dec_opt :: "(json \<Rightarrow> 'a option) \<Rightarrow> json \<Rightarrow> 'a option option" where
  "dec_opt dec j = (if is_null j then Some None else map_option Some (dec j))"

definition dec_list :: "(json \<Rightarrow> 'a option) \<Rightarrow> json \<Rightarrow> 'a list option" where
  "dec_list dec j = Option.bind (as_array j) (\<lambda>xs. those (map dec xs))"

fun dec_num :: "json \<Rightarrow> jnum option" where
  "dec_num (JNum n) = Some n"
| "dec_num _ = None"

lemma those_Some: "those xs = Some ys \<longleftrightarrow> xs = map Some ys"
proof (induction xs arbitrary: ys)
  case (Cons x xs)
  then show ?case by (cases x) (auto split: option.splits)
qed auto

lemma dec_list_Some: "dec_list dec j = Some ys \<longleftrightarrow> (\<exists>xs. j = JArr xs \<and> map dec xs = map Some ys)"
  by (cases j) (auto simp: dec_list_def those_Some)

lemma dflt_simps [simp]: "dflt d dec None = Some d" "dflt d dec (Some j) = dec j"
  by (simp_all add: dflt_def)

lemma need_simps [simp]: "need dec None = None" "need dec (Some j) = dec j"
  by (simp_all add: need_def)

section \<open>Building documents\<close>

definition json_obj :: "(string \<times> json) list \<Rightarrow> json" where
  "json_obj ms = JObj (bt_of_list ms)"

text \<open>\<open>value[key] = v\<close> on an object.\<close>

fun json_set :: "string \<Rightarrow> json \<Rightarrow> json \<Rightarrow> json" where
  "json_set k v (JObj m) = JObj (bt_insert k v m)"
| "json_set k v j = j"

definition json_set_if :: "bool \<Rightarrow> string \<Rightarrow> json \<Rightarrow> json \<Rightarrow> json" where
  "json_set_if b k v j = (if b then json_set k v j else j)"

definition json_nat :: "nat \<Rightarrow> json" where "json_nat n = JNum (PosInt (of_nat n))"

definition json_int :: "int \<Rightarrow> json" where
  "json_int i = (if 0 \<le> i then JNum (PosInt (of_int i)) else JNum (NegInt (of_int i)))"

definition json_opt :: "string option \<Rightarrow> json" where
  "json_opt s = (case s of Some t \<Rightarrow> JStr t | None \<Rightarrow> JNull)"

definition json_strs :: "string list \<Rightarrow> json" where "json_strs ss = JArr (map JStr ss)"

lemma member_json_obj: "member (json_obj ms) k = map_of (rev ms) k"
  by (simp add: member_def json_obj_def bt_get_of_list)

lemma member_json_set: "member (json_set k v (JObj m)) k' = (if k' = k then Some v else member (JObj m) k')"
  by (simp add: member_def bt_get_insert)

section \<open>Text and numbers\<close>

text \<open>\<open>i32::try_from(line).ok()\<close>\<close>

definition to_i32 :: "int \<Rightarrow> int option" where
  "to_i32 i = (if - (2 ^ 31) \<le> i \<and> i < 2 ^ 31 then Some i else None)"

definition SCAN_SLASH :: string where "SCAN_SLASH = ''/scan/''"

definition trim_start_slashes :: "string \<Rightarrow> string" where
  "trim_start_slashes s = dropWhile (\<lambda>c. c = CHR ''/'') s"

text \<open>\<open>normalize_repo_path\<close>\<close>

definition normalize_repo_path :: "string \<Rightarrow> string" where
  "normalize_repo_path path =
     trim_start_slashes (case strip_prefix SCAN_SLASH path of Some r \<Rightarrow> r | None \<Rightarrow> path)"

definition SNIPPET_MAX_CHARS :: nat where "SNIPPET_MAX_CHARS = 400"
definition STDERR_MAX_CHARS :: nat where "STDERR_MAX_CHARS = 1000"

lemma normalize_repo_path_relative: "\<not> prefix ''/'' (normalize_repo_path p)"
proof -
  have "\<not> prefix ''/'' (dropWhile (\<lambda>c. c = CHR ''/'') s)" for s :: string
    by (induction s) auto
  then show ?thesis by (simp add: normalize_repo_path_def trim_start_slashes_def)
qed

end
