(* ===== verification/Gitleaks.thy ===== *)
theory Gitleaks
  imports Report_Decode
begin

text \<open>
  The secret scanner's adapter (\<open>backend/src/agents/scanner.rs\<close>): the report of gitleaks, its reading
  and the findings made of it.
\<close>

record gitleaks_finding =
  gl_rule_id :: string
  gl_description :: string
  gl_file :: string
  gl_start_line :: int
  gl_end_line :: int
  gl_start_column :: int
  gl_end_column :: int
  gl_match :: string
  gl_secret :: string
  gl_symlink_file :: string
  gl_commit :: string
  gl_entropy :: jnum
  gl_author :: string
  gl_email :: string
  gl_date :: string
  gl_message :: string
  gl_tags :: "string list"
  gl_fingerprint :: string

definition GITLEAKS_FIELDS :: "string list" where
  "GITLEAKS_FIELDS =
     [''RuleID'', ''Description'', ''File'', ''StartLine'', ''EndLine'', ''StartColumn'', ''EndColumn'',
      ''Match'', ''Secret'', ''SymlinkFile'', ''Commit'', ''Entropy'', ''Author'', ''Email'', ''Date'',
      ''Message'', ''Tags'', ''Fingerprint'']"

definition dec_gitleaks :: "json \<Rightarrow> gitleaks_finding option" where
  "dec_gitleaks j =
     Option.bind (struct_fields GITLEAKS_FIELDS j) (\<lambda>fs.
     Option.bind (dflt [] as_str (fs ! 0)) (\<lambda>rule.
     Option.bind (dflt [] as_str (fs ! 1)) (\<lambda>desc.
     Option.bind (dflt [] as_str (fs ! 2)) (\<lambda>file.
     Option.bind (dflt 0 as_i64 (fs ! 3)) (\<lambda>sl.
     Option.bind (dflt 0 as_i64 (fs ! 4)) (\<lambda>el.
     Option.bind (dflt 0 as_i64 (fs ! 5)) (\<lambda>sc.
     Option.bind (dflt 0 as_i64 (fs ! 6)) (\<lambda>ec.
     Option.bind (dflt [] as_str (fs ! 7)) (\<lambda>mt.
     Option.bind (dflt [] as_str (fs ! 8)) (\<lambda>secret.
     Option.bind (dflt [] as_str (fs ! 9)) (\<lambda>sym.
     Option.bind (dflt [] as_str (fs ! 10)) (\<lambda>commit.
     Option.bind (dflt (PosInt 0) dec_num (fs ! 11)) (\<lambda>entropy.
     Option.bind (dflt [] as_str (fs ! 12)) (\<lambda>author.
     Option.bind (dflt [] as_str (fs ! 13)) (\<lambda>email.
     Option.bind (dflt [] as_str (fs ! 14)) (\<lambda>date.
     Option.bind (dflt [] as_str (fs ! 15)) (\<lambda>message.
     Option.bind (dflt [] (dec_list as_str) (fs ! 16)) (\<lambda>tags.
     Option.bind (dflt [] as_str (fs ! 17)) (\<lambda>fp.
       Some \<lparr>gl_rule_id = rule, gl_description = desc, gl_file = file, gl_start_line = sl,
         gl_end_line = el, gl_start_column = sc, gl_end_column = ec, gl_match = mt, gl_secret = secret,
         gl_symlink_file = sym, gl_commit = commit, gl_entropy = entropy, gl_author = author,
         gl_email = email, gl_date = date, gl_message = message, gl_tags = tags,
         gl_fingerprint = fp\<rparr>)))))))))))))))))))"

section \<open>The report\<close>

text \<open>\<open>&trimmed[start..=end]\<close> between the first opening and the last closing bracket.\<close>

definition bracketed :: "string \<Rightarrow> string option" where
  "bracketed s =
     (if CHR ''['' \<in> set s \<and> CHR '']'' \<in> set (dropWhile (\<lambda>c. c \<noteq> CHR ''['') s)
      then Some (rev (dropWhile (\<lambda>c. c \<noteq> CHR '']'') (rev (dropWhile (\<lambda>c. c \<noteq> CHR ''['') s))))
      else None)"

definition read_gitleaks :: "scan_env \<Rightarrow> string \<Rightarrow> gitleaks_finding list option" where
  "read_gitleaks E s = Option.bind (sc_members E s) (dec_list dec_gitleaks)"

definition parse_gitleaks_report :: "scan_env \<Rightarrow> string \<Rightarrow> app_error + gitleaks_finding list" where
  "parse_gitleaks_report E stdout =
     (let trimmed = trim stdout in
      if trimmed = [] \<or> trimmed = ''null'' then Inr []
      else
        (case read_gitleaks E trimmed of
           Some v \<Rightarrow> Inr v
         | None \<Rightarrow> ok_or (Internal ''gitleaks report was not valid JSON'')
             (Option.bind (bracketed trimmed) (read_gitleaks E))))"

section \<open>Findings\<close>

definition gitleaks_fingerprint :: "gitleaks_finding \<Rightarrow> string \<Rightarrow> string" where
  "gitleaks_fingerprint g file =
     (if \<not> blank (gl_fingerprint g) then ''gitleaks:'' @ trim (gl_fingerprint g)
      else ''gitleaks:'' @ gl_rule_id g @ '':'' @ file @ '':'' @ int_str (gl_start_line g) @ '':''
        @ int_str (gl_start_column g))"

definition gitleaks_metadata :: "scan_env \<Rightarrow> gitleaks_finding \<Rightarrow> string \<Rightarrow> string" where
  "gitleaks_metadata E g file =
     sc_print E
       (json_set_if (\<not> blank (gl_commit g)) ''commit'' (JStr (gl_commit g))
         (json_obj [(''rule_id'', JStr (gl_rule_id g)), (''fingerprint'', JStr (gitleaks_fingerprint g file)),
           (''start_column'', json_int (gl_start_column g)), (''end_column'', json_int (gl_end_column g))]))"

definition gitleaks_snippet :: "gitleaks_finding \<Rightarrow> string" where
  "gitleaks_snippet g =
     (if \<not> blank (gl_match g) then gl_match g else gl_rule_id g @ '' = '' @ gl_secret g)"

definition without_secret :: "gitleaks_finding \<Rightarrow> string" where
  "without_secret g =
     (if gl_secret g = [] then gitleaks_snippet g
      else replace_str (gl_secret g) ''[REDACTED]'' (gitleaks_snippet g))"

definition finding_from_gitleaks :: "scan_env \<Rightarrow> gitleaks_finding \<Rightarrow> string \<Rightarrow> audit_finding" where
  "finding_from_gitleaks E g uuid =
     (let file = normalize_repo_path (gl_file g) in
      \<lparr>fd_id = uuid, fd_agent_source = ''gitleaks'',
       fd_title = (if blank (gl_description g) then ''Exposed secret: '' @ gl_rule_id g else gl_description g),
       fd_description = ''gitleaks rule '' @ gl_rule_id g @ '': '' @ gl_description g,
       fd_severity = High, fd_cvss_vector = None, fd_cvss_score = None,
       fd_evidence = Some (redact E (without_secret g) SNIPPET_MAX_CHARS),
       fd_remediation = Some (''Revoke the exposed credential, remove it from the repository history, ''
         @ ''and load it from a secret manager at runtime.''),
       fd_cwe_id = Some ''CWE-798'', fd_owasp = Some ''A07:2021'', fd_confidence = Some ''high'',
       fd_scanner_name = Some ''gitleaks'', fd_scanner_mode = Some ''secret'', fd_file_path = Some file,
       fd_line_number = to_i32 (gl_start_line g), fd_route = None,
       fd_metadata_json = Some (gitleaks_metadata E g file)\<rparr>)"

end
