(* ===== verification/Osv.thy ===== *)
theory Osv
  imports Report_Decode
begin

text \<open>
  The dependency scanner's adapter (\<open>backend/src/agents/scanner.rs\<close>): the OSV report, its reading, the
  finding of each alias group, and the look at the manifest files of the snapshot.
\<close>

section \<open>The report\<close>

record osv_ref = or_type :: string or_url :: string

record osv_event =
  oe_introduced :: string
  oe_fixed :: "string option"
  oe_last_affected :: "string option"
  oe_limit :: "string option"

record osv_range = og_type :: string og_events :: "osv_event list"

record osv_affected =
  oa_ecosystem :: string
  oa_name :: string
  oa_ranges :: "osv_range list"

record osv_severity = os_type :: string os_score :: string

record osv_vuln =
  ov_id :: string
  ov_aliases :: "string list"
  ov_summary :: string
  ov_severity :: "osv_severity list"
  ov_affected :: "osv_affected list"
  ov_references :: "osv_ref list"
  ov_database :: json

record osv_package =
  op_name :: string
  op_version :: string
  op_ecosystem :: string

record osv_package_result =
  opr_package :: osv_package
  opr_vulns :: "osv_vuln list"
  opr_groups :: "string list list"

record osv_source_result =
  osr_path :: string
  osr_type :: string
  osr_packages :: "osv_package_result list"

type_synonym osv_doc = "osv_source_result list option"

section \<open>Reading the report\<close>

definition dec_osv_ref :: "json \<Rightarrow> osv_ref option" where
  "dec_osv_ref j =
     Option.bind (struct_fields [''type'', ''url''] j) (\<lambda>fs.
     Option.bind (dflt [] as_str (fs ! 0)) (\<lambda>t.
     Option.bind (dflt [] as_str (fs ! 1)) (\<lambda>u. Some \<lparr>or_type = t, or_url = u\<rparr>)))"

definition dec_osv_event :: "json \<Rightarrow> osv_event option" where
  "dec_osv_event j =
     Option.bind (struct_fields [''introduced'', ''fixed'', ''last_affected'', ''limit''] j) (\<lambda>fs.
     Option.bind (dflt [] as_str (fs ! 0)) (\<lambda>i.
     Option.bind (dflt None (dec_opt as_str) (fs ! 1)) (\<lambda>f.
     Option.bind (dflt None (dec_opt as_str) (fs ! 2)) (\<lambda>l.
     Option.bind (dflt None (dec_opt as_str) (fs ! 3)) (\<lambda>m.
       Some \<lparr>oe_introduced = i, oe_fixed = f, oe_last_affected = l, oe_limit = m\<rparr>)))))"

definition dec_osv_range :: "json \<Rightarrow> osv_range option" where
  "dec_osv_range j =
     Option.bind (struct_fields [''type'', ''events''] j) (\<lambda>fs.
     Option.bind (need as_str (fs ! 0)) (\<lambda>t.
     Option.bind (dflt [] (dec_list dec_osv_event) (fs ! 1)) (\<lambda>es.
       Some \<lparr>og_type = t, og_events = es\<rparr>)))"

definition dec_osv_affected_package :: "json \<Rightarrow> (string \<times> string) option" where
  "dec_osv_affected_package j =
     Option.bind (struct_fields [''ecosystem'', ''name''] j) (\<lambda>fs.
     Option.bind (dflt [] as_str (fs ! 0)) (\<lambda>e.
     Option.bind (dflt [] as_str (fs ! 1)) (\<lambda>n. Some (e, n))))"

definition dec_osv_affected :: "json \<Rightarrow> osv_affected option" where
  "dec_osv_affected j =
     Option.bind (struct_fields [''package'', ''ranges''] j) (\<lambda>fs.
     Option.bind (dflt ([], []) dec_osv_affected_package (fs ! 0)) (\<lambda>(e, n).
     Option.bind (dflt [] (dec_list dec_osv_range) (fs ! 1)) (\<lambda>rs.
       Some \<lparr>oa_ecosystem = e, oa_name = n, oa_ranges = rs\<rparr>)))"

definition dec_osv_severity :: "json \<Rightarrow> osv_severity option" where
  "dec_osv_severity j =
     Option.bind (struct_fields [''type'', ''score''] j) (\<lambda>fs.
     Option.bind (need as_str (fs ! 0)) (\<lambda>t.
     Option.bind (dflt [] as_str (fs ! 1)) (\<lambda>s. Some \<lparr>os_type = t, os_score = s\<rparr>)))"

definition dec_osv_vuln :: "json \<Rightarrow> osv_vuln option" where
  "dec_osv_vuln j =
     Option.bind (struct_fields [''id'', ''aliases'', ''summary'', ''severity'', ''affected'',
       ''references'', ''database_specific''] j) (\<lambda>fs.
     Option.bind (dflt [] as_str (fs ! 0)) (\<lambda>i.
     Option.bind (dflt [] (dec_list as_str) (fs ! 1)) (\<lambda>al.
     Option.bind (dflt [] as_str (fs ! 2)) (\<lambda>su.
     Option.bind (dflt [] (dec_list dec_osv_severity) (fs ! 3)) (\<lambda>se.
     Option.bind (dflt [] (dec_list dec_osv_affected) (fs ! 4)) (\<lambda>af.
     Option.bind (dflt [] (dec_list dec_osv_ref) (fs ! 5)) (\<lambda>re.
     Option.bind (dflt JNull Some (fs ! 6)) (\<lambda>db.
       Some \<lparr>ov_id = i, ov_aliases = al, ov_summary = su, ov_severity = se, ov_affected = af,
         ov_references = re, ov_database = db\<rparr>))))))))"

definition dec_osv_package :: "json \<Rightarrow> osv_package option" where
  "dec_osv_package j =
     Option.bind (struct_fields [''name'', ''version'', ''ecosystem''] j) (\<lambda>fs.
     Option.bind (dflt [] as_str (fs ! 0)) (\<lambda>n.
     Option.bind (dflt [] as_str (fs ! 1)) (\<lambda>v.
     Option.bind (dflt [] as_str (fs ! 2)) (\<lambda>e.
       Some \<lparr>op_name = n, op_version = v, op_ecosystem = e\<rparr>))))"

definition dec_osv_group :: "json \<Rightarrow> string list option" where
  "dec_osv_group j =
     Option.bind (struct_fields [''ids''] j) (\<lambda>fs. dflt [] (dec_list as_str) (fs ! 0))"

definition dec_osv_package_result :: "json \<Rightarrow> osv_package_result option" where
  "dec_osv_package_result j =
     Option.bind (struct_fields [''package'', ''vulnerabilities'', ''groups''] j) (\<lambda>fs.
     Option.bind (dflt \<lparr>op_name = [], op_version = [], op_ecosystem = []\<rparr> dec_osv_package (fs ! 0)) (\<lambda>p.
     Option.bind (dflt [] (dec_list dec_osv_vuln) (fs ! 1)) (\<lambda>vs.
     Option.bind (dflt [] (dec_list dec_osv_group) (fs ! 2)) (\<lambda>gs.
       Some \<lparr>opr_package = p, opr_vulns = vs, opr_groups = gs\<rparr>))))"

definition dec_osv_source :: "json \<Rightarrow> (string \<times> string) option" where
  "dec_osv_source j =
     Option.bind (struct_fields [''path'', ''type''] j) (\<lambda>fs.
     Option.bind (dflt [] as_str (fs ! 0)) (\<lambda>p.
     Option.bind (dflt [] as_str (fs ! 1)) (\<lambda>t. Some (p, t))))"

definition dec_osv_source_result :: "json \<Rightarrow> osv_source_result option" where
  "dec_osv_source_result j =
     Option.bind (struct_fields [''source'', ''packages''] j) (\<lambda>fs.
     Option.bind (dflt ([], []) dec_osv_source (fs ! 0)) (\<lambda>(p, t).
     Option.bind (dflt [] (dec_list dec_osv_package_result) (fs ! 1)) (\<lambda>ps.
       Some \<lparr>osr_path = p, osr_type = t, osr_packages = ps\<rparr>)))"

definition dec_osv_doc :: "json \<Rightarrow> osv_doc option" where
  "dec_osv_doc j =
     Option.bind (struct_fields [''results''] j) (\<lambda>fs.
       dflt None (dec_opt (dec_list dec_osv_source_result)) (fs ! 0))"

definition parse_osv_report :: "scan_env \<Rightarrow> string \<Rightarrow> app_error + osv_doc" where
  "parse_osv_report E stdout =
     (let trimmed = trim stdout in
      if trimmed = [] then Inl (Internal ''osv produced no report'')
      else
        and_then (ok_or (Internal ''osv report was not valid JSON'') (sc_value E trimmed)) (\<lambda>v.
        if member v ''results'' = None then Inl (Internal ''osv report had no \"results\" key'')
        else ok_or (Internal ''osv report did not match the expected shape'') (dec_osv_doc v)))"

section \<open>Paths and manifest files\<close>

text \<open>The components of a path, the root as \<open>/\<close>; empty segments and dots after the first are dropped.\<close>

definition components :: "string \<Rightarrow> string list" where
  "components p =
     (let segs = split_on (CHR ''/'') p; keep = filter (\<lambda>s. s \<noteq> [] \<and> s \<noteq> ''.'') segs in
      if prefix ''/'' p then ''/'' # keep else if hd segs = ''.'' then ''.'' # keep else keep)"

text \<open>\<open>source_dir.join(manifest)\<close>\<close>

definition path_join :: "string \<Rightarrow> string \<Rightarrow> string list" where
  "path_join d m =
     (if prefix ''/'' m then components m else components d @ filter (\<lambda>c. c \<noteq> ''.'') (components m))"

definition file_name :: "string list \<Rightarrow> string option" where
  "file_name cs = (if cs = [] \<or> last cs \<in> {''/'', ''.'', ''..''} then None else Some (last cs))"

definition with_file_name :: "string list \<Rightarrow> string \<Rightarrow> string list" where
  "with_file_name cs n = (if file_name cs = None then cs else butlast cs) @ [n]"

text \<open>\<open>str::lines\<close>\<close>

definition strip_cr :: "string \<Rightarrow> string" where
  "strip_cr l = (case strip_suffix [CHR 0x0D] l of Some r \<Rightarrow> r | None \<Rightarrow> l)"

definition rust_lines :: "string \<Rightarrow> string list" where
  "rust_lines s =
     (let segs = split_on (CHR 0x0A) s in
      map strip_cr (butlast segs) @ (if last segs = [] then [] else [last segs]))"

definition trim_matches :: "char list \<Rightarrow> string \<Rightarrow> string" where
  "trim_matches cs s = rev (dropWhile (\<lambda>c. c \<in> set cs) (rev (dropWhile (\<lambda>c. c \<in> set cs) s)))"

definition NPM_SECTIONS :: "string list" where
  "NPM_SECTIONS = [''dependencies'', ''devDependencies'', ''peerDependencies'', ''optionalDependencies'']"

definition npm_direct_deps :: "scan_env \<Rightarrow> string list \<Rightarrow> string set option" where
  "npm_direct_deps E path =
     Option.bind (sc_read E path) (\<lambda>t.
     map_option (\<lambda>v. \<Union>s \<in> set NPM_SECTIONS.
         (case Option.bind (member v s) as_object of Some m \<Rightarrow> fst ` set m | None \<Rightarrow> {}))
       (sc_value E t))"

text \<open>One line of \<open>Cargo.toml\<close>: the state is whether the section declares dependencies, and the keys.\<close>

definition cargo_line :: "scan_env \<Rightarrow> string \<Rightarrow> bool \<times> string set \<Rightarrow> bool \<times> string set" where
  "cargo_line E raw = (\<lambda>(in_deps, deps).
     (let line = trim raw in
      if prefix ''['' line then
        (let section_name = to_lowercase (sc_lower E) (trim (trim_matches ''[]'' line)) in
         (last (split_on (CHR ''.'') section_name)
            \<in> {''dependencies'', ''dev-dependencies'', ''build-dependencies''}, deps))
      else if in_deps then
        (case split_once (CHR ''='') (trim (hd (split_on (CHR ''#'') line))) of
           Some (k, _) \<Rightarrow>
             (let key = trim_matches [CHR 0x22] (trim k) in
              (in_deps, if key \<noteq> [] then insert key deps else deps))
         | None \<Rightarrow> (in_deps, deps))
      else (in_deps, deps)))"

definition cargo_direct_deps :: "scan_env \<Rightarrow> string list \<Rightarrow> string set option" where
  "cargo_direct_deps E path =
     map_option (\<lambda>t. snd (fold (cargo_line E) (rust_lines t) (False, {}))) (sc_read E path)"

definition osv_directness :: "scan_env \<Rightarrow> string \<Rightarrow> string \<Rightarrow> string \<Rightarrow> bool option" where
  "osv_directness E source_dir manifest pkg =
     (let path = path_join source_dir manifest in
      Option.bind (file_name path) (\<lambda>name.
        if name = ''package.json'' then map_option (\<lambda>ds. pkg \<in> ds) (npm_direct_deps E path)
        else if name = ''package-lock.json'' \<or> name = ''npm-shrinkwrap.json''
        then map_option (\<lambda>ds. pkg \<in> ds) (npm_direct_deps E (with_file_name path ''package.json''))
        else if name = ''Cargo.toml'' then map_option (\<lambda>ds. pkg \<in> ds) (cargo_direct_deps E path)
        else if name = ''Cargo.lock''
        then map_option (\<lambda>ds. pkg \<in> ds) (cargo_direct_deps E (with_file_name path ''Cargo.toml''))
        else None))"

text \<open>The first index (from 1) of a line with a property; \<open>(index + 1) as i32\<close> wraps.\<close>

fun line_index :: "(string \<Rightarrow> bool) \<Rightarrow> nat \<Rightarrow> string list \<Rightarrow> nat option" where
  "line_index P n [] = None"
| "line_index P n (l # ls) = (if P l then Some (Suc n) else line_index P (Suc n) ls)"

definition as_i32 :: "nat \<Rightarrow> int" where
  "as_i32 n = sint (of_nat n :: 32 word)"

text \<open>The entry of \<open>Cargo.lock\<close>: the version line within the five lines after the name line, else the
  name line.\<close>

definition cargo_entry :: "string \<Rightarrow> string \<Rightarrow> string list \<Rightarrow> nat option" where
  "cargo_entry pkg version ls =
     map_option (\<lambda>n.
         (case line_index (\<lambda>l. trim l = ''version = \"'' @ version @ ''\"'') n (take 5 (drop n ls)) of
            Some k \<Rightarrow> k | None \<Rightarrow> n))
       (line_index (\<lambda>l. trim l = ''name = \"'' @ pkg @ ''\"'') 0 ls)"

definition manifest_entry :: "string \<Rightarrow> string \<Rightarrow> string \<Rightarrow> string list \<Rightarrow> nat option" where
  "manifest_entry name pkg version ls =
     (let any = line_index (\<lambda>l. contains_str l version \<and> contains_str l pkg) 0 ls;
          special =
            (if name = ''package-lock.json'' \<or> name = ''npm-shrinkwrap.json''
             then line_index (\<lambda>l. contains_str l (''\"node_modules/'' @ pkg @ ''\"'')) 0 ls
             else if name = ''Cargo.lock'' then cargo_entry pkg version ls else None)
      in case special of Some k \<Rightarrow> Some k | None \<Rightarrow> any)"

definition osv_manifest_line :: "scan_env \<Rightarrow> string \<Rightarrow> string \<Rightarrow> string \<Rightarrow> string \<Rightarrow> int" where
  "osv_manifest_line E source_dir manifest pkg version =
     (case sc_read E (path_join source_dir manifest) of
        None \<Rightarrow> 1
      | Some t \<Rightarrow>
          (case manifest_entry (case file_name (components manifest) of Some n \<Rightarrow> n | None \<Rightarrow> [])
                  pkg version (rust_lines t) of
             Some n \<Rightarrow> as_i32 n | None \<Rightarrow> 1))"

section \<open>One advisory\<close>

definition osv_advisory_severity :: "scan_env \<Rightarrow> osv_vuln \<Rightarrow> severity option" where
  "osv_advisory_severity E v =
     Option.bind (Option.bind (member (ov_database v) ''severity'') as_str) (\<lambda>raw.
       let s = to_lowercase (sc_lower E) raw in
       if s = ''critical'' then Some Critical
       else if s = ''high'' then Some High
       else if s = ''medium'' \<or> s = ''moderate'' then Some Medium
       else if s = ''low'' then Some Low else None)"

fun severity_rank :: "severity \<Rightarrow> nat" where
  "severity_rank Critical = 4"
| "severity_rank High = 3"
| "severity_rank Medium = 2"
| "severity_rank Low = 1"
| "severity_rank Info = 0"
| "severity_rank Unknown = 0"

text \<open>\<open>max_by_key\<close>: the last of the greatest elements.\<close>

fun max_by_key :: "('a \<Rightarrow> nat) \<Rightarrow> 'a list \<Rightarrow> 'a option" where
  "max_by_key f [] = None"
| "max_by_key f (x # xs) =
     (case max_by_key f xs of None \<Rightarrow> Some x | Some y \<Rightarrow> if f x > f y then Some x else Some y)"

definition osv_advisory_cwe :: "osv_vuln \<Rightarrow> string option" where
  "osv_advisory_cwe v =
     Option.bind (Option.bind (member (ov_database v) ''cwe_ids'') as_array) (\<lambda>ids.
       case List.map_filter as_str ids of [] \<Rightarrow> None | s # _ \<Rightarrow> Some s)"

section \<open>A group of advisories\<close>

definition relevant :: "osv_package \<Rightarrow> osv_affected \<Rightarrow> bool" where
  "relevant pkg a \<longleftrightarrow> oa_name a = [] \<or> oa_name a = op_name pkg"

definition event_json :: "osv_event \<Rightarrow> json" where
  "event_json e =
     json_obj ((if oe_introduced e \<noteq> [] then [(''introduced'', JStr (oe_introduced e))] else [])
       @ (case oe_fixed e of Some f \<Rightarrow> [(''fixed'', JStr f)] | None \<Rightarrow> [])
       @ (case oe_last_affected e of Some l \<Rightarrow> [(''last_affected'', JStr l)] | None \<Rightarrow> [])
       @ (case oe_limit e of Some l \<Rightarrow> [(''limit'', JStr l)] | None \<Rightarrow> []))"

definition range_json :: "osv_range \<Rightarrow> json" where
  "range_json r = json_obj [(''type'', JStr (og_type r)), (''events'', JArr (map event_json (og_events r)))]"

definition push_fixed :: "osv_event \<Rightarrow> string list \<Rightarrow> string list" where
  "push_fixed e fixed =
     (case oe_fixed e of
        Some f \<Rightarrow> if f \<noteq> [] \<and> f \<notin> set fixed then fixed @ [f] else fixed
      | None \<Rightarrow> fixed)"

definition osv_affected_fixed :: "osv_vuln list \<Rightarrow> osv_package \<Rightarrow> json list \<times> string list" where
  "osv_affected_fixed records pkg =
     (let entries = filter (relevant pkg) (concat (map ov_affected records)) in
      (map (\<lambda>a. json_obj [(''ranges'', JArr (map range_json (oa_ranges a)))]) entries,
       sort (fold push_fixed (concat (map og_events (concat (map oa_ranges entries)))) [])))"

fun fresh_refs :: "string set \<Rightarrow> osv_ref list \<Rightarrow> osv_ref list" where
  "fresh_refs seen [] = []"
| "fresh_refs seen (r # rs) =
     (if blank (or_url r) \<or> or_url r \<in> seen then fresh_refs seen rs
      else r # fresh_refs (insert (or_url r) seen) rs)"

definition osv_references :: "osv_vuln list \<Rightarrow> json list" where
  "osv_references records =
     map (\<lambda>r. json_obj [(''type'', JStr (or_type r)), (''url'', JStr (or_url r))])
       (sort_key or_url (fresh_refs {} (concat (map ov_references records))))"

definition osv_fingerprint ::
  "scan_env \<Rightarrow> string \<Rightarrow> string \<Rightarrow> string \<Rightarrow> string \<Rightarrow> string \<Rightarrow> string" where
  "osv_fingerprint E advisory ecosystem pkg version manifest =
     ''osv:'' @ sc_sha256_hex E (''osv|'' @ advisory @ ''|'' @ ecosystem @ ''|'' @ pkg @ ''|'' @ version
       @ ''|'' @ manifest)"

definition OSV_SUMMARY_MAX_CHARS :: nat where "OSV_SUMMARY_MAX_CHARS = 240"
definition OSV_EVIDENCE_MAX_CHARS :: nat where "OSV_EVIDENCE_MAX_CHARS = 400"

definition osv_aliases :: "string \<Rightarrow> string list \<Rightarrow> osv_vuln list \<Rightarrow> string list" where
  "osv_aliases primary ids records =
     remdups_adj (sort (filter (\<lambda>a. a \<noteq> primary \<and> \<not> blank a)
       (tl ids @ concat (map ov_aliases records))))"

definition osv_severity_of :: "scan_env \<Rightarrow> osv_vuln list \<Rightarrow> severity" where
  "osv_severity_of E records =
     (case max_by_key severity_rank (List.map_filter (osv_advisory_severity E) records) of
        Some s \<Rightarrow> s | None \<Rightarrow> Unknown)"

definition osv_evidence :: "osv_package \<Rightarrow> string \<Rightarrow> string \<Rightarrow> string list \<Rightarrow> string list \<Rightarrow> string" where
  "osv_evidence pkg manifest primary aliases fixed =
     (let text = op_ecosystem pkg @ '' package '' @ op_name pkg @ ''@'' @ op_version pkg @ '' declared in ''
        @ manifest @ '' is affected by '' @ primary
        @ (if aliases = [] then [] else '' ('' @ join '', '' aliases @ '')'') @ ''; ''
        @ (if fixed = [] then ''no fixed version is published'' else ''fixed in '' @ join '', '' fixed) @ ''.''
      in if length text > OSV_EVIDENCE_MAX_CHARS
         then truncate_at_char_boundary text OSV_EVIDENCE_MAX_CHARS @ TRUNCATED else text)"

definition osv_description :: "osv_package \<Rightarrow> string \<Rightarrow> osv_vuln list \<Rightarrow> string" where
  "osv_description pkg primary records =
     (case List.find (\<lambda>r. \<not> blank (ov_summary r)) records of
        Some r \<Rightarrow> truncate_chars (trim (ov_summary r)) OSV_SUMMARY_MAX_CHARS
      | None \<Rightarrow> ''Advisory '' @ primary @ '' affects '' @ op_name pkg @ '' '' @ op_version pkg @ '' (''
          @ op_ecosystem pkg @ '').'')"

definition osv_remediation :: "osv_package \<Rightarrow> string \<Rightarrow> string \<Rightarrow> string list \<Rightarrow> string" where
  "osv_remediation pkg manifest primary fixed =
     (case fixed of
        [] \<Rightarrow> ''No fixed version is published for '' @ primary
          @ ''; review the advisory references in the finding metadata.''
      | f # _ \<Rightarrow> ''Upgrade '' @ op_name pkg @ '' to version '' @ f @ '' or later (declared in '' @ manifest
          @ ''), then re-lock and rescan.'')"

definition osv_metadata ::
  "scan_env \<Rightarrow> osv_vuln list \<Rightarrow> string list \<Rightarrow> osv_package \<Rightarrow> string \<Rightarrow> string \<Rightarrow> json" where
  "osv_metadata E records ids pkg manifest source_dir =
     (let primary = (case ids of i # _ \<Rightarrow> i | [] \<Rightarrow> []);
          cwe = List.map_filter osv_advisory_cwe records in
      json_set_if (cwe \<noteq> []) ''cwe_id'' (JStr (hd cwe))
        (json_obj
          [(''rule_id'', JStr primary), (''advisory'', JStr primary),
           (''aliases'', json_strs (osv_aliases primary ids records)),
           (''ecosystem'', JStr (op_ecosystem pkg)), (''package'', JStr (op_name pkg)),
           (''installed_version'', JStr (op_version pkg)),
           (''fingerprint'', JStr (osv_fingerprint E primary (op_ecosystem pkg) (op_name pkg) (op_version pkg) manifest)),
           (''manifest'', JStr manifest),
           (''direct'', case osv_directness E source_dir manifest (op_name pkg) of
                          Some b \<Rightarrow> JBool b | None \<Rightarrow> JNull),
           (''affected'', JArr (fst (osv_affected_fixed records pkg))),
           (''fixed_versions'', json_strs (snd (osv_affected_fixed records pkg))),
           (''references'', JArr (osv_references records))]))"

definition osv_group_finding ::
  "scan_env \<Rightarrow> osv_vuln list \<Rightarrow> string list \<Rightarrow> osv_package_result \<Rightarrow> string \<Rightarrow> string \<Rightarrow> string \<Rightarrow> audit_finding" where
  "osv_group_finding E records ids pr manifest source_dir uuid =
     (let pkg = opr_package pr;
          primary = (case ids of i # _ \<Rightarrow> i | [] \<Rightarrow> []);
          fixed = snd (osv_affected_fixed records pkg);
          cwe = List.map_filter osv_advisory_cwe records in
      \<lparr>fd_id = uuid, fd_agent_source = ''osv'',
       fd_title = ''Vulnerable dependency: '' @ op_name pkg @ '' '' @ op_version pkg @ '' ('' @ primary @ '')'',
       fd_description = osv_description pkg primary records,
       fd_severity = osv_severity_of E records, fd_cvss_vector = None, fd_cvss_score = None,
       fd_evidence = Some (osv_evidence pkg manifest primary (osv_aliases primary ids records) fixed),
       fd_remediation = Some (osv_remediation pkg manifest primary fixed),
       fd_cwe_id = (case cwe of c # _ \<Rightarrow> Some c | [] \<Rightarrow> None), fd_owasp = None, fd_confidence = None,
       fd_scanner_name = Some ''osv'', fd_scanner_mode = Some ''dependency'',
       fd_file_path = Some manifest,
       fd_line_number = Some (osv_manifest_line E source_dir manifest (op_name pkg) (op_version pkg)),
       fd_route = None,
       fd_metadata_json = Some (sc_print E (osv_metadata E records ids pkg manifest source_dir))\<rparr>)"

section \<open>The whole report\<close>

text \<open>The map by id keeps the last record of an id.  A finding waits for its fresh identifier.\<close>

definition osv_by_id :: "osv_vuln list \<Rightarrow> string \<Rightarrow> osv_vuln option" where
  "osv_by_id vs i = List.find (\<lambda>v. ov_id v = i) (rev vs)"

definition osv_groups :: "osv_package_result \<Rightarrow> string list list" where
  "osv_groups pr =
     (if opr_groups pr = [] then map (\<lambda>v. [ov_id v]) (opr_vulns pr) else opr_groups pr)"

definition osv_package_findings ::
  "scan_env \<Rightarrow> osv_package_result \<Rightarrow> string \<Rightarrow> string \<Rightarrow> (string \<Rightarrow> audit_finding) list" where
  "osv_package_findings E pr manifest source_dir =
     map (\<lambda>ids. osv_group_finding E (List.map_filter (osv_by_id (opr_vulns pr)) ids) ids pr manifest source_dir)
       (osv_groups pr)"

definition findings_from_doc :: "scan_env \<Rightarrow> osv_doc \<Rightarrow> string \<Rightarrow> (string \<Rightarrow> audit_finding) list" where
  "findings_from_doc E doc source_dir =
     concat (map (\<lambda>sr. concat (map (\<lambda>pr.
         osv_package_findings E pr (normalize_repo_path (osr_path sr)) source_dir) (osr_packages sr)))
       (case doc of Some rs \<Rightarrow> rs | None \<Rightarrow> []))"

definition findings_from_osv ::
  "scan_env \<Rightarrow> string \<Rightarrow> string \<Rightarrow> app_error + (string \<Rightarrow> audit_finding) list" where
  "findings_from_osv E report source_dir =
     map_sum id (\<lambda>doc. findings_from_doc E doc source_dir) (parse_osv_report E report)"

end
