(* ===== verification/Semgrep.thy ===== *)
theory Semgrep
  imports Report_Decode
begin

text \<open>
  The static-analysis adapter (\<open>backend/src/agents/scanner.rs\<close>): the Semgrep report, its reading, the
  validation of locations and the findings.
\<close>

definition SEMGREP_SNIPPET_MAX_CHARS :: nat where "SEMGREP_SNIPPET_MAX_CHARS = 400"
definition SEMGREP_MESSAGE_MAX_CHARS :: nat where "SEMGREP_MESSAGE_MAX_CHARS = 400"
definition MAX_REPORTED_ERRORS :: nat where "MAX_REPORTED_ERRORS = 5"

section \<open>The report\<close>

record semgrep_error =
  sx_type :: string
  sx_code :: int
  sx_level :: string
  sx_message :: string

record semgrep_pos = sp_line :: int sp_col :: int

record semgrep_metadata =
  sm_category :: string
  sm_confidence :: string
  sm_likelihood :: string
  sm_impact :: string
  sm_cwe :: "string list"
  sm_owasp :: "string list"
  sm_references :: "string list"
  sm_technology :: "string list"
  sm_fix :: "string option"
  sm_fix_regex :: "json option"

record semgrep_extra =
  se_severity :: string
  se_message :: string
  se_lines :: string
  se_fingerprint :: string
  se_metadata :: semgrep_metadata

record semgrep_result =
  sr_check_id :: string
  sr_path :: string
  sr_start :: semgrep_pos
  sr_end :: semgrep_pos
  sr_extra :: semgrep_extra

record semgrep_doc =
  sd_errors :: "semgrep_error list"
  sd_results :: "semgrep_result list"
  sd_scanned :: "string list"
  sd_version :: string

section \<open>Reading the report\<close>

definition dec_semgrep_error :: "json \<Rightarrow> semgrep_error option" where
  "dec_semgrep_error j =
     Option.bind (struct_fields [''type'', ''code'', ''level'', ''message''] j) (\<lambda>fs.
     Option.bind (dflt [] as_str (fs ! 0)) (\<lambda>t.
     Option.bind (dflt 0 as_i64 (fs ! 1)) (\<lambda>c.
     Option.bind (dflt [] as_str (fs ! 2)) (\<lambda>l.
     Option.bind (dflt [] as_str (fs ! 3)) (\<lambda>m.
       Some \<lparr>sx_type = t, sx_code = c, sx_level = l, sx_message = m\<rparr>)))))"

definition default_pos :: semgrep_pos where "default_pos = \<lparr>sp_line = 0, sp_col = 0\<rparr>"

definition dec_semgrep_pos :: "json \<Rightarrow> semgrep_pos option" where
  "dec_semgrep_pos j =
     Option.bind (struct_fields [''line'', ''col''] j) (\<lambda>fs.
     Option.bind (dflt 0 as_i64 (fs ! 0)) (\<lambda>l.
     Option.bind (dflt 0 as_i64 (fs ! 1)) (\<lambda>c. Some \<lparr>sp_line = l, sp_col = c\<rparr>)))"

definition default_metadata :: semgrep_metadata where
  "default_metadata = \<lparr>sm_category = [], sm_confidence = [], sm_likelihood = [], sm_impact = [], sm_cwe = [],
     sm_owasp = [], sm_references = [], sm_technology = [], sm_fix = None, sm_fix_regex = None\<rparr>"

definition dec_semgrep_metadata :: "json \<Rightarrow> semgrep_metadata option" where
  "dec_semgrep_metadata j =
     Option.bind (struct_fields [''category'', ''confidence'', ''likelihood'', ''impact'', ''cwe'',
       ''owasp'', ''references'', ''technology'', ''fix'', ''fix_regex''] j) (\<lambda>fs.
     Option.bind (dflt [] as_str (fs ! 0)) (\<lambda>cat.
     Option.bind (dflt [] as_str (fs ! 1)) (\<lambda>conf.
     Option.bind (dflt [] as_str (fs ! 2)) (\<lambda>lik.
     Option.bind (dflt [] as_str (fs ! 3)) (\<lambda>imp.
     Option.bind (dflt [] (dec_list as_str) (fs ! 4)) (\<lambda>cwe.
     Option.bind (dflt [] (dec_list as_str) (fs ! 5)) (\<lambda>owasp.
     Option.bind (dflt [] (dec_list as_str) (fs ! 6)) (\<lambda>refs.
     Option.bind (dflt [] (dec_list as_str) (fs ! 7)) (\<lambda>tech.
     Option.bind (dflt None (dec_opt as_str) (fs ! 8)) (\<lambda>fx.
     Option.bind (dflt None (dec_opt Some) (fs ! 9)) (\<lambda>fxr.
       Some \<lparr>sm_category = cat, sm_confidence = conf, sm_likelihood = lik, sm_impact = imp, sm_cwe = cwe,
         sm_owasp = owasp, sm_references = refs, sm_technology = tech, sm_fix = fx, sm_fix_regex = fxr\<rparr>)))))))))))"

definition default_extra :: semgrep_extra where
  "default_extra = \<lparr>se_severity = [], se_message = [], se_lines = [], se_fingerprint = [],
     se_metadata = default_metadata\<rparr>"

definition dec_semgrep_extra :: "json \<Rightarrow> semgrep_extra option" where
  "dec_semgrep_extra j =
     Option.bind (struct_fields [''severity'', ''message'', ''lines'', ''fingerprint'', ''metadata''] j) (\<lambda>fs.
     Option.bind (dflt [] as_str (fs ! 0)) (\<lambda>s.
     Option.bind (dflt [] as_str (fs ! 1)) (\<lambda>m.
     Option.bind (dflt [] as_str (fs ! 2)) (\<lambda>l.
     Option.bind (dflt [] as_str (fs ! 3)) (\<lambda>f.
     Option.bind (dflt default_metadata dec_semgrep_metadata (fs ! 4)) (\<lambda>md.
       Some \<lparr>se_severity = s, se_message = m, se_lines = l, se_fingerprint = f, se_metadata = md\<rparr>))))))"

definition dec_semgrep_result :: "json \<Rightarrow> semgrep_result option" where
  "dec_semgrep_result j =
     Option.bind (struct_fields [''check_id'', ''path'', ''start'', ''end'', ''extra''] j) (\<lambda>fs.
     Option.bind (dflt [] as_str (fs ! 0)) (\<lambda>c.
     Option.bind (dflt [] as_str (fs ! 1)) (\<lambda>p.
     Option.bind (dflt default_pos dec_semgrep_pos (fs ! 2)) (\<lambda>s.
     Option.bind (dflt default_pos dec_semgrep_pos (fs ! 3)) (\<lambda>e.
     Option.bind (dflt default_extra dec_semgrep_extra (fs ! 4)) (\<lambda>x.
       Some \<lparr>sr_check_id = c, sr_path = p, sr_start = s, sr_end = e, sr_extra = x\<rparr>))))))"

definition dec_semgrep_paths :: "json \<Rightarrow> string list option" where
  "dec_semgrep_paths j =
     Option.bind (struct_fields [''scanned''] j) (\<lambda>fs. dflt [] (dec_list as_str) (fs ! 0))"

definition dec_semgrep_doc :: "json \<Rightarrow> semgrep_doc option" where
  "dec_semgrep_doc j =
     Option.bind (struct_fields [''errors'', ''results'', ''paths'', ''version''] j) (\<lambda>fs.
     Option.bind (dflt [] (dec_list dec_semgrep_error) (fs ! 0)) (\<lambda>es.
     Option.bind (dflt [] (dec_list dec_semgrep_result) (fs ! 1)) (\<lambda>rs.
     Option.bind (dflt [] dec_semgrep_paths (fs ! 2)) (\<lambda>ps.
     Option.bind (dflt [] as_str (fs ! 3)) (\<lambda>v.
       Some \<lparr>sd_errors = es, sd_results = rs, sd_scanned = ps, sd_version = v\<rparr>)))))"

definition parse_semgrep_report :: "scan_env \<Rightarrow> string \<Rightarrow> app_error + semgrep_doc" where
  "parse_semgrep_report E stdout =
     (let trimmed = trim stdout in
      if trimmed = [] then Inl (Internal ''semgrep produced no report'')
      else
        and_then (ok_or (Internal ''semgrep report was not valid JSON'') (sc_value E trimmed)) (\<lambda>v.
        and_then (for_all_ok (\<lambda>key.
            if member v key = None
            then Inl (BadRequest (''semgrep report had no \"'' @ key @ ''\" key'')) else Inr ())
          [''results'', ''paths'']) (\<lambda>_.
        ok_or (Internal ''semgrep report did not match the expected shape'') (dec_semgrep_doc v))))"

section \<open>One detection\<close>

definition validate_semgrep_location :: "semgrep_result \<Rightarrow> string + unit" where
  "validate_semgrep_location r =
     (if blank (sr_check_id r) then Inl ''missing check_id''
      else if blank (sr_path r) then Inl ''missing path''
      else if sp_line (sr_start r) < 1 then Inl ''start line is not positive''
      else if sp_line (sr_end r) < 1 then Inl ''end line is not positive''
      else if sp_line (sr_end r) < sp_line (sr_start r) then Inl ''end line precedes start line''
      else Inr ())"

definition semgrep_severity :: "string \<Rightarrow> severity" where
  "semgrep_severity s =
     (let u = map ascii_upper (trim s) in
      if u = ''ERROR'' then Critical
      else if u = ''WARNING'' then Medium
      else if u = ''INFO'' then Low else Unknown)"

text \<open>\<open>s.split(p).next()\<close> for a non-empty pattern: what precedes its first occurrence.\<close>

fun before_str :: "string \<Rightarrow> string \<Rightarrow> string" where
  "before_str p [] = []"
| "before_str p (c # s) = (if prefix p (c # s) then [] else c # before_str p s)"

definition non_empty :: "string \<Rightarrow> string option" where
  "non_empty v = (if blank v then None else Some (trim v))"

definition first_id :: "string \<Rightarrow> string list \<Rightarrow> string option" where
  "first_id sep entries =
     (case List.find (\<lambda>s. s \<noteq> []) (map trim entries) of
        None \<Rightarrow> None
      | Some s \<Rightarrow> (let i = trim (before_str sep s) in if i = [] then None else Some i))"

definition first_cwe_id :: "string list \<Rightarrow> string option" where "first_cwe_id = first_id '':''"
definition first_owasp_id :: "string list \<Rightarrow> string option" where "first_owasp_id = first_id '' - ''"

fun fresh_urls :: "string set \<Rightarrow> string list \<Rightarrow> string list" where
  "fresh_urls seen [] = []"
| "fresh_urls seen (e # es) =
     (let url = trim e in
      if url = [] \<or> url \<in> seen then fresh_urls seen es else url # fresh_urls (insert url seen) es)"

definition semgrep_references :: "string list \<Rightarrow> json list" where
  "semgrep_references entries =
     map (\<lambda>u. json_obj [(''type'', JStr ''WEB''), (''url'', JStr u)]) (sort (fresh_urls {} entries))"

definition semgrep_derived_fingerprint :: "scan_env \<Rightarrow> string \<Rightarrow> string \<Rightarrow> semgrep_pos \<Rightarrow> semgrep_pos \<Rightarrow> string" where
  "semgrep_derived_fingerprint E check_id file s e =
     ''semgrep:'' @ sc_sha256_hex E (''semgrep|'' @ check_id @ ''|'' @ file @ ''|''
       @ int_str (sp_line s) @ '':'' @ int_str (sp_col s) @ ''|'' @ int_str (sp_line e) @ '':''
       @ int_str (sp_col e))"

definition semgrep_fingerprint :: "scan_env \<Rightarrow> semgrep_result \<Rightarrow> string \<Rightarrow> string" where
  "semgrep_fingerprint E r file =
     (if \<not> blank (se_fingerprint (sr_extra r))
      then ''semgrep:'' @ sr_check_id r @ '':'' @ trim (se_fingerprint (sr_extra r))
      else semgrep_derived_fingerprint E (sr_check_id r) file (sr_start r) (sr_end r))"

definition semgrep_suggestion :: "scan_env \<Rightarrow> string \<Rightarrow> json" where
  "semgrep_suggestion E fx =
     json_obj [(''kind'', JStr ''autofix''), (''unverified'', JBool True),
       (''diff'', JStr (redact E fx SEMGREP_MESSAGE_MAX_CHARS))]"

definition semgrep_meta :: "scan_env \<Rightarrow> semgrep_result \<Rightarrow> string \<Rightarrow> json" where
  "semgrep_meta E r file =
     (let md = se_metadata (sr_extra r); refs = semgrep_references (sm_references md) in
      (case sm_fix md of
         Some fx \<Rightarrow> json_set_if (\<not> blank fx) ''scanner_suggestion'' (semgrep_suggestion E fx)
       | None \<Rightarrow> id)
      (json_set_if (refs \<noteq> []) ''references'' (JArr refs)
      (json_set_if (sm_owasp md \<noteq> []) ''owasp'' (json_strs (sm_owasp md))
      (json_set_if (sm_cwe md \<noteq> []) ''cwe'' (json_strs (sm_cwe md))
      (json_set_if (sm_technology md \<noteq> []) ''technology'' (json_strs (sm_technology md))
      (json_set_if (\<not> blank (sm_category md)) ''category'' (JStr (trim (sm_category md)))
      (json_set_if (\<not> blank (sm_impact md)) ''impact'' (JStr (trim (sm_impact md)))
      (json_set_if (\<not> blank (sm_likelihood md)) ''likelihood'' (JStr (trim (sm_likelihood md)))
      (json_set_if (\<not> blank (sm_confidence md)) ''confidence'' (JStr (trim (sm_confidence md)))
        (json_obj
          [(''rule_id'', JStr (sr_check_id r)), (''check_id'', JStr (sr_check_id r)),
           (''fingerprint'', JStr (semgrep_fingerprint E r file)),
           (''fingerprint_source'', JStr (if blank (se_fingerprint (sr_extra r)) then ''derived'' else ''semgrep'')),
           (''start_line'', json_int (sp_line (sr_start r))), (''start_column'', json_int (sp_col (sr_start r))),
           (''end_line'', json_int (sp_line (sr_end r))), (''end_column'', json_int (sp_col (sr_end r))),
           (''scanner_severity'', JStr (se_severity (sr_extra r)))]))))))))))"

definition finding_from_semgrep :: "scan_env \<Rightarrow> semgrep_result \<Rightarrow> string \<Rightarrow> audit_finding" where
  "finding_from_semgrep E r uuid =
     (let x = sr_extra r; md = se_metadata x; file = normalize_repo_path (sr_path r) in
      \<lparr>fd_id = uuid, fd_agent_source = ''semgrep'', fd_title = sr_check_id r,
       fd_description = truncate_chars (trim (se_message x)) SEMGREP_MESSAGE_MAX_CHARS,
       fd_severity = semgrep_severity (se_severity x), fd_cvss_vector = None, fd_cvss_score = None,
       fd_evidence = Some (redact E (truncate_chars (trim_end (se_lines x)) SEMGREP_SNIPPET_MAX_CHARS)
         SNIPPET_MAX_CHARS),
       fd_remediation = None, fd_cwe_id = first_cwe_id (sm_cwe md), fd_owasp = first_owasp_id (sm_owasp md),
       fd_confidence = non_empty (trim (sm_confidence md)), fd_scanner_name = Some ''semgrep'',
       fd_scanner_mode = Some ''sast'', fd_file_path = Some file,
       fd_line_number = to_i32 (sp_line (sr_start r)), fd_route = None,
       fd_metadata_json = Some (sc_print E (semgrep_meta E r file))\<rparr>)"

section \<open>The whole report\<close>

definition located :: "semgrep_result \<Rightarrow> bool" where
  "located r \<longleftrightarrow> validate_semgrep_location r = Inr ()"

record semgrep_findings =
  sf_valid :: "(string \<Rightarrow> audit_finding) list"
  sf_rejected :: "(string \<times> string \<times> string) list"

definition findings_from_semgrep_doc :: "scan_env \<Rightarrow> semgrep_doc \<Rightarrow> semgrep_findings" where
  "findings_from_semgrep_doc E doc =
     fold (\<lambda>r acc.
         (case validate_semgrep_location r of
            Inr _ \<Rightarrow> acc\<lparr>sf_valid := sf_valid acc @ [finding_from_semgrep E r]\<rparr>
          | Inl reason \<Rightarrow> acc\<lparr>sf_rejected := sf_rejected acc @ [(sr_check_id r, sr_path r, reason)]\<rparr>))
       (sd_results doc) \<lparr>sf_valid = [], sf_rejected = []\<rparr>"

definition findings_from_semgrep :: "scan_env \<Rightarrow> string \<Rightarrow> app_error + semgrep_findings" where
  "findings_from_semgrep E report =
     map_sum id (findings_from_semgrep_doc E) (parse_semgrep_report E report)"

end
