(* ===== verification/Egress_Policy.thy ===== *)
theory Egress_Policy
  imports Rust_Str "HOL-Library.Word"
begin

text \<open>
  The egress policy of the networked scanner (\<open>backend/src/services/egress_policy.rs\<close>): which
  addresses and which host and port pairs may be reached.  The address literals of the
  standard library (\<open>IpAddr::from_str\<close>) are modelled by its recursive-descent reader over the
  bytes still to be read; \<open>uni\<close> is \<open>str::to_lowercase\<close> beyond ASCII.
\<close>

unbundle bit_operations_syntax

section \<open>Addresses of the standard library\<close>

datatype ipv4 = IPv4 (oct1: "8 word") (oct2: "8 word") (oct3: "8 word") (oct4: "8 word")

text \<open>The eight 16-bit segments.\<close>

type_synonym ipv6 = "16 word list"

datatype ip_addr = V4 ipv4 | V6 ipv6

fun is_loopback4 :: "ipv4 \<Rightarrow> bool" where "is_loopback4 (IPv4 a b c d) \<longleftrightarrow> a = 127"
fun is_link_local4 :: "ipv4 \<Rightarrow> bool" where "is_link_local4 (IPv4 a b c d) \<longleftrightarrow> a = 169 \<and> b = 254"
fun is_private4 :: "ipv4 \<Rightarrow> bool" where
  "is_private4 (IPv4 a b c d) \<longleftrightarrow> a = 10 \<or> a = 172 \<and> 16 \<le> b \<and> b \<le> 31 \<or> a = 192 \<and> b = 168"

definition ipv4_of_u32 :: "nat \<Rightarrow> ipv4" where
  "ipv4_of_u32 n = IPv4 (word_of_nat (n div 2 ^ 24)) (word_of_nat (n div 2 ^ 16))
     (word_of_nat (n div 2 ^ 8)) (word_of_nat n)"

definition is_loopback6 :: "ipv6 \<Rightarrow> bool" where "is_loopback6 s \<longleftrightarrow> s = [0, 0, 0, 0, 0, 0, 0, 1]"
definition is_unspecified6 :: "ipv6 \<Rightarrow> bool" where "is_unspecified6 s \<longleftrightarrow> s = [0, 0, 0, 0, 0, 0, 0, 0]"

definition hi_octet :: "16 word \<Rightarrow> 8 word" where "hi_octet w = ucast (drop_bit 8 w)"
definition lo_octet :: "16 word \<Rightarrow> 8 word" where "lo_octet w = ucast w"

definition to_ipv4_mapped :: "ipv6 \<Rightarrow> ipv4 option" where
  "to_ipv4_mapped s =
     (if take 6 s = [0, 0, 0, 0, 0, 0xFFFF]
      then Some (IPv4 (hi_octet (s ! 6)) (lo_octet (s ! 6)) (hi_octet (s ! 7)) (lo_octet (s ! 7)))
      else None)"

definition is_unicast_link_local6 :: "ipv6 \<Rightarrow> bool" where
  "is_unicast_link_local6 s \<longleftrightarrow> (s ! 0) AND 0xFFC0 = 0xFE80"
definition is_unique_local6 :: "ipv6 \<Rightarrow> bool" where
  "is_unique_local6 s \<longleftrightarrow> (s ! 0) AND 0xFE00 = 0xFC00"
definition is_multicast6 :: "ipv6 \<Rightarrow> bool" where
  "is_multicast6 s \<longleftrightarrow> (s ! 0) AND 0xFF00 = 0xFF00"

section \<open>Reading address literals\<close>

text \<open>A reader returns the value and the bytes left, or fails and consumes nothing.\<close>

type_synonym 'a reader = "string \<Rightarrow> ('a \<times> string) option"

definition to_digit :: "nat \<Rightarrow> char \<Rightarrow> nat option" where
  "to_digit radix c =
     (if (if radix = 10 then is_digit c else is_hexdigit c) then Some (digit_val c) else None)"

fun take_digits :: "nat \<Rightarrow> string \<Rightarrow> nat list \<times> string" where
  "take_digits radix [] = ([], [])"
| "take_digits radix (c # s) =
     (case to_digit radix c of
        None \<Rightarrow> ([], c # s)
      | Some d \<Rightarrow> (let (ds, r) = take_digits radix s in (d # ds, r)))"

text \<open>\<open>read_number\<close> with a digit limit; a number that does not fit the type fails.\<close>

definition read_number :: "nat \<Rightarrow> nat \<Rightarrow> bool \<Rightarrow> nat \<Rightarrow> nat reader" where
  "read_number radix max_digits allow_zero_prefix bound s =
     (let (ds, r) = take_digits radix s; n = foldl (\<lambda>n d. n * radix + d) 0 ds in
      if ds = [] \<or> length ds > max_digits \<or> n \<ge> bound
        \<or> (\<not> allow_zero_prefix \<and> hd ds = 0 \<and> length ds > 1)
      then None else Some (n, r))"

definition read_char :: "char \<Rightarrow> unit reader" where
  "read_char c s = (case s of [] \<Rightarrow> None | x # r \<Rightarrow> if x = c then Some ((), r) else None)"

definition read_separator :: "char \<Rightarrow> nat \<Rightarrow> 'a reader \<Rightarrow> 'a reader" where
  "read_separator sep i inner s =
     (if i > 0 then Option.bind (read_char sep s) (\<lambda>(_, r). inner r) else inner s)"

fun read_octets :: "nat \<Rightarrow> nat \<Rightarrow> nat list reader" where
  "read_octets i 0 s = Some ([], s)"
| "read_octets i (Suc k) s =
     Option.bind (read_separator (CHR ''.'') i (read_number 10 3 False 256) s) (\<lambda>(n, r).
       map_option (\<lambda>(ns, r'). (n # ns, r')) (read_octets (Suc i) k r))"

definition read_ipv4 :: "ipv4 reader" where
  "read_ipv4 s =
     map_option (\<lambda>(ns, r). (IPv4 (word_of_nat (ns ! 0)) (word_of_nat (ns ! 1))
        (word_of_nat (ns ! 2)) (word_of_nat (ns ! 3)), r)) (read_octets 0 4 s)"

definition join_octets :: "8 word \<Rightarrow> 8 word \<Rightarrow> 16 word" where
  "join_octets a b = push_bit 8 (ucast a) OR ucast b"

text \<open>\<open>read_groups\<close>: at most \<open>k\<close> more groups after \<open>i\<close>; the groups, whether they end in an
  embedded IPv4 address, and the rest.\<close>

fun read_groups :: "nat \<Rightarrow> nat \<Rightarrow> string \<Rightarrow> 16 word list \<times> bool \<times> string" where
  "read_groups i 0 s = ([], False, s)"
| "read_groups i (Suc k) s =
     (let v4 = (if k > 0 then read_separator (CHR '':'') i read_ipv4 s else None);
          g = (if v4 \<noteq> None then None else read_separator (CHR '':'') i (read_number 16 4 True 65536) s)
      in if v4 \<noteq> None then
           (let (ip, r) = the v4 in
            ([join_octets (oct1 ip) (oct2 ip), join_octets (oct3 ip) (oct4 ip)], True, r))
         else if g = None then ([], False, s)
         else (let (n, r) = the g; (gs, e, r') = read_groups (Suc i) k r
               in (word_of_nat n # gs, e, r')))"

definition read_ipv6 :: "ipv6 reader" where
  "read_ipv6 s =
     (let (head, head_v4, r) = read_groups 0 8 s in
      if length head = 8 then Some (head, r)
      else if head_v4 then None
      else
        Option.bind (read_char (CHR '':'') r) (\<lambda>(_, r1).
        Option.bind (read_char (CHR '':'') r1) (\<lambda>(_, r2).
          let (tail, _, r3) = read_groups 0 (8 - (length head + 1)) r2
          in Some (head @ replicate (8 - length head - length tail) 0 @ tail, r3))))"

definition parse_ip :: "string \<Rightarrow> ip_addr option" where
  "parse_ip s =
     (case read_ipv4 s of
        Some (ip, r) \<Rightarrow> if r = [] then Some (V4 ip) else None
      | None \<Rightarrow> (case read_ipv6 s of Some (ip, r) \<Rightarrow> if r = [] then Some (V6 ip) else None | None \<Rightarrow> None))"

section \<open>The address policy\<close>

definition OSV_APPROVED_DOMAINS :: "string list" where
  "OSV_APPROVED_DOMAINS = [''api.osv.dev'', ''osv.dev'']"

datatype egress_decision = Allow | Block string

fun evaluate_ip4 :: "ipv4 \<Rightarrow> egress_decision" where
  "evaluate_ip4 (IPv4 a b c d) =
     (let ip = IPv4 a b c d in
      if is_loopback4 ip then Block ''loopback blocked''
      else if is_link_local4 ip \<or> ip = IPv4 169 254 169 254
      then Block ''cloud metadata and link-local blocked''
      else if is_private4 ip then Block ''RFC1918 private network blocked''
      else if ip = IPv4 255 255 255 255 \<or> ip = IPv4 0 0 0 0 then Block ''broadcast/unspecified blocked''
      else if a = 0 then Block ''software-scope address blocked''
      else if a = 192 \<and> b = 0 \<and> c = 2 \<or> a = 198 \<and> b = 51 \<and> c = 100 \<or> a = 203 \<and> b = 0 \<and> c = 113
      then Block ''documentation range blocked''
      else if a = 100 \<and> b AND 0xC0 = 64 then Block ''carrier-grade NAT blocked''
      else if a \<ge> 224 then Block ''multicast/reserved blocked''
      else Allow)"

definition evaluate_ip6 :: "ipv6 \<Rightarrow> egress_decision" where
  "evaluate_ip6 s =
     (if is_loopback6 s then Block ''IPv6 loopback blocked''
      else if is_unspecified6 s then Block ''IPv6 unspecified blocked''
      else
        (case to_ipv4_mapped s of
           Some v4 \<Rightarrow> evaluate_ip4 v4
         | None \<Rightarrow>
             if is_unicast_link_local6 s then Block ''IPv6 link-local blocked''
             else if is_unique_local6 s then Block ''IPv6 unique-local blocked''
             else if is_multicast6 s \<or> (s ! 0 = 0x2001 \<and> s ! 1 = 0x0DB8)
             then Block ''IPv6 multicast/documentation blocked''
             else Allow))"

fun evaluate_ip :: "ip_addr \<Rightarrow> egress_decision" where
  "evaluate_ip (V4 ip) = evaluate_ip4 ip"
| "evaluate_ip (V6 ip) = evaluate_ip6 ip"

section \<open>Alternative spellings\<close>

text \<open>\<open>u32::from_str_radix\<close> (and \<open>parse\<close>) on digits that were checked before.\<close>

definition u32_of_digits :: "nat \<Rightarrow> string \<Rightarrow> nat option" where
  "u32_of_digits radix s =
     (if s \<noteq> [] \<and> list_all (\<lambda>c. is_hexdigit c \<and> digit_val c < radix) s
         \<and> foldl (\<lambda>n c. n * int radix + int (digit_val c)) 0 s < 2 ^ 32
      then Some (nat (foldl (\<lambda>n c. n * int radix + int (digit_val c)) 0 s)) else None)"

definition strip_0x :: "string \<Rightarrow> string option" where
  "strip_0x s = (case strip_prefix ''0x'' s of Some r \<Rightarrow> Some r | None \<Rightarrow> strip_prefix ''0X'' s)"

definition alt_octet :: "string \<Rightarrow> nat option" where
  "alt_octet part =
     (if part = [] then None
      else
        Option.bind
          (case strip_0x part of
             Some hex \<Rightarrow>
               if hex = [] \<or> \<not> list_all is_hexdigit hex then None else u32_of_digits 16 hex
           | None \<Rightarrow>
               if length part > 1 \<and> hd part = CHR ''0'' then
                 (if \<not> list_all is_digit part then None else u32_of_digits 8 part)
               else if \<not> list_all is_digit part then None
               else u32_of_digits 10 part)
          (\<lambda>v. if v > 255 then None else Some v))"

definition parse_alt_ipv4 :: "string \<Rightarrow> ipv4 option" where
  "parse_alt_ipv4 host =
     (if CHR ''.'' \<notin> set host then
        (case strip_0x host of
           Some hex \<Rightarrow>
             if hex = [] \<or> length hex > 8 \<or> \<not> list_all is_hexdigit hex then None
             else map_option ipv4_of_u32 (u32_of_digits 16 hex)
         | None \<Rightarrow>
             if host \<noteq> [] \<and> list_all is_digit host then map_option ipv4_of_u32 (u32_of_digits 10 host)
             else None)
      else
        (let parts = split_on (CHR ''.'') host in
         if length parts \<noteq> 4 then None
         else map_option (\<lambda>ns. IPv4 (word_of_nat (ns ! 0)) (word_of_nat (ns ! 1))
                (word_of_nat (ns ! 2)) (word_of_nat (ns ! 3))) (those (map alt_octet parts))))"

section \<open>The target policy\<close>

definition direct_ip :: "egress_decision \<Rightarrow> egress_decision" where
  "direct_ip d =
     (if d \<noteq> Allow then d
      else Block ''direct IP connect not permitted; must match approved OSV domain'')"

definition normal_host :: "(string \<Rightarrow> string) \<Rightarrow> string \<Rightarrow> string" where
  "normal_host uni host =
     (let h = to_lowercase uni (trim host) in
      case strip_suffix ''.'' h of Some r \<Rightarrow> r | None \<Rightarrow> h)"

definition smuggles :: "string \<Rightarrow> bool" where
  "smuggles h \<longleftrightarrow> (\<exists>c \<in> set ''@/:[]''. c \<in> set h) \<or> has_whitespace h \<or> has_control h"

definition approved_domain :: "string \<Rightarrow> bool" where
  "approved_domain h \<longleftrightarrow> list_ex (\<lambda>d. h = d \<or> suffix (CHR ''.'' # d) h) OSV_APPROVED_DOMAINS"

definition evaluate_egress_target :: "(string \<Rightarrow> string) \<Rightarrow> string \<Rightarrow> nat \<Rightarrow> egress_decision" where
  "evaluate_egress_target uni host port =
     (if port \<noteq> 443 \<and> port \<noteq> 53 then
        Block ''non-standard port blocked; only 443 and 53 permitted''
      else
        (let h = normal_host uni host in
         case parse_ip h of
           Some ip \<Rightarrow> direct_ip (evaluate_ip ip)
         | None \<Rightarrow>
             (case parse_alt_ipv4 h of
                Some alt \<Rightarrow> direct_ip (evaluate_ip (V4 alt))
              | None \<Rightarrow>
                  if smuggles h then Block ''malformed host: authority smuggling blocked''
                  else if approved_domain h then Allow
                  else Block ''domain not in approved OSV allowlist'')))"

section \<open>The proxy URL\<close>

text \<open>\<open>parsed_url\<close> is what the \<open>url\<close> crate returns: \<open>parse_url\<close> is that crate's parser.\<close>

record parsed_url =
  url_scheme :: string
  url_username :: string
  url_password :: "string option"
  url_host :: "string option"
  url_port :: "nat option"
  url_path :: string
  url_query :: "string option"
  url_fragment :: "string option"

definition validate_osv_proxy_url :: "(string \<Rightarrow> parsed_url option) \<Rightarrow> string \<Rightarrow> string + string" where
  "validate_osv_proxy_url parse_url raw =
     (let value = trim raw in
      if value = [] then Inl ''proxy URL is empty''
      else if int (length value) > 512 then Inl ''proxy URL exceeds 512 characters''
      else if has_control value \<or> has_whitespace value
      then Inl ''proxy URL contains control characters or whitespace''
      else
        and_then (ok_or ''proxy URL is unparseable'' (parse_url value)) (\<lambda>u.
          if url_scheme u \<notin> {''http'', ''https''} then Inl ''proxy scheme must be http or https''
          else if url_username u \<noteq> [] \<or> url_password u \<noteq> None
          then Inl ''proxy URL must not embed credentials''
          else
            and_then (ok_or ''proxy URL has no host'' (url_host u)) (\<lambda>host.
              if host = [] then Inl ''proxy URL has no host''
              else if url_port u = Some 0 then Inl ''proxy port is invalid''
              else if (url_path u \<noteq> ''/'' \<and> url_path u \<noteq> []) \<or> url_query u \<noteq> None \<or> url_fragment u \<noteq> None
              then Inl ''proxy URL must be scheme://host[:port] with no path''
              else Inr (url_scheme u @ ''://'' @ host
                @ (case url_port u of Some p \<Rightarrow> CHR '':'' # nat_str p | None \<Rightarrow> [])))))"

text \<open>The mandatory proxy: \<open>setting\<close> is the environment variable.\<close>

definition resolve_osv_egress_proxy ::
  "(string \<Rightarrow> parsed_url option) \<Rightarrow> string option \<Rightarrow> string + string" where
  "resolve_osv_egress_proxy parse_url setting =
     (let raw = (case setting of Some s \<Rightarrow> s | None \<Rightarrow> []) in
      if blank raw then
        Inl (''OSV egress proxy is not configured (OSV_EGRESS_PROXY): refusing unfettered bridge egress; ''
          @ ''dependency coverage is unknown until a filtering proxy is provided'')
      else
        (case validate_osv_proxy_url parse_url raw of
           Inr v \<Rightarrow> Inr v
         | Inl reason \<Rightarrow>
             Inl (''OSV egress proxy is misconfigured ('' @ reason
               @ ''): refusing to run the dependency scanner without a valid filtering proxy'')))"

end
