(* ===== verification/Scanner_Runtime.thy ===== *)
theory Scanner_Runtime
  imports Gitleaks Osv Semgrep Sandbox Egress_Policy
begin

text \<open>
  The scanner runtime (\<open>backend/src/agents/scanner.rs\<close>): the descriptors of the three scanners, the
  sandbox specification of a run, the classification of a finished run into an outcome, and the three
  entry points.  The fresh identifiers of the findings are a function of their position.
\<close>

section \<open>Descriptors\<close>

record scan_input =
  si_source_dir :: string
  si_commit_sha :: "string option"
  si_file_count :: nat
  si_total_size :: nat

definition from_dir :: "string \<Rightarrow> scan_input" where
  "from_dir d = \<lparr>si_source_dir = d, si_commit_sha = None, si_file_count = 0, si_total_size = 0\<rparr>"

record scanner =
  sn_name :: string
  sn_version :: string
  sn_mode :: string
  sn_image :: string
  sn_entrypoint :: "string option"
  sn_command :: "string list"
  sn_parser :: string
  sn_network :: network_mode
  sn_timeout :: nat
  sn_limits :: resource_limits
  sn_extra_tmpfs :: "string list"
  sn_env :: "(string \<times> string) list"
  sn_extra_mounts :: "sandbox_mount list"

definition GITLEAKS_PARSER :: string where "GITLEAKS_PARSER = ''gitleaks-json-v1''"
definition OSV_PARSER :: string where "OSV_PARSER = ''osv-json-v1''"
definition SEMGREP_PARSER :: string where "SEMGREP_PARSER = ''semgrep-json-v1''"

definition gitleaks :: scanner where
  "gitleaks =
    \<lparr>sn_name = ''gitleaks'', sn_version = ''8.18.4'', sn_mode = ''secret'',
     sn_image = ''ghcr.io/gitleaks/gitleaks:v8.18.4'', sn_entrypoint = Some ''sh'',
     sn_command = [''-c'', ''gitleaks detect --no-git --source=/scan --report-format=json ''
       @ ''--report-path=/work/gitleaks.json --exit-code=1 --log-level=error; ''
       @ ''code=$?; cat /work/gitleaks.json 2>/dev/null; exit $code''],
     sn_parser = GITLEAKS_PARSER, sn_network = NetNone, sn_timeout = 300, sn_limits = default_limits,
     sn_extra_tmpfs = [], sn_env = [], sn_extra_mounts = []\<rparr>"

definition osv_inner :: "string option \<Rightarrow> scanner" where
  "osv_inner proxy =
    \<lparr>sn_name = ''osv'', sn_version = ''2.2.4'', sn_mode = ''dependency'',
     sn_image = ''ghcr.io/google/osv-scanner:v2.2.4'', sn_entrypoint = Some ''sh'',
     sn_command = [''-c'', ''/osv-scanner scan source --recursive --allow-no-lockfiles --format=json ''
       @ ''--output=/work/osv.json --verbosity=error /scan; ''
       @ ''code=$?; cat /work/osv.json 2>/dev/null; exit $code''],
     sn_parser = OSV_PARSER, sn_network = Filtered, sn_timeout = 300, sn_limits = default_limits,
     sn_extra_tmpfs = [],
     sn_env = (case proxy of
        Some url \<Rightarrow> [(''HTTPS_PROXY'', url), (''HTTP_PROXY'', url), (''https_proxy'', url), (''http_proxy'', url)]
      | None \<Rightarrow> []),
     sn_extra_mounts = []\<rparr>"

text \<open>\<open>setting\<close> is the variable \<open>OSV_EGRESS_PROXY\<close>.\<close>

definition osv :: "(string \<Rightarrow> parsed_url option) \<Rightarrow> string option \<Rightarrow> scanner" where
  "osv parse_url setting =
     osv_inner (Option.bind setting (\<lambda>raw.
       case validate_osv_proxy_url parse_url raw of Inr u \<Rightarrow> Some u | Inl _ \<Rightarrow> None))"

definition osv_with_proxy :: "string \<Rightarrow> scanner" where
  "osv_with_proxy url = osv_inner (Some url)"

text \<open>\<open>rules_dir\<close> is the ruleset directory of the build.\<close>

definition semgrep :: "string \<Rightarrow> scanner" where
  "semgrep rules_dir =
    \<lparr>sn_name = ''semgrep'', sn_version = ''1.96.0'', sn_mode = ''sast'',
     sn_image = ''semgrep/semgrep:1.96.0'', sn_entrypoint = Some ''sh'',
     sn_command = [''-c'', ''semgrep scan --config=/config/firecrow-sast.yml ''
       @ ''--json-output=/work/semgrep.json --quiet --no-git-ignore ''
       @ ''--disable-version-check --metrics=off /scan >/dev/null; ''
       @ ''code=$?; cat /work/semgrep.json 2>/dev/null; exit $code''],
     sn_parser = SEMGREP_PARSER, sn_network = NetNone, sn_timeout = 600,
     sn_limits = \<lparr>rl_cpus = 0x4000000000000000, rl_memory = ''2g'', rl_pids = 512\<rparr>,
     sn_extra_tmpfs = [''/tmp''], sn_env = [(''HOME'', ''/work'')],
     sn_extra_mounts = [\<lparr>sm_host = rules_dir, sm_container = ''/config'', sm_read_only = True\<rparr>]\<rparr>"

definition mounts :: "scan_input \<Rightarrow> sandbox_mount list" where
  "mounts inp = [\<lparr>sm_host = si_source_dir inp, sm_container = SCAN_MOUNT, sm_read_only = True\<rparr>]"

definition scan_spec :: "scan_input \<Rightarrow> scanner \<Rightarrow> sandbox_spec" where
  "scan_spec inp sn =
     with_env (sn_env sn) (with_extra_tmpfs (sn_extra_tmpfs sn)
       (with_output_caps MAX_STDOUT_BYTES MAX_STDERR_BYTES (with_network (sn_network sn)
         (with_entrypoint (sn_entrypoint sn)
           (new_spec (sn_image sn) (sn_command sn) (mounts inp @ sn_extra_mounts sn)
             (sn_timeout sn) (sn_limits sn))))))"

section \<open>Results\<close>

definition record_base :: "scanner \<Rightarrow> scan_input \<Rightarrow> (string \<times> json) list" where
  "record_base sn inp = bt_of_list
     [(''scanner'', JStr (sn_name sn)), (''version'', JStr (sn_version sn)), (''mode'', JStr (sn_mode sn)),
      (''image'', JStr (sn_image sn)), (''parser'', JStr (sn_parser sn)),
      (''snapshot_commit'', json_opt (si_commit_sha inp)), (''timeout_secs'', json_nat (sn_timeout sn)),
      (''cpus'', JNum (Float (rl_cpus (sn_limits sn)))), (''memory'', JStr (rl_memory (sn_limits sn))),
      (''pids_limit'', json_nat (rl_pids (sn_limits sn))),
      (''source_file_count'', json_nat (si_file_count inp)),
      (''source_total_size'', json_nat (si_total_size inp))]"

definition merge_into :: "(string \<times> json) list \<Rightarrow> (string \<times> json) list \<Rightarrow> (string \<times> json) list" where
  "merge_into rec extra = fold (\<lambda>(k, v). bt_insert k v) (bt_of_list extra) rec"

definition with_run_provenance :: "scan_env \<Rightarrow> scanner \<Rightarrow> scan_input \<Rightarrow> audit_finding \<Rightarrow> audit_finding" where
  "with_run_provenance E sn inp f =
     (case Option.bind (fd_metadata_json f) (sc_value E) of
        Some (JObj md) \<Rightarrow>
          f\<lparr>fd_metadata_json := Some (sc_print E (JObj
              (bt_insert ''snapshot_commit'' (json_opt (si_commit_sha inp))
              (bt_insert ''scanner_image'' (JStr (sn_image sn))
              (bt_insert ''parser'' (JStr (sn_parser sn))
              (bt_insert ''scanner_version'' (JStr (sn_version sn)) md))))))\<rparr>
      | _ \<Rightarrow> f)"

definition scan_result ::
  "scanner \<Rightarrow> scanner_outcome \<Rightarrow> audit_finding list \<Rightarrow> (string \<times> json) list \<Rightarrow> scanner_result" where
  "scan_result sn oc fs rec =
     \<lparr>res_scanner = sn_name sn, res_version = sn_version sn, res_mode = sn_mode sn, res_outcome = oc,
      res_findings = fs, res_record = JObj rec\<rparr>"

definition unknown_coverage :: "string \<Rightarrow> (string \<times> json) list \<Rightarrow> (string \<times> json) list" where
  "unknown_coverage err rec = bt_insert ''coverage'' (JStr ''unknown'') (bt_insert ''error'' (JStr err) rec)"

definition success_result ::
  "scan_env \<Rightarrow> scanner \<Rightarrow> scan_input \<Rightarrow> audit_finding list \<Rightarrow> (string \<times> json) list \<Rightarrow> scanner_result" where
  "success_result E sn inp fs extra =
     scan_result sn (Success (length fs)) (map (with_run_provenance E sn inp) fs)
       (merge_into (record_base sn inp) extra)"

definition failed_result ::
  "scanner \<Rightarrow> scan_input \<Rightarrow> string \<Rightarrow> (string \<times> json) list \<Rightarrow> scanner_result" where
  "failed_result sn inp reason extra =
     scan_result sn (RunFailed reason) [] (unknown_coverage reason (merge_into (record_base sn inp) extra))"

definition timeout_result :: "scanner \<Rightarrow> scan_input \<Rightarrow> scanner_result" where
  "timeout_result sn inp =
     scan_result sn (Timeout (sn_timeout sn)) []
       (unknown_coverage (''scanner exceeded its '' @ nat_str (sn_timeout sn) @ ''s timeout'') (record_base sn inp))"

definition cancelled_result :: "scanner \<Rightarrow> scan_input \<Rightarrow> scanner_result" where
  "cancelled_result sn inp =
     scan_result sn RunCancelled [] (unknown_coverage ''scan was cancelled'' (record_base sn inp))"

section \<open>Classification\<close>

definition stamp :: "(nat \<Rightarrow> string) \<Rightarrow> (string \<Rightarrow> audit_finding) list \<Rightarrow> audit_finding list" where
  "stamp uuid fs = map (\<lambda>(i, f). f (uuid i)) (enumerate 0 fs)"

definition detail :: "string \<Rightarrow> string \<times> json" where "detail d = (''detail'', JStr d)"

definition stderr_note :: "scan_env \<Rightarrow> sandbox_output \<Rightarrow> string \<times> json" where
  "stderr_note E out = (''stderr'', JStr (redact E (so_stderr out) STDERR_MAX_CHARS))"

definition missing_report :: "scan_env \<Rightarrow> scanner \<Rightarrow> scan_input \<Rightarrow> sandbox_output \<Rightarrow> scanner_result" where
  "missing_report E sn inp out =
     failed_result sn inp ''scanner produced no report'' [detail ''missing_report'', stderr_note E out]"

definition parse_error ::
  "scan_env \<Rightarrow> scanner \<Rightarrow> scan_input \<Rightarrow> sandbox_output \<Rightarrow> app_error \<Rightarrow> scanner_result" where
  "parse_error E sn inp out e =
     failed_result sn inp (''scanner report was not parseable: '' @ error_text e)
       [detail ''parse_error'', stderr_note E out]"

definition no_report :: "sandbox_output \<Rightarrow> bool" where
  "no_report out \<longleftrightarrow> blank (so_stdout out) \<and> \<not> so_success out"

definition count_note :: "'a list \<Rightarrow> string \<times> json" where
  "count_note fs = (''finding_count'', json_nat (length fs))"

definition classify_gitleaks ::
  "scan_env \<Rightarrow> (nat \<Rightarrow> string) \<Rightarrow> scanner \<Rightarrow> scan_input \<Rightarrow> sandbox_output \<Rightarrow> scanner_result" where
  "classify_gitleaks E uuid sn inp out =
     (if no_report out then missing_report E sn inp out
      else
        (case parse_gitleaks_report E (so_stdout out) of
           Inr raw \<Rightarrow> success_result E sn inp (stamp uuid (map (finding_from_gitleaks E) raw)) [count_note raw]
         | Inl e \<Rightarrow> parse_error E sn inp out e))"

definition classify_osv ::
  "scan_env \<Rightarrow> (nat \<Rightarrow> string) \<Rightarrow> scanner \<Rightarrow> scan_input \<Rightarrow> sandbox_output \<Rightarrow> scanner_result" where
  "classify_osv E uuid sn inp out =
     (if no_report out then missing_report E sn inp out
      else
        (case parse_osv_report E (so_stdout out) of
           Inr doc \<Rightarrow>
             (let fs = findings_from_doc E doc (si_source_dir inp)
              in success_result E sn inp (stamp uuid fs) [count_note fs])
         | Inl e \<Rightarrow> parse_error E sn inp out e))"

definition semgrep_error_json :: "semgrep_error \<Rightarrow> json" where
  "semgrep_error_json e =
     json_obj [(''type'', JStr (sx_type e)), (''code'', json_int (sx_code e)), (''level'', JStr (sx_level e)),
       (''message'', JStr (truncate_chars (sx_message e) STDERR_MAX_CHARS))]"

definition rejected_json :: "string \<times> string \<times> string \<Rightarrow> json" where
  "rejected_json = (\<lambda>(check_id, path, reason).
     json_obj [(''check_id'', JStr check_id), (''path'', JStr path), (''reason'', JStr reason)])"

definition classify_semgrep ::
  "scan_env \<Rightarrow> (nat \<Rightarrow> string) \<Rightarrow> scanner \<Rightarrow> scan_input \<Rightarrow> sandbox_output \<Rightarrow> scanner_result" where
  "classify_semgrep E uuid sn inp out =
     (if no_report out then missing_report E sn inp out
      else
        (case parse_semgrep_report E (so_stdout out) of
           Inl e \<Rightarrow> parse_error E sn inp out e
         | Inr doc \<Rightarrow>
             if sd_errors doc \<noteq> [] then
               failed_result sn inp (''scanner reported '' @ nat_str (length (sd_errors doc)) @ '' error(s)'')
                 [detail ''scanner_errors'',
                  (''errors'', JArr (map semgrep_error_json (take MAX_REPORTED_ERRORS (sd_errors doc))))]
             else if sd_scanned doc = [] then
               failed_result sn inp ''scanner analyzed no files''
                 [detail ''no_files_analyzed'', (''scanned_file_count'', json_nat 0)]
             else
               (let parsed = findings_from_semgrep_doc E doc; rejected = sf_rejected parsed in
                success_result E sn inp (stamp uuid (sf_valid parsed))
                  ([count_note (sf_valid parsed),
                    (''scanned_file_count'', json_nat (length (sd_scanned doc))),
                    (''tool_version'', JStr (sd_version doc))]
                   @ (if rejected \<noteq> []
                      then [(''rejected_count'', json_nat (length rejected)),
                            (''rejected'', JArr (map rejected_json (take MAX_REPORTED_ERRORS rejected)))]
                      else [])))))"

definition classify ::
  "scan_env \<Rightarrow> formats \<Rightarrow> (nat \<Rightarrow> string) \<Rightarrow> scanner \<Rightarrow> scan_input \<Rightarrow> app_error + sandbox_output \<Rightarrow> scanner_result" where
  "classify E F uuid sn inp run =
     (case run of
        Inr out \<Rightarrow>
          if sn_parser sn = GITLEAKS_PARSER then classify_gitleaks E uuid sn inp out
          else if sn_parser sn = OSV_PARSER then classify_osv E uuid sn inp out
          else if sn_parser sn = SEMGREP_PARSER then classify_semgrep E uuid sn inp out
          else failed_result sn inp (''unknown scanner parser '' @ debug_str F (sn_parser sn))
            [detail ''unknown_parser'']
      | Inl (TimedOutError _) \<Rightarrow> timeout_result sn inp
      | Inl (Cancelled _) \<Rightarrow> cancelled_result sn inp
      | Inl (OutputLimitExceeded stream cap) \<Rightarrow>
          failed_result sn inp (''output_limit_exceeded: '' @ stream @ '' exceeded '' @ nat_str cap @ '' bytes'')
            [detail ''output_limit_exceeded'', (''stream'', JStr stream), (''cap_bytes'', json_nat cap)]
      | Inl e \<Rightarrow> failed_result sn inp (error_text e) [detail ''scanner could not be executed''])"

end
