(* ===== verification/Native_Exec.thy ===== *)
theory Native_Exec
  imports Scanner_Runtime
begin

text \<open>
  Scanners as plain subprocesses (\<open>backend/src/services/native_exec.rs\<close>), and the entry points of the
  scanner runtime that choose between the two backends (\<open>agents/scanner.rs\<close>).  What the process does is
  the list of events of its run, as for the sandbox; the host is a record.
\<close>

section \<open>Finding the binary\<close>

text \<open>\<open>nh_var\<close> is the environment, \<open>nh_executable\<close> tells whether a path is an executable file.\<close>

record native_host =
  nh_var :: "string \<Rightarrow> string option"
  nh_executable :: "string \<Rightarrow> bool"
  nh_temp_dir :: string
  nh_scratch_error :: "string option"
  nh_spawn_error :: "string option"
  nh_pipe :: bool
  nh_events :: "run_event list"
  nh_cancel :: "nat \<Rightarrow> bool"
  nh_report_size :: "nat option"
  nh_report :: "string + string"

definition binary_spec :: "string \<Rightarrow> (string \<times> string) option" where
  "binary_spec name =
     (if name = ''gitleaks'' then Some (''GITLEAKS_BIN'', ''gitleaks'')
      else if name = ''osv'' then Some (''OSV_SCANNER_BIN'', ''osv-scanner'')
      else if name = ''semgrep'' then Some (''SEMGREP_BIN'', ''semgrep'') else None)"

definition join_path :: "string \<Rightarrow> string \<Rightarrow> string" where
  "join_path d n = (if d = [] \<or> last d = CHR ''/'' then d @ n else d @ ''/'' @ n)"

definition which :: "native_host \<Rightarrow> string \<Rightarrow> string option" where
  "which h name =
     Option.bind (nh_var h ''PATH'') (\<lambda>path.
       List.find (nh_executable h) (map (\<lambda>d. join_path d name) (split_on (CHR '':'') path)))"

definition resolve_binary :: "native_host \<Rightarrow> string \<Rightarrow> string option" where
  "resolve_binary h name =
     Option.bind (binary_spec name) (\<lambda>(env_key, default_name).
       (case nh_var h env_key of
          Some raw \<Rightarrow>
            if from_utf8_ok raw \<and> trim raw \<noteq> []
            then (if nh_executable h (trim raw) then Some (trim raw) else None)
            else which h default_name
        | None \<Rightarrow> which h default_name))"

definition scanner_available :: "native_host \<Rightarrow> string \<Rightarrow> bool" where
  "scanner_available h name \<longleftrightarrow> resolve_binary h name \<noteq> None"

definition availability :: "native_host \<Rightarrow> (string \<times> bool) list" where
  "availability h = map (\<lambda>n. (n, scanner_available h n)) [''gitleaks'', ''osv'', ''semgrep'']"

section \<open>The invocation\<close>

definition report_file_name :: "scanner \<Rightarrow> string" where
  "report_file_name sn =
     (if sn_parser sn = GITLEAKS_PARSER then ''gitleaks.json''
      else if sn_parser sn = OSV_PARSER then ''osv.json''
      else if sn_parser sn = SEMGREP_PARSER then ''semgrep.json'' else ''report.json'')"

definition native_argv :: "string \<Rightarrow> scanner \<Rightarrow> scan_input \<Rightarrow> string \<Rightarrow> string list" where
  "native_argv rules_dir sn inp report =
     (let src = si_source_dir inp in
      if sn_parser sn = GITLEAKS_PARSER then
        [''detect'', ''--no-git'', ''--source='' @ src, ''--report-format=json'', ''--report-path='' @ report,
         ''--exit-code=1'', ''--log-level=error'']
      else if sn_parser sn = OSV_PARSER then
        [''scan'', ''source'', ''--recursive'', ''--allow-no-lockfiles'', ''--format=json'',
         ''--output='' @ report, ''--verbosity=error'', src]
      else if sn_parser sn = SEMGREP_PARSER then
        [''scan'', ''--config='' @ join_path rules_dir ''firecrow-sast.yml'', ''--json-output='' @ report,
         ''--quiet'', ''--no-git-ignore'', ''--disable-version-check'', ''--metrics=off'', src]
      else [])"

definition native_env :: "scanner \<Rightarrow> string \<Rightarrow> (string \<times> string) list" where
  "native_env sn scratch =
     (if sn_parser sn = OSV_PARSER then sn_env sn
      else if sn_parser sn = SEMGREP_PARSER then [(''HOME'', scratch), (''TMPDIR'', scratch)] else [])"

section \<open>The run\<close>

text \<open>The loop of the run; its state is that of the sandbox without the standard output.\<close>

definition native_head :: "supervision \<Rightarrow> run_stop option" where
  "native_head v =
     (case sv_status v of
        Some status \<Rightarrow> if err_settled v then Some (Finished status) else map_option OutputExceeded (sv_err_err v)
      | None \<Rightarrow> map_option OutputExceeded (sv_err_err v))"

definition native_pass :: "bool \<Rightarrow> supervision \<Rightarrow> run_event \<Rightarrow> pass" where
  "native_pass cancel v ev =
     (case ev of
        Exited status \<Rightarrow>
          if sv_status v = None then Continue (v\<lparr>sv_status := Some status\<rparr>) else Disabled
      | WaitFailed e \<Rightarrow>
          if sv_status v = None then Left (Internal (''failed waiting on native scanner: '' @ e)) else Disabled
      | StdoutDone _ \<Rightarrow> Disabled
      | StderrDone r \<Rightarrow>
          if err_settled v then Disabled
          else (case r of Inr bytes \<Rightarrow> Continue (v\<lparr>sv_err := Some bytes\<rparr>)
                | Inl e \<Rightarrow> Continue (v\<lparr>sv_err_err := Some e\<rparr>))
      | DeadlinePassed \<Rightarrow> Stopped StopTimeout
      | PollTick \<Rightarrow> if cancel then Stopped StopCancelled else Disabled)"

fun native_loop :: "(nat \<Rightarrow> bool) \<Rightarrow> nat \<Rightarrow> supervision \<Rightarrow> run_event list \<Rightarrow> supervised option" where
  "native_loop cancel i v evs =
     (case native_head v of
        Some stop \<Rightarrow> Some (Verdict stop v)
      | None \<Rightarrow>
          (case evs of
             [] \<Rightarrow> None
           | ev # evs' \<Rightarrow>
               (case native_pass (cancel i) v ev of
                  Disabled \<Rightarrow> native_loop cancel i v evs'
                | Continue v' \<Rightarrow> native_loop cancel (Suc i) v' evs'
                | Stopped stop \<Rightarrow> Some (Verdict stop v)
                | Left e \<Rightarrow> Some (Abandoned e))))"

declare native_loop.simps [simp del]

text \<open>\<open>nh_report_size\<close> is the size of the report file when there is one, \<open>nh_report\<close> its bytes or the
  error of reading them.\<close>

definition read_report_bounded :: "native_host \<Rightarrow> int \<Rightarrow> app_error + string" where
  "read_report_bounded h cap =
     (case nh_report_size h of
        None \<Rightarrow> Inr []
      | Some n \<Rightarrow>
          if int n > cap then Inl (OutputLimitExceeded ''report'' (nat cap))
          else
            (case nh_report h of
               Inl e \<Rightarrow> Inl (Internal (''failed to read native scanner report: '' @ e))
             | Inr bytes \<Rightarrow> Inr (from_utf8_lossy bytes)))"

definition native_stop_error :: "scanner \<Rightarrow> run_stop \<Rightarrow> app_error" where
  "native_stop_error sn stop =
     (case stop of
        OutputExceeded e \<Rightarrow> e
      | StopTimeout \<Rightarrow> TimedOutError (''native scanner '' @ sn_name sn @ '' timed out after ''
          @ nat_str (sn_timeout sn) @ ''s'')
      | StopCancelled \<Rightarrow> Cancelled ''scan cancelled by operator''
      | Finished _ \<Rightarrow> Internal [])"

text \<open>The effects: the scratch directory, the process with its environment, killed and reaped.\<close>

datatype native_effect =
    MakeScratch string
  | NativeSpawn string "(string \<times> string) list" "string list"
  | NativeKill
  | NativeReap
  | RemoveScratch string

definition native_finish :: "native_host \<Rightarrow> bool \<Rightarrow> supervision \<Rightarrow> app_error + sandbox_output" where
  "native_finish h status v =
     map_sum id (\<lambda>report.
         \<lparr>so_stdout = report, so_stderr = from_utf8_lossy (case sv_err v of Some s \<Rightarrow> s | None \<Rightarrow> []),
          so_success = status\<rparr>)
       (read_report_bounded h MAX_STDOUT_BYTES)"

definition native_spawned ::
  "native_host \<Rightarrow> scanner \<Rightarrow> (native_effect list \<times> (app_error + sandbox_output)) option" where
  "native_spawned h sn =
     (if \<not> nh_pipe h
      then Some ([NativeKill, NativeReap], Inl (Internal ''failed to capture native scanner stderr''))
      else
        (case native_loop (nh_cancel h) 0 fresh_supervision (nh_events h) of
           None \<Rightarrow> None
         | Some (Abandoned e) \<Rightarrow> Some ([NativeKill], Inl e)
         | Some (Verdict (Finished status) v) \<Rightarrow> Some ([], native_finish h status v)
         | Some (Verdict stop v) \<Rightarrow> Some ([NativeKill, NativeReap], Inl (native_stop_error sn stop))))"

definition run_native ::
  "formats \<Rightarrow> native_host \<Rightarrow> string \<Rightarrow> string \<Rightarrow> scanner \<Rightarrow> scan_input
     \<Rightarrow> (native_effect list \<times> (app_error + sandbox_output)) option" where
  "run_native F h uuid rules_dir sn inp =
     (case resolve_binary h (sn_name sn) of
        None \<Rightarrow> Some ([], Inl (Internal (''native scanner binary for '' @ sn_name sn @ '' is not available'')))
      | Some bin \<Rightarrow>
          (let scratch = join_path (nh_temp_dir h) (''firecrow-native-'' @ uuid);
               argv = native_argv rules_dir sn inp (join_path scratch (report_file_name sn)) in
           case nh_scratch_error h of
             Some e \<Rightarrow> Some ([], Inl (Internal (''failed to create native scratch dir: '' @ e)))
           | None \<Rightarrow>
               map_option (\<lambda>(es, r). (MakeScratch scratch # es @ [RemoveScratch scratch], r))
                 (if argv = []
                  then Some ([], Inl (Internal (''no native invocation for scanner parser ''
                    @ debug_str F (sn_parser sn))))
                  else
                    (case nh_spawn_error h of
                       Some e \<Rightarrow> Some ([], Inl (Internal (''failed to spawn native scanner: '' @ e)))
                     | None \<Rightarrow>
                         map_option (\<lambda>(es, r). (NativeSpawn bin (native_env sn scratch) argv # es, r))
                           (native_spawned h sn)))))"

section \<open>The entry points\<close>

text \<open>The two backends and what a run needs of the host; the cancel flag is also read before the run and
  after it.\<close>

record runtime =
  rt_mode :: execution_mode
  rt_sandbox :: host
  rt_native :: native_host
  rt_uuid :: string
  rt_rules_dir :: string
  rt_cancel_before :: bool
  rt_cancel_after :: bool

definition backend_run ::
  "formats \<Rightarrow> runtime \<Rightarrow> scanner \<Rightarrow> scan_input \<Rightarrow> (app_error + sandbox_output) option" where
  "backend_run F rt sn inp =
     (case rt_mode rt of
        Native \<Rightarrow> map_option snd (run_native F (rt_native rt) (rt_uuid rt) (rt_rules_dir rt) sn inp)
      | Container \<Rightarrow> map_option snd (sandbox_run F (rt_sandbox rt) (rt_uuid rt) (scan_spec inp sn)))"

definition execute ::
  "scan_env \<Rightarrow> formats \<Rightarrow> (nat \<Rightarrow> string) \<Rightarrow> runtime \<Rightarrow> scanner \<Rightarrow> scan_input \<Rightarrow> scanner_result option" where
  "execute E F uuid rt sn inp =
     (if rt_cancel_before rt then Some (cancelled_result sn inp)
      else map_option (\<lambda>run. if rt_cancel_after rt then cancelled_result sn inp
             else classify E F uuid sn inp run) (backend_run F rt sn inp))"

definition run_secret_scan where "run_secret_scan E F uuid rt inp = execute E F uuid rt gitleaks inp"

definition run_sast_scan where
  "run_sast_scan E F uuid rt inp = execute E F uuid rt (semgrep (rt_rules_dir rt)) inp"

text \<open>\<open>setting\<close> is \<open>OSV_EGRESS_PROXY\<close>; \<open>cancelled\<close> is the flag when the scan begins, before \<open>execute\<close>.\<close>

definition run_dependency_scan ::
  "scan_env \<Rightarrow> formats \<Rightarrow> (nat \<Rightarrow> string) \<Rightarrow> (string \<Rightarrow> parsed_url option) \<Rightarrow> string option \<Rightarrow> bool
     \<Rightarrow> runtime \<Rightarrow> scan_input \<Rightarrow> scanner_result option" where
  "run_dependency_scan E F uuid parse_url setting cancelled rt inp =
     (if cancelled then Some (cancelled_result (osv parse_url setting) inp)
      else
        (case resolve_osv_egress_proxy parse_url setting of
           Inr proxy \<Rightarrow> execute E F uuid rt (osv_with_proxy proxy) inp
         | Inl reason \<Rightarrow>
             Some (failed_result (osv parse_url setting) inp reason
               [(''egress_enforced'', JBool False), (''egress_proxy_configured'', JBool False)])))"

end
