(* ===== verification/Scanner_Props.thy ===== *)
theory Scanner_Props
  imports Native_Exec Sandbox_Runs
begin

text \<open>
  What the scanner runtime promises: a result counts its own findings and a failed run carries none; the
  trust table of the Semgrep report; the shape of every finding the adapters make; the severity of a
  group of advisories; what the two backends return.
\<close>

section \<open>Results\<close>

lemma length_stamp [simp]: "length (stamp uuid fs) = length fs"
  by (simp add: stamp_def)

lemma stamp_mem: "x \<in> set (stamp uuid fs) \<Longrightarrow> \<exists>f \<in> set fs. \<exists>i. x = f (uuid i)"
  by (auto simp: stamp_def in_set_enumerate_eq)

definition known_by :: "scanner \<Rightarrow> scanner_result \<Rightarrow> bool" where
  "known_by sn r \<longleftrightarrow> res_scanner r = sn_name sn \<and> res_version r = sn_version sn \<and> res_mode r = sn_mode sn"

text \<open>A result counts its findings, or it has none and says that its coverage is unknown.\<close>

definition honest :: "scanner_result \<Rightarrow> bool" where
  "honest r \<longleftrightarrow>
     (case res_outcome r of
        Success n \<Rightarrow> length (res_findings r) = n
      | _ \<Rightarrow> res_findings r = [] \<and> member (res_record r) ''coverage'' = Some (JStr ''unknown''))"

lemma coverage_unknown: "member (JObj (unknown_coverage e rec)) ''coverage'' = Some (JStr ''unknown'')"
  by (simp add: unknown_coverage_def member_def bt_get_insert)

lemma success_result_honest [simp]: "honest (success_result E sn inp fs extra)" "known_by sn (success_result E sn inp fs extra)"
  by (simp_all add: success_result_def scan_result_def honest_def known_by_def)

lemma failed_result_honest [simp]: "honest (failed_result sn inp reason extra)" "known_by sn (failed_result sn inp reason extra)"
  by (simp_all add: failed_result_def scan_result_def honest_def known_by_def coverage_unknown)

lemma other_results_honest [simp]:
  "honest (timeout_result sn inp)" "known_by sn (timeout_result sn inp)"
  "honest (cancelled_result sn inp)" "known_by sn (cancelled_result sn inp)"
  by (simp_all add: timeout_result_def cancelled_result_def scan_result_def honest_def known_by_def coverage_unknown)

lemma outcomes [simp]:
  "res_outcome (success_result E sn inp fs extra) = Success (length fs)"
  "res_outcome (failed_result sn inp reason extra) = RunFailed reason"
  "res_outcome (timeout_result sn inp) = Timeout (sn_timeout sn)"
  "res_outcome (cancelled_result sn inp) = RunCancelled"
  by (simp_all add: success_result_def failed_result_def timeout_result_def cancelled_result_def scan_result_def)

lemmas classifiers = classify_gitleaks_def classify_osv_def classify_semgrep_def missing_report_def parse_error_def Let_def

lemma classified_honest:
  "honest (classify_gitleaks E uuid sn inp out)" "known_by sn (classify_gitleaks E uuid sn inp out)"
  "honest (classify_osv E uuid sn inp out)" "known_by sn (classify_osv E uuid sn inp out)"
  "honest (classify_semgrep E uuid sn inp out)" "known_by sn (classify_semgrep E uuid sn inp out)"
  by (simp_all add: classifiers split: sum.split)

lemma classify_honest: "honest (classify E F uuid sn inp run) \<and> known_by sn (classify E F uuid sn inp run)"
  by (auto simp: classify_def classified_honest split: sum.split app_error.split)

lemma classify_success: "res_outcome (classify E F uuid sn inp run) = Success n \<Longrightarrow> \<exists>out. run = Inr out"
  by (auto simp: classify_def split: sum.splits app_error.splits)

lemma honest_findings: "honest r \<Longrightarrow> f \<in> set (res_findings r) \<Longrightarrow> is_success (res_outcome r)"
  by (auto simp: honest_def is_success_def split: scanner_outcome.splits)

lemma execute_cases:
  "execute E F uuid rt sn inp = Some r \<Longrightarrow> r = cancelled_result sn inp
     \<or> \<not> rt_cancel_before rt \<and> \<not> rt_cancel_after rt
       \<and> (\<exists>run. backend_run F rt sn inp = Some run \<and> r = classify E F uuid sn inp run)"
  by (auto simp: execute_def split: if_splits)

text \<open>C36. Whatever a scan does, its result carries the identity of its scanner; it reports findings only
  together with their exact number and only when the backend returned an output and the scan was not
  cancelled, before or after; every other outcome has no findings and is recorded as unknown coverage.\<close>

theorem execute_honest:
  assumes "execute E F uuid rt sn inp = Some r"
  shows "known_by sn r \<and> honest r \<and>
    (is_success (res_outcome r) \<longrightarrow> \<not> rt_cancel_before rt \<and> \<not> rt_cancel_after rt
       \<and> (\<exists>out. backend_run F rt sn inp = Some (Inr out)))"
  using execute_cases[OF assms]
proof (elim disjE conjE exE)
  fix run assume run: "\<not> rt_cancel_before rt" "\<not> rt_cancel_after rt" "backend_run F rt sn inp = Some run"
    "r = classify E F uuid sn inp run"
  have "\<exists>out. run = Inr out" if "is_success (res_outcome r)"
    using that classify_success[of E F uuid sn inp run] run(4) by (auto simp: is_success_def split: scanner_outcome.splits)
  with run classify_honest show ?thesis by auto
qed (simp add: is_success_def)

section \<open>Semgrep\<close>

lemma semgrep_doc_findings:
  "findings_from_semgrep_doc E doc =
     \<lparr>sf_valid = map (finding_from_semgrep E) (filter located (sd_results doc)),
      sf_rejected = map (\<lambda>r. (sr_check_id r, sr_path r, projl (validate_semgrep_location r)))
        (filter (\<lambda>r. \<not> located r) (sd_results doc))\<rparr>"
proof -
  have step: "fold (\<lambda>r acc.
         (case validate_semgrep_location r of
            Inr _ \<Rightarrow> acc\<lparr>sf_valid := sf_valid acc @ [finding_from_semgrep E r]\<rparr>
          | Inl reason \<Rightarrow> acc\<lparr>sf_rejected := sf_rejected acc @ [(sr_check_id r, sr_path r, reason)]\<rparr>))
       rs acc =
     acc\<lparr>sf_valid := sf_valid acc @ map (finding_from_semgrep E) (filter located rs),
       sf_rejected := sf_rejected acc @ map (\<lambda>r. (sr_check_id r, sr_path r, projl (validate_semgrep_location r)))
        (filter (\<lambda>r. \<not> located r) rs)\<rparr>" for rs acc
    by (induction rs arbitrary: acc) (auto simp: located_def split: sum.split)
  show ?thesis unfolding findings_from_semgrep_doc_def step by simp
qed

lemma located_iff:
  "located r \<longleftrightarrow> \<not> blank (sr_check_id r) \<and> \<not> blank (sr_path r)
     \<and> 1 \<le> sp_line (sr_start r) \<and> sp_line (sr_start r) \<le> sp_line (sr_end r)"
  by (auto simp: located_def validate_semgrep_location_def)

lemma parse_semgrep_iff:
  "parse_semgrep_report E s = Inr doc \<longleftrightarrow>
     trim s \<noteq> [] \<and> (\<exists>v. sc_value E (trim s) = Some v \<and> member v ''results'' \<noteq> None \<and> member v ''paths'' \<noteq> None
        \<and> dec_semgrep_doc v = Some doc)"
  by (auto simp: parse_semgrep_report_def Let_def and_then_Inr ok_or_Inr split: if_splits)

text \<open>C38. The trust table of the static-analysis scanner: a run is a success exactly when the report is
  JSON with its two required keys and the expected shape, reports no error and names at least one
  scanned file; it then has one finding for each detection with a rule, a path and an ordered positive
  line range, and every other detection is counted as rejected.\<close>

theorem semgrep_trust_table:
  "res_outcome (classify_semgrep E uuid sn inp out) = Success n \<longleftrightarrow>
     (\<exists>v doc. sc_value E (trim (so_stdout out)) = Some v \<and> trim (so_stdout out) \<noteq> []
        \<and> member v ''results'' \<noteq> None \<and> member v ''paths'' \<noteq> None \<and> dec_semgrep_doc v = Some doc
        \<and> sd_errors doc = [] \<and> sd_scanned doc \<noteq> []
        \<and> n = length (filter (\<lambda>r. \<not> blank (sr_check_id r) \<and> \<not> blank (sr_path r)
             \<and> 1 \<le> sp_line (sr_start r) \<and> sp_line (sr_start r) \<le> sp_line (sr_end r)) (sd_results doc))
        \<and> n + length (sf_rejected (findings_from_semgrep_doc E doc)) = length (sd_results doc))"
proof -
  have total: "length (filter located rs) + length (filter (\<lambda>r. \<not> located r) rs) = length rs" for rs
    by (induction rs) auto
  have out: "res_outcome (classify_semgrep E uuid sn inp out) = Success n \<longleftrightarrow>
     (\<exists>doc. parse_semgrep_report E (so_stdout out) = Inr doc \<and> sd_errors doc = [] \<and> sd_scanned doc \<noteq> []
        \<and> n = length (filter located (sd_results doc)))"
  proof (cases "parse_semgrep_report E (so_stdout out)")
    case (Inr doc)
    then have "\<not> no_report out" by (auto simp: parse_semgrep_iff no_report_def blank_def)
    with Inr show ?thesis by (auto simp: classifiers semgrep_doc_findings)
  qed (auto simp: classifiers)
  have "(\<lambda>r. \<not> blank (sr_check_id r) \<and> \<not> blank (sr_path r)
             \<and> 1 \<le> sp_line (sr_start r) \<and> sp_line (sr_start r) \<le> sp_line (sr_end r)) = located"
    by (auto simp: fun_eq_iff located_iff)
  then show ?thesis unfolding out parse_semgrep_iff using total by (auto simp: semgrep_doc_findings)
qed

section \<open>The shape of a finding\<close>

definition i32_line :: "int option \<Rightarrow> bool" where
  "i32_line l = (case l of None \<Rightarrow> True | Some i \<Rightarrow> - (2 ^ 31) \<le> i \<and> i < 2 ^ 31)"

definition finding_ok :: "string \<Rightarrow> string \<Rightarrow> audit_finding \<Rightarrow> bool" where
  "finding_ok name mode f \<longleftrightarrow>
     fd_agent_source f = name \<and> fd_scanner_name f = Some name \<and> fd_scanner_mode f = Some mode
     \<and> (\<exists>e. fd_evidence f = Some e \<and> int (length e) \<le> MAX_CANONICAL_EVIDENCE_CHARS)
     \<and> (\<exists>p. fd_file_path f = Some p \<and> \<not> prefix ''/'' p)
     \<and> i32_line (fd_line_number f) \<and> fd_cvss_score f = None \<and> fd_route f = None"

lemma redact_bound: "int (length (redact_text R s SNIPPET_MAX_CHARS)) \<le> MAX_CANONICAL_EVIDENCE_CHARS"
  using redact_text_le[of SNIPPET_MAX_CHARS R s]
  by (simp add: SNIPPET_MAX_CHARS_def TRUNCATED_def MAX_CANONICAL_EVIDENCE_CHARS_def)

lemma to_i32_line: "i32_line (to_i32 i)"
  by (simp add: i32_line_def to_i32_def)

lemma as_i32_line: "i32_line (Some (as_i32 n))"
  using sint_ge[of "of_nat n :: 32 word"] sint_lt[of "of_nat n :: 32 word"]
  by (simp add: i32_line_def as_i32_def)

lemma manifest_line: "i32_line (Some (osv_manifest_line E d m p v))"
  using as_i32_line by (auto simp: osv_manifest_line_def i32_line_def split: option.split)

lemma osv_evidence_bound: "int (length (osv_evidence pkg m pr al fixed)) \<le> MAX_CANONICAL_EVIDENCE_CHARS"
proof -
  have "length (if length s > OSV_EVIDENCE_MAX_CHARS
      then truncate_at_char_boundary s OSV_EVIDENCE_MAX_CHARS @ TRUNCATED else s)
      \<le> OSV_EVIDENCE_MAX_CHARS + length TRUNCATED" for s
    using truncate_at_char_boundary_le[of s OSV_EVIDENCE_MAX_CHARS] by simp
  then have "length (osv_evidence pkg m pr al fixed) \<le> OSV_EVIDENCE_MAX_CHARS + length TRUNCATED"
    unfolding osv_evidence_def Let_def .
  then show ?thesis by (simp add: OSV_EVIDENCE_MAX_CHARS_def TRUNCATED_def MAX_CANONICAL_EVIDENCE_CHARS_def)
qed

lemma gitleaks_finding_ok: "finding_ok ''gitleaks'' ''secret'' (finding_from_gitleaks E g u)"
  by (simp add: finding_ok_def finding_from_gitleaks_def Let_def redact_bound to_i32_line normalize_repo_path_relative)

lemma semgrep_finding_ok: "finding_ok ''semgrep'' ''sast'' (finding_from_semgrep E r u)"
  by (simp add: finding_ok_def finding_from_semgrep_def Let_def redact_bound to_i32_line normalize_repo_path_relative)

lemma osv_finding_ok:
  "\<not> prefix ''/'' m \<Longrightarrow> finding_ok ''osv'' ''dependency'' (osv_group_finding E rs ids pr m d u)"
  by (simp add: finding_ok_def osv_group_finding_def Let_def osv_evidence_bound manifest_line)

lemma with_provenance_ok: "finding_ok name mode (with_run_provenance E sn inp f) = finding_ok name mode f"
  by (simp add: with_run_provenance_def finding_ok_def split: option.split json.split)

lemma osv_doc_ok: "f \<in> set (findings_from_doc E doc d) \<Longrightarrow> finding_ok ''osv'' ''dependency'' (f u)"
  by (auto simp: findings_from_doc_def osv_package_findings_def normalize_repo_path_relative
      intro!: osv_finding_ok split: option.splits)

lemma success_findings_ok:
  assumes "\<And>f u. f \<in> set fs \<Longrightarrow> finding_ok name mode (f u)"
    "x \<in> set (res_findings (success_result E sn inp (stamp uuid fs) extra))"
  shows "finding_ok name mode x"
  using assms stamp_mem[of _ uuid fs]
  by (fastforce simp: success_result_def scan_result_def with_provenance_ok)

lemma failed_findings [simp]: "res_findings (failed_result sn inp reason extra) = []"
  by (simp add: failed_result_def scan_result_def)

lemma classify_findings_ok:
  assumes "sn = gitleaks \<or> sn = osv_inner proxy \<or> sn = semgrep rules"
    "x \<in> set (res_findings (classify E F uuid sn inp (Inr out)))"
  shows "finding_ok (sn_name sn) (sn_mode sn) x"
  using assms(1)
proof (elim disjE)
  assume sn: "sn = gitleaks"
  with assms(2) have "x \<in> set (res_findings (classify_gitleaks E uuid sn inp out))"
    by (simp add: classify_def gitleaks_def)
  then have "finding_ok ''gitleaks'' ''secret'' x"
    by (auto simp: classifiers gitleaks_finding_ok dest!: success_findings_ok[rotated] split: if_splits sum.splits)
  then show ?thesis by (simp add: sn gitleaks_def)
next
  assume sn: "sn = osv_inner proxy"
  with assms(2) have "x \<in> set (res_findings (classify_osv E uuid sn inp out))"
    by (simp add: classify_def osv_inner_def OSV_PARSER_def GITLEAKS_PARSER_def)
  then have "finding_ok ''osv'' ''dependency'' x"
    by (auto simp: classifiers osv_doc_ok dest!: success_findings_ok[rotated] split: if_splits sum.splits)
  then show ?thesis by (simp add: sn osv_inner_def)
next
  assume sn: "sn = semgrep rules"
  with assms(2) have "x \<in> set (res_findings (classify_semgrep E uuid sn inp out))"
    by (simp add: classify_def semgrep_def OSV_PARSER_def GITLEAKS_PARSER_def SEMGREP_PARSER_def)
  then have "finding_ok ''semgrep'' ''sast'' x"
    by (auto simp: classifiers semgrep_doc_findings semgrep_finding_ok dest!: success_findings_ok[rotated]
        split: if_splits sum.splits)
  then show ?thesis by (simp add: sn semgrep_def)
qed

lemma execute_findings:
  assumes "execute E F uuid rt sn inp = Some r" "f \<in> set (res_findings r)"
  shows "\<exists>out. r = classify E F uuid sn inp (Inr out)"
proof -
  note success = honest_findings[OF _ assms(2)]
  have "r \<noteq> cancelled_result sn inp" using success by (auto simp: is_success_def)
  then obtain run where r: "r = classify E F uuid sn inp run" using execute_cases[OF assms(1)] by blast
  with success classify_honest obtain n where "res_outcome r = Success n"
    by (auto simp: is_success_def split: scanner_outcome.splits)
  with r classify_success show ?thesis by metis
qed

text \<open>C39. Every finding that a scan with one of the three descriptors returns is well formed: it names its
  scanner and mode, its evidence is within the canonical bound, its path is relative, its line fits the
  integer type of the schema, and it has no score and no route.\<close>

theorem findings_typed:
  assumes "execute E F uuid rt sn inp = Some r"
    "sn = gitleaks \<or> sn = osv_inner proxy \<or> sn = semgrep rules"
  shows "\<forall>f \<in> set (res_findings r). finding_ok (sn_name sn) (sn_mode sn) f"
  using execute_findings[OF assms(1)] classify_findings_ok[OF assms(2)] by metis

section \<open>A concrete native run\<close>

definition plain_env :: scan_env where
  "plain_env =
    \<lparr>sc_value = (\<lambda>_. None),
     sc_members = (\<lambda>_. Some (JArr [JObj [(''File'', JStr ''/scan/a.env''), (''StartLine'', JNum (PosInt 3))]])),
     sc_print = (\<lambda>_. ''{}''), sc_sha256_hex = (\<lambda>s. s), sc_replace_all = (\<lambda>_ _ s. s), sc_lower = (\<lambda>s. s),
     sc_read = (\<lambda>_. None)\<rparr>"

definition native_sample :: "run_event list \<Rightarrow> native_host" where
  "native_sample evs =
    \<lparr>nh_var = (\<lambda>k. if k = ''PATH'' then Some ''/bin'' else None), nh_executable = (\<lambda>_. True),
     nh_temp_dir = ''/tmp'', nh_scratch_error = None, nh_spawn_error = None, nh_pipe = True,
     nh_events = evs, nh_cancel = (\<lambda>_. False), nh_report_size = Some 2, nh_report = Inr ''[]''\<rparr>"

definition native_runtime :: "host \<Rightarrow> run_event list \<Rightarrow> runtime" where
  "native_runtime h evs =
    \<lparr>rt_mode = Native, rt_sandbox = h, rt_native = native_sample evs, rt_uuid = ''u'', rt_rules_dir = ''/rules'',
     rt_cancel_before = False, rt_cancel_after = False\<rparr>"

lemma native_loop_Cons:
  "native_head v = None \<Longrightarrow> native_loop c i v (ev # evs) =
     (case native_pass (c i) v ev of
        Disabled \<Rightarrow> native_loop c i v evs
      | Continue v' \<Rightarrow> native_loop c (Suc i) v' evs
      | Stopped stop \<Rightarrow> Some (Verdict stop v)
      | Left e \<Rightarrow> Some (Abandoned e))"
  by (simp add: native_loop.simps[of c i v])

lemma native_loop_head: "native_head v = Some stop \<Longrightarrow> native_loop c i v evs = Some (Verdict stop v)"
  by (simp add: native_loop.simps[of c i v])

lemmas native_steps = native_loop_Cons native_loop_head native_head_def native_pass_def
  fresh_supervision_def err_settled_def

lemma native_sample_run:
  "backend_run F (native_runtime h [Exited True, StderrDone (Inr [])]) gitleaks inp =
     Some (Inr \<lparr>so_stdout = ''[]'', so_stderr = [], so_success = True\<rparr>)"
proof -
  have bin: "resolve_binary (native_sample evs) ''gitleaks'' = Some ''/bin/gitleaks''" for evs
    by (simp add: resolve_binary_def binary_spec_def native_sample_def which_def join_path_def)
  have argv: "native_argv ''/rules'' gitleaks inp p \<noteq> []" for p
    by (simp add: native_argv_def gitleaks_def Let_def)
  have "from_utf8_lossy ''[]'' = ''[]''" "from_utf8_lossy [] = []" by code_simp+
  then have "native_spawned (native_sample [Exited True, StderrDone (Inr [])]) gitleaks =
      Some ([], Inr \<lparr>so_stdout = ''[]'', so_stderr = [], so_success = True\<rparr>)"
    by (simp add: native_spawned_def native_sample_def native_steps native_finish_def read_report_bounded_def
        MAX_STDOUT_BYTES_def)
  with bin argv show ?thesis
    by (simp add: backend_run_def native_runtime_def run_native_def gitleaks_def Let_def native_sample_def)
qed

lemma native_sample_execute:
  "execute plain_env F (\<lambda>_. ''id'') (native_runtime h [Exited True, StderrDone (Inr [])]) gitleaks inp =
     Some (classify plain_env F (\<lambda>_. ''id'') gitleaks inp
       (Inr \<lparr>so_stdout = ''[]'', so_stderr = [], so_success = True\<rparr>))"
  unfolding execute_def native_sample_run by (simp add: native_runtime_def)

lemma native_sample_outcome:
  "res_outcome (classify plain_env F u gitleaks inp (Inr \<lparr>so_stdout = ''[]'', so_stderr = [], so_success = True\<rparr>))
     = Success 1"
proof -
  have "trim ''[]'' = ''[]''" "\<not> blank ''[]''" by code_simp+
  moreover have "dec_gitleaks (JObj [(''File'', JStr ''/scan/a.env''), (''StartLine'', JNum (PosInt 3))]) \<noteq> None"
    by code_simp
  ultimately show ?thesis
    by (auto simp: classify_def gitleaks_def classify_gitleaks_def no_report_def parse_gitleaks_report_def
        read_gitleaks_def plain_env_def dec_list_def)
qed

definition native_run :: "scanner_result option" where
  "native_run = execute plain_env plain_formats (\<lambda>_. ''id'')
     (native_runtime (sandbox_host []) [Exited True, StderrDone (Inr [])]) gitleaks (from_dir ''/srv/a'')"

lemma native_run_result: "\<exists>r. native_run = Some r \<and> res_outcome r = Success 1"
  unfolding native_run_def native_sample_execute by (simp add: native_sample_outcome)

theorem execute_honest_witness:
  "\<exists>r. native_run = Some r \<and> known_by gitleaks r \<and> length (res_findings r) = 1"
proof -
  obtain r where r: "native_run = Some r" "res_outcome r = Success 1" using native_run_result by blast
  from execute_honest[OF r(1)[unfolded native_run_def]] r show ?thesis by (auto simp: honest_def)
qed

theorem findings_typed_witness:
  "\<exists>r f. native_run = Some r \<and> res_findings r = [f] \<and> finding_ok ''gitleaks'' ''secret'' f"
proof -
  obtain r where r: "native_run = Some r" "res_outcome r = Success 1" using native_run_result by blast
  then have "honest r"
    unfolding native_run_def native_sample_execute using classify_honest by auto
  with r(2) obtain f where "res_findings r = [f]" by (auto simp: honest_def length_Suc_conv)
  moreover have "\<forall>f \<in> set (res_findings r). finding_ok (sn_name gitleaks) (sn_mode gitleaks) f"
    by (rule findings_typed[OF r(1)[unfolded native_run_def]]) simp
  ultimately have "res_findings r = [f]" "finding_ok ''gitleaks'' ''secret'' f" by (simp_all add: gitleaks_def)
  with r(1) show ?thesis by blast
qed

section \<open>Advisories\<close>

text \<open>The severities that the advisories of a group state.\<close>

definition stated :: "scan_env \<Rightarrow> osv_vuln list \<Rightarrow> severity set" where
  "stated E records = {s. \<exists>r \<in> set records. osv_advisory_severity E r = Some s}"

lemma set_map_filter: "set (List.map_filter f xs) = {y. \<exists>x \<in> set xs. f x = Some y}"
  by (induction xs) (auto simp: List.map_filter_simps split: option.splits)

lemma max_by_key_None [simp]: "max_by_key f xs = None \<longleftrightarrow> xs = []"
  by (cases xs) (auto split: option.splits)

lemma max_by_key_max: "max_by_key f xs = Some x \<Longrightarrow> x \<in> set xs \<and> (\<forall>y \<in> set xs. f y \<le> f x)"
  by (induction xs arbitrary: x) (fastforce split: option.splits if_splits)+

lemma advisory_bands: "osv_advisory_severity E r = Some s \<Longrightarrow> s \<in> {Critical, High, Medium, Low}"
  by (auto simp: osv_advisory_severity_def Let_def split: if_splits option.splits bind_splits)

lemma band_rank: "s \<in> {Critical, High, Medium, Low} \<Longrightarrow> t \<in> {Critical, High, Medium, Low}
    \<Longrightarrow> severity_rank s = severity_rank t \<Longrightarrow> s = t"
  by (elim insertE emptyE) simp_all

text \<open>The severity of a dependency finding is backed by its advisories: it is unknown exactly when
  none of them states a recognised one, and otherwise it is the one of greatest rank that is stated.\<close>

theorem osv_severity_backed:
  "osv_severity_of E records = s \<longleftrightarrow>
     (if stated E records = {} then s = Unknown
      else s \<in> stated E records \<and> (\<forall>t \<in> stated E records. severity_rank t \<le> severity_rank s))"
proof -
  let ?bs = "List.map_filter (osv_advisory_severity E) records"
  have set: "set ?bs = stated E records" by (simp add: set_map_filter stated_def)
  show ?thesis
  proof (cases "max_by_key severity_rank ?bs")
    case None
    then show ?thesis using set by (auto simp: osv_severity_of_def)
  next
    case (Some m)
    with max_by_key_max[OF this] set have m: "m \<in> stated E records" "\<forall>t \<in> stated E records. severity_rank t \<le> severity_rank m"
      by auto
    have uniq: "s = m" if "s \<in> stated E records" "\<forall>t \<in> stated E records. severity_rank t \<le> severity_rank s" for s
    proof (rule band_rank)
      show "s \<in> {Critical, High, Medium, Low}" "m \<in> {Critical, High, Medium, Low}"
        using that(1) m(1) unfolding stated_def by (blast dest: advisory_bands)+
      show "severity_rank s = severity_rank m" 
        by (rule order_antisym[OF bspec[OF m(2) that(1)] bspec[OF that(2) m(1)]])
    qed
    have sev: "osv_severity_of E records = m" using Some by (simp add: osv_severity_of_def)
    have ne: "stated E records \<noteq> {}" using m(1) by blast
    have "m = s \<longleftrightarrow> s \<in> stated E records \<and> (\<forall>t \<in> stated E records. severity_rank t \<le> severity_rank s)"
      using m uniq[of s] by blast
    with ne show ?thesis by (simp only: sev if_False)
  qed
qed

definition sample_vuln :: "string \<Rightarrow> osv_vuln" where
  "sample_vuln s = \<lparr>ov_id = ''GHSA-1'', ov_aliases = [], ov_summary = [], ov_severity = [], ov_affected = [],
     ov_references = [], ov_database = JObj [(''severity'', JStr s)]\<rparr>"

theorem osv_severity_backed_witness:
  "osv_severity_of plain_env [sample_vuln ''LOW'', sample_vuln ''HIGH'', sample_vuln ''odd''] = High"
proof -
  have "osv_advisory_severity plain_env (sample_vuln ''LOW'') = Some Low"
    "osv_advisory_severity plain_env (sample_vuln ''HIGH'') = Some High"
    "osv_advisory_severity plain_env (sample_vuln ''odd'') = None"
    by code_simp+
  then have "stated plain_env [sample_vuln ''LOW'', sample_vuln ''HIGH'', sample_vuln ''odd''] = {Low, High}"
    by (auto simp: stated_def)
  then show ?thesis unfolding osv_severity_backed by simp
qed

section \<open>Native runs\<close>

text \<open>A native scanner reports host paths; only the container's mount prefix is stripped, so the path of a
  finding keeps the directory of the snapshot.\<close>

lemma native_path_kept:
  assumes "d = CHR ''/'' # c # d'" "c \<noteq> CHR ''/''" "\<not> prefix SCAN_SLASH (d @ ''/'' @ rel)"
  shows "normalize_repo_path (d @ ''/'' @ rel) = c # d' @ ''/'' @ rel"
  using assms by (simp add: normalize_repo_path_def strip_prefix_def trim_start_slashes_def)

text \<open>As in the container, a breach of the cap that is seen after the exit is lost.\<close>

lemma native_flood_lost:
  assumes "nh_pipe h" "nh_events h = [Exited b, StderrDone (Inl e)]"
  shows "native_spawned h sn = Some ([], native_finish h b (fresh_supervision\<lparr>sv_status := Some b, sv_err_err := Some e\<rparr>))"
  using assms by (simp add: native_spawned_def native_steps)

end
