(* ===== verification/Boundary_Scans.thy ===== *)
theory Boundary_Scans
  imports Boundary Scanner_Props
begin

text \<open>
  The three scanners on their way to the Docker daemon: their specifications pass the worker's own
  checks, and what the authorization plugin says of them; and what becomes of a flood of output.
\<close>

section \<open>The specifications of the scanners\<close>

text \<open>A source directory the worker may mount.\<close>

definition mountable :: "string \<Rightarrow> string \<Rightarrow> bool" where
  "mountable d c \<longleftrightarrow> validate_mount \<lparr>sm_host = d, sm_container = c, sm_read_only = True\<rparr> = Inr ()
     \<and> \<not> source_sensitive d \<and> \<not> names_socket d"

definition proxy_ok :: "string \<Rightarrow> bool" where
  "proxy_ok url \<longleftrightarrow> (\<forall>c \<in> set url. c \<notin> {CHR 0x0A, CHR 0x0D, CHR 0x00}) \<and> \<not> names_socket url"

lemma spec_fields:
  "sp_image (scan_spec inp sn) = sn_image sn" "sp_entrypoint (scan_spec inp sn) = sn_entrypoint sn"
  "sp_network (scan_spec inp sn) = sn_network sn" "sp_command (scan_spec inp sn) = sn_command sn"
  "sp_mounts (scan_spec inp sn) = mounts inp @ sn_extra_mounts sn" "sp_timeout (scan_spec inp sn) = sn_timeout sn"
  "sp_limits (scan_spec inp sn) = sn_limits sn"
  by (simp_all add: scan_spec_def with_env_def with_extra_tmpfs_def with_output_caps_def with_network_def
      with_entrypoint_def new_spec_def)

lemma scanner_images_valid:
  "validate_pinned_image F ''ghcr.io/gitleaks/gitleaks:v8.18.4'' = Inr ()"
  "validate_pinned_image F ''ghcr.io/google/osv-scanner:v2.2.4'' = Inr ()"
  "validate_pinned_image F ''semgrep/semgrep:1.96.0'' = Inr ()"
proof -
  have a: "trim ''ghcr.io/gitleaks/gitleaks:v8.18.4'' = ''ghcr.io/gitleaks/gitleaks:v8.18.4''"
    "\<not> has_whitespace ''ghcr.io/gitleaks/gitleaks:v8.18.4''" "\<not> has_control ''ghcr.io/gitleaks/gitleaks:v8.18.4''"
    "split_image_ref ''ghcr.io/gitleaks/gitleaks:v8.18.4'' = (''ghcr.io/gitleaks/gitleaks'', Some ''v8.18.4'')"
    by code_simp+
  show "validate_pinned_image F ''ghcr.io/gitleaks/gitleaks:v8.18.4'' = Inr ()"
    by (simp add: validate_pinned_image_def strip_prefix_def a)
  have b: "trim ''ghcr.io/google/osv-scanner:v2.2.4'' = ''ghcr.io/google/osv-scanner:v2.2.4''"
    "\<not> has_whitespace ''ghcr.io/google/osv-scanner:v2.2.4''" "\<not> has_control ''ghcr.io/google/osv-scanner:v2.2.4''"
    "split_image_ref ''ghcr.io/google/osv-scanner:v2.2.4'' = (''ghcr.io/google/osv-scanner'', Some ''v2.2.4'')"
    by code_simp+
  show "validate_pinned_image F ''ghcr.io/google/osv-scanner:v2.2.4'' = Inr ()"
    by (simp add: validate_pinned_image_def strip_prefix_def b)
  have c: "trim ''semgrep/semgrep:1.96.0'' = ''semgrep/semgrep:1.96.0''"
    "\<not> has_whitespace ''semgrep/semgrep:1.96.0''" "\<not> has_control ''semgrep/semgrep:1.96.0''"
    "split_image_ref ''semgrep/semgrep:1.96.0'' = (''semgrep/semgrep'', Some ''1.96.0'')"
    by code_simp+
  show "validate_pinned_image F ''semgrep/semgrep:1.96.0'' = Inr ()"
    by (simp add: validate_pinned_image_def strip_prefix_def c)
qed

lemma semgrep_limits_valid:
  "validate_limits F \<lparr>rl_cpus = 0x4000000000000000, rl_memory = ''2g'', rl_pids = 512\<rparr> = Inr ()"
proof -
  have "nat_str 2 = ''2''" by code_simp
  with parse_uint_nat_str[of 2 "2 ^ 64"] have "valid_memory ''2g''" by (simp add: valid_memory_def)
  then show ?thesis
    by (simp add: validate_limits_def f64_finite_def f64_positive_def f64_at_most_8_def)
qed

lemma entrypoint_sh_valid: "validate_entrypoint F (Some ''sh'') = Inr ()"
proof -
  have "\<not> blank ''sh''" "\<not> has_whitespace ''sh''" "\<not> has_control ''sh''" by code_simp+
  then show ?thesis by (simp add: validate_entrypoint_def)
qed

lemma commands_plain:
  "\<forall>a \<in> set (sn_command gitleaks). \<not> forbidden_arg a"
  "\<forall>a \<in> set (sn_command (osv_inner p)). \<not> forbidden_arg a"
  "\<forall>a \<in> set (sn_command (semgrep d)). \<not> forbidden_arg a"
  unfolding gitleaks_def osv_inner_def semgrep_def scanner.simps by code_simp+

lemma with_env_new: "distinct (map fst vars) \<Longrightarrow> sp_env s = [] \<Longrightarrow> sp_env (with_env vars s) = vars"
proof -
  have "distinct (map fst (e @ vars)) \<Longrightarrow>
      fold (\<lambda>(n, v) e. if n \<notin> fst ` set e then e @ [(n, v)] else e) vars e = e @ vars" for e
    by (induction vars arbitrary: e) auto
  then show "distinct (map fst vars) \<Longrightarrow> sp_env s = [] \<Longrightarrow> sp_env (with_env vars s) = vars"
    by (simp add: with_env_def)
qed

lemma spec_env: "distinct (map fst (sn_env sn)) \<Longrightarrow> sp_env (scan_spec inp sn) = sn_env sn"
  unfolding scan_spec_def
  by (rule with_env_new) (simp_all add: with_extra_tmpfs_def with_output_caps_def with_network_def
      with_entrypoint_def new_spec_def)

lemma spec_tmpfs: "sn_extra_tmpfs sn \<in> {[], [''/tmp'']} \<Longrightarrow> sp_extra_tmpfs (scan_spec inp sn) = sn_extra_tmpfs sn"
  by (auto simp: scan_spec_def with_env_def with_extra_tmpfs_def with_output_caps_def with_network_def
      with_entrypoint_def new_spec_def WORK_DIR_def)

lemmas spec_simps = spec_fields spec_env spec_tmpfs

definition PROXY_VARS :: "string set" where
  "PROXY_VARS = {''HTTPS_PROXY'', ''HTTP_PROXY'', ''https_proxy'', ''http_proxy''}"

lemma proxy_var_name:
  "n \<in> PROXY_VARS \<Longrightarrow> n \<noteq> [] \<and> list_all (\<lambda>c. is_alphanumeric c \<or> c = CHR ''_'') n \<and> \<not> is_digit (hd n)"
  unfolding PROXY_VARS_def by (elim insertE emptyE; hypsubst) code_simp+

lemma proxy_var_plain: "n \<in> PROXY_VARS \<Longrightarrow> \<not> names_socket n"
  unfolding PROXY_VARS_def by (elim insertE emptyE; hypsubst) code_simp+

lemma env_valid: "proxy_ok url \<Longrightarrow> n \<in> PROXY_VARS \<Longrightarrow> validate_env F (n, url) = Inr ()"
  using proxy_var_name[of n] by (simp add: validate_env_def proxy_ok_def)

lemma osv_env: "sn_env (osv_with_proxy url) = map (\<lambda>n. (n, url)) [''HTTPS_PROXY'', ''HTTP_PROXY'', ''https_proxy'', ''http_proxy'']"
  by (simp add: osv_with_proxy_def osv_inner_def)

lemma osv_env_valid:
  assumes "proxy_ok url" "e \<in> set (sn_env (osv_with_proxy url))"
  shows "validate_env F e = Inr () \<and> \<not> names_socket (fst e) \<and> \<not> names_socket (snd e)"
proof -
  obtain n where e: "e = (n, url)" "n \<in> PROXY_VARS" using assms(2) by (auto simp: osv_env PROXY_VARS_def)
  then show ?thesis using env_valid[OF assms(1)] proxy_var_plain assms(1) by (simp add: proxy_ok_def)
qed

lemma home_valid: "validate_env F (''HOME'', ''/work'') = Inr ()" "\<not> names_socket ''HOME''" "\<not> names_socket ''/work''"
proof -
  have "list_all (\<lambda>c. is_alphanumeric c \<or> c = CHR ''_'') ''HOME''" "\<not> is_digit (CHR ''H'')" by code_simp+
  then show "validate_env F (''HOME'', ''/work'') = Inr ()" by (simp add: validate_env_def)
  show "\<not> names_socket ''HOME''" "\<not> names_socket ''/work''" by code_simp+
qed

lemma tmp_valid: "validate_tmpfs_path F ''/tmp'' = Inr ()" "\<not> names_socket ''/tmp''"
proof -
  have "\<not> has_whitespace ''/tmp''" "\<not> has_control ''/tmp''" by code_simp+
  then show "validate_tmpfs_path F ''/tmp'' = Inr ()" by (simp add: validate_tmpfs_path_def SCAN_MOUNT_def)
  show "\<not> names_socket ''/tmp''" by code_simp
qed

definition live_scanner :: "scanner \<Rightarrow> bool" where
  "live_scanner sn \<longleftrightarrow> sn = gitleaks \<or> (\<exists>url. proxy_ok url \<and> sn = osv_with_proxy url)
     \<or> (\<exists>rules. mountable rules ''/config'' \<and> sn = semgrep rules)"

lemma live_scanner_facts:
  assumes "live_scanner sn"
  shows "validate_pinned_image F (sn_image sn) = Inr ()" "validate_limits F (sn_limits sn) = Inr ()"
    "0 < sn_timeout sn \<and> sn_timeout sn \<le> MAX_TIMEOUT_SECS" "sn_command sn \<noteq> []" "sn_entrypoint sn = Some ''sh''"
    "(sn_image sn, sn_network sn) \<in> set APPROVED_SCANNER_EXECUTIONS"
    "\<forall>a \<in> set (sn_command sn). \<not> forbidden_arg a" "distinct (map fst (sn_env sn))"
    "sn_extra_tmpfs sn = (if sn_name sn = ''semgrep'' then [''/tmp''] else [])"
    "\<forall>e \<in> set (sn_env sn). validate_env F e = Inr () \<and> \<not> names_socket (fst e) \<and> \<not> names_socket (snd e)"
    "\<forall>m \<in> set (sn_extra_mounts sn). mountable (sm_host m) (sm_container m) \<and> sm_read_only m"
proof -
  note d = gitleaks_def osv_with_proxy_def osv_inner_def semgrep_def
  from assms show "validate_pinned_image F (sn_image sn) = Inr ()"
    by (auto simp: live_scanner_def d scanner_images_valid)
  from assms show "validate_limits F (sn_limits sn) = Inr ()"
    by (auto simp: live_scanner_def d default_limits_valid semgrep_limits_valid)
  from assms show "0 < sn_timeout sn \<and> sn_timeout sn \<le> MAX_TIMEOUT_SECS" "sn_command sn \<noteq> []" "sn_entrypoint sn = Some ''sh''"
    by (auto simp: live_scanner_def d MAX_TIMEOUT_SECS_def)
  from assms show "(sn_image sn, sn_network sn) \<in> set APPROVED_SCANNER_EXECUTIONS"
    by (auto simp: live_scanner_def d approved_images)
  from assms show "\<forall>a \<in> set (sn_command sn). \<not> forbidden_arg a"
    unfolding live_scanner_def osv_with_proxy_def using commands_plain by blast
  from assms show "distinct (map fst (sn_env sn))" "sn_extra_tmpfs sn = (if sn_name sn = ''semgrep'' then [''/tmp''] else [])"
    by (auto simp: live_scanner_def d)
  from assms show "\<forall>e \<in> set (sn_env sn). validate_env F e = Inr () \<and> \<not> names_socket (fst e) \<and> \<not> names_socket (snd e)"
    unfolding live_scanner_def using osv_env_valid
    by (elim disjE exE conjE) (simp add: gitleaks_def, blast, simp add: semgrep_def home_valid)
  from assms show "\<forall>m \<in> set (sn_extra_mounts sn). mountable (sm_host m) (sm_container m) \<and> sm_read_only m"
    by (auto simp: live_scanner_def d)
qed

lemma mounts_ok:
  assumes "live_scanner sn" "mountable (si_source_dir inp) ''/scan''" "m \<in> set (mounts inp @ sn_extra_mounts sn)"
  shows "validate_mount m = Inr () \<and> \<not> source_sensitive (sm_host m) \<and> \<not> names_socket (sm_host m)"
proof -
  have "mountable (sm_host m) (sm_container m) \<and> sm_read_only m"
    using assms(2,3) live_scanner_facts(11)[OF assms(1)] by (auto simp: mounts_def SCAN_MOUNT_def)
  moreover have "m = \<lparr>sm_host = sm_host m, sm_container = sm_container m, sm_read_only = True\<rparr>"
    if "sm_read_only m" using that by (cases m) simp
  ultimately show ?thesis unfolding mountable_def by metis
qed

lemma scan_spec_valid:
  assumes "live_scanner sn" "mountable (si_source_dir inp) ''/scan''"
  shows "validate_spec F (scan_spec inp sn) = Inr ()"
proof -
  note facts = live_scanner_facts[OF assms(1)]
  have tmp: "\<forall>p \<in> set (sp_extra_tmpfs (scan_spec inp sn)). validate_tmpfs_path F p = Inr ()"
    using facts(9) tmp_valid by (simp add: spec_tmpfs)
  show ?thesis unfolding validate_spec_parts
    using facts entrypoint_sh_valid mounts_ok[OF assms] tmp by (simp add: spec_fields spec_env)
qed

lemma scan_spec_policy:
  assumes "formats_ok F" "live_scanner sn" "mountable (si_source_dir inp) ''/scan''"
  shows "enforce_execution_policy F (scan_spec inp sn) = Inr ()"
proof -
  note facts = live_scanner_facts[OF assms(2)]
  have tmp: "\<forall>p \<in> set (sp_extra_tmpfs (scan_spec inp sn)). \<not> names_socket p"
    using facts(9) tmp_valid by (simp add: spec_tmpfs)
  have "socket_free (scan_spec inp sn)"
    using tmp mounts_ok[OF assms(2,3)] facts(10)[of F] unfolding socket_free_def
    by (simp add: spec_fields spec_env[OF facts(8)] case_prod_unfold)
  then show ?thesis unfolding enforce_iff[OF assms(1) scan_spec_valid[OF assms(2,3)]]
    using facts mounts_ok[OF assms(2,3)] by (simp add: spec_fields)
qed

text \<open>C37. From the descriptor to the daemon: the specification of each of the three scanners over a
  mountable snapshot passes the worker's validation and execution policy; the create request the client
  makes of it is accepted by the authorization plugin for the secret and the dependency scanner, when
  no mount lies in a tree only the plugin protects, and refused for the static-analysis scanner in any
  case, because of its scratch path.\<close>

theorem scan_admission:
  assumes "formats_ok F" "live_scanner sn" "mountable (si_source_dir inp) ''/scan''" "uuid_shape uuid"
    "client_create (scan_spec inp sn) (container_name uuid) uri obj"
  shows "validate_spec F (scan_spec inp sn) = Inr () \<and> enforce_execution_policy F (scan_spec inp sn) = Inr ()
    \<and> (check_spec uri obj = Inr () \<longleftrightarrow> sn_name sn \<noteq> ''semgrep''
         \<and> \<not> (\<exists>d \<in> set PLUGIN_ONLY_TREES. prefix d (host_segs (si_source_dir inp))))"
proof -
  note valid = scan_spec_valid[OF assms(2,3)] and policy = scan_spec_policy[OF assms(1-3)]
  note facts = live_scanner_facts[OF assms(2)]
  have extra: "sn_name sn \<noteq> ''semgrep'' \<Longrightarrow> sn_extra_mounts sn = []"
    using assms(2) by (auto simp: live_scanner_def gitleaks_def osv_with_proxy_def osv_inner_def semgrep_def)
  have tmp: "(\<forall>p \<in> set (sp_extra_tmpfs (scan_spec inp sn)). p = ''/work'' \<or> prefix ''/work/'' p) \<longleftrightarrow> sn_name sn \<noteq> ''semgrep''"
    using facts(9) by (simp add: spec_tmpfs)
  have "check_spec uri obj = Inr () \<longleftrightarrow> sn_name sn \<noteq> ''semgrep''
         \<and> \<not> (\<exists>d \<in> set PLUGIN_ONLY_TREES. prefix d (host_segs (si_source_dir inp)))"
    unfolding worker_plugin_agree_iff[OF assms(1) valid policy assms(4,5)] tmp spec_fields
    using extra by (auto simp: mounts_def)
  with valid policy show ?thesis by simp
qed

definition scan_host_config :: obj where
  "scan_host_config =
     [(''Binds'', JArr [JStr ''/srv/scans/a:/scan:ro'']), (''CapDrop'', JArr [JStr ''ALL'']),
      (''NetworkMode'', JStr ''none''), (''Privileged'', JBool False), (''ReadonlyRootfs'', JBool True),
      (''RestartPolicy'', JObj [(''MaximumRetryCount'', JNum (PosInt 0)), (''Name'', JStr ''no'')]),
      (''SecurityOpt'', JArr [JStr ''no-new-privileges'']),
      (''Tmpfs'', JObj [(''/work'', JStr ''rw,noexec,nosuid,nodev,size=64m'')])]"

definition scan_body :: obj where
  "scan_body =
    [(''Cmd'', JArr (map JStr (sn_command gitleaks))), (''Entrypoint'', JArr [JStr ''sh'']),
     (''HostConfig'', JObj scan_host_config), (''Image'', JStr ''ghcr.io/gitleaks/gitleaks:v8.18.4''),
     (''User'', JStr ''65534:65534'')]"

lemma gitleaks_fields: "sn_image gitleaks = ''ghcr.io/gitleaks/gitleaks:v8.18.4''" "sn_entrypoint gitleaks = Some ''sh''"
    "sn_network gitleaks = NetNone" "sn_extra_mounts gitleaks = []" "sn_extra_tmpfs gitleaks = []"
    "sn_name gitleaks = ''gitleaks''" "sn_parser gitleaks = GITLEAKS_PARSER"
  by (simp_all add: gitleaks_def)

lemma scan_host_config_ok: "client_host_config (scan_spec (from_dir ''/srv/scans/a'') gitleaks) scan_host_config"
  by (simp add: client_host_config_def scan_host_config_def spec_fields spec_tmpfs gitleaks_fields mounts_def
    from_dir_def as_docker_spec_def SCAN_MOUNT_def absent_or_empty_def WORK_DIR_def tmpfs_options_def
    WORK_TMPFS_SIZE_def)

lemma scan_client_create: "client_create (scan_spec (from_dir ''/srv/scans/a'') gitleaks) (container_name sample_uuid)
    ''/containers/create?name=firecrow-scan-01234567-89ab-cdef-0123-456789abcdef'' scan_body"
proof -
  have name: "query_param ''/containers/create?name=firecrow-scan-01234567-89ab-cdef-0123-456789abcdef'' ''name''
      = Some (container_name sample_uuid)" by code_simp
  show ?thesis
    unfolding client_create_def name spec_fields gitleaks_fields
    using scan_host_config_ok by (simp add: scan_body_def SANDBOX_UID_def)
qed

lemma scan_mountable: "mountable (si_source_dir (from_dir ''/srv/scans/a'')) ''/scan''"
  by code_simp

theorem scan_admission_witness:
  "check_spec ''/containers/create?name=firecrow-scan-01234567-89ab-cdef-0123-456789abcdef'' scan_body = Inr ()"
proof -
  have "live_scanner gitleaks" by (simp add: live_scanner_def)
  moreover have "uuid_shape sample_uuid"
    "\<not> (\<exists>d \<in> set PLUGIN_ONLY_TREES. prefix d (host_segs (si_source_dir (from_dir ''/srv/scans/a''))))"
    by code_simp+
  moreover have "sn_name gitleaks \<noteq> ''semgrep''" by (simp add: gitleaks_def)
  ultimately show ?thesis
    using scan_admission[OF sample_formats_ok _ scan_mountable _ scan_client_create] by blast
qed

section \<open>A flood of output\<close>

text \<open>C40. A secret scan whose output breaches the cap can be reported as clean: when the process has exited
  with status zero and its standard error has ended before the breach is seen, the sandbox returns an
  empty output and the scan is a success with no findings, where the contract asks for a failure.\<close>

theorem flood_reported_clean:
  assumes "formats_ok F" "mountable (si_source_dir inp) ''/scan''" "rt_mode rt = Container"
    "\<not> rt_cancel_before rt" "\<not> rt_cancel_after rt"
    "validate_docker_cli_version (ho_probe (rt_sandbox rt)) = Inr ()" "ho_spawn_error (rt_sandbox rt) = None"
    "ho_pipes (rt_sandbox rt)"
    "ho_events (rt_sandbox rt) = [Exited True, StderrDone (Inr s), StdoutDone (Inl (OutputLimitExceeded stream cap))]"
  shows "\<exists>r. run_secret_scan E F uuid rt inp = Some r \<and> res_outcome r = Success 0 \<and> res_findings r = []"
proof -
  have live: "live_scanner gitleaks" by (simp add: live_scanner_def)
  have empty: "from_utf8_lossy [] = []" by code_simp
  have run: "backend_run F rt gitleaks inp = Some (Inr \<lparr>so_stdout = [], so_stderr = from_utf8_lossy s, so_success = True\<rparr>)"
    by (simp add: backend_run_def assms(3) empty
        output_cap_lost[OF scan_spec_valid[OF live assms(2)] scan_spec_policy[OF assms(1) live assms(2)] assms(6-9)])
  have "parse_gitleaks_report E [] = Inr []" by (simp add: parse_gitleaks_report_def)
  then have "classify_gitleaks E uuid gitleaks inp \<lparr>so_stdout = [], so_stderr = from_utf8_lossy s, so_success = True\<rparr>
      = success_result E gitleaks inp [] [count_note ([] :: gitleaks_finding list)]"
    by (simp add: classify_gitleaks_def no_report_def stamp_def)
  moreover have "sn_parser gitleaks = GITLEAKS_PARSER" by (simp add: gitleaks_def)
  ultimately show ?thesis
    by (simp add: run_secret_scan_def execute_def assms(4,5) run classify_def success_result_def scan_result_def)
qed

theorem flood_reported_clean_witness:
  "\<exists>r. run_secret_scan plain_env plain_formats (\<lambda>_. ''id'')
      ((native_runtime (sandbox_host [Exited True, StderrDone (Inr []), StdoutDone (Inl (OutputLimitExceeded ''stdout'' 16777216))]) [])
        \<lparr>rt_mode := Container\<rparr>) (from_dir ''/srv/scans/a'') = Some r \<and> res_outcome r = Success 0 \<and> res_findings r = []"
  by (rule flood_reported_clean[OF sample_formats_ok scan_mountable])
    (simp_all add: native_runtime_def sandbox_host_def sample_probe)

end
