(* ===== verification/Scan_Contract.thy ===== *)
theory Scan_Contract
  imports Lifecycle Json_Value
begin

text \<open>
  The product contract of the scan pipeline (\<open>backend/src/schemas/scan_contract.rs\<close>): the
  documents handed from stage to stage, the normalisation of a raw scanner result into a
  canonical finding, deduplication, and the validators of findings, scan results and report
  input.  Floating point values are kept as their 64 bits; line numbers (\<open>i64\<close>) are only
  compared and printed, so they are integers.
\<close>

section \<open>Documents\<close>

definition CONTRACT_VERSION :: "32 word" where
  "CONTRACT_VERSION = 1"

datatype scanner_kind = Gitleaks | Osv | Semgrep | OtherScanner

fun scanner_str :: "scanner_kind \<Rightarrow> string" where
  "scanner_str Gitleaks = ''gitleaks''"
| "scanner_str Osv = ''osv''"
| "scanner_str Semgrep = ''semgrep''"
| "scanner_str OtherScanner = ''other''"

datatype scanner_status = Ok | ScanFailed | TimedOut | Skipped

record scanner =
  sc_kind :: scanner_kind
  sc_name :: string
  sc_version :: string
  sc_mode :: string
  sc_image :: string

definition gitleaks :: scanner where
  "gitleaks = \<lparr>sc_kind = Gitleaks, sc_name = ''gitleaks'', sc_version = ''8.18.4'',
     sc_mode = ''secret'', sc_image = ''ghcr.io/gitleaks/gitleaks:v8.18.4''\<rparr>"

record scanner_run =
  run_scanner :: scanner_kind
  run_status :: scanner_status
  run_detail :: json
  run_raw_count :: "64 word"

record raw_finding =
  raw_scanner :: scanner_kind
  raw_rule_id :: string
  raw_file :: string
  raw_line :: int
  raw_snippet :: string

record provenance =
  prov_scanner :: scanner_kind
  prov_version :: string
  prov_snapshot :: string
  prov_rule_id :: string

record evidence =
  ev_file_path :: string
  ev_line_number :: int
  ev_snippet :: string
  ev_redacted :: bool

record finding =
  f_id :: string
  f_scanner :: scanner_kind
  f_severity :: string
  f_title :: string
  f_description :: string
  f_provenance :: provenance
  f_evidence :: evidence
  f_cwe_id :: "string option"
  f_owasp :: "string option"
  f_cvss :: "64 word option"

record report_finding =
  rf_id :: string
  rf_summary :: string
  rf_priority :: "32 word"

record dependency =
  dep_name :: string
  dep_version :: string
  dep_ecosystem :: string

record repo_snapshot =
  sn_url :: string
  sn_branch :: string
  sn_archive_sha256 :: string
  sn_tree_sha256 :: string
  sn_file_count :: "64 word"
  sn_total_bytes :: "64 word"

record repo_target =
  tg_url :: string
  tg_branch :: string

record scan_result =
  sr_version :: "32 word"
  sr_scan_id :: string
  sr_repository :: repo_target
  sr_snapshot :: repo_snapshot
  sr_state :: pipeline_state
  sr_runs :: "scanner_run list"
  sr_findings :: "finding list"
  sr_dependencies :: "dependency list"
  sr_error :: "string option"

datatype contract_error =
    UnsupportedVersion "32 word"
  | InvalidRepositoryUrl
  | InvalidSnapshotDigest
  | InvalidRawFinding string string
  | MissingProvenance
  | MissingEvidence
  | UnredactedEvidence
  | InconsistentResult string
  | PartialWithoutCause
  | InvalidReportInput string
  | SeverityChanged string string

section \<open>Repository targets and snapshots\<close>

definition is_segment_char :: "char \<Rightarrow> bool" where
  "is_segment_char c \<longleftrightarrow> is_alphanumeric c \<or> c = CHR ''.'' \<or> c = CHR ''_'' \<or> c = CHR ''-''"

definition valid_segment :: "string \<Rightarrow> bool" where
  "valid_segment s \<longleftrightarrow> s \<noteq> [] \<and> s \<noteq> ''.'' \<and> s \<noteq> ''..'' \<and> list_all is_segment_char s"

definition is_lower_hex_digest :: "string \<Rightarrow> bool" where
  "is_lower_hex_digest s \<longleftrightarrow> s \<noteq> [] \<and> length s mod 2 = 0 \<and> list_all is_lower_hex s"

definition GITHUB :: string where
  "GITHUB = ''https://github.com/''"

definition normalize_repository_url :: "string \<Rightarrow> contract_error + string" where
  "normalize_repository_url url =
     and_then (ok_or InvalidRepositoryUrl (strip_prefix GITHUB (trim url))) (\<lambda>tail.
       let rest0 = trim_end_matches (CHR ''/'') tail;
           rest = (case strip_suffix ''.git'' rest0 of Some r \<Rightarrow> r | None \<Rightarrow> rest0);
           parts = split_on (CHR ''/'') rest;
           owner = hd parts;
           repo = (if length parts > 1 then parts ! 1 else [])
       in if length parts > 2 \<or> \<not> valid_segment owner \<or> \<not> valid_segment repo
          then Inl InvalidRepositoryUrl
          else Inr (GITHUB @ owner @ ''/'' @ repo))"

definition parse_repository_target :: "string \<Rightarrow> string \<Rightarrow> contract_error + repo_target" where
  "parse_repository_target repository_url branch0 =
     and_then (normalize_repository_url repository_url) (\<lambda>normalized.
       let branch = trim branch0 in
       if branch = [] \<or> has_whitespace branch \<or> CHR ''/'' \<in> set branch
       then Inl InvalidRepositoryUrl
       else Inr \<lparr>tg_url = normalized, tg_branch = branch\<rparr>)"

definition validate_snapshot :: "repo_snapshot \<Rightarrow> contract_error + unit" where
  "validate_snapshot s =
     and_then (normalize_repository_url (sn_url s)) (\<lambda>_.
       if blank (sn_branch s) then Inl InvalidRepositoryUrl
       else if \<not> is_lower_hex_digest (sn_archive_sha256 s) \<or> \<not> is_lower_hex_digest (sn_tree_sha256 s)
       then Inl InvalidSnapshotDigest
       else Inr ())"

section \<open>Normalisation of raw findings\<close>

definition raw_location_valid :: "raw_finding \<Rightarrow> contract_error + unit" where
  "raw_location_valid raw =
     (let file = trim (raw_file raw); bad = (\<lambda>r. Inl (InvalidRawFinding (scanner_str (raw_scanner raw)) r))
      in if file = [] \<or> prefix ''/'' file \<or> contains_str file ''..''
         then bad ''file must be a repository-relative path''
         else if raw_line raw \<le> 0 then bad ''line must be positive''
         else if blank (raw_snippet raw) then bad ''snippet must be non-empty''
         else Inr ())"

definition canonical_finding_id :: "raw_finding \<Rightarrow> string" where
  "canonical_finding_id raw =
     scanner_str (raw_scanner raw) @ ''|'' @ raw_rule_id raw @ ''|'' @ raw_file raw @ ''|''
     @ int_str (raw_line raw)"

definition scanner_severity :: "scanner_kind \<Rightarrow> string \<Rightarrow> string" where
  "scanner_severity k rule_id =
     (case k of Gitleaks \<Rightarrow> ''high''
      | Semgrep \<Rightarrow> if contains_str rule_id ''critical'' then ''critical'' else ''medium''
      | Osv \<Rightarrow> ''high''
      | OtherScanner \<Rightarrow> ''medium'')"

definition scanner_title :: "scanner_kind \<Rightarrow> string \<Rightarrow> string" where
  "scanner_title k rule_id =
     (case k of Gitleaks \<Rightarrow> ''Exposed secret: '' | Osv \<Rightarrow> ''Vulnerable dependency: ''
      | Semgrep \<Rightarrow> ''Static analysis finding: '' | OtherScanner \<Rightarrow> ''Scanner finding: '') @ rule_id"

definition scanner_description :: "scanner_kind \<Rightarrow> string \<Rightarrow> string" where
  "scanner_description k rule_id =
     (case k of Gitleaks \<Rightarrow> ''gitleaks rule '' | Osv \<Rightarrow> ''osv package ''
      | Semgrep \<Rightarrow> ''semgrep rule '' | OtherScanner \<Rightarrow> ''scanner rule '') @ rule_id"

definition scanner_cwe :: "scanner_kind \<Rightarrow> string \<Rightarrow> string option" where
  "scanner_cwe k rule_id =
     (case k of Gitleaks \<Rightarrow> Some ''CWE-798'' | Osv \<Rightarrow> Some ''CWE-1104''
      | Semgrep \<Rightarrow> Some (replace_str ''CWE-CWE-'' ''CWE-'' (''CWE-'' @ rule_id))
      | OtherScanner \<Rightarrow> None)"

definition scanner_owasp :: "scanner_kind \<Rightarrow> string option" where
  "scanner_owasp k =
     (case k of Gitleaks \<Rightarrow> Some ''A07:2021'' | Osv \<Rightarrow> Some ''A06:2021''
      | Semgrep \<Rightarrow> Some ''A03:2021'' | OtherScanner \<Rightarrow> None)"

definition normalize_raw_finding ::
  "raw_finding \<Rightarrow> repo_snapshot \<Rightarrow> string \<Rightarrow> contract_error + finding" where
  "normalize_raw_finding raw snapshot scanner_version =
     (let k = raw_scanner raw; bad = (\<lambda>r. Inl (InvalidRawFinding (scanner_str k) r)) in
      and_then (raw_location_valid raw) (\<lambda>_.
      and_then (validate_snapshot snapshot) (\<lambda>_.
        if blank (raw_rule_id raw) then bad ''rule_id must be non-empty''
        else if blank scanner_version then bad ''scanner_version must be non-empty''
        else Inr
          \<lparr>f_id = canonical_finding_id raw, f_scanner = k,
           f_severity = scanner_severity k (raw_rule_id raw),
           f_title = scanner_title k (raw_rule_id raw),
           f_description = scanner_description k (raw_rule_id raw),
           f_provenance = \<lparr>prov_scanner = k, prov_version = scanner_version,
             prov_snapshot = sn_tree_sha256 snapshot, prov_rule_id = raw_rule_id raw\<rparr>,
           f_evidence = \<lparr>ev_file_path = raw_file raw, ev_line_number = raw_line raw,
             ev_snippet = raw_snippet raw, ev_redacted = False\<rparr>,
           f_cwe_id = scanner_cwe k (raw_rule_id raw), f_owasp = scanner_owasp k,
           f_cvss = None\<rparr>)))"

definition dedupe_key :: "finding \<Rightarrow> string" where
  "dedupe_key f =
     scanner_str (f_scanner f) @ ''|'' @ prov_rule_id (f_provenance f) @ ''|''
     @ ev_file_path (f_evidence f) @ ''|'' @ int_str (ev_line_number (f_evidence f))"

definition dedupe_canonical_findings :: "finding list \<Rightarrow> finding list" where
  "dedupe_canonical_findings fs = keep_first dedupe_key {} fs"

section \<open>Validators\<close>

definition validate_canonical_finding :: "finding \<Rightarrow> contract_error + unit" where
  "validate_canonical_finding f =
     (if blank (f_id f) \<or> blank (f_title f) \<or> blank (f_description f) \<or> blank (f_severity f)
      then Inl MissingEvidence
      else if blank (prov_rule_id (f_provenance f)) \<or> blank (prov_snapshot (f_provenance f))
        \<or> blank (prov_version (f_provenance f))
      then Inl MissingProvenance
      else if blank (ev_file_path (f_evidence f)) \<or> ev_line_number (f_evidence f) \<le> 0
        \<or> blank (ev_snippet (f_evidence f))
      then Inl MissingEvidence
      else if \<not> ev_redacted (f_evidence f) then Inl UnredactedEvidence
      else Inr ())"

definition require_redacted_evidence :: "evidence \<Rightarrow> contract_error + unit" where
  "require_redacted_evidence e =
     (if blank (ev_snippet e) then Inl MissingEvidence
      else if \<not> ev_redacted e then Inl UnredactedEvidence
      else Inr ())"

definition failed_scanners :: "scanner_run list \<Rightarrow> string list" where
  "failed_scanners runs =
     map (\<lambda>r. scanner_str (run_scanner r)) (filter (\<lambda>r. run_status r \<in> {ScanFailed, TimedOut}) runs)"

definition or_empty :: "string option \<Rightarrow> string" where
  "or_empty x = (case x of Some s \<Rightarrow> s | None \<Rightarrow> [])"

definition validate_outcome :: "scan_result \<Rightarrow> contract_error + unit" where
  "validate_outcome r =
     (let failed = failed_scanners (sr_runs r);
          any_success = list_ex (\<lambda>run. run_status run = Ok) (sr_runs r) in
      case sr_state r of
        PCompleted \<Rightarrow>
          if failed \<noteq> [] then
            Inl (InconsistentResult ''completed scan must not contain failed scanners'')
          else if sr_runs r = [] then
            Inl (InconsistentResult ''completed scan requires at least one successful scanner run'')
          else if list_ex (\<lambda>run. run_status run \<noteq> Ok) (sr_runs r) then
            Inl (InconsistentResult ''completed scan requires every scanner run to succeed'')
          else Inr ()
      | PPartial \<Rightarrow>
          if failed = [] \<or> \<not> any_success then
            Inl (InconsistentResult ''partial scan requires one success and one scanner failure'')
          else if \<not> list_all (contains_str (or_empty (sr_error r))) failed then Inl PartialWithoutCause
          else Inr ()
      | PFailed \<Rightarrow>
          if blank (or_empty (sr_error r)) then
            Inl (InconsistentResult ''failed scan must carry an error'')
          else Inr ()
      | _ \<Rightarrow> Inr ())"

definition validate_scan_result :: "scan_result \<Rightarrow> contract_error + unit" where
  "validate_scan_result r =
     (if sr_version r \<noteq> CONTRACT_VERSION then Inl (UnsupportedVersion (sr_version r))
      else
        and_then (normalize_repository_url (tg_url (sr_repository r))) (\<lambda>_.
        and_then (validate_snapshot (sr_snapshot r)) (\<lambda>_.
          if tg_url (sr_repository r) \<noteq> sn_url (sr_snapshot r)
            \<or> tg_branch (sr_repository r) \<noteq> sn_branch (sr_snapshot r)
          then Inl (InconsistentResult ''repository target and snapshot disagree'')
          else
            and_then (validate_outcome r) (\<lambda>_.
              for_all_ok validate_canonical_finding (sr_findings r)))))"

text \<open>The first loop of the report check: the ids seen so far are the keys of \<open>expected\<close>.\<close>

fun collect_expected :: "string set \<Rightarrow> finding list \<Rightarrow> contract_error + string set" where
  "collect_expected expected [] = Inr expected"
| "collect_expected expected (f # fs) =
     and_then (validate_canonical_finding f) (\<lambda>_.
       if f_id f \<in> expected then Inl (InvalidReportInput (''duplicate finding id '' @ f_id f))
       else collect_expected (insert (f_id f) expected) fs)"

fun check_reported :: "string set \<Rightarrow> string set \<Rightarrow> report_finding list \<Rightarrow> contract_error + unit" where
  "check_reported expected seen [] = Inr ()"
| "check_reported expected seen (rf # rfs) =
     (if blank (rf_summary rf) then Inl (InvalidReportInput (''empty summary for '' @ rf_id rf))
      else if rf_id rf \<in> seen then Inl (InvalidReportInput (''duplicate report finding '' @ rf_id rf))
      else if rf_id rf \<notin> expected then Inl (InvalidReportInput (''unknown finding '' @ rf_id rf))
      else check_reported expected (insert (rf_id rf) seen) rfs)"

definition validate_report_input ::
  "finding list \<Rightarrow> report_finding list \<Rightarrow> contract_error + unit" where
  "validate_report_input findings report =
     (if findings = [] then
        Inl (InvalidReportInput ''report requires at least one canonical finding'')
      else
        and_then (collect_expected {} findings) (\<lambda>expected.
          if length report \<noteq> length findings then
            Inl (InvalidReportInput ''report must cover every canonical finding exactly once'')
          else check_reported expected {} report))"

definition check_report_severity_unchanged :: "string \<Rightarrow> string \<Rightarrow> contract_error + unit" where
  "check_report_severity_unchanged sev_from sev_to =
     (if blank sev_from \<or> blank sev_to then Inl (InvalidReportInput ''severity must be non-empty'')
      else if sev_from \<noteq> sev_to then Inl (SeverityChanged sev_from sev_to)
      else Inr ())"

end
