(* ===== verification/Contract_Props.thy ===== *)
theory Contract_Props
  imports Scan_Contract
begin

text \<open>
  What the product contract guarantees: canonical repository URLs, faithful normalisation
  that never passes for redacted, stable identities, and validators that mean what they say.
\<close>

section \<open>Canonical repository URLs\<close>

lemma segment_char_facts:
  "is_segment_char c \<Longrightarrow> is_visible c" "\<not> is_segment_char (CHR ''/'')"
  by (auto simp: is_segment_char_def is_alphanumeric_def is_digit_def in_range_def is_visible_def)

lemma valid_segment_facts:
  assumes "valid_segment s"
  shows "s \<noteq> []" "CHR ''/'' \<notin> set s" "is_visible (last s)"
  using assms segment_char_facts(2) segment_char_facts(1)[of "last s"]
  by (auto simp: valid_segment_def list_all_iff)

definition repo_url :: "string \<Rightarrow> string \<Rightarrow> string" where
  "repo_url owner repo = GITHUB @ owner @ ''/'' @ repo"

lemma trim_repo_url: "valid_segment repo \<Longrightarrow> trim (repo_url owner repo) = repo_url owner repo"
  by (rule trim_visible)
    (simp_all add: repo_url_def GITHUB_def valid_segment_facts is_visible_def[of "CHR ''h''"] in_range_def)

lemma normalize_repo_url:
  assumes "valid_segment owner" "valid_segment repo" "\<not> suffix ''.git'' repo"
  shows "normalize_repository_url (repo_url owner repo) = Inr (repo_url owner repo)"
proof -
  have sp: "strip_prefix GITHUB (trim (repo_url owner repo)) = Some (owner @ ''/'' @ repo)"
    unfolding trim_repo_url[OF assms(2)] strip_prefix_Some by (simp add: repo_url_def)
  have "last repo \<noteq> CHR ''/''"
    using valid_segment_facts(1,2)[OF assms(2)] last_in_set[of repo] by metis
  then have "last (owner @ ''/'' @ repo) \<noteq> CHR ''/''"
    using valid_segment_facts(1)[OF assms(2)] by simp
  then have te: "trim_end_matches (CHR ''/'') (owner @ ''/'' @ repo) = owner @ ''/'' @ repo"
    by (intro trim_end_matches_id) simp
  have "\<not> suffix ''.git'' (owner @ ''/'' @ repo)"
  proof
    assume "suffix ''.git'' (owner @ ''/'' @ repo)"
    then have "suffix ''.git'' ((owner @ ''/'') @ repo)" by simp
    with assms(3) obtain u where u: "''.git'' = u @ repo" "suffix u (owner @ ''/'')"
      unfolding suffix_append by blast
    then have "u \<noteq> []" using assms(3) by auto
    then have "last u = CHR ''/''" using u(2) by (auto simp: suffix_def last_append dest: arg_cong[of _ _ last])
    then have "CHR ''/'' \<in> set ''.git''" using u(1) \<open>u \<noteq> []\<close> last_in_set[of u] by (metis Un_iff set_append)
    then show False by simp
  qed
  then have ss: "strip_suffix ''.git'' (owner @ ''/'' @ repo) = None"
    by (simp add: strip_suffix_def)
  have "split_on (CHR ''/'') (owner @ ''/'' @ repo) = [owner, repo]"
    using valid_segment_facts[OF assms(1)] valid_segment_facts[OF assms(2)]
    by (simp add: split_on_append split_on_none)
  then show ?thesis
    using assms unfolding normalize_repository_url_def sp
    by (simp add: te ss Let_def repo_url_def del: append.simps)
qed

text \<open>Canonical repository URLs: an accepted URL becomes \<open>https://github.com/OWNER/REPO\<close> with two plain
  segments, so it can name nothing but a repository of that host; the canonical form is a fixed
  point unless the repository name itself still ends in \<open>.git\<close>, which only happens when the input
  ended in \<open>.git.git\<close>.\<close>

theorem repository_url_canonical:
  assumes "normalize_repository_url url = Inr u"
  shows "\<exists>owner repo. u = GITHUB @ owner @ ''/'' @ repo \<and> valid_segment owner \<and> valid_segment repo
     \<and> (normalize_repository_url u = Inr u \<or> suffix ''.git'' repo)"
proof -
  from assms obtain parts owner repo where
    "u = GITHUB @ owner @ ''/'' @ repo" "valid_segment owner" "valid_segment repo"
    by (auto simp: normalize_repository_url_def and_then_Inr Let_def split: if_splits)
  then show ?thesis using normalize_repo_url[of owner repo] by (auto simp: repo_url_def)
qed

theorem repository_url_canonical_witness:
  "\<exists>owner repo. GITHUB @ ''o/r.git'' = GITHUB @ owner @ ''/'' @ repo
     \<and> valid_segment owner \<and> valid_segment repo
     \<and> (normalize_repository_url (GITHUB @ ''o/r.git'') = Inr (GITHUB @ ''o/r.git'') \<or> suffix ''.git'' repo)"
  by (rule repository_url_canonical[of "'' https://github.com/o/r.git.git/ ''"]) code_simp

lemma git_git_not_fixed:
  "normalize_repository_url (GITHUB @ ''o/r.git.git'') = Inr (GITHUB @ ''o/r.git'')
   \<and> normalize_repository_url (GITHUB @ ''o/r.git'') = Inr (GITHUB @ ''o/r'')"
  by code_simp


section \<open>Normalisation is faithful and never passes for redacted\<close>

lemma not_blank_visible_prefix: "is_visible c \<Longrightarrow> \<not> blank (c # s)"
  by (rule blank_visible[of c]) simp_all

lemma digest_not_blank: "is_lower_hex_digest s \<Longrightarrow> \<not> blank s"
  by (cases s)
    (auto simp: is_lower_hex_digest_def intro!: not_blank_visible_prefix
      simp: is_lower_hex_def is_digit_def in_range_def is_visible_def)

lemma normalize_raw_Inr:
  assumes "normalize_raw_finding raw snapshot ver = Inr f"
  shows "f_id f = canonical_finding_id raw" "f_id f = dedupe_key f"
    "f_scanner f = raw_scanner raw" "f_severity f = scanner_severity (raw_scanner raw) (raw_rule_id raw)"
    "f_provenance f = \<lparr>prov_scanner = raw_scanner raw, prov_version = ver,
       prov_snapshot = sn_tree_sha256 snapshot, prov_rule_id = raw_rule_id raw\<rparr>"
    "f_evidence f = \<lparr>ev_file_path = raw_file raw, ev_line_number = raw_line raw,
       ev_snippet = raw_snippet raw, ev_redacted = False\<rparr>"
    "\<not> blank (f_id f)" "\<not> blank (f_title f)" "\<not> blank (f_description f)" "\<not> blank (f_severity f)"
    "\<not> blank (raw_rule_id raw)" "\<not> blank ver" "\<not> blank (sn_tree_sha256 snapshot)"
    "\<not> blank (raw_file raw)" "0 < raw_line raw" "\<not> blank (raw_snippet raw)"
proof -
  note n = assms[unfolded normalize_raw_finding_def Let_def and_then_Inr]
  from n have loc: "raw_location_valid raw = Inr ()" and snap: "validate_snapshot snapshot = Inr ()"
    by auto
  from n show "f_id f = canonical_finding_id raw" "f_id f = dedupe_key f"
    "f_scanner f = raw_scanner raw" "f_severity f = scanner_severity (raw_scanner raw) (raw_rule_id raw)"
    "f_provenance f = \<lparr>prov_scanner = raw_scanner raw, prov_version = ver,
       prov_snapshot = sn_tree_sha256 snapshot, prov_rule_id = raw_rule_id raw\<rparr>"
    "f_evidence f = \<lparr>ev_file_path = raw_file raw, ev_line_number = raw_line raw,
       ev_snippet = raw_snippet raw, ev_redacted = False\<rparr>"
    "\<not> blank (raw_rule_id raw)" "\<not> blank ver"
    by (auto simp: dedupe_key_def canonical_finding_id_def split: if_splits)
  from snap show "\<not> blank (sn_tree_sha256 snapshot)"
    by (auto simp: validate_snapshot_def and_then_Inr digest_not_blank split: if_splits)
  from loc show "\<not> blank (raw_file raw)" "0 < raw_line raw" "\<not> blank (raw_snippet raw)"
    by (auto simp: raw_location_valid_def Let_def blank_def split: if_splits)
  have vis: "\<not> blank (CHR ''g'' # s)" "\<not> blank (CHR ''o'' # s)" "\<not> blank (CHR ''s'' # s)"
    "\<not> blank (CHR ''E'' # s)" "\<not> blank (CHR ''V'' # s)" "\<not> blank (CHR ''S'' # s)"
    "\<not> blank (CHR ''h'' # s)" "\<not> blank (CHR ''c'' # s)" "\<not> blank (CHR ''m'' # s)" for s
    by (rule not_blank_visible_prefix, simp add: is_visible_def in_range_def)+
  from n show "\<not> blank (f_id f)" "\<not> blank (f_title f)" "\<not> blank (f_description f)" "\<not> blank (f_severity f)"
    by (cases "raw_scanner raw"; auto simp: canonical_finding_id_def scanner_title_def
        scanner_description_def scanner_severity_def vis split: if_splits)+
qed

text \<open>Normalisation is faithful and waits for redaction: a normalised finding carries exactly the
  scanner, rule, file, line and snippet of the raw result, the snapshot's tree digest and the scanner's
  own severity, its id is the key it is deduplicated by, it is rejected as unredacted as it stands,
  and it passes the validator exactly when a non-blank redacted snippet is put in its place.\<close>

theorem normalized_faithful_unredacted:
  assumes "normalize_raw_finding raw snapshot ver = Inr f"
  shows "f_provenance f = \<lparr>prov_scanner = raw_scanner raw, prov_version = ver,
       prov_snapshot = sn_tree_sha256 snapshot, prov_rule_id = raw_rule_id raw\<rparr>
     \<and> ev_file_path (f_evidence f) = raw_file raw \<and> ev_line_number (f_evidence f) = raw_line raw
     \<and> ev_snippet (f_evidence f) = raw_snippet raw
     \<and> f_severity f = scanner_severity (raw_scanner raw) (raw_rule_id raw)
     \<and> f_id f = dedupe_key f
     \<and> validate_canonical_finding f = Inl UnredactedEvidence
     \<and> (validate_canonical_finding
           (f\<lparr>f_evidence := (f_evidence f)\<lparr>ev_snippet := s, ev_redacted := b\<rparr>\<rparr>) = Inr ()
         \<longleftrightarrow> b \<and> \<not> blank s)"
  using normalize_raw_Inr[OF assms] by (simp add: validate_canonical_finding_def)

definition sample_snapshot :: repo_snapshot where
  "sample_snapshot = \<lparr>sn_url = ''https://github.com/o/r'', sn_branch = ''main'',
     sn_archive_sha256 = ''ab12'', sn_tree_sha256 = ''cd34'', sn_file_count = 3, sn_total_bytes = 99\<rparr>"

definition sample_raw_finding :: raw_finding where
  "sample_raw_finding = \<lparr>raw_scanner = Gitleaks, raw_rule_id = ''aws-key'', raw_file = ''src/a.py'',
     raw_line = 7, raw_snippet = ''AKIA''\<rparr>"

definition sample_normalized :: finding where
  "sample_normalized = \<lparr>f_id = ''gitleaks|aws-key|src/a.py|7'', f_scanner = Gitleaks, f_severity = ''high'',
     f_title = ''Exposed secret: aws-key'', f_description = ''gitleaks rule aws-key'',
     f_provenance = \<lparr>prov_scanner = Gitleaks, prov_version = ''8.18.4'', prov_snapshot = ''cd34'',
       prov_rule_id = ''aws-key''\<rparr>,
     f_evidence = \<lparr>ev_file_path = ''src/a.py'', ev_line_number = 7, ev_snippet = ''AKIA'', ev_redacted = False\<rparr>,
     f_cwe_id = Some ''CWE-798'', f_owasp = Some ''A07:2021'', f_cvss = None\<rparr>"

lemma sample_raw_normalizes:
  "normalize_raw_finding sample_raw_finding sample_snapshot ''8.18.4'' = Inr sample_normalized"
  by code_simp

theorem normalized_faithful_unredacted_witness:
  "validate_canonical_finding sample_normalized = Inl UnredactedEvidence"
  using normalized_faithful_unredacted[OF sample_raw_normalizes] by blast

section \<open>Identities\<close>

lemma int_str_mem: "c \<in> set (int_str i) \<Longrightarrow> c = CHR ''-'' \<or> is_digit c"
  by (auto simp: int_str_def dest: nat_str_mem split: if_splits)

lemma bar_notin_int_str [simp]: "CHR ''|'' \<notin> set (int_str i)"
  using int_str_mem[of "CHR ''|''" i] by (auto simp: is_digit_def in_range_def)

lemma bar_notin_scanner [simp]: "CHR ''|'' \<notin> set (scanner_str k)"
  by (cases k) simp_all

lemma scanner_str_inject: "scanner_str k = scanner_str l \<longleftrightarrow> k = l"
  by (cases k; cases l) simp_all

lemma bar_prefix:
  "CHR ''|'' \<notin> set a \<Longrightarrow> CHR ''|'' \<notin> set b \<Longrightarrow> a @ CHR ''|'' # s = b @ CHR ''|'' # t \<longleftrightarrow> a = b \<and> s = t"
  by (metis option.inject prod.inject split_once_Some)

lemma bar_suffix:
  "CHR ''|'' \<notin> set a \<Longrightarrow> CHR ''|'' \<notin> set b \<Longrightarrow> s @ CHR ''|'' # a = t @ CHR ''|'' # b \<longleftrightarrow> a = b \<and> s = t"
  by (metis option.inject prod.inject rsplit_once_Some)

definition location_of :: "finding \<Rightarrow> scanner_kind \<times> string \<times> string \<times> int" where
  "location_of f = (f_scanner f, prov_rule_id (f_provenance f), ev_file_path (f_evidence f),
     ev_line_number (f_evidence f))"

lemma dedupe_key_inject:
  assumes "CHR ''|'' \<notin> set (prov_rule_id (f_provenance f))" "CHR ''|'' \<notin> set (prov_rule_id (f_provenance g))"
  shows "dedupe_key f = dedupe_key g \<longleftrightarrow> location_of f = location_of g"
  using assms
  by (auto simp: dedupe_key_def location_of_def bar_prefix bar_suffix scanner_str_inject)

lemma keep_first_cong:
  "(\<And>x y. x \<in> set xs \<Longrightarrow> y \<in> set xs \<Longrightarrow> (f x = f y) = (g x = g y)) \<Longrightarrow>
     S = f ` A \<Longrightarrow> T = g ` A \<Longrightarrow> (\<And>x y. x \<in> set xs \<Longrightarrow> y \<in> A \<Longrightarrow> (f x = f y) = (g x = g y)) \<Longrightarrow>
     keep_first f S xs = keep_first g T xs"
proof (induction xs arbitrary: S T A)
  case (Cons x xs)
  have mem: "f x \<in> S \<longleftrightarrow> g x \<in> T" using Cons.prems(2-4) by (auto simp: image_iff)
  show ?case
  proof (cases "f x \<in> S")
    case True
    then show ?thesis using mem Cons.IH[OF _ Cons.prems(2,3)] Cons.prems(1,4) by simp
  next
    case False
    have "keep_first f (insert (f x) S) xs = keep_first g (insert (g x) T) xs"
      by (rule Cons.IH[of _ "insert x A"]) (use Cons.prems in auto)
    then show ?thesis using mem False by simp
  qed
qed simp

text \<open>Deduplication keeps exactly one finding per location: when no rule id contains a bar, the result
  is the list of the first finding of every (scanner, rule, file, line), in order, so no location is
  lost, none is duplicated and running it again changes nothing.\<close>

theorem dedupe_by_location:
  assumes "\<forall>f \<in> set fs. CHR ''|'' \<notin> set (prov_rule_id (f_provenance f))"
  shows "dedupe_canonical_findings fs = keep_first location_of {} fs
     \<and> location_of ` set (dedupe_canonical_findings fs) = location_of ` set fs
     \<and> distinct (map location_of (dedupe_canonical_findings fs))
     \<and> dedupe_canonical_findings (dedupe_canonical_findings fs) = dedupe_canonical_findings fs"
proof -
  have "keep_first dedupe_key {} fs = keep_first location_of {} fs"
    by (rule keep_first_cong[where A = "{}"]) (use assms in \<open>auto simp: dedupe_key_inject\<close>)
  then show ?thesis
    by (simp add: dedupe_canonical_findings_def keep_first_keys keep_first_distinct keep_first_idem)
      (simp add: keep_first_idem[of dedupe_key] flip: \<open>keep_first dedupe_key {} fs = _\<close>)
qed

theorem dedupe_by_location_witness:
  "length (dedupe_canonical_findings [sample_normalized, sample_normalized\<lparr>f_title := ''again''\<rparr>]) = 1
   \<and> distinct (map location_of (dedupe_canonical_findings
        [sample_normalized, sample_normalized\<lparr>f_title := ''again''\<rparr>]))"
proof
  show "length (dedupe_canonical_findings [sample_normalized, sample_normalized\<lparr>f_title := ''again''\<rparr>]) = 1"
    by code_simp
  show "distinct (map location_of (dedupe_canonical_findings
        [sample_normalized, sample_normalized\<lparr>f_title := ''again''\<rparr>]))"
    using dedupe_by_location[of "[sample_normalized, sample_normalized\<lparr>f_title := ''again''\<rparr>]"]
    by (simp add: sample_normalized_def)
qed

text \<open>The bar is not escaped: two raw results that differ in rule and file can share one id, and
  deduplication then drops the second of two different detections.\<close>

theorem dedupe_collision:
  "\<exists>r1 r2 f1 f2. raw_rule_id r1 \<noteq> raw_rule_id r2 \<and> raw_file r1 \<noteq> raw_file r2
     \<and> normalize_raw_finding r1 sample_snapshot ''1'' = Inr f1
     \<and> normalize_raw_finding r2 sample_snapshot ''1'' = Inr f2
     \<and> dedupe_canonical_findings [f1, f2] = [f1]"
proof -
  let ?r1 = "\<lparr>raw_scanner = Semgrep, raw_rule_id = ''a|b'', raw_file = ''c'', raw_line = 1, raw_snippet = ''x''\<rparr>"
  let ?r2 = "\<lparr>raw_scanner = Semgrep, raw_rule_id = ''a'', raw_file = ''b|c'', raw_line = 1, raw_snippet = ''x''\<rparr>"
  let ?n = "\<lambda>r. case normalize_raw_finding r sample_snapshot ''1'' of Inr f \<Rightarrow> f | Inl _ \<Rightarrow> sample_normalized"
  have ok: "is_ok (normalize_raw_finding ?r1 sample_snapshot ''1'')"
    "is_ok (normalize_raw_finding ?r2 sample_snapshot ''1'')" by code_simp+
  then obtain f1 f2 where f: "normalize_raw_finding ?r1 sample_snapshot ''1'' = Inr f1"
    "normalize_raw_finding ?r2 sample_snapshot ''1'' = Inr f2" by (auto simp: is_ok_iff)
  have "canonical_finding_id ?r1 = canonical_finding_id ?r2" by (simp add: canonical_finding_id_def)
  then have "dedupe_key f1 = dedupe_key f2"
    using normalize_raw_Inr(1,2)[OF f(1)] normalize_raw_Inr(1,2)[OF f(2)] by simp
  then have "dedupe_canonical_findings [f1, f2] = [f1]" by (simp add: dedupe_canonical_findings_def)
  moreover have "raw_rule_id ?r1 \<noteq> raw_rule_id ?r2" "raw_file ?r1 \<noteq> raw_file ?r2" by simp_all
  ultimately show ?thesis using f by blast
qed


section \<open>Valid findings, results and reports\<close>

definition valid_finding :: "finding \<Rightarrow> bool" where
  "valid_finding f \<longleftrightarrow>
     (\<forall>s \<in> {f_id f, f_title f, f_description f, f_severity f}. \<not> blank s)
     \<and> (\<forall>s \<in> {prov_rule_id (f_provenance f), prov_snapshot (f_provenance f),
              prov_version (f_provenance f)}. \<not> blank s)
     \<and> \<not> blank (ev_file_path (f_evidence f)) \<and> 0 < ev_line_number (f_evidence f)
     \<and> \<not> blank (ev_snippet (f_evidence f)) \<and> ev_redacted (f_evidence f)"

lemma validate_finding_iff: "validate_canonical_finding f = Inr () \<longleftrightarrow> valid_finding f"
  by (auto simp: validate_canonical_finding_def valid_finding_def)

text \<open>The redaction gate asks of the evidence what the whole validator asks of it.\<close>

lemma require_redacted_iff:
  "require_redacted_evidence e = Inr () \<longleftrightarrow> \<not> blank (ev_snippet e) \<and> ev_redacted e"
  by (simp add: require_redacted_evidence_def)

definition honest_outcome :: "scan_result \<Rightarrow> bool" where
  "honest_outcome r \<longleftrightarrow>
     (sr_state r = PCompleted \<longrightarrow> sr_runs r \<noteq> [] \<and> (\<forall>x \<in> set (sr_runs r). run_status x = Ok))
     \<and> (sr_state r = PPartial \<longrightarrow>
          (\<exists>x \<in> set (sr_runs r). run_status x = Ok)
          \<and> (\<exists>x \<in> set (sr_runs r). run_status x \<in> {ScanFailed, TimedOut})
          \<and> (\<forall>x \<in> set (sr_runs r). run_status x \<in> {ScanFailed, TimedOut} \<longrightarrow>
               sublist (scanner_str (run_scanner x)) (or_empty (sr_error r))))
     \<and> (sr_state r = PFailed \<longrightarrow> (\<exists>e. sr_error r = Some e \<and> \<not> blank e))"

lemma validate_outcome_iff: "validate_outcome r = Inr () \<longleftrightarrow> honest_outcome r"
proof -
  have fs: "failed_scanners runs = [] \<longleftrightarrow> (\<forall>x \<in> set runs. run_status x \<notin> {ScanFailed, TimedOut})" for runs
    by (auto simp: failed_scanners_def filter_empty_conv)
  have names: "list_all (contains_str e) (failed_scanners runs) \<longleftrightarrow>
      (\<forall>x \<in> set runs. run_status x \<in> {ScanFailed, TimedOut} \<longrightarrow> sublist (scanner_str (run_scanner x)) e)"
    for e runs by (auto simp: failed_scanners_def list_all_iff contains_str_def)
  have err: "blank (or_empty x) \<longleftrightarrow> \<not> (\<exists>e. x = Some e \<and> \<not> blank e)" for x
    by (cases x) (simp_all add: or_empty_def)
  show ?thesis
  proof (cases "sr_state r")
    case PCompleted
    then show ?thesis
      by (auto simp: validate_outcome_def honest_outcome_def fs list_ex_iff)
  next
    case PPartial
    then show ?thesis
      by (auto simp: validate_outcome_def honest_outcome_def fs names list_ex_iff)
  next
    case PFailed
    then show ?thesis by (simp add: validate_outcome_def honest_outcome_def err)
  qed (simp_all add: validate_outcome_def honest_outcome_def)
qed


lemma collect_expected_Inr:
  "collect_expected S fs = Inr T \<longleftrightarrow>
     Ball (set fs) valid_finding \<and> distinct (map f_id fs) \<and> f_id ` set fs \<inter> S = {} \<and> T = S \<union> f_id ` set fs"
  by (induction fs arbitrary: S)
    (auto simp: and_then_Inr validate_finding_iff)

lemma check_reported_Inr:
  "check_reported E S rs = Inr () \<longleftrightarrow>
     (\<forall>x \<in> set rs. \<not> blank (rf_summary x)) \<and> distinct (map rf_id rs) \<and> rf_id ` set rs \<inter> S = {}
     \<and> rf_id ` set rs \<subseteq> E"
  by (induction rs arbitrary: S) auto

text \<open>A report covers the findings exactly: the input is accepted exactly when there are findings, all of
  them valid and with distinct ids, and the reported ids are a permutation of theirs, each with a
  summary; nothing is invented, dropped or repeated.\<close>

theorem report_input_iff:
  "validate_report_input fs rs = Inr () \<longleftrightarrow>
     fs \<noteq> [] \<and> list_all valid_finding fs \<and> distinct (map f_id fs)
     \<and> mset (map rf_id rs) = mset (map f_id fs) \<and> list_all (\<lambda>x. \<not> blank (rf_summary x)) rs"
proof -
  have perm: "length rs = length fs \<and> distinct (map rf_id rs) \<and> rf_id ` set rs \<subseteq> f_id ` set fs
      \<longleftrightarrow> mset (map rf_id rs) = mset (map f_id fs)" if d: "distinct (map f_id fs)"
  proof
    assume h: "length rs = length fs \<and> distinct (map rf_id rs) \<and> rf_id ` set rs \<subseteq> f_id ` set fs"
    then have "card (set (map rf_id rs)) = card (set (map f_id fs))"
      using distinct_card[OF d] distinct_card[of "map rf_id rs"] by simp
    then have "set (map rf_id rs) = set (map f_id fs)" using h by (intro card_subset_eq) auto
    then show "mset (map rf_id rs) = mset (map f_id fs)"
      using d h set_eq_iff_mset_eq_distinct by blast
  next
    assume m: "mset (map rf_id rs) = mset (map f_id fs)"
    have "length (map rf_id rs) = length (map f_id fs)" using m mset_eq_length by blast
    moreover have "distinct (map rf_id rs)" using m d mset_eq_imp_distinct_iff by blast
    moreover have "set (map rf_id rs) = set (map f_id fs)" using m mset_eq_setD by blast
    ultimately show "length rs = length fs \<and> distinct (map rf_id rs) \<and> rf_id ` set rs \<subseteq> f_id ` set fs"
      by simp
  qed
  show ?thesis
  proof (cases "distinct (map f_id fs)")
    case True
    then show ?thesis
      unfolding validate_report_input_def perm[OF True, symmetric]
      by (auto simp: and_then_Inr collect_expected_Inr check_reported_Inr list_all_iff)
  next
    case False
    then show ?thesis by (auto simp: validate_report_input_def and_then_Inr collect_expected_Inr)
  qed
qed

end
