(* ===== verification/Canonical_Audit.thy ===== *)
theory Canonical_Audit
  imports Canonical_Schema
begin

text \<open>
  Canonical multi-scanner normalisation (\<open>backend/src/orchestrator/canonical_audit.rs\<close>): the
  status and coverage of the scanner runs, the validation and identity of a finding, the
  deterministic order, grouping and counting of the valid findings, the numbering of the
  rejected ones, and the canonical audit built from them.
\<close>

section \<open>Scanner runs and coverage\<close>

definition KNOWN_SCANNERS :: "(string \<times> string) list" where
  "KNOWN_SCANNERS = [(''gitleaks'', ''secret''), (''osv'', ''dependency''), (''semgrep'', ''sast'')]"

definition record_text :: "scanner_result \<Rightarrow> string \<Rightarrow> string" where
  "record_text r k =
     (case Option.bind (member (res_record r) k) as_str of Some s \<Rightarrow> s | None \<Rightarrow> [])"

definition canonical_status :: "scanner_result \<Rightarrow> canonical_status" where
  "canonical_status r =
     (case res_outcome r of
        Success n \<Rightarrow> if n = 0 then SuccessClean else SuccessFindings n
      | RunFailed reason \<Rightarrow>
          if record_text r ''detail'' = ''no_files_analyzed'' then NoFilesAnalyzed reason
          else StatusFailed reason
      | Timeout secs \<Rightarrow> StatusTimeout secs
      | RunCancelled \<Rightarrow> StatusCancelled)"

definition run_limitations :: "scanner_result \<Rightarrow> canonical_status \<Rightarrow> string list" where
  "run_limitations r status =
     (if \<not> coverage_known status
      then [''scanner '' @ res_scanner r @ '' did not analyze the repository ('' @ status_str status @ '')'']
      else [])
     @ (if res_scanner r = ''semgrep'' then
          (case Option.bind (member (res_record r) ''rejected_count'') as_u64 of
             Some rejected \<Rightarrow>
               if rejected > 0 then
                 [''scanner semgrep excluded '' @ nat_str (unat rejected)
                  @ '' detections with invalid locations'']
               else []
           | None \<Rightarrow> [])
        else [])"

definition status_detail :: "canonical_status \<Rightarrow> string option" where
  "status_detail s =
     (case s of StatusFailed reason \<Rightarrow> Some reason | NoFilesAnalyzed reason \<Rightarrow> Some reason
      | StatusTimeout secs \<Rightarrow> Some (''timeout after '' @ nat_str secs @ ''s'')
      | StatusCancelled \<Rightarrow> Some ''cancelled''
      | _ \<Rightarrow> None)"

definition canonical_run_of :: "scanner_result \<Rightarrow> canonical_run" where
  "canonical_run_of r =
     (let status = canonical_status r in
      \<lparr>cr_scanner = res_scanner r, cr_version = res_version r, cr_parser = record_text r ''parser'',
       cr_mode = record_text r ''mode'', cr_image = record_text r ''image'', cr_status = status,
       cr_finding_count = status_finding_count status, cr_coverage_known = coverage_known status,
       cr_detail = status_detail status, cr_limitations = run_limitations r status\<rparr>)"

definition canonical_scanner_runs :: "scanner_result list \<Rightarrow> canonical_run list" where
  "canonical_scanner_runs results = sort_key cr_scanner (map canonical_run_of results)"

definition canonical_coverage :: "canonical_run list \<Rightarrow> coverage" where
  "canonical_coverage runs =
     (let successful = map cr_scanner (filter cr_coverage_known runs);
          failed = filter (\<lambda>r. \<not> cr_coverage_known r) runs;
          status = (if length successful = length runs then Complete
                    else if successful = [] then Absent else PartialCoverage)
      in \<lparr>cov_status = status, cov_complete = (status = Complete),
          cov_successful = sort successful,
          cov_unsuccessful = bt_of_list (map (\<lambda>r. (cr_scanner r, status_str (cr_status r))) failed),
          cov_limitations = bt_set (concat (map cr_limitations runs))\<rparr>)"

section \<open>Validation of a finding\<close>

record normalized =
  nf_finding :: audit_finding
  nf_metadata :: metadata
  nf_canonical_id :: string
  nf_native_id :: string
  nf_provenance :: audit_provenance
  nf_location :: location
  nf_evidence_kind :: evidence_kind
  nf_evidence_text :: string
  nf_evidence_truncated :: bool

definition trimmed_nonempty :: "string option \<Rightarrow> string option" where
  "trimmed_nonempty x = Option.bind x (\<lambda>s. let t = trim s in if t = [] then None else Some t)"

definition required_text :: "metadata \<Rightarrow> string \<Rightarrow> string + string" where
  "required_text m k =
     ok_or (''finding metadata has no '' @ k) (trimmed_nonempty (Option.bind (bt_get m k) as_str))"

definition finding_provenance :: "audit_finding \<Rightarrow> metadata \<Rightarrow> string option \<Rightarrow> string + audit_provenance" where
  "finding_provenance f m snapshot_commit =
     and_then (required_text m ''scanner_version'') (\<lambda>version.
     and_then (required_text m ''parser'') (\<lambda>parser.
     and_then (required_text m ''scanner_image'') (\<lambda>image.
     and_then (native_rule_id m) (\<lambda>rule_id.
     and_then (native_fingerprint m) (\<lambda>fp.
     and_then (map_err ''finding snapshot commit is invalid''
         (validate_snapshot_commit
            (case Option.bind (bt_get m ''snapshot_commit'') as_str of
               Some s \<Rightarrow> Some s | None \<Rightarrow> snapshot_commit))) (\<lambda>snapshot.
       Inr \<lparr>ap_scanner = (case fd_scanner_name f of Some s \<Rightarrow> s | None \<Rightarrow> []), ap_version = version,
            ap_parser = parser, ap_image = image, ap_rule_id = rule_id, ap_fingerprint = fp,
            ap_snapshot = snapshot\<rparr>))))))"

definition metadata_number :: "metadata \<Rightarrow> string \<Rightarrow> string + int option" where
  "metadata_number m k =
     (case bt_get m k of
        None \<Rightarrow> Inr None
      | Some v \<Rightarrow>
          if is_null v then Inr None
          else map_sum id Some (ok_or (''finding metadata '' @ k @ '' is not an integer'') (as_i64 v)))"

definition check_columns ::
  "int \<Rightarrow> int option \<Rightarrow> int option \<Rightarrow> int option \<Rightarrow> string + unit" where
  "check_columns line start_column end_line end_column =
     (if (case start_column of Some c \<Rightarrow> c < 0 | None \<Rightarrow> False)
      then Inl ''finding start column is invalid''
      else if (case end_column of Some c \<Rightarrow> c < 0 | None \<Rightarrow> False)
      then Inl ''finding end column is invalid''
      else
        (case end_line of
           None \<Rightarrow> Inr ()
         | Some e \<Rightarrow>
             if e < line then Inl ''finding end line precedes start line''
             else if e = line \<and> (case (start_column, end_column) of
                 (Some s, Some c) \<Rightarrow> c \<noteq> 0 \<and> s \<noteq> 0 \<and> c < s | _ \<Rightarrow> False)
             then Inl ''finding end column precedes start column''
             else Inr ()))"

definition finding_location :: "audit_finding \<Rightarrow> metadata \<Rightarrow> string + location" where
  "finding_location f m =
     and_then (ok_or ''finding file is missing'' (fd_file_path f)) (\<lambda>path.
     and_then (map_err ''finding file is invalid'' (validate_repo_path path)) (\<lambda>file.
     and_then (ok_or ''finding line is invalid''
         (Option.bind (fd_line_number f) (\<lambda>l. if 0 < l then Some l else None))) (\<lambda>line.
     and_then (metadata_number m ''start_column'') (\<lambda>start_column.
     and_then (metadata_number m ''end_line'') (\<lambda>end_line.
     and_then (metadata_number m ''end_column'') (\<lambda>end_column.
     and_then (check_columns line start_column end_line end_column) (\<lambda>_.
       Inr \<lparr>loc_file = file, loc_line = line, loc_start_column = start_column,
            loc_end_line = end_line, loc_end_column = end_column\<rparr>)))))))"

definition check_evidence :: "audit_env \<Rightarrow> evidence_kind \<Rightarrow> string \<Rightarrow> string + unit" where
  "check_evidence E kind evidence =
     (if int (char_count evidence) > MAX_CANONICAL_EVIDENCE_CHARS
      then Inl ''finding evidence exceeds the canonical bound''
      else if kind = Secret then
        (if \<not> (contains_str evidence ''[REDACTED]'' \<or> contains_str evidence ''[BASE64_REDACTED]'')
         then Inl ''secret evidence has no redaction marker'' else Inr ())
      else if env_credential E evidence
      then Inl ''evidence contains an unredacted credential shape''
      else Inr ())"

definition check_text :: "string \<Rightarrow> string \<Rightarrow> string + unit" where
  "check_text field v =
     (if blank v then Inl (''finding '' @ field @ '' is empty'')
      else if int (char_count v) > MAX_CANONICAL_TEXT_CHARS
      then Inl (''finding '' @ field @ '' exceeds the canonical bound'')
      else Inr ())"

definition check_metadata_size :: "audit_env \<Rightarrow> metadata \<Rightarrow> string + unit" where
  "check_metadata_size E m =
     (let sorted = sort_json (JObj m) in
      if int (length (env_print E sorted)) > MAX_CANONICAL_METADATA_BYTES
      then Inl ''finding metadata exceeds the canonical bound''
      else if list_ex (env_credential E) (metadata_strings sorted)
      then Inl ''finding metadata contains an unredacted credential shape''
      else Inr ())"

definition parse_reference :: "json \<Rightarrow> string + reference" where
  "parse_reference v =
     and_then (ok_or ''finding reference type is invalid''
         (trimmed_nonempty (Option.bind (member v ''type'') as_str))) (\<lambda>t.
       if int (char_count t) > 32 then Inl ''finding reference type is too long''
       else
         and_then (ok_or ''finding reference URL is invalid''
             (trimmed_nonempty (Option.bind (member v ''url'') as_str))) (\<lambda>url.
           if int (char_count url) > MAX_CANONICAL_REFERENCE_URL_CHARS
           then Inl ''finding reference URL is too long''
           else if \<not> (prefix ''http://'' url \<or> prefix ''https://'' url)
           then Inl ''finding reference URL is invalid''
           else Inr \<lparr>ref_type = t, ref_url = url\<rparr>))"

text \<open>\<open>dedup_by\<close> drops an element that equals the last one kept.\<close>

fun dedup_adjacent :: "'a list \<Rightarrow> 'a list" where
  "dedup_adjacent (x # y # xs) =
     (if x = y then dedup_adjacent (x # xs) else x # dedup_adjacent (y # xs))"
| "dedup_adjacent xs = xs"

definition canonical_references :: "metadata \<Rightarrow> string + reference list" where
  "canonical_references m =
     (case bt_get m ''references'' of
        None \<Rightarrow> Inr []
      | Some v \<Rightarrow>
          and_then (ok_or ''finding references are invalid'' (as_array v)) (\<lambda>refs.
            if int (length refs) > MAX_CANONICAL_REFERENCES then Inl ''finding has too many references''
            else map_sum id (\<lambda>ps. dedup_adjacent (sort_key (\<lambda>r. (ref_url r, ref_type r)) ps))
                   (map_ok parse_reference refs)))"

section \<open>Identity\<close>

text \<open>\<open>json!\<close> of an \<open>i64\<close>.\<close>

definition json_i64 :: "int \<Rightarrow> json" where
  "json_i64 i = JNum (if 0 \<le> i then PosInt (word_of_int i) else NegInt (word_of_int i))"

definition json_opt :: "int option \<Rightarrow> json" where
  "json_opt x = (case x of Some i \<Rightarrow> json_i64 i | None \<Rightarrow> JNull)"

definition get_or_null :: "metadata \<Rightarrow> string \<Rightarrow> json" where
  "get_or_null m k = (case bt_get m k of Some v \<Rightarrow> v | None \<Rightarrow> JNull)"

definition IDENTITY_KEYS :: "string list" where
  "IDENTITY_KEYS = [''package'', ''installed_version'', ''ecosystem'', ''manifest'', ''advisory'', ''direct'']"

definition identity_payload ::
  "audit_env \<Rightarrow> string \<Rightarrow> string \<Rightarrow> string \<Rightarrow> location \<Rightarrow> metadata \<Rightarrow> audit_finding \<Rightarrow> (string \<times> json) list" where
  "identity_payload E scanner rule_id fp loc m f =
     bt_of_list
       ([(''v'', json_i64 (int CANONICAL_AUDIT_VERSION)), (''scanner'', JStr scanner),
         (''rule_id'', JStr rule_id), (''native_fingerprint'', JStr fp), (''file'', JStr (loc_file loc)),
         (''line'', json_i64 (loc_line loc)), (''start_column'', json_opt (loc_start_column loc)),
         (''end_line'', json_opt (loc_end_line loc)), (''end_column'', json_opt (loc_end_column loc))]
        @ map (\<lambda>k. (k, get_or_null m k)) IDENTITY_KEYS
        @ [(''evidence_sha256'',
            JStr (env_sha256_hex E (case fd_evidence f of Some s \<Rightarrow> s | None \<Rightarrow> [])))])"

definition audit_finding_id ::
  "audit_env \<Rightarrow> string \<Rightarrow> string \<Rightarrow> string \<Rightarrow> location \<Rightarrow> metadata \<Rightarrow> audit_finding \<Rightarrow> string" where
  "audit_finding_id E scanner rule_id fp loc m f =
     ''canonical-v1:'' @ env_sha256_hex E (env_print E (JObj (identity_payload E scanner rule_id fp loc m f)))"

definition canonical_identity :: "audit_env \<Rightarrow> audit_finding \<Rightarrow> string + string" where
  "canonical_identity E f =
     and_then (parse_metadata E f) (\<lambda>m.
     and_then (native_rule_id m) (\<lambda>rule_id.
     and_then (native_fingerprint m) (\<lambda>fp.
     and_then (ok_or ''finding has no scanner identity''
         (Option.bind (fd_scanner_name f) (\<lambda>s. if blank s then None else Some s))) (\<lambda>scanner.
     and_then (finding_location f m) (\<lambda>loc.
       Inr (audit_finding_id E scanner rule_id fp loc m f))))))"

definition evidence_kind_of :: "string \<Rightarrow> evidence_kind" where
  "evidence_kind_of scanner =
     (if scanner = ''gitleaks'' then Secret else if scanner = ''osv'' then Dependency
      else if scanner = ''semgrep'' then Source else UnknownKind)"

definition check_scanner :: "audit_finding \<Rightarrow> string + string" where
  "check_scanner f =
     (case (fd_scanner_name f, fd_scanner_mode f) of
        (Some scanner, Some mode) \<Rightarrow>
          if (scanner, mode) \<notin> set KNOWN_SCANNERS then Inl ''finding has an unknown scanner identity''
          else if fd_agent_source f \<noteq> scanner then Inl ''finding scanner identity mismatch''
          else Inr scanner
      | _ \<Rightarrow> Inl ''finding has no scanner identity'')"

definition check_texts :: "audit_finding \<Rightarrow> string + unit" where
  "check_texts f =
     (if blank (fd_title f) then Inl ''finding title is empty''
      else if blank (fd_description f) then Inl ''finding description is empty''
      else
        and_then (check_text ''title'' (fd_title f)) (\<lambda>_.
        and_then (check_text ''description'' (fd_description f)) (\<lambda>_.
          case fd_remediation f of Some r \<Rightarrow> check_text ''remediation'' r | None \<Rightarrow> Inr ())))"

definition normalize_finding :: "audit_env \<Rightarrow> string option \<Rightarrow> audit_finding \<Rightarrow> string + normalized" where
  "normalize_finding E snapshot_commit f =
     and_then (check_scanner f) (\<lambda>scanner.
     and_then (check_texts f) (\<lambda>_.
     and_then (parse_metadata E f) (\<lambda>m.
     and_then (check_metadata_size E m) (\<lambda>_.
     and_then (native_rule_id m) (\<lambda>rule_id.
     and_then (native_fingerprint m) (\<lambda>fp.
     and_then (finding_provenance f m snapshot_commit) (\<lambda>prov.
     and_then (finding_location f m) (\<lambda>loc.
     and_then (ok_or ''finding evidence is empty'' (trimmed_nonempty (fd_evidence f))) (\<lambda>evidence.
     and_then (check_evidence E (evidence_kind_of scanner) evidence) (\<lambda>_.
       Inr \<lparr>nf_finding = f, nf_metadata = m,
            nf_canonical_id = audit_finding_id E scanner rule_id fp loc m f,
            nf_native_id = scanner @ '':'' @ fp, nf_provenance = prov, nf_location = loc,
            nf_evidence_kind = evidence_kind_of scanner, nf_evidence_text = evidence,
            nf_evidence_truncated = contains_str evidence ''... [truncated]''\<rparr>))))))))))"

section \<open>Deduplication and the rejected findings\<close>

text \<open>The retained row of a group of duplicates: its smallest storage identifier, with the number of
  occurrences recorded in its metadata.\<close>

definition mark_duplicates :: "audit_env \<Rightarrow> nat \<Rightarrow> audit_finding \<Rightarrow> audit_finding" where
  "mark_duplicates E n f =
     (if n > 1 then
        (case Option.bind (Option.bind (fd_metadata_json f) (env_parse E)) as_object of
           Some m \<Rightarrow>
             f\<lparr>fd_metadata_json :=
                 Some (env_print E (JObj (bt_insert ''duplicate_occurrences'' (json_i64 (int n)) m)))\<rparr>
         | None \<Rightarrow> f)
      else f)"

definition invalid_of :: "audit_finding \<Rightarrow> string \<Rightarrow> invalid_finding" where
  "invalid_of f reason =
     \<lparr>inv_id = [], inv_scanner = fd_scanner_name f, inv_file = fd_file_path f, inv_reason = reason,
      inv_chars = map_option char_count (fd_evidence f)\<rparr>"

type_synonym invalid_key = "string \<times> string \<times> string \<times> nat"

definition key_of_invalid :: "invalid_finding \<Rightarrow> invalid_key" where
  "key_of_invalid x =
     ((case inv_scanner x of Some s \<Rightarrow> s | None \<Rightarrow> []), (case inv_file x of Some s \<Rightarrow> s | None \<Rightarrow> []),
      inv_reason x, (case inv_chars x of Some n \<Rightarrow> n | None \<Rightarrow> 0))"

definition invalid_id :: "audit_env \<Rightarrow> invalid_key \<Rightarrow> nat \<Rightarrow> string" where
  "invalid_id E key occurrence =
     (case key of (s, f, r, n) \<Rightarrow>
        ''invalid-v1:'' @ env_sha256_hex E
          (s @ ''|'' @ f @ ''|'' @ r @ ''|'' @ nat_str n @ ''|'' @ nat_str occurrence))"

fun number_invalid ::
  "audit_env \<Rightarrow> invalid_key option \<Rightarrow> nat \<Rightarrow> invalid_finding list \<Rightarrow> invalid_finding list" where
  "number_invalid E last_key occurrence [] = []"
| "number_invalid E last_key occurrence (x # xs) =
     (let key = key_of_invalid x;
          n = (if last_key = Some key then Suc occurrence else 0)
      in x\<lparr>inv_id := invalid_id E key n\<rparr> # number_invalid E (Some key) n xs)"

definition order_invalid :: "audit_env \<Rightarrow> invalid_finding list \<Rightarrow> invalid_finding list" where
  "order_invalid E xs = number_invalid E None 0 (sort_key key_of_invalid xs)"

record normalized_findings =
  ns_valid :: "normalized list"
  ns_invalid :: "invalid_finding list"
  ns_correlations :: nat
  ns_by_scanner :: "(string \<times> nat) list"
  ns_by_severity :: "(string \<times> nat) list"

definition classify ::
  "audit_env \<Rightarrow> string option \<Rightarrow> audit_finding list \<Rightarrow> (invalid_finding + normalized) list" where
  "classify E snapshot_commit fs =
     map (\<lambda>f. map_sum (invalid_of f) id (normalize_finding E snapshot_commit f)) fs"

definition representative :: "audit_env \<Rightarrow> normalized list \<Rightarrow> normalized" where
  "representative E g =
     (let r = hd (sort_key (\<lambda>n. fd_id (nf_finding n)) g)
      in r\<lparr>nf_finding := mark_duplicates E (length g) (nf_finding r)\<rparr>)"

definition normalize_findings ::
  "audit_env \<Rightarrow> string option \<Rightarrow> audit_finding list \<Rightarrow> normalized_findings" where
  "normalize_findings E snapshot_commit fs =
     (let results = classify E snapshot_commit fs;
          valid = sort_key nf_canonical_id (oks results);
          groups = map snd (group_by nf_canonical_id valid);
          deduplicated = sort_key nf_canonical_id (map (representative E) groups)
      in \<lparr>ns_valid = deduplicated,
          ns_invalid = order_invalid E (errs results),
          ns_correlations = length (filter (\<lambda>g. length g > 1) groups),
          ns_by_scanner = count_by (\<lambda>n. ap_scanner (nf_provenance n)) deduplicated,
          ns_by_severity = count_by (\<lambda>n. severity_str (fd_severity (nf_finding n))) deduplicated\<rparr>)"

section \<open>The canonical audit\<close>

definition confidence_source_of :: "audit_finding \<Rightarrow> confidence_source" where
  "confidence_source_of f =
     (case fd_scanner_name f of
        Some s \<Rightarrow> if s = ''gitleaks'' then ScannerDefault
                  else if fd_confidence f \<noteq> None then FromScanner else NoConfidence
      | None \<Rightarrow> NoConfidence)"

definition canonical_finding :: "audit_env \<Rightarrow> normalized \<Rightarrow> canonical_finding" where
  "canonical_finding E n =
     (let f = nf_finding n;
          m = (case parse_metadata E f of Inr m \<Rightarrow> m | Inl _ \<Rightarrow> []);
          refs = (case canonical_references m of Inr rs \<Rightarrow> rs | Inl _ \<Rightarrow> [])
      in \<lparr>cf_id = nf_canonical_id n, cf_agent_source = fd_agent_source f, cf_title = fd_title f,
          cf_description = fd_description f, cf_severity = fd_severity f,
          cf_confidence = fd_confidence f, cf_confidence_source = confidence_source_of f,
          cf_cwe_id = fd_cwe_id f, cf_owasp = fd_owasp f, cf_remediation = fd_remediation f,
          cf_provenance = nf_provenance n, cf_native_id = nf_native_id n,
          cf_location = nf_location n, cf_evidence = nf_evidence_text n,
          cf_evidence_kind = nf_evidence_kind n, cf_evidence_truncated = nf_evidence_truncated n,
          cf_references = refs,
          cf_metadata = bt_of_list (map (\<lambda>(k, v). (k, sort_json v)) m)\<rparr>)"

definition group_correlation :: "audit_env \<Rightarrow> string \<times> canonical_finding list \<Rightarrow> correlation option" where
  "group_correlation E entry =
     (case entry of (i, g) \<Rightarrow>
        (let persisted = (case g of
               f # _ \<Rightarrow> (case Option.bind (bt_get (cf_metadata f) ''duplicate_occurrences'') as_u64 of
                           Some n \<Rightarrow> unat n | None \<Rightarrow> 0)
             | [] \<Rightarrow> 0);
             occurrences = max (max (length g) persisted) 1
         in if occurrences > 1 \<or> length g > 1 then
              Some \<lparr>co_correlation_id = i, co_canonical_id = i, co_occurrences = occurrences,
                    co_provenance = List.map_filter (env_parse_provenance E)
                      (bt_set (map (\<lambda>f. env_print_provenance E (cf_provenance f)) g))\<rparr>
            else None))"

definition correlate_findings :: "audit_env \<Rightarrow> canonical_finding list \<Rightarrow> correlation list" where
  "correlate_findings E fs = List.map_filter (group_correlation E) (group_by cf_id fs)"

definition canonical_summary ::
  "coverage \<Rightarrow> (string \<times> nat) list \<Rightarrow> (string \<times> nat) list \<Rightarrow> nat \<Rightarrow> nat \<Rightarrow> 64 word option \<Rightarrow> summary" where
  "canonical_summary cov by_scanner by_severity invalid_count duplicate_groups score =
     (let n = sum_list (map snd by_scanner) in
      \<lparr>su_finding_count = n, su_valid_count = n, su_invalid_count = invalid_count,
       su_duplicate_groups = duplicate_groups, su_by_scanner = bt_of_list by_scanner,
       su_by_severity = by_severity, su_score = (if cov_complete cov then score else None)\<rparr>)"

record audit_request =
  rq_scan_id :: string
  rq_repository_url :: string
  rq_branch :: string
  rq_owner :: string
  rq_name :: string
  rq_snapshot_commit :: "string option"
  rq_file_count :: nat
  rq_total_size :: nat
  rq_results :: "scanner_result list"
  rq_findings :: "audit_finding list"
  rq_score :: "64 word option"

text \<open>The document of a request that passed the checks.\<close>

definition document_of :: "audit_env \<Rightarrow> audit_request \<Rightarrow> string option \<Rightarrow> audit_document" where
  "document_of E rq commit =
     (let runs = canonical_scanner_runs (rq_results rq);
          cov = canonical_coverage runs;
          ns = normalize_findings E commit (rq_findings rq);
          findings = map (canonical_finding E) (ns_valid ns)
      in \<lparr>ca_version = CANONICAL_AUDIT_VERSION, ca_scan_id = rq_scan_id rq,
          ca_repository_url = rq_repository_url rq, ca_branch = rq_branch rq,
          ca_owner = rq_owner rq, ca_name = rq_name rq, ca_snapshot_commit = commit,
          ca_file_count = rq_file_count rq, ca_total_size = rq_total_size rq, ca_runs = runs,
          ca_coverage = cov, ca_findings = findings,
          ca_correlations = correlate_findings E findings, ca_invalid = ns_invalid ns,
          ca_limitations = cov_limitations cov,
          ca_summary = canonical_summary cov (ns_by_scanner ns) (ns_by_severity ns)
            (length (ns_invalid ns)) (ns_correlations ns) (rq_score rq)\<rparr>)"

definition canonical_audit :: "audit_env \<Rightarrow> audit_request \<Rightarrow> audit_error + audit_document" where
  "canonical_audit E rq =
     (if blank (rq_scan_id rq) then Inl MissingScanId
      else if blank (rq_repository_url rq) then Inl MissingRepository
      else if rq_results rq = [] then Inl MissingScannerRuns
      else
        and_then (map_err MissingSnapshot (validate_snapshot_commit (rq_snapshot_commit rq))) (\<lambda>commit.
          let status = cov_status (canonical_coverage (canonical_scanner_runs (rq_results rq))) in
          if status \<noteq> Complete \<and> rq_score rq \<noteq> None
          then Inl (InconsistentScore (rq_score rq) (coverage_str status))
          else Inr (document_of E rq commit)))"

section \<open>The pipeline helpers\<close>

definition aggregate_scan_results ::
  "scanner_result list \<Rightarrow> audit_finding list \<times> coverage \<times> string option" where
  "aggregate_scan_results results =
     (let cov = canonical_coverage (canonical_scanner_runs results);
          findings = concat (map res_findings (filter usable results));
          detail = (if cov_complete cov \<or> cov_status cov = Absent then None
                    else Some (''partial coverage: '' @ join '', ''
                      (map (\<lambda>(s, st). s @ '' ('' @ st @ '')'') (cov_unsuccessful cov))))
      in (findings, cov, detail))"

record persisted =
  np_raw_count :: nat
  np_dropped_count :: nat
  np_valid :: "audit_finding list"
  np_invalid :: "invalid_finding list"
  np_duplicate_groups :: nat

definition retained_row :: "audit_env \<Rightarrow> (string \<times> audit_finding) list \<Rightarrow> audit_finding" where
  "retained_row E g = mark_duplicates E (length g) (hd (sort_key fd_id (map snd g)))"

definition normalize_findings_for_persist :: "audit_env \<Rightarrow> audit_finding list \<Rightarrow> persisted" where
  "normalize_findings_for_persist E fs =
     (let results = classify E None fs;
          valid = sort_key fst (map (\<lambda>n. (nf_canonical_id n, nf_finding n)) (oks results));
          groups = map snd (group_by fst valid);
          deduplicated = map (retained_row E) groups
      in \<lparr>np_raw_count = length fs, np_dropped_count = length fs - length deduplicated,
          np_valid = deduplicated, np_invalid = order_invalid E (errs results),
          np_duplicate_groups = length (filter (\<lambda>g. length g > 1) groups)\<rparr>)"

end
