(* ===== verification/Canonical_Props.thy ===== *)
theory Canonical_Props
  imports Canonical_Audit
begin

text \<open>
  What canonical normalisation guarantees: failure is never clean, the score needs complete
  coverage, counts agree with the findings they count, nothing is lost, the result does not
  depend on the order of its input, identities are made of detection facts, and the
  persisted form agrees with the audited one.
\<close>

section \<open>Coverage\<close>

lemma coverage_known_iff: "coverage_known (canonical_status r) \<longleftrightarrow> usable r"
  by (auto simp: coverage_known_def canonical_status_def usable_def is_success_def
      split: scanner_outcome.splits canonical_status.splits)

lemma canonical_run_simps [simp]:
  "cr_scanner (canonical_run_of r) = res_scanner r"
  "cr_coverage_known (canonical_run_of r) \<longleftrightarrow> usable r"
  "cr_status (canonical_run_of r) = canonical_status r"
  "cr_limitations (canonical_run_of r) = run_limitations r (canonical_status r)"
  by (simp_all add: canonical_run_of_def Let_def coverage_known_iff)

lemma length_filter_all: "length (filter P xs) = length xs \<longleftrightarrow> (\<forall>x \<in> set xs. P x)"
  by (metis filter_True filter_id_conv length_filter_less less_irrefl)

definition not_analyzed :: "scanner_result \<Rightarrow> string" where
  "not_analyzed r = ''scanner '' @ res_scanner r @ '' did not analyze the repository (''
     @ status_str (canonical_status r) @ '')''"

lemma set_runs: "set (canonical_scanner_runs results) = canonical_run_of ` set results"
  by (simp add: canonical_scanner_runs_def)

lemma coverage_status:
  assumes "results \<noteq> []"
  shows "cov_status (canonical_coverage (canonical_scanner_runs results)) =
      (if \<forall>r \<in> set results. usable r then Complete
       else if \<forall>r \<in> set results. \<not> usable r then Absent else PartialCoverage)"
proof -
  have "(\<forall>r \<in> set (canonical_scanner_runs results). cr_coverage_known r) \<longleftrightarrow> (\<forall>r \<in> set results. usable r)"
    "(\<forall>r \<in> set (canonical_scanner_runs results). \<not> cr_coverage_known r) \<longleftrightarrow> (\<forall>r \<in> set results. \<not> usable r)"
    unfolding set_runs by simp_all
  then show ?thesis
    unfolding canonical_coverage_def Let_def by (simp add: length_filter_all filter_empty_conv)
qed

lemma coverage_complete:
  "results \<noteq> [] \<Longrightarrow> cov_status (canonical_coverage (canonical_scanner_runs results)) = Complete
     \<longleftrightarrow> list_all usable results"
  "cov_complete (canonical_coverage runs) \<longleftrightarrow> cov_status (canonical_coverage runs) = Complete"
  by (simp_all add: coverage_status list_all_iff) (simp add: canonical_coverage_def Let_def)

text \<open>C20. Failure is never clean: coverage is complete exactly when every scanner succeeded and absent exactly
  when none did; a scanner is listed as successful exactly when one of its runs succeeded and as
  unsuccessful exactly when one did not, and every run that did not succeed is named in the
  limitations with its status.\<close>

theorem coverage_honest:
  assumes "results \<noteq> []"
  shows "let c = canonical_coverage (canonical_scanner_runs results) in
     (cov_status c = Complete \<longleftrightarrow> (\<forall>r \<in> set results. usable r))
     \<and> (cov_status c = Absent \<longleftrightarrow> (\<forall>r \<in> set results. \<not> usable r))
     \<and> (cov_complete c \<longleftrightarrow> cov_status c = Complete)
     \<and> set (cov_successful c) = res_scanner ` {r \<in> set results. usable r}
     \<and> fst ` set (cov_unsuccessful c) = res_scanner ` {r \<in> set results. \<not> usable r}
     \<and> not_analyzed ` {r \<in> set results. \<not> usable r} \<subseteq> set (cov_limitations c)"
proof -
  let ?c = "canonical_coverage (canonical_scanner_runs results)"
  have both: "\<not> ((\<forall>r \<in> set results. usable r) \<and> (\<forall>r \<in> set results. \<not> usable r))"
    using assms by (cases results) auto
  have lim: "not_analyzed r \<in> set (cov_limitations ?c)" if "r \<in> set results" "\<not> usable r" for r
  proof -
    have r: "not_analyzed r \<in> set (cr_limitations (canonical_run_of r))"
      unfolding canonical_run_simps run_limitations_def not_analyzed_def coverage_known_iff
        if_P[OF that(2)] set_append by (rule UnI1) simp
    have "set (cov_limitations ?c) = (\<Union>x \<in> set results. set (cr_limitations (canonical_run_of x)))"
      by (simp add: canonical_coverage_def Let_def set_runs)
    with r that(1) show ?thesis by blast
  qed
  have "set (filter cr_coverage_known (canonical_scanner_runs results))
      = canonical_run_of ` {r \<in> set results. usable r}"
    by (auto simp: set_runs)
  then have succ: "set (cov_successful ?c) = res_scanner ` {r \<in> set results. usable r}"
    unfolding canonical_coverage_def Let_def by (simp add: image_image)
  have "set (filter (\<lambda>r. \<not> cr_coverage_known r) (canonical_scanner_runs results))
      = canonical_run_of ` {r \<in> set results. \<not> usable r}"
    by (auto simp: set_runs)
  then have unsucc: "fst ` set (cov_unsuccessful ?c) = res_scanner ` {r \<in> set results. \<not> usable r}"
    unfolding canonical_coverage_def Let_def by (simp add: bt_of_list_keys image_image)
  show ?thesis
    unfolding Let_def coverage_status[OF assms] coverage_complete(2)
    using both lim succ unsucc by auto
qed

definition sample_result :: "string \<Rightarrow> scanner_outcome \<Rightarrow> scanner_result" where
  "sample_result name outcome = \<lparr>res_scanner = name, res_version = ''1'', res_mode = ''m'',
     res_outcome = outcome, res_findings = [], res_record = JNull\<rparr>"

text \<open>A small audit for the witnesses: the parser knows three texts, the printer writes one of them,
  and the hash is the identity.\<close>

definition sample_meta :: metadata where
  "sample_meta = [(''fingerprint'', JStr ''fp''), (''parser'', JStr ''p''), (''rule_id'', JStr ''aws-key''),
     (''scanner_image'', JStr ''img''), (''scanner_version'', JStr ''8'')]"

definition sample_marked :: metadata where
  "sample_marked = bt_insert ''duplicate_occurrences'' (json_i64 2) sample_meta"

definition sample_env :: audit_env where
  "sample_env = \<lparr>env_parse = (\<lambda>s. if s = ''M'' then Some (JObj sample_meta)
       else if s = ''N'' then Some (JObj sample_marked) else None),
     env_print = (\<lambda>_. ''N''), env_parse_provenance = (\<lambda>_. None), env_print_provenance = (\<lambda>_. ''P''),
     env_sha256_hex = (\<lambda>s. s), env_credential = (\<lambda>_. False)\<rparr>"

definition sample_finding :: "string \<Rightarrow> audit_finding" where
  "sample_finding i = \<lparr>fd_id = i, fd_agent_source = ''gitleaks'', fd_title = ''Key'', fd_description = ''A key'',
     fd_severity = High, fd_cvss_vector = None, fd_cvss_score = None, fd_evidence = Some ''k=[REDACTED]'',
     fd_remediation = None, fd_cwe_id = None, fd_owasp = None, fd_confidence = Some ''high'',
     fd_scanner_name = Some ''gitleaks'', fd_scanner_mode = Some ''secret'', fd_file_path = Some ''a.py'',
     fd_line_number = Some 3, fd_route = None, fd_metadata_json = Some ''M''\<rparr>"

definition sample_broken :: audit_finding where
  "sample_broken = (sample_finding ''c'')\<lparr>fd_line_number := None\<rparr>"

definition sample_request :: audit_request where
  "sample_request = \<lparr>rq_scan_id = ''s'', rq_repository_url = ''u'', rq_branch = ''main'', rq_owner = ''o'',
     rq_name = ''r'', rq_snapshot_commit = None, rq_file_count = 1, rq_total_size = 9,
     rq_results = [sample_result ''osv'' (Timeout 300), sample_result ''gitleaks'' (Success 3)],
     rq_findings = [sample_finding ''b'', sample_broken, sample_finding ''a''], rq_score = None\<rparr>"

lemma sample_audit: "is_ok (canonical_audit sample_env sample_request)"
  by (simp add: is_ok_def canonical_audit_def sample_request_def validate_snapshot_commit_def Let_def
      blank_visible[of "CHR ''s''"] blank_visible[of "CHR ''u''"] is_visible_def in_range_def)

lemma sample_normalizes: "is_ok (normalize_finding sample_env None (sample_finding i))"
  by code_simp

lemma sample_broken_rejected: "normalize_finding sample_env None sample_broken = Inl ''finding line is invalid''"
  by code_simp

theorem coverage_honest_witness:
  "cov_status (canonical_coverage (canonical_scanner_runs
     [sample_result ''osv'' (Timeout 300), sample_result ''gitleaks'' (Success 0)])) \<noteq> Complete"
  using coverage_honest[of "[sample_result ''osv'' (Timeout 300), sample_result ''gitleaks'' (Success 0)]"]
  by (simp add: Let_def sample_result_def usable_def is_success_def)



section \<open>Normalised findings\<close>

lemma oks_classify:
  "n \<in> set (oks (classify E c fs)) \<longleftrightarrow> (\<exists>f \<in> set fs. normalize_finding E c f = Inr n)"
proof (induction fs)
  case (Cons f fs)
  then show ?case by (cases "normalize_finding E c f") (auto simp: classify_def)
qed (simp add: classify_def)

lemma normalize_Inr_finding: "normalize_finding E c f = Inr n \<Longrightarrow> nf_finding n = f"
  by (auto simp: normalize_finding_def and_then_Inr)

definition valid_group :: "audit_env \<Rightarrow> string option \<Rightarrow> audit_finding list \<Rightarrow> string \<Rightarrow> normalized list" where
  "valid_group E c fs k = filter (\<lambda>n. nf_canonical_id n = k) (oks (classify E c fs))"

definition valid_ids :: "audit_env \<Rightarrow> string option \<Rightarrow> audit_finding list \<Rightarrow> string list" where
  "valid_ids E c fs = bt_set (map nf_canonical_id (oks (classify E c fs)))"

lemma group_nonempty: "k \<in> set (valid_ids E c fs) \<Longrightarrow> valid_group E c fs k \<noteq> []"
  by (auto simp: valid_ids_def valid_group_def filter_empty_conv)

lemma groups_eq:
  "map snd (group_by nf_canonical_id (sort_key nf_canonical_id (oks (classify E c fs))))
     = map (valid_group E c fs) (valid_ids E c fs)"
proof -
  have "bt_set (map nf_canonical_id (sort_key nf_canonical_id (oks (classify E c fs)))) = valid_ids E c fs"
    unfolding valid_ids_def by (rule bt_set_cong) simp
  then show ?thesis
    by (simp add: group_by_eq sort_key_stable valid_group_def comp_def)
qed

lemma hd_sort_key_mem: "xs \<noteq> [] \<Longrightarrow> hd (sort_key f xs) \<in> set xs"
  by (metis hd_in_set set_empty set_sort)

lemma representative_simps [simp]:
  assumes "g \<noteq> []"
  shows "nf_canonical_id (representative E g) = nf_canonical_id (hd (sort_key (\<lambda>n. fd_id (nf_finding n)) g))"
    "nf_provenance (representative E g) = nf_provenance (hd (sort_key (\<lambda>n. fd_id (nf_finding n)) g))"
    "nf_finding (representative E g)
       = mark_duplicates E (length g) (nf_finding (hd (sort_key (\<lambda>n. fd_id (nf_finding n)) g)))"
  by (simp_all add: representative_def Let_def)

lemma representative_id: "k \<in> set (valid_ids E c fs) \<Longrightarrow> nf_canonical_id (representative E (valid_group E c fs k)) = k"
proof -
  assume k: "k \<in> set (valid_ids E c fs)"
  have "hd (sort_key (\<lambda>n. fd_id (nf_finding n)) (valid_group E c fs k)) \<in> set (valid_group E c fs k)"
    by (rule hd_sort_key_mem) (rule group_nonempty[OF k])
  then show ?thesis using group_nonempty[OF k] by (simp add: valid_group_def)
qed

lemma map_representative_id:
  "map (\<lambda>k. nf_canonical_id (representative E (valid_group E c fs k))) (valid_ids E c fs) = valid_ids E c fs"
  by (rule map_idI) (rule representative_id)

lemma valid_ids_sorted: "sorted (valid_ids E c fs)" "distinct (valid_ids E c fs)"
  by (simp_all add: valid_ids_def)

lemma ns_valid_eq:
  "ns_valid (normalize_findings E c fs) = map (\<lambda>k. representative E (valid_group E c fs k)) (valid_ids E c fs)"
proof -
  have "sorted (map nf_canonical_id (map (representative E) (map (valid_group E c fs) (valid_ids E c fs))))"
    by (simp add: comp_def map_representative_id valid_ids_sorted)
  then show ?thesis
    unfolding normalize_findings_def Let_def groups_eq by (simp add: sort_key_sorted comp_def)
qed

lemma ns_simps:
  "ns_invalid (normalize_findings E c fs) = order_invalid E (errs (classify E c fs))"
  "ns_correlations (normalize_findings E c fs)
     = length (filter (\<lambda>k. length (valid_group E c fs k) > 1) (valid_ids E c fs))"
  "ns_by_scanner (normalize_findings E c fs)
     = count_by (\<lambda>n. ap_scanner (nf_provenance n)) (ns_valid (normalize_findings E c fs))"
  "ns_by_severity (normalize_findings E c fs)
     = count_by (\<lambda>n. severity_str (fd_severity (nf_finding n))) (ns_valid (normalize_findings E c fs))"
  unfolding normalize_findings_def Let_def groups_eq by (simp_all add: filter_map comp_def)

lemma number_invalid_facts [simp]:
  "length (number_invalid E l n xs) = length xs"
  "map inv_scanner (number_invalid E l n xs) = map inv_scanner xs"
  "map inv_file (number_invalid E l n xs) = map inv_file xs"
  "map inv_reason (number_invalid E l n xs) = map inv_reason xs"
  by (induction xs arbitrary: l n) (simp_all add: Let_def)

section \<open>The summary counts what it says\<close>

lemma bt_of_count_by [simp]: "bt_of_list (count_by f xs) = count_by f xs"
  by (simp add: bt_of_list_id)

lemma canonical_finding_simps [simp]:
  "cf_id (canonical_finding E n) = nf_canonical_id n"
  "cf_provenance (canonical_finding E n) = nf_provenance n"
  "cf_severity (canonical_finding E n) = fd_severity (nf_finding n)"
  by (simp_all add: canonical_finding_def Let_def)

lemma audit_Inr:
  assumes "canonical_audit E rq = Inr a"
  obtains c where "validate_snapshot_commit (rq_snapshot_commit rq) = Inr c"
    "ca_findings a = map (canonical_finding E) (ns_valid (normalize_findings E c (rq_findings rq)))"
    "ca_invalid a = ns_invalid (normalize_findings E c (rq_findings rq))"
    "ca_correlations a = correlate_findings E (ca_findings a)"
    "ca_summary a = canonical_summary (ca_coverage a) (ns_by_scanner (normalize_findings E c (rq_findings rq)))
       (ns_by_severity (normalize_findings E c (rq_findings rq))) (length (ca_invalid a))
       (ns_correlations (normalize_findings E c (rq_findings rq))) (rq_score rq)"
    "ca_coverage a = canonical_coverage (canonical_scanner_runs (rq_results rq))"
proof -
  from assms obtain c where c: "validate_snapshot_commit (rq_snapshot_commit rq) = Inr c"
    and a: "a = document_of E rq c"
    by (auto simp: canonical_audit_def Let_def and_then_Inr map_err_Inr split: if_splits)
  show thesis by (rule that[OF c]) (simp_all add: a document_of_def Let_def)
qed

lemma count_list_filter: "count_list (map f xs) k = length (filter (\<lambda>x. f x = k) xs)"
  by (induction xs) auto

definition count_of :: "(string \<times> nat) list \<Rightarrow> string \<Rightarrow> nat" where
  "count_of m k = (case bt_get m k of None \<Rightarrow> 0 | Some n \<Rightarrow> n)"

text \<open>C24. The summary agrees with the document: the finding count is the number of findings, the counts by
  scanner and by severity are the numbers of findings of that scanner and severity and add up to it,
  and the invalid count is the number of rejected findings.\<close>

theorem summary_counts:
  assumes "canonical_audit E rq = Inr a"
  shows "su_finding_count (ca_summary a) = length (ca_findings a)
     \<and> su_valid_count (ca_summary a) = length (ca_findings a)
     \<and> su_invalid_count (ca_summary a) = length (ca_invalid a)
     \<and> count_of (su_by_scanner (ca_summary a)) k
         = length (filter (\<lambda>f. ap_scanner (cf_provenance f) = k) (ca_findings a))
     \<and> count_of (su_by_severity (ca_summary a)) s
         = length (filter (\<lambda>f. severity_str (cf_severity f) = s) (ca_findings a))
     \<and> sum_list (map snd (su_by_severity (ca_summary a))) = length (ca_findings a)"
proof -
  obtain c where "ca_findings a = map (canonical_finding E) (ns_valid (normalize_findings E c (rq_findings rq)))"
    and "ca_summary a = canonical_summary (ca_coverage a) (ns_by_scanner (normalize_findings E c (rq_findings rq)))
       (ns_by_severity (normalize_findings E c (rq_findings rq))) (length (ca_invalid a))
       (ns_correlations (normalize_findings E c (rq_findings rq))) (rq_score rq)"
    using assms by (rule audit_Inr)
  then show ?thesis
    by (simp add: canonical_summary_def Let_def ns_simps count_by_sum count_of_def bt_get_count_by
        count_list_filter filter_map comp_def)
qed

theorem summary_counts_witness:
  "\<exists>a. canonical_audit sample_env sample_request = Inr a
     \<and> su_finding_count (ca_summary a) = length (ca_findings a)"
proof -
  obtain a where a: "canonical_audit sample_env sample_request = Inr a"
    using sample_audit by (auto simp: is_ok_iff)
  from summary_counts[OF a] a show ?thesis by blast
qed

section \<open>Nothing is lost\<close>

text \<open>C22. Nothing is lost and nothing is invented: every input finding is either valid, and then exactly one
  audit finding has its identity, or it is one of the rejected findings, which are as many as there are
  invalid ones; the audit findings have distinct identities in ascending order, each of them the
  identity of an input finding.\<close>

theorem nothing_lost:
  assumes "canonical_audit E rq = Inr a" "validate_snapshot_commit (rq_snapshot_commit rq) = Inr c"
  shows "set (map cf_id (ca_findings a))
       = {nf_canonical_id n | n f. f \<in> set (rq_findings rq) \<and> normalize_finding E c f = Inr n}
     \<and> distinct (map cf_id (ca_findings a)) \<and> sorted (map cf_id (ca_findings a))
     \<and> length (ca_invalid a)
       = length (filter (\<lambda>f. \<not> is_ok (normalize_finding E c f)) (rq_findings rq))"
proof -
  obtain c' where c': "validate_snapshot_commit (rq_snapshot_commit rq) = Inr c'"
    "ca_findings a = map (canonical_finding E) (ns_valid (normalize_findings E c' (rq_findings rq)))"
    "ca_invalid a = ns_invalid (normalize_findings E c' (rq_findings rq))"
    using assms(1) by (rule audit_Inr)
  then have [simp]: "c' = c" using assms(2) by simp
  have ids: "map cf_id (ca_findings a) = valid_ids E c (rq_findings rq)"
    by (simp add: c'(2) ns_valid_eq comp_def map_representative_id)
  have "set (valid_ids E c (rq_findings rq))
      = {nf_canonical_id n | n f. f \<in> set (rq_findings rq) \<and> normalize_finding E c f = Inr n}"
    unfolding valid_ids_def set_bt_set set_map image_def Bex_def oks_classify by blast
  moreover have "length (errs (classify E c fs)) = length (filter (\<lambda>f. \<not> is_ok (normalize_finding E c f)) fs)" for fs
    by (induction fs) (auto simp: classify_def is_ok_def split: sum.splits)
  ultimately show ?thesis
    unfolding ids using c'(3) by (simp add: valid_ids_sorted ns_simps order_invalid_def)
qed


theorem nothing_lost_witness:
  "\<exists>a. canonical_audit sample_env sample_request = Inr a \<and> length (ca_invalid a) = 1
     \<and> distinct (map cf_id (ca_findings a))"
proof -
  obtain a where a: "canonical_audit sample_env sample_request = Inr a"
    using sample_audit by (auto simp: is_ok_iff)
  have c: "validate_snapshot_commit (rq_snapshot_commit sample_request) = Inr None"
    by (simp add: sample_request_def validate_snapshot_commit_def)
  have "length (filter (\<lambda>f. \<not> is_ok (normalize_finding sample_env None f)) (rq_findings sample_request)) = 1"
    by (simp add: sample_request_def sample_normalizes sample_broken_rejected) (simp add: is_ok_def)
  with nothing_lost[OF a c] a show ?thesis by (intro exI[of _ a]) simp
qed

section \<open>Order does not matter\<close>

lemma mset_classify: "mset fs = mset gs \<Longrightarrow> mset (classify E c fs) = mset (classify E c gs)"
  by (simp add: classify_def)

lemma valid_ids_perm: "mset fs = mset gs \<Longrightarrow> valid_ids E c fs = valid_ids E c gs"
  unfolding valid_ids_def
  by (rule bt_set_cong) (metis mset_classify mset_map mset_oks set_mset_mset)

lemma mset_valid_group: "mset fs = mset gs \<Longrightarrow> mset (valid_group E c fs k) = mset (valid_group E c gs k)"
  unfolding valid_group_def by (simp add: mset_oks[OF mset_classify[of fs gs E c]])

lemma valid_group_inj:
  assumes "inj_on fd_id (set fs)"
  shows "inj_on (\<lambda>n. fd_id (nf_finding n)) (set (valid_group E c fs k))"
proof (rule inj_onI)
  fix n n' assume n: "n \<in> set (valid_group E c fs k)" "n' \<in> set (valid_group E c fs k)"
    and eq: "fd_id (nf_finding n) = fd_id (nf_finding n')"
  from n obtain f f' where f: "f \<in> set fs" "normalize_finding E c f = Inr n"
    "f' \<in> set fs" "normalize_finding E c f' = Inr n'"
    by (auto simp: valid_group_def oks_classify)
  then have "f = f'"
    using eq assms normalize_Inr_finding by (metis inj_onD)
  with f show "n = n'" by simp
qed

lemma representative_perm:
  assumes "mset fs = mset gs" "inj_on fd_id (set fs)"
  shows "representative E (valid_group E c fs k) = representative E (valid_group E c gs k)"
proof -
  have "sort_key (\<lambda>n. fd_id (nf_finding n)) (valid_group E c fs k)
      = sort_key (\<lambda>n. fd_id (nf_finding n)) (valid_group E c gs k)"
    by (rule sort_key_perm[OF mset_valid_group[OF assms(1)] valid_group_inj[OF assms(2)]])
  moreover have "length (valid_group E c fs k) = length (valid_group E c gs k)"
    using mset_valid_group[OF assms(1)] by (metis size_mset)
  ultimately show ?thesis by (simp add: representative_def)
qed

lemma normalize_findings_perm:
  assumes "mset fs = mset gs" "inj_on fd_id (set fs)"
  shows "ns_valid (normalize_findings E c fs) = ns_valid (normalize_findings E c gs)"
    "ns_correlations (normalize_findings E c fs) = ns_correlations (normalize_findings E c gs)"
proof -
  have "length (valid_group E c fs k) = length (valid_group E c gs k)" for k
    using mset_valid_group[OF assms(1)] by (metis size_mset)
  then show "ns_valid (normalize_findings E c fs) = ns_valid (normalize_findings E c gs)"
    "ns_correlations (normalize_findings E c fs) = ns_correlations (normalize_findings E c gs)"
    by (simp_all add: ns_valid_eq ns_simps valid_ids_perm[OF assms(1)] representative_perm[OF assms])
qed

lemma key_of_invalid_id [simp]: "key_of_invalid (x\<lparr>inv_id := i\<rparr>) = key_of_invalid x"
  by (simp add: key_of_invalid_def)

lemma number_invalid_keys:
  "map key_of_invalid xs = map key_of_invalid ys \<Longrightarrow>
     map inv_id (number_invalid E l n xs) = map inv_id (number_invalid E l n ys)"
proof (induction xs arbitrary: ys l n)
  case (Cons x xs)
  then obtain y ys' where ys: "ys = y # ys'" "key_of_invalid x = key_of_invalid y"
    "map key_of_invalid xs = map key_of_invalid ys'" by (cases ys) auto
  then show ?case using Cons.IH[OF ys(3)] by (simp add: Let_def)
qed simp

lemma map_key_number [simp]: "map key_of_invalid (number_invalid E l n xs) = map key_of_invalid xs"
  by (induction xs arbitrary: l n) (simp_all add: Let_def)

lemma invalid_perm:
  assumes "mset fs = mset gs"
  shows "map inv_id (ns_invalid (normalize_findings E c fs)) = map inv_id (ns_invalid (normalize_findings E c gs))"
    "map key_of_invalid (ns_invalid (normalize_findings E c fs))
      = map key_of_invalid (ns_invalid (normalize_findings E c gs))"
proof -
  have "mset (map key_of_invalid (errs (classify E c fs))) = mset (map key_of_invalid (errs (classify E c gs)))"
    using mset_errs[OF mset_classify[OF assms]] by simp
  then have keys: "map key_of_invalid (sort_key key_of_invalid (errs (classify E c fs)))
      = map key_of_invalid (sort_key key_of_invalid (errs (classify E c gs)))"
    unfolding map_sort_key by (metis properties_for_sort sorted_sort mset_sort)
  show "map inv_id (ns_invalid (normalize_findings E c fs)) = map inv_id (ns_invalid (normalize_findings E c gs))"
    unfolding ns_simps order_invalid_def by (rule number_invalid_keys) (rule keys)
  show "map key_of_invalid (ns_invalid (normalize_findings E c fs))
      = map key_of_invalid (ns_invalid (normalize_findings E c gs))"
    unfolding ns_simps order_invalid_def map_key_number by (rule keys)
qed

lemma runs_perm:
  assumes "mset rs = mset qs" "inj_on res_scanner (set rs)"
  shows "canonical_scanner_runs rs = canonical_scanner_runs qs"
  unfolding canonical_scanner_runs_def
proof (rule sort_key_perm)
  show "mset (map canonical_run_of rs) = mset (map canonical_run_of qs)" using assms(1) by simp
  show "inj_on cr_scanner (set (map canonical_run_of rs))"
    using assms(2) by (auto simp: inj_on_def)
qed

text \<open>C23. Order does not matter: when storage identifiers tell the findings apart and scanner names the runs,
  an audit over the same results and findings in any other order is the same document, except that
  rejected findings which agree in scanner, file (an absent one counting as empty), reason and length
  may change places among themselves; their identifiers do not change.\<close>

theorem order_independent:
  assumes "canonical_audit E rq = Inr a"
    and "mset rs = mset (rq_results rq)" "inj_on res_scanner (set rs)"
    and "mset fs = mset (rq_findings rq)" "inj_on fd_id (set fs)"
  shows "\<exists>b. canonical_audit E (rq\<lparr>rq_results := rs, rq_findings := fs\<rparr>) = Inr b
     \<and> b = a\<lparr>ca_invalid := ca_invalid b\<rparr>
     \<and> map inv_id (ca_invalid b) = map inv_id (ca_invalid a)
     \<and> map key_of_invalid (ca_invalid b) = map key_of_invalid (ca_invalid a)"
proof -
  note runs = runs_perm[OF assms(2,3)]
  have ne: "rs = [] \<longleftrightarrow> rq_results rq = []" using assms(2) by (metis mset_zero_iff)
  let ?rq = "rq\<lparr>rq_results := rs, rq_findings := fs\<rparr>"
  from assms(1) obtain c where c: "validate_snapshot_commit (rq_snapshot_commit rq) = Inr c"
    and a: "a = document_of E rq c"
    by (auto simp: canonical_audit_def Let_def and_then_Inr map_err_Inr split: if_splits)
  have b: "canonical_audit E ?rq = Inr (document_of E ?rq c)"
    using assms(1) c by (auto simp: canonical_audit_def Let_def ne runs split: if_splits)
  note ns = normalize_findings_perm[OF assms(4,5), of E c]
  note inv = invalid_perm[OF assms(4), of E c]
  have len: "length (ns_invalid (normalize_findings E c fs))
      = length (ns_invalid (normalize_findings E c (rq_findings rq)))"
    using arg_cong[OF inv(1), of length] by simp
  have "document_of E ?rq c = a\<lparr>ca_invalid := ca_invalid (document_of E ?rq c)\<rparr>"
    unfolding a document_of_def Let_def by (simp add: runs ns ns_simps(3,4) len)
  moreover have "ca_invalid (document_of E ?rq c) = ns_invalid (normalize_findings E c fs)"
    "ca_invalid a = ns_invalid (normalize_findings E c (rq_findings rq))"
    unfolding a document_of_def Let_def by simp_all
  ultimately show ?thesis using b inv by (intro exI[of _ "document_of E ?rq c"]) simp
qed

theorem order_independent_witness:
  "\<exists>a b. canonical_audit sample_env sample_request = Inr a
     \<and> canonical_audit sample_env (sample_request\<lparr>rq_results := rev (rq_results sample_request),
           rq_findings := rev (rq_findings sample_request)\<rparr>) = Inr b
     \<and> ca_findings b = ca_findings a"
proof -
  obtain a where a: "canonical_audit sample_env sample_request = Inr a"
    using sample_audit by (auto simp: is_ok_iff)
  have "inj_on res_scanner (set (rev (rq_results sample_request)))"
    "inj_on fd_id (set (rev (rq_findings sample_request)))"
    by (simp_all add: sample_request_def sample_result_def sample_finding_def sample_broken_def)
  then obtain b where b: "canonical_audit sample_env (sample_request\<lparr>rq_results := rev (rq_results sample_request),
           rq_findings := rev (rq_findings sample_request)\<rparr>) = Inr b" "b = a\<lparr>ca_invalid := ca_invalid b\<rparr>"
    using order_independent[OF a, of "rev (rq_results sample_request)" "rev (rq_findings sample_request)"]
    by auto
  have "ca_findings b = ca_findings a" by (subst b(2)) simp
  with a b show ?thesis by blast
qed

end
