(* ===== verification/Canonical_Identity.thy ===== *)
theory Canonical_Identity
  imports Canonical_Props
begin

text \<open>
  The identity and the quality of a canonical finding: the identity is a function of detection
  facts only and survives persistence, a normalised finding has full provenance, a location
  inside the repository and redacted evidence, references are canonical, and the persisted
  normalisation computes the same rows as the audited one.
\<close>

section \<open>Identity\<close>

definition IDENTITY_FACTS :: "string set" where
  "IDENTITY_FACTS = set IDENTITY_KEYS \<union> {''rule_id'', ''check_id'', ''fingerprint'', ''start_column'',
     ''end_line'', ''end_column''}"

definition same_detection :: "audit_finding \<Rightarrow> audit_finding \<Rightarrow> bool" where
  "same_detection f g \<longleftrightarrow> fd_scanner_name f = fd_scanner_name g \<and> fd_file_path f = fd_file_path g
     \<and> fd_line_number f = fd_line_number g \<and> fd_evidence f = fd_evidence g"

lemma identity_cong:
  assumes "same_detection f g" "parse_metadata E f = Inr m" "parse_metadata E g = Inr m'"
    and "\<And>k. k \<in> IDENTITY_FACTS \<Longrightarrow> bt_get m k = bt_get m' k"
  shows "canonical_identity E f = canonical_identity E g"
proof -
  have k: "bt_get m ''rule_id'' = bt_get m' ''rule_id''" "bt_get m ''check_id'' = bt_get m' ''check_id''"
    "bt_get m ''fingerprint'' = bt_get m' ''fingerprint''"
    "bt_get m ''start_column'' = bt_get m' ''start_column''" "bt_get m ''end_line'' = bt_get m' ''end_line''"
    "bt_get m ''end_column'' = bt_get m' ''end_column''" "bt_get m ''advisory'' = bt_get m' ''advisory''"
    by (rule assms(4), simp add: IDENTITY_FACTS_def IDENTITY_KEYS_def)+
  have keys: "map (\<lambda>k. (k, get_or_null m k)) IDENTITY_KEYS = map (\<lambda>k. (k, get_or_null m' k)) IDENTITY_KEYS"
    using assms(4) by (intro map_cong refl) (simp add: get_or_null_def IDENTITY_FACTS_def)
  have "native_rule_id m = native_rule_id m'" "native_fingerprint m = native_fingerprint m'"
    unfolding native_rule_id_def native_fingerprint_def first_rule.simps k by (rule refl)+
  moreover have "finding_location f m = finding_location g m'"
    using assms(1) unfolding finding_location_def metadata_number_def k same_detection_def by simp
  moreover have "identity_payload E s r fp loc m f = identity_payload E s r fp loc m' g" for s r fp loc
    using assms(1) unfolding identity_payload_def keys same_detection_def by simp
  ultimately show ?thesis
    using assms(1)
    by (simp add: canonical_identity_def assms(2,3) audit_finding_id_def same_detection_def)
qed

lemma known_scanner_not_blank: "(s, m) \<in> set KNOWN_SCANNERS \<Longrightarrow> \<not> blank s"
proof -
  have "\<not> blank ''gitleaks''" "\<not> blank ''osv''" "\<not> blank ''semgrep''"
    by (rule blank_visible[of "CHR ''s''"]; simp add: is_visible_def in_range_def)+
  then show "(s, m) \<in> set KNOWN_SCANNERS \<Longrightarrow> \<not> blank s" by (auto simp: KNOWN_SCANNERS_def)
qed

lemma normalize_identity:
  "normalize_finding E c f = Inr n \<Longrightarrow> canonical_identity E f = Inr (nf_canonical_id n)"
  by (auto simp: normalize_finding_def canonical_identity_def and_then_Inr check_scanner_def
      known_scanner_not_blank split: option.splits if_splits)

text \<open>The identity is made of detection facts: two findings of the same scanner, file, line and evidence whose
  metadata agree on the identity keys have the same identity, whatever their titles, severities,
  confidences, storage identifiers and run provenance; and a finding that normalises carries the
  identity that the pipeline's deduplication computes for it.\<close>

theorem identity_detection_facts:
  assumes "same_detection f g" "parse_metadata E f = Inr m" "parse_metadata E g = Inr m'"
    and "\<forall>k \<in> IDENTITY_FACTS. bt_get m k = bt_get m' k"
    and "normalize_finding E c f = Inr n"
  shows "canonical_identity E g = Inr (nf_canonical_id n)"
  using identity_cong[OF assms(1-3)] assms(4) normalize_identity[OF assms(5)] by simp

theorem identity_detection_facts_witness:
  "\<exists>n. normalize_finding sample_env None (sample_finding ''a'') = Inr n
     \<and> canonical_identity sample_env ((sample_finding ''b'')\<lparr>fd_severity := Low, fd_title := ''other''\<rparr>)
       = Inr (nf_canonical_id n)"
proof -
  obtain n where n: "normalize_finding sample_env None (sample_finding ''a'') = Inr n"
    using sample_normalizes[of "''a''"] by (auto simp: is_ok_iff)
  let ?g = "(sample_finding ''b'')\<lparr>fd_severity := Low, fd_title := ''other''\<rparr>"
  have "same_detection (sample_finding ''a'') ?g" by (simp add: same_detection_def sample_finding_def)
  moreover have "parse_metadata sample_env f = Inr (bt_of_list sample_meta)"
    if "fd_metadata_json f = Some ''M''" for f
    by (simp add: parse_metadata_def that sample_env_def)
  ultimately have "canonical_identity sample_env ?g = Inr (nf_canonical_id n)"
    using n by (intro identity_detection_facts) (auto simp: sample_finding_def)
  with n show ?thesis by blast
qed

lemma parse_marked:
  assumes "fd_metadata_json f = Some raw" "env_parse E raw = Some (JObj m)" "bt_wf m" "1 < k"
    and "env_parse E (env_print E (JObj (bt_insert ''duplicate_occurrences'' (json_i64 (int k)) m)))
       = Some (JObj (bt_insert ''duplicate_occurrences'' (json_i64 (int k)) m))"
  shows "parse_metadata E f = Inr m"
    "parse_metadata E (mark_duplicates E k f) = Inr (bt_insert ''duplicate_occurrences'' (json_i64 (int k)) m)"
  using assms by (simp_all add: parse_metadata_def mark_duplicates_def bt_of_list_id bt_wf_insert)

text \<open>Recording duplicates does not change what a finding is: the retained row, with the number of its
  occurrences written into its metadata, has the identity it had before, provided that the printed
  metadata parses back to the document that was printed.\<close>

theorem duplicates_keep_identity:
  assumes "fd_metadata_json f = Some raw" "env_parse E raw = Some (JObj m)" "bt_wf m" "1 < k"
    and "env_parse E (env_print E (JObj (bt_insert ''duplicate_occurrences'' (json_i64 (int k)) m)))
       = Some (JObj (bt_insert ''duplicate_occurrences'' (json_i64 (int k)) m))"
  shows "canonical_identity E (mark_duplicates E k f) = canonical_identity E f"
proof (rule identity_cong[OF _ parse_marked(2)[OF assms] parse_marked(1)[OF assms]])
  show "same_detection (mark_duplicates E k f) f"
    by (simp add: same_detection_def mark_duplicates_def split: option.split)
  show "bt_get (bt_insert ''duplicate_occurrences'' (json_i64 (int k)) m) x = bt_get m x"
    if "x \<in> IDENTITY_FACTS" for x
    using that by (auto simp: IDENTITY_FACTS_def IDENTITY_KEYS_def bt_get_insert)
qed

lemma sample_meta_wf: "bt_wf sample_meta"
  by (simp add: sample_meta_def bt_wf_def)

theorem duplicates_keep_identity_witness:
  "canonical_identity sample_env (mark_duplicates sample_env 2 (sample_finding ''a''))
     = canonical_identity sample_env (sample_finding ''a'')"
  by (rule duplicates_keep_identity[where raw = "''M''" and m = sample_meta])
    (simp_all add: sample_meta_wf, simp_all add: sample_finding_def sample_env_def sample_marked_def)

section \<open>Quality of a normalised finding\<close>

definition inside_repository :: "string \<Rightarrow> bool" where
  "inside_repository p \<longleftrightarrow> p \<noteq> [] \<and> trim p = p \<and> \<not> prefix ''/'' p \<and> length p \<le> 1024
     \<and> ''..'' \<notin> set (split_on (CHR ''/'') p) \<and> \<not> has_control p \<and> CHR 0x5C \<notin> set p"

lemma validate_repo_path_Inr: "validate_repo_path p = Inr q \<Longrightarrow> inside_repository q"
  by (auto simp: validate_repo_path_def Let_def inside_repository_def split: if_splits)

definition sane_location :: "location \<Rightarrow> bool" where
  "sane_location l \<longleftrightarrow> inside_repository (loc_file l) \<and> 0 < loc_line l
     \<and> (case loc_end_line l of Some e \<Rightarrow> loc_line l \<le> e | None \<Rightarrow> True)
     \<and> (case loc_start_column l of Some c \<Rightarrow> 0 \<le> c | None \<Rightarrow> True)
     \<and> (case loc_end_column l of Some c \<Rightarrow> 0 \<le> c | None \<Rightarrow> True)"

lemma check_columns_Inr:
  assumes "check_columns l s e c = Inr ()"
  shows "case e of Some x \<Rightarrow> l \<le> x | None \<Rightarrow> True" "case s of Some x \<Rightarrow> 0 \<le> x | None \<Rightarrow> True"
    "case c of Some x \<Rightarrow> 0 \<le> x | None \<Rightarrow> True"
  using assms by (cases s; cases c; cases e; auto simp: check_columns_def split: if_splits)+

lemma finding_location_Inr:
  assumes "finding_location f m = Inr l"
  shows "sane_location l"
proof -
  from assms obtain path where "validate_repo_path path = Inr (loc_file l)" "0 < loc_line l"
    and c: "check_columns (loc_line l) (loc_start_column l) (loc_end_line l) (loc_end_column l) = Inr ()"
    by (auto simp: finding_location_def and_then_Inr map_err_Inr ok_or_Inr bind_eq_Some_conv split: if_splits)
  with check_columns_Inr[OF c] show ?thesis
    by (simp add: sane_location_def validate_repo_path_Inr)
qed

lemma trimmed_nonempty_Some: "trimmed_nonempty x = Some t \<Longrightarrow> t \<noteq> [] \<and> trim t = t \<and> \<not> blank t"
  by (auto simp: trimmed_nonempty_def Let_def bind_eq_Some_conv blank_def split: if_splits)

definition full_provenance :: "audit_provenance \<Rightarrow> bool" where
  "full_provenance p \<longleftrightarrow>
     (\<forall>s \<in> {ap_version p, ap_parser p, ap_image p, ap_rule_id p, ap_fingerprint p}. \<not> blank s)
     \<and> (case ap_snapshot p of Some s \<Rightarrow> length s = 40 \<and> list_all is_lower_hex s | None \<Rightarrow> True)"

lemma required_text_Inr: "required_text m k = Inr s \<Longrightarrow> \<not> blank s"
  by (auto simp: required_text_def ok_or_Inr dest: trimmed_nonempty_Some)

lemma finding_provenance_Inr:
  assumes "finding_provenance f m c = Inr p"
  shows "full_provenance p" "ap_scanner p = (case fd_scanner_name f of Some s \<Rightarrow> s | None \<Rightarrow> [])"
proof -
  from assms obtain x where
    r: "required_text m ''scanner_version'' = Inr (ap_version p)" "required_text m ''parser'' = Inr (ap_parser p)"
      "required_text m ''scanner_image'' = Inr (ap_image p)" "native_rule_id m = Inr (ap_rule_id p)"
      "native_fingerprint m = Inr (ap_fingerprint p)"
    and s: "validate_snapshot_commit x = Inr (ap_snapshot p)"
    and n: "ap_scanner p = (case fd_scanner_name f of Some s \<Rightarrow> s | None \<Rightarrow> [])"
    by (auto simp: finding_provenance_def and_then_Inr map_err_Inr)
  have "case ap_snapshot p of Some s \<Rightarrow> length s = 40 \<and> list_all is_lower_hex s | None \<Rightarrow> True"
    using s by (cases "ap_snapshot p")
      (auto simp: validate_snapshot_commit_def split: if_splits option.splits)
  moreover have "\<not> blank (ap_rule_id p)"
    using first_rule_Inr[OF r(4)[unfolded native_rule_id_def]] by blast
  ultimately show "full_provenance p"
    using r(1-3,5) by (auto simp: full_provenance_def native_fingerprint_Inr dest: required_text_Inr)
  show "ap_scanner p = (case fd_scanner_name f of Some s \<Rightarrow> s | None \<Rightarrow> [])" by (rule n)
qed

text \<open>Evidence may leave the scanner's boundary: short, and either marked as redacted (secrets) or free of
  the known credential shapes.\<close>

definition releasable :: "audit_env \<Rightarrow> evidence_kind \<Rightarrow> string \<Rightarrow> bool" where
  "releasable E k s \<longleftrightarrow> \<not> blank s \<and> int (char_count s) \<le> 512
     \<and> (if k = Secret then sublist ''[REDACTED]'' s \<or> sublist ''[BASE64_REDACTED]'' s
        else \<not> env_credential E s)"




section \<open>References\<close>

lemma dedup_adjacent_set [simp]: "set (dedup_adjacent xs) = set xs"
  by (induction xs rule: dedup_adjacent.induct) auto

lemma dedup_adjacent_hd: "xs \<noteq> [] \<Longrightarrow> hd (dedup_adjacent xs) = hd xs \<and> dedup_adjacent xs \<noteq> []"
  by (induction xs rule: dedup_adjacent.induct) auto

lemma dedup_adjacent_length: "length (dedup_adjacent xs) \<le> length xs"
  by (induction xs rule: dedup_adjacent.induct) auto

lemma dedup_adjacent_strict:
  assumes "sorted (map f xs)" "inj_on f (set xs)"
  shows "sorted_wrt (<) (map f (dedup_adjacent xs))"
  using assms
proof (induction xs rule: dedup_adjacent.induct)
  case (1 x y xs)
  show ?case
  proof (cases "x = y")
    case True
    then show ?thesis using 1 by (simp add: insert_absorb)
  next
    case False
    have IH: "sorted_wrt (<) (map f (dedup_adjacent (y # xs)))"
      using "1.IH"(2)[OF False] "1.prems" by (simp add: inj_on_def)
    have "f x < f z" if "z \<in> set (y # xs)" for z
    proof -
      have "f x \<noteq> f y" using False "1.prems"(2) by (auto simp: inj_on_def)
      then have "f x < f y" using "1.prems"(1) by auto
      moreover have "f y \<le> f z" using "1.prems"(1) that by auto
      ultimately show ?thesis by simp
    qed
    then show ?thesis using False IH by simp
  qed
qed simp_all

definition good_reference :: "reference \<Rightarrow> bool" where
  "good_reference r \<longleftrightarrow> \<not> blank (ref_type r) \<and> int (char_count (ref_type r)) \<le> 32
     \<and> int (char_count (ref_url r)) \<le> 2048 \<and> (prefix ''http://'' (ref_url r) \<or> prefix ''https://'' (ref_url r))"

lemma parse_reference_Inr: "parse_reference v = Inr r \<Longrightarrow> good_reference r"
  by (auto simp: parse_reference_def and_then_Inr ok_or_Inr good_reference_def
      MAX_CANONICAL_REFERENCE_URL_CHARS_def dest!: trimmed_nonempty_Some split: if_splits)

lemma map_sum_Inr: "map_sum id h x = Inr y \<longleftrightarrow> (\<exists>z. x = Inr z \<and> y = h z)"
  by (cases x) auto

text \<open>References are canonical: an accepted list is strictly ascending by URL and type (so it has no
  duplicates and does not depend on the order in the metadata), at most 64 long, holds only web addresses
  with a bounded type, and holds exactly the parsed entries of the metadata.\<close>

theorem references_canonical:
  assumes "canonical_references m = Inr rs"
  shows "sorted_wrt (<) (map (\<lambda>r. (ref_url r, ref_type r)) rs) \<and> length rs \<le> 64
     \<and> list_all good_reference rs
     \<and> Inr ` set rs = (case bt_get m ''references'' of
          Some (JArr vs) \<Rightarrow> parse_reference ` set vs | _ \<Rightarrow> {})"
proof (cases "bt_get m ''references''")
  case None
  then show ?thesis using assms by (simp add: canonical_references_def)
next
  case (Some v)
  let ?key = "\<lambda>r. (ref_url r, ref_type r)"
  from assms obtain vs ps where v: "v = JArr vs" and len: "int (length vs) \<le> 64"
    and ps: "map_ok parse_reference vs = Inr ps" and rs: "rs = dedup_adjacent (sort_key ?key ps)"
    by (auto simp: canonical_references_def Some and_then_Inr ok_or_Inr map_sum_Inr
        MAX_CANONICAL_REFERENCES_def split: if_splits)
  have all2: "list_all2 (\<lambda>x y. parse_reference x = Inr y) vs ps" using ps by (simp add: map_ok_Inr)
  have lps: "length ps = length vs" using all2 by (simp add: list_all2_lengthD)
  have set_ps: "Inr ` set ps = parse_reference ` set vs"
    using all2 by (induction rule: list_all2_induct) auto
  have "inj_on ?key (set (sort_key ?key ps))"
  proof (rule inj_onI)
    fix r r' :: reference assume "?key r = ?key r'"
    then show "r = r'" by simp
  qed
  then have strict: "sorted_wrt (<) (map ?key rs)"
    unfolding rs by (intro dedup_adjacent_strict) simp_all
  have set_rs: "set rs = set ps" by (simp add: rs)
  have "length rs \<le> length ps" unfolding rs using dedup_adjacent_length[of "sort_key ?key ps"] by simp
  then have len': "length rs \<le> 64" using len lps by simp
  have "good_reference r" if "r \<in> set rs" for r
  proof -
    have "Inr r \<in> parse_reference ` set vs" using that set_ps set_rs by (metis image_eqI)
    then show ?thesis by (metis imageE parse_reference_Inr)
  qed
  then show ?thesis using strict len' set_rs set_ps by (simp add: Some v list_all_iff)
qed

definition sample_references :: metadata where
  "sample_references = [(''references'', JArr
     [JObj [(''type'', JStr ''WEB''), (''url'', JStr ''https://b'')],
      JObj [(''type'', JStr ''FIX''), (''url'', JStr ''https://a'')],
      JObj [(''type'', JStr ''WEB''), (''url'', JStr ''https://b'')]])]"

theorem references_canonical_witness:
  "\<exists>rs. canonical_references sample_references = Inr rs \<and> length rs \<le> 64 \<and> list_all good_reference rs"
proof -
  have "is_ok (canonical_references sample_references)" by code_simp
  then obtain rs where rs: "canonical_references sample_references = Inr rs" by (auto simp: is_ok_iff)
  from references_canonical[OF rs] rs show ?thesis by blast
qed

section \<open>The persisted normalisation\<close>

lemma retained_row_eq:
  assumes "g \<noteq> []"
  shows "retained_row E (map (\<lambda>n. (nf_canonical_id n, nf_finding n)) g) = nf_finding (representative E g)"
proof -
  have "sort_key fd_id (map nf_finding g) = map nf_finding (sort_key (\<lambda>n. fd_id (nf_finding n)) g)"
    by (rule sort_key_map)
  moreover have "sort_key (\<lambda>n. fd_id (nf_finding n)) g \<noteq> []" using assms by (metis set_empty set_sort)
  ultimately show ?thesis using assms by (simp add: retained_row_def comp_def hd_map)
qed

text \<open>The two normalisations agree: what is persisted after a scan (validated without a snapshot commit) is
  row for row what the canonical audit retains, with the same rejected findings and the same number of
  duplicate groups, and the dropped count is the difference to the input.\<close>

theorem persist_agrees:
  "let ns = normalize_findings E None fs; np = normalize_findings_for_persist E fs in
     np_valid np = map nf_finding (ns_valid ns) \<and> np_invalid np = ns_invalid ns
     \<and> np_duplicate_groups np = ns_correlations ns
     \<and> np_raw_count np = length fs \<and> np_dropped_count np = length fs - length (ns_valid ns)"
proof -
  let ?pair = "\<lambda>n. (nf_canonical_id n, nf_finding n)"
  let ?valid = "sort_key fst (map ?pair (oks (classify E None fs)))"
  have "bt_set (map fst ?valid) = valid_ids E None fs"
    unfolding valid_ids_def by (rule bt_set_cong) (simp add: image_image)
  then have groups: "map snd (group_by fst ?valid) = map (\<lambda>k. map ?pair (valid_group E None fs k)) (valid_ids E None fs)"
    by (simp add: group_by_eq sort_key_stable valid_group_def filter_map comp_def)
  have rows: "map (retained_row E) (map snd (group_by fst ?valid)) = map nf_finding (ns_valid (normalize_findings E None fs))"
    unfolding groups ns_valid_eq by (simp add: comp_def retained_row_eq group_nonempty)
  have lens: "length (map (retained_row E) (map snd (group_by fst ?valid))) = length (ns_valid (normalize_findings E None fs))"
    unfolding rows by simp
  have dups: "length (filter (\<lambda>g. length g > 1) (map snd (group_by fst ?valid)))
      = ns_correlations (normalize_findings E None fs)"
    unfolding groups ns_simps by (simp add: filter_map comp_def)
  show ?thesis
    unfolding Let_def normalize_findings_for_persist_def persisted.simps rows lens dups ns_simps
    by simp
qed

end
