(* ===== verification/Egress_Proxy.thy ===== *)
theory Egress_Proxy
  imports Egress_Policy
begin

text \<open>
  The filtering forward proxy (\<open>backend/src/bin/egress_proxy.rs\<close>): the framing of a CONNECT request,
  the verdict on the target, the single resolution and its validation, and the pinned connection.
  A connection is served to the list of its effects; the resolver, the outcome of each connection
  attempt and whether the head arrived in time are parameters.
\<close>

section \<open>Configuration and framing\<close>

definition DEFAULT_PORT :: nat where "DEFAULT_PORT = 3128"
definition MAX_HEAD_BYTES :: int where "MAX_HEAD_BYTES = 8192"
definition MAX_CONCURRENT_CONNECTIONS :: nat where "MAX_CONCURRENT_CONNECTIONS = 128"

datatype port_error = NotAPort string | PortIsZero

definition proxy_port :: "string option \<Rightarrow> port_error + nat" where
  "proxy_port raw =
     (case raw of
        None \<Rightarrow> Inr DEFAULT_PORT
      | Some v \<Rightarrow>
          (case parse_uint (2 ^ 16) (trim v) of
             None \<Rightarrow> Inl (NotAPort v)
           | Some p \<Rightarrow> if p = 0 then Inl PortIsZero else Inr p))"

definition split_once_str :: "string \<Rightarrow> string \<Rightarrow> (string \<times> string) option" where
  "split_once_str pat s =
     (case List.find (\<lambda>i. prefix pat (drop i s)) [0..<Suc (length s)] of
        None \<Rightarrow> None | Some i \<Rightarrow> Some (take i s, drop (i + length pat) s))"

definition parse_authority :: "string \<Rightarrow> string + string \<times> nat" where
  "parse_authority authority =
     (if authority = [] \<or> int (length authority) > 253 then Inl ''malformed authority''
      else
        (case strip_prefix ''['' authority of
           Some rest \<Rightarrow>
             and_then (ok_or ''malformed bracketed authority'' (split_once_str '']:'' rest)) (\<lambda>(host, port).
               if host = [] \<or> CHR ''['' \<in> set host \<or> CHR '']'' \<in> set host
               then Inl ''malformed bracketed authority''
               else map_sum id (\<lambda>p. (host, p)) (ok_or ''malformed port'' (parse_uint (2 ^ 16) port)))
         | None \<Rightarrow>
             if (\<exists>c \<in> set ''@/[]''. c \<in> set authority) \<or> has_whitespace authority \<or> has_control authority
             then Inl ''malformed authority''
             else
               and_then (ok_or ''authority has no port'' (rsplit_once (CHR '':'') authority)) (\<lambda>(host, port).
                 if host = [] \<or> CHR '':'' \<in> set host then Inl ''malformed authority''
                 else map_sum id (\<lambda>p. (host, p)) (ok_or ''malformed port'' (parse_uint (2 ^ 16) port)))))"

definition parse_connect_line :: "string \<Rightarrow> string + string \<times> nat" where
  "parse_connect_line line =
     (case split_whitespace line of
        [m, a, v] \<Rightarrow>
          if m \<noteq> ''CONNECT'' then Inl ''only CONNECT is supported''
          else if v \<noteq> ''HTTP/1.1'' \<and> v \<noteq> ''HTTP/1.0'' then Inl ''unsupported HTTP version''
          else parse_authority a
      | _ \<Rightarrow> Inl ''malformed CONNECT line'')"

section \<open>Verdicts\<close>

datatype deny_reason = Target string | Dns | Empty | Candidate string

definition check_target :: "(string \<Rightarrow> string) \<Rightarrow> string \<Rightarrow> nat \<Rightarrow> deny_reason + unit" where
  "check_target uni host port =
     (case evaluate_egress_target uni host port of Block r \<Rightarrow> Inl (Target r) | Allow \<Rightarrow> Inr ())"

definition check_candidate :: "ip_addr \<Rightarrow> deny_reason + unit" where
  "check_candidate ip = (case evaluate_ip ip of Block r \<Rightarrow> Inl (Candidate r) | Allow \<Rightarrow> Inr ())"

definition check_candidates :: "ip_addr list option \<Rightarrow> deny_reason + ip_addr list" where
  "check_candidates resolved =
     and_then (ok_or Dns resolved) (\<lambda>candidates.
       if candidates = [] then Inl Empty
       else and_then (for_all_ok check_candidate candidates) (\<lambda>_. Inr candidates))"

text \<open>The system resolver keeps the first occurrence of every address; \<open>lookup\<close> is the
  platform's answer.\<close>

definition system_resolve :: "(string \<Rightarrow> ip_addr list option) \<Rightarrow> string \<Rightarrow> ip_addr list option" where
  "system_resolve lookup host = map_option (keep_first (\<lambda>ip. ip) {}) (lookup host)"

section \<open>Serving a connection\<close>

datatype effect =
    Resolve string
  | Connect ip_addr nat bool
  | Respond string
  | Tunnel ip_addr nat

text \<open>The loop over the validated addresses; \<open>reach\<close> says which attempts succeed.\<close>

fun connect_pinned ::
  "(ip_addr \<Rightarrow> nat \<Rightarrow> bool) \<Rightarrow> nat \<Rightarrow> ip_addr list \<Rightarrow> effect list \<times> ip_addr option" where
  "connect_pinned reach port [] = ([], None)"
| "connect_pinned reach port (ip # ips) =
     (if reach ip port then ([Connect ip port True], Some ip)
      else (let (es, r) = connect_pinned reach port ips in (Connect ip port False # es, r)))"

text \<open>\<open>read_line\<close> on the client's bytes: up to and including the line feed, \<open>None\<close> on bytes
  that are not UTF-8.\<close>

definition head_line :: "string \<Rightarrow> (string \<times> string) option" where
  "head_line input =
     (let line = takeWhile (\<lambda>c. c \<noteq> CHR 0x0A) input @ take 1 (dropWhile (\<lambda>c. c \<noteq> CHR 0x0A) input)
      in if from_utf8_ok line then Some (line, drop (length line) input) else None)"

lemma head_line_shrinks:
  "head_line input = Some (line, rest) \<Longrightarrow> line \<noteq> [] \<Longrightarrow> length rest < length input"
  by (cases input; cases line) (auto simp: head_line_def Let_def split: if_splits)

text \<open>\<open>request_line\<close> is filled by the first line; the cap is tested after the line was read.\<close>

function read_head :: "int \<Rightarrow> int \<Rightarrow> string option \<Rightarrow> string \<Rightarrow> string option" where
  "read_head cap seen request_line input =
     (case head_line input of
        None \<Rightarrow> None
      | Some (line, rest) \<Rightarrow>
          if line = [] then None
          else if seen + int (length line) > cap then None
          else if line = [CHR 0x0D, CHR 0x0A] \<or> line = [CHR 0x0A]
          then Some (case request_line of Some l \<Rightarrow> l | None \<Rightarrow> trim_end line)
          else read_head cap (seen + int (length line))
                 (Some (case request_line of Some l \<Rightarrow> l | None \<Rightarrow> trim_end line)) rest)"
  by pat_completeness auto
termination
  by (relation "measure (\<lambda>(_, _, _, input). length input)") (auto dest: head_line_shrinks)

declare read_head.simps [simp del]

definition BAD_REQUEST :: string where "BAD_REQUEST = ''HTTP/1.1 400 Bad Request''"
definition FORBIDDEN :: string where "FORBIDDEN = ''HTTP/1.1 403 Forbidden''"
definition BAD_GATEWAY :: string where "BAD_GATEWAY = ''HTTP/1.1 502 Bad Gateway''"
definition OVERLOADED :: string where "OVERLOADED = ''HTTP/1.1 503 Service Unavailable''"
definition ESTABLISHED :: string where "ESTABLISHED = ''HTTP/1.1 200 Connection established''"

text \<open>What follows a parsed request.\<close>

definition serve_request ::
  "(string \<Rightarrow> string) \<Rightarrow> (string \<Rightarrow> ip_addr list option) \<Rightarrow> (ip_addr \<Rightarrow> nat \<Rightarrow> bool)
     \<Rightarrow> string \<Rightarrow> nat \<Rightarrow> effect list" where
  "serve_request uni resolve reach host port =
     (case check_target uni host port of
        Inl _ \<Rightarrow> [Respond FORBIDDEN]
      | Inr _ \<Rightarrow>
          Resolve host #
          (case check_candidates (resolve host) of
             Inl _ \<Rightarrow> [Respond FORBIDDEN]
           | Inr validated \<Rightarrow>
               (let (es, upstream) = connect_pinned reach port validated in
                es @ (case upstream of
                        Some ip \<Rightarrow> [Respond ESTABLISHED, Tunnel ip port]
                      | None \<Rightarrow> [Respond BAD_GATEWAY]))))"

text \<open>\<open>in_time\<close>: the head was read before its timeout.\<close>

definition serve_connection ::
  "(string \<Rightarrow> string) \<Rightarrow> (string \<Rightarrow> ip_addr list option) \<Rightarrow> (ip_addr \<Rightarrow> nat \<Rightarrow> bool)
     \<Rightarrow> bool \<Rightarrow> string \<Rightarrow> effect list" where
  "serve_connection uni resolve reach in_time input =
     (case (if in_time then read_head MAX_HEAD_BYTES 0 None input else None) of
        None \<Rightarrow> [Respond BAD_REQUEST]
      | Some line \<Rightarrow>
          (case parse_connect_line line of
             Inl _ \<Rightarrow> [Respond BAD_REQUEST]
           | Inr (host, port) \<Rightarrow> serve_request uni resolve reach host port))"

text \<open>Accepting under the concurrency bound: \<open>active\<close> permits are taken; the connection is
  refused or served with a permit of its own.\<close>

definition handle_accept ::
  "(string \<Rightarrow> string) \<Rightarrow> (string \<Rightarrow> ip_addr list option) \<Rightarrow> (ip_addr \<Rightarrow> nat \<Rightarrow> bool)
     \<Rightarrow> bool \<Rightarrow> string \<Rightarrow> nat \<Rightarrow> effect list \<times> nat" where
  "handle_accept uni resolve reach in_time input active =
     (if active < MAX_CONCURRENT_CONNECTIONS
      then (serve_connection uni (system_resolve resolve) reach in_time input, Suc active)
      else ([Respond OVERLOADED], active))"

inductive accepting :: "nat \<Rightarrow> bool" where
  idle: "accepting 0"
| accept: "accepting n \<Longrightarrow> accepting (snd (handle_accept uni resolve reach in_time input n))"
| finish: "accepting (Suc n) \<Longrightarrow> accepting n"

end
