(* ===== verification/Egress_Props.thy ===== *)
theory Egress_Props
  imports Egress_Proxy
begin

text \<open>
  Properties of the egress policy and of the filtering proxy: the allowlist as an equivalence, the
  blocked address ranges against a list of CIDR blocks, the framing of the CONNECT line, the
  effects a connection may have, and the concurrency bound.
\<close>

section \<open>What the address readers consume\<close>

definition lit_char :: "char \<Rightarrow> bool" where
  "lit_char c \<longleftrightarrow> is_hexdigit c \<or> c = CHR ''.'' \<or> c = CHR '':''"

definition consumed :: "string \<Rightarrow> string \<Rightarrow> bool" where
  "consumed s r \<longleftrightarrow> (\<exists>p. s = p @ r \<and> list_all lit_char p)"

lemma consumed_refl [simp]: "consumed s s"
  by (simp add: consumed_def)

lemma consumed_trans: "consumed s r \<Longrightarrow> consumed r q \<Longrightarrow> consumed s q"
  unfolding consumed_def by (metis append.assoc list_all_append)

lemma consumed_Cons: "lit_char c \<Longrightarrow> consumed s r \<Longrightarrow> consumed (c # s) r"
  unfolding consumed_def by (metis append_Cons list.pred_inject(2))

lemma consumed_Nil: "consumed s [] \<Longrightarrow> c \<in> set s \<Longrightarrow> lit_char c"
  by (auto simp: consumed_def list_all_iff)

lemma digit_hexdigit: "is_digit c \<Longrightarrow> is_hexdigit c"
  by (auto simp: is_digit_def is_hexdigit_def is_lower_hex_def in_range_def)

lemma take_digits_consumed: "consumed s (snd (take_digits radix s))"
  by (induction radix s rule: take_digits.induct)
    (auto simp: to_digit_def lit_char_def digit_hexdigit split: option.splits if_splits prod.splits
       intro!: consumed_Cons)

lemma read_number_consumed: "read_number radix m z b s = Some (n, r) \<Longrightarrow> consumed s r"
  using take_digits_consumed[of s radix]
  by (auto simp: read_number_def Let_def split: prod.splits if_splits)

lemma read_char_consumed: "lit_char c \<Longrightarrow> read_char c s = Some (u, r) \<Longrightarrow> consumed s r"
  by (cases s) (auto simp: read_char_def split: if_splits intro: consumed_Cons)

lemma read_separator_consumed:
  assumes "read_separator c i inner s = Some (x, r)" "lit_char c"
    and "\<And>s x r. inner s = Some (x, r) \<Longrightarrow> consumed s r"
  shows "consumed s r"
proof (cases "i > 0")
  case True
  with assms(1) obtain u q where "read_char c s = Some (u, q)" "inner q = Some (x, r)"
    by (auto simp: read_separator_def bind_eq_Some_conv)
  then show ?thesis using assms(2,3) read_char_consumed consumed_trans by blast
next
  case False
  with assms show ?thesis by (auto simp: read_separator_def)
qed

lemma read_octets_consumed: "read_octets i k s = Some (ns, r) \<Longrightarrow> consumed s r"
proof (induction k arbitrary: i s ns r)
  case (Suc k)
  then obtain n q ms where
    "read_separator (CHR ''.'') i (read_number 10 3 False 256) s = Some (n, q)"
    and rec: "read_octets (Suc i) k q = Some (ms, r)"
    by (auto simp: bind_eq_Some_conv)
  then have "consumed s q"
    by (elim read_separator_consumed) (auto simp: lit_char_def dest: read_number_consumed)
  with Suc.IH[OF rec] show ?case by (rule consumed_trans[rotated])
qed simp

lemma read_ipv4_consumed: "read_ipv4 s = Some (ip, r) \<Longrightarrow> consumed s r"
  by (auto simp: read_ipv4_def dest: read_octets_consumed)

lemma read_groups_consumed: "read_groups i k s = (gs, e, r) \<Longrightarrow> consumed s r"
proof (induction k arbitrary: i s gs e r)
  case (Suc k)
  let ?v4 = "if k > 0 then read_separator (CHR '':'') i read_ipv4 s else None"
  let ?g = "read_separator (CHR '':'') i (read_number 16 4 True 65536) s"
  consider ip q where "?v4 = Some (ip, q)" | "?v4 = None" "?g = None"
    | n q where "?v4 = None" "?g = Some (n, q)" by (metis option.exhaust prod.exhaust)
  then show ?case
  proof cases
    case 1
    then have "read_separator (CHR '':'') i read_ipv4 s = Some (ip, q)" by (simp split: if_splits)
    then have "consumed s q"
      by (rule read_separator_consumed) (auto simp: lit_char_def dest: read_ipv4_consumed)
    with 1 Suc.prems show ?thesis by (simp add: Let_def split: if_splits)
  next
    case 2
    with Suc.prems show ?thesis by (simp add: Let_def)
  next
    case 3
    obtain hs f r' where rec: "read_groups (Suc i) k q = (hs, f, r')" by (metis prod_cases3)
    from 3 have "consumed s q"
      by (elim read_separator_consumed) (auto simp: lit_char_def dest: read_number_consumed)
    with Suc.IH[OF rec] have "consumed s r'" by (rule consumed_trans[rotated])
    with 3 rec Suc.prems show ?thesis by (simp add: Let_def)
  qed
qed simp

lemma read_ipv6_consumed: "read_ipv6 s = Some (ip, r) \<Longrightarrow> consumed s r"
proof -
  assume h: "read_ipv6 s = Some (ip, r)"
  obtain head e q where g: "read_groups 0 8 s = (head, e, q)" by (metis prod_cases3)
  note c = read_groups_consumed[OF g]
  show ?thesis
  proof (cases "length head = 8")
    case True
    with h g c show ?thesis by (simp add: read_ipv6_def)
  next
    case False
    with h g obtain q1 u where 1: "read_char (CHR '':'') q = Some (u, q1)"
      by (auto simp: read_ipv6_def bind_eq_Some_conv split: if_splits)
    with False h g obtain q2 v where 2: "read_char (CHR '':'') q1 = Some (v, q2)"
      by (auto simp: read_ipv6_def bind_eq_Some_conv split: if_splits)
    obtain t f q3 where 3: "read_groups 0 (8 - (length head + 1)) q2 = (t, f, q3)"
      by (metis prod_cases3)
    have "q3 = r" using h g False 1 2 3 by (simp add: read_ipv6_def Let_def split: if_splits)
    then have "consumed q2 r" using read_groups_consumed[OF 3] by simp
    moreover have "consumed q q2" using 1 2
      by (meson consumed_trans lit_char_def read_char_consumed)
    ultimately show ?thesis using c consumed_trans by blast
  qed
qed

lemma parse_ip_lit: "parse_ip s = Some ip \<Longrightarrow> c \<in> set s \<Longrightarrow> lit_char c"
  by (auto simp: parse_ip_def split: option.splits prod.splits if_splits
      dest!: read_ipv4_consumed read_ipv6_consumed consumed_Nil)

section \<open>The allowlist\<close>

lemma approved_dev: "approved_domain h \<Longrightarrow> \<exists>a. h = a @ ''.dev''"
  by (auto simp: approved_domain_def OSV_APPROVED_DOMAINS_def suffix_def)

lemma approved_not_ip: "approved_domain h \<Longrightarrow> parse_ip h = None"
proof (rule ccontr)
  assume "approved_domain h" "parse_ip h \<noteq> None"
  then obtain ip where "parse_ip h = Some ip" by auto
  moreover have "CHR ''v'' \<in> set h" using approved_dev[OF \<open>approved_domain h\<close>] by auto
  ultimately have "lit_char (CHR ''v'')" by (rule parse_ip_lit)
  then show False by (simp add: lit_char_def is_hexdigit_def is_digit_def is_lower_hex_def in_range_def)
qed

lemma those_snoc_None: "those (xs @ [None]) = None"
  by (induction xs) (auto split: option.splits)

lemma approved_not_alt: "approved_domain h \<Longrightarrow> parse_alt_ipv4 h = None"
proof -
  assume "approved_domain h"
  then obtain a where h: "h = a @ CHR ''.'' # ''dev''" using approved_dev by auto
  have "alt_octet ''dev'' = None" by code_simp
  moreover have "split_on (CHR ''.'') ''dev'' = [''dev'']" by code_simp
  ultimately show ?thesis by (simp add: h parse_alt_ipv4_def split_on_app those_snoc_None Let_def)
qed

lemma egress_allow:
  "evaluate_egress_target uni host port = Allow \<longleftrightarrow>
     port \<in> {443, 53} \<and> \<not> smuggles (normal_host uni host) \<and> approved_domain (normal_host uni host)"
  by (auto simp: evaluate_egress_target_def Let_def direct_ip_def approved_not_ip approved_not_alt
      split: option.splits if_splits)

text \<open>C29. The target policy is its allowlist: a host and port are allowed exactly when the port is
  443 or 53 and the host, trimmed, lower-cased and without one trailing dot, carries no smuggled
  authority characters and is an approved domain or a subdomain of one.  No address literal, in
  any of the spellings the policy reads, is ever allowed.\<close>

theorem egress_allow_iff:
  "evaluate_egress_target uni host port = Allow \<longleftrightarrow>
     port \<in> {443, 53}
     \<and> (\<forall>c \<in> set ''@/:[]''. c \<notin> set (normal_host uni host))
     \<and> \<not> has_whitespace (normal_host uni host) \<and> \<not> has_control (normal_host uni host)
     \<and> (\<exists>d \<in> {''api.osv.dev'', ''osv.dev''}.
          normal_host uni host = d \<or> suffix (CHR ''.'' # d) (normal_host uni host))"
  by (auto simp: egress_allow smuggles_def approved_domain_def OSV_APPROVED_DOMAINS_def)

theorem egress_allow_iff_witness:
  "evaluate_egress_target id ''osv.dev'' 443 = Allow"
proof -
  have "to_lowercase id ''osv.dev'' = ''osv.dev''" by code_simp
  moreover have "trim ''osv.dev'' = ''osv.dev''"
    by (rule trim_visible) (simp_all add: is_visible_def in_range_def)
  ultimately have h: "normal_host id ''osv.dev'' = ''osv.dev''"
    by (simp add: normal_host_def strip_suffix_def suffix_def)
  have "\<not> has_whitespace ''osv.dev''" "\<not> has_control ''osv.dev''" by code_simp+
  then show ?thesis unfolding egress_allow_iff h by simp
qed

section \<open>Address ranges\<close>

text \<open>The specification: CIDR blocks over addresses read as numbers of 32 and of 128 bits.\<close>

fun u32_of_ipv4 :: "ipv4 \<Rightarrow> nat" where
  "u32_of_ipv4 (IPv4 a b c d) = unat a * 2 ^ 24 + unat b * 2 ^ 16 + unat c * 2 ^ 8 + unat d"

definition u128_of_ipv6 :: "ipv6 \<Rightarrow> nat" where
  "u128_of_ipv6 s = foldl (\<lambda>n w. n * 2 ^ 16 + unat w) 0 s"

definition in_cidr :: "nat \<Rightarrow> nat \<Rightarrow> nat \<times> nat \<Rightarrow> bool" where
  "in_cidr bits n = (\<lambda>(base, len). n div 2 ^ (bits - len) = base div 2 ^ (bits - len))"

definition blocked4 :: "(nat \<times> nat) list" where
  "blocked4 =
     [(127 * 2 ^ 24, 8), (169 * 2 ^ 24 + 254 * 2 ^ 16, 16), (10 * 2 ^ 24, 8),
      (172 * 2 ^ 24 + 16 * 2 ^ 16, 12), (192 * 2 ^ 24 + 168 * 2 ^ 16, 16), (0, 8),
      (192 * 2 ^ 24 + 2 * 2 ^ 8, 24), (198 * 2 ^ 24 + 51 * 2 ^ 16 + 100 * 2 ^ 8, 24),
      (203 * 2 ^ 24 + 113 * 2 ^ 8, 24), (100 * 2 ^ 24 + 64 * 2 ^ 16, 10), (224 * 2 ^ 24, 3)]"

definition blocked6 :: "(nat \<times> nat) list" where
  "blocked6 =
     [(1, 128), (0, 128), (0xFE80 * 2 ^ 112, 10), (0xFC00 * 2 ^ 112, 7), (0xFF00 * 2 ^ 112, 8),
      (0x20010DB8 * 2 ^ 96, 32)]"

fun address_blocked :: "ip_addr \<Rightarrow> bool" where
  "address_blocked (V4 ip) = list_ex (in_cidr 32 (u32_of_ipv4 ip)) blocked4"
| "address_blocked (V6 s) =
     (let n = u128_of_ipv6 s in
      if in_cidr 128 n (0xFFFF * 2 ^ 32, 96) then list_ex (in_cidr 32 (n mod 2 ^ 32)) blocked4
      else list_ex (in_cidr 128 n) blocked6)"

lemma and_not_mask: "(w :: 'a::len word) AND NOT (mask n) = push_bit n (drop_bit n w)"
  by (rule bit_word_eqI) (auto simp: bit_simps)

lemma drop_push_drop: "drop_bit n (push_bit n (drop_bit n w)) = drop_bit n (w :: 'a::len word)"
  by (rule bit_word_eqI) (auto simp: bit_simps dest: bit_imp_le_length)

text \<open>Masking off the low bits compares the prefixes.\<close>

lemma mask_prefix:
  "(w :: 'a::len word) AND NOT (mask n) = v AND NOT (mask n) \<longleftrightarrow> unat w div 2 ^ n = unat v div 2 ^ n"
proof -
  have "w AND NOT (mask n) = v AND NOT (mask n) \<longleftrightarrow> drop_bit n w = drop_bit n v"
    unfolding and_not_mask by (metis drop_push_drop)
  also have "\<dots> \<longleftrightarrow> unat (drop_bit n w) = unat (drop_bit n v)" by (rule word_unat_eq_iff)
  finally show ?thesis unfolding unat_drop_bit_eq unfolding drop_bit_eq_div .
qed

lemma octet_and_C0: "(b :: 8 word) AND 0xC0 = 64 \<longleftrightarrow> unat b div 64 = 1"
proof -
  have "NOT (mask 6) = (0xC0 :: 8 word)" "(64 :: 8 word) AND NOT (mask 6) = 64" by code_simp+
  with mask_prefix[of b 6 64] show ?thesis by simp
qed

lemma octet_lt: "unat (a :: 8 word) < 256"
  using unsigned_less[of a] by simp

lemma div_digits:
  fixes a b c d n :: nat
  assumes "b < 256" "c < 256" "d < 256" and n_def: "n = a * 2 ^ 24 + b * 2 ^ 16 + c * 2 ^ 8 + d"
  shows "n div 16777216 = a" "n div 65536 = a * 256 + b" "n div 256 = a * 65536 + b * 256 + c"
    "n div 1048576 = a * 16 + b div 16" "n div 4194304 = a * 4 + b div 64" "n div 536870912 = a div 32"
proof -
  show n24: "n div 16777216 = a" by (rule div_nat_eqI) (use assms in simp_all)
  show n16: "n div 65536 = a * 256 + b" by (rule div_nat_eqI) (use assms in simp_all)
  show "n div 256 = a * 65536 + b * 256 + c" by (rule div_nat_eqI) (use assms in simp_all)
  have "n div 1048576 = n div 65536 div 16" by (simp add: div_mult2_eq[symmetric])
  also have "\<dots> = a * 16 + b div 16" unfolding n16 using div_mult_self3[of 16 "a * 16" b] by simp
  finally show "n div 1048576 = a * 16 + b div 16" .
  have "n div 4194304 = n div 65536 div 64" by (simp add: div_mult2_eq[symmetric])
  also have "\<dots> = a * 4 + b div 64" unfolding n16 using div_mult_self3[of 64 "a * 4" b] by simp
  finally show "n div 4194304 = a * 4 + b div 64" .
  have "n div 536870912 = n div 16777216 div 32" by (simp add: div_mult2_eq[symmetric])
  then show "n div 536870912 = a div 32" unfolding n24 .
qed

lemma digit_eq: "m < b \<Longrightarrow> q * b + m = k \<longleftrightarrow> q = k div b \<and> m = k mod b" for b m q k :: nat
  by (metis div_mult_mod_eq div_mult_self3 div_less mod_less mod_mult_self3 add_0_right gr_implies_not0 mult.commute)

lemma div_eq_range: "0 < b \<Longrightarrow> n div b = q \<longleftrightarrow> q * b \<le> n \<and> n < Suc q * b" for b n q :: nat
  by (metis div_less_iff_less_mult less_Suc_eq_le less_eq_div_iff_mult_less_eq order_antisym_conv order.refl)

lemma blocked4_octets:
  fixes w x y z n :: nat
  assumes lt: "w < 256" "x < 256" "y < 256" "z < 256"
    and n: "n = w * 2 ^ 24 + x * 2 ^ 16 + y * 2 ^ 8 + z"
  shows "list_ex (in_cidr 32 n) blocked4 \<longleftrightarrow>
      w = 127 \<or> w = 169 \<and> x = 254 \<or> w = 10
       \<or> w = 172 \<and> x div 16 = 1 \<or> w = 192 \<and> x = 168
       \<or> w = 0 \<or> w = 192 \<and> x = 0 \<and> y = 2
       \<or> w = 198 \<and> x = 51 \<and> y = 100 \<or> w = 203 \<and> x = 0 \<and> y = 113
       \<or> w = 100 \<and> x div 64 = 1 \<or> w div 32 = 7"
proof -
  note dd = div_digits[OF lt(2-4) n]
  have 16: "w * 256 + x = k \<longleftrightarrow> w = k div 256 \<and> x = k mod 256" for k
    by (rule digit_eq[OF lt(2)])
  have 24: "w * 65536 + x * 256 + y = k \<longleftrightarrow> w = k div 256 div 256 \<and> x = k div 256 mod 256 \<and> y = k mod 256" for k
    using digit_eq[OF lt(3), of "w * 256 + x" k] 16[of "k div 256"]
    by (simp add: mult.commute[of w])
  have 20: "w * 16 + x div 16 = k \<longleftrightarrow> w = k div 16 \<and> x div 16 = k mod 16" for k
    using lt(2) by (intro digit_eq) simp
  have 22: "w * 4 + x div 64 = k \<longleftrightarrow> w = k div 4 \<and> x div 64 = k mod 4" for k 
    using lt(2) by (intro digit_eq) simp
  show ?thesis
    unfolding blocked4_def in_cidr_def by (simp add: dd 16 24 20 22)
qed


lemma evaluate_ip4_octets:
  "evaluate_ip4 (IPv4 a b c d) = Allow \<longleftrightarrow>
     \<not> (unat a = 127 \<or> unat a = 169 \<and> unat b = 254 \<or> unat a = 10
       \<or> unat a = 172 \<and> 16 \<le> unat b \<and> unat b \<le> 31 \<or> unat a = 192 \<and> unat b = 168
       \<or> unat a = 0 \<or> unat a = 192 \<and> unat b = 0 \<and> unat c = 2
       \<or> unat a = 198 \<and> unat b = 51 \<and> unat c = 100 \<or> unat a = 203 \<and> unat b = 0 \<and> unat c = 113
       \<or> unat a = 100 \<and> unat b div 64 = 1 \<or> 224 \<le> unat a)"
proof -
  have eq: "(w = numeral k) = (unat w = unat (numeral k :: 8 word))" "(w = 0) = (unat w = 0)" for w :: "8 word" and k
    by (simp_all add: word_unat_eq_iff)
  have blk: "((if c then Block r else e) = Allow) = (\<not> c \<and> e = Allow)" for c r e by simp
  have metadata: "a = 169 \<and> b = 254 \<or> a = 169 \<and> b = 254 \<and> c = 169 \<and> d = 254 \<longleftrightarrow> a = 169 \<and> b = 254"
    by blast
  have big: "\<not> 224 \<le> a \<Longrightarrow> a \<noteq> 255" by auto
  have "evaluate_ip4 (IPv4 a b c d) = Allow \<longleftrightarrow>
     \<not> (a = 127 \<or> a = 169 \<and> b = 254 \<or> a = 10 \<or> a = 172 \<and> 16 \<le> b \<and> b \<le> 31 \<or> a = 192 \<and> b = 168
       \<or> a = 0 \<or> a = 192 \<and> b = 0 \<and> c = 2 \<or> a = 198 \<and> b = 51 \<and> c = 100
       \<or> a = 203 \<and> b = 0 \<and> c = 113 \<or> a = 100 \<and> b AND 0xC0 = 64 \<or> a \<ge> 224)"
    unfolding evaluate_ip4.simps Let_def blk is_loopback4.simps is_link_local4.simps
        is_private4.simps ipv4.inject metadata
    by (cases "a = 0"; cases "224 \<le> a") (simp_all only: big simp_thms de_Morgan_disj conj_assoc)
  then show ?thesis
    unfolding octet_and_C0 unfolding word_le_nat_alt eq by (simp del: evaluate_ip4.simps)
qed

lemma evaluate_ip4_allow:
  "evaluate_ip4 ip = Allow \<longleftrightarrow> \<not> list_ex (in_cidr 32 (u32_of_ipv4 ip)) blocked4"
proof (cases ip)
  case (IPv4 a b c d)
  have x: "16 \<le> n \<and> n \<le> 31 \<longleftrightarrow> n div 16 = 1" for n :: nat by (auto simp: div_eq_range)
  have w: "224 \<le> n \<longleftrightarrow> n div 32 = 7" if "n < 256" for n :: nat using that by (auto simp: div_eq_range)
  show ?thesis
    unfolding IPv4 evaluate_ip4_octets x w[OF octet_lt]
      u32_of_ipv4.simps blocked4_octets[OF octet_lt[of a] octet_lt[of b] octet_lt[of c] octet_lt[of d] refl]
    by (simp only: disj_assoc)
qed

lemma u128_append: "u128_of_ipv6 (xs @ ys) = u128_of_ipv6 xs * 2 ^ (16 * length ys) + u128_of_ipv6 ys"
proof (induction ys rule: rev_induct)
  case (snoc y ys)
  have "u128_of_ipv6 (zs @ [y]) = u128_of_ipv6 zs * 65536 + unat y" for zs
    by (simp add: u128_of_ipv6_def)
  from this[of "xs @ ys"] this[of ys] snoc show ?case by (simp add: power_add algebra_simps)
qed (simp add: u128_of_ipv6_def)

lemma group_lt: "unat (w :: 16 word) < 65536"
  using unsigned_less[of w] by simp

lemma u128_snoc: "u128_of_ipv6 (zs @ [y]) = u128_of_ipv6 zs * 65536 + unat y"
  by (simp add: u128_of_ipv6_def)

lemma u128_lt: "u128_of_ipv6 s < 2 ^ (16 * length s)"
proof (induction s rule: rev_induct)
  case (snoc y s)
  then have "u128_of_ipv6 s + 1 \<le> 2 ^ (16 * length s)" by simp
  then have "(u128_of_ipv6 s + 1) * 65536 \<le> 2 ^ (16 * length s) * 65536" by (rule mult_le_mono1)
  with group_lt[of y] show ?case by (simp add: u128_snoc power_add algebra_simps)
qed (simp add: u128_of_ipv6_def)

lemma u128_inject:
  "length s = length t \<Longrightarrow> u128_of_ipv6 s = u128_of_ipv6 t \<longleftrightarrow> s = t"
proof (induction s arbitrary: t rule: rev_induct)
  case (snoc y s)
  then obtain t' z where t: "t = t' @ [z]" "length t' = length s"
    by (metis length_0_conv length_append_singleton nat.distinct(1) rev_exhaust add_left_cancel plus_1_eq_Suc)
  with snoc.IH[of t'] show ?case
    using digit_eq[OF group_lt[of y], of "u128_of_ipv6 s" "u128_of_ipv6 t"] 
      group_lt[of z]
    by (auto simp: t u128_snoc word_unat_eq_iff)
qed simp

lemma u128_div:
  "k \<le> length s \<Longrightarrow> u128_of_ipv6 s div 2 ^ (16 * (length s - k)) = u128_of_ipv6 (take k s)"
proof -
  assume k: "k \<le> length s"
  have "u128_of_ipv6 s = u128_of_ipv6 (take k s) * 2 ^ (16 * (length s - k)) + u128_of_ipv6 (drop k s)"
    using u128_append[of "take k s" "drop k s"] k by simp
  moreover have "u128_of_ipv6 (drop k s) < 2 ^ (16 * (length s - k))"
    using u128_lt[of "drop k s"] by simp
  ultimately show ?thesis by simp
qed

lemma u128_mod:
  "k \<le> length s \<Longrightarrow> u128_of_ipv6 s mod 2 ^ (16 * (length s - k)) = u128_of_ipv6 (drop k s)"
proof -
  assume k: "k \<le> length s"
  have "u128_of_ipv6 s = u128_of_ipv6 (take k s) * 2 ^ (16 * (length s - k)) + u128_of_ipv6 (drop k s)"
    using u128_append[of "take k s" "drop k s"] k by simp
  moreover have "u128_of_ipv6 (drop k s) < 2 ^ (16 * (length s - k))"
    using u128_lt[of "drop k s"] by simp
  ultimately show ?thesis by simp
qed


lemma first_group:
  assumes "length (s :: ipv6) = 8" "m \<le> 16"
  shows "u128_of_ipv6 s div 2 ^ (112 + m) = unat (s ! 0) div 2 ^ m"
proof -
  have "u128_of_ipv6 s div 2 ^ 112 = u128_of_ipv6 (take 1 s)" using u128_div[of 1 s] assms by simp
  also have "take 1 s = [s ! 0]" using assms by (cases s) auto
  finally have "u128_of_ipv6 s div 2 ^ 112 = unat (s ! 0)" by (simp add: u128_of_ipv6_def)
  then show ?thesis unfolding power_add by (simp only: div_mult2_eq)
qed

lemma octets_of_group: "unat (hi_octet w) = unat w div 256" "unat (lo_octet w) = unat w mod 256"
proof -
  have "unat (drop_bit 8 w) = unat w div 256" unfolding unat_drop_bit_eq unfolding drop_bit_eq_div by simp
  moreover have "unat w div 256 < 256" using group_lt[of w] by (simp add: div_less_iff_less_mult)
  ultimately show "unat (hi_octet w) = unat w div 256"
    by (simp add: hi_octet_def unsigned_ucast_eq take_bit_eq_mod)
  show "unat (lo_octet w) = unat w mod 256" by (simp add: lo_octet_def unsigned_ucast_eq take_bit_eq_mod)
qed

lemma mapped_u32:
  assumes "length s = 8" "to_ipv4_mapped s = Some ip"
  shows "u32_of_ipv4 ip = u128_of_ipv6 s mod 2 ^ 32"
proof -
  have ip: "ip = IPv4 (hi_octet (s ! 6)) (lo_octet (s ! 6)) (hi_octet (s ! 7)) (lo_octet (s ! 7))"
    using assms by (simp add: to_ipv4_mapped_def split: if_splits)
  have "drop 6 s = [s ! 6, s ! 7]"
    using assms(1) by (simp add: list_eq_iff_nth_eq nth_append less_Suc_eq numeral_eq_Suc)
  moreover have "u128_of_ipv6 s mod 2 ^ 32 = u128_of_ipv6 (drop 6 s)"
    using u128_mod[of 6 s] assms(1) by simp
  ultimately have "u128_of_ipv6 s mod 2 ^ 32 = unat (s ! 6) * 65536 + unat (s ! 7)"
    by (simp add: u128_of_ipv6_def)
  moreover have "n div 256 * 16777216 + n mod 256 * 65536 = n * 65536" for n :: nat
    using mult_mod_right[of 65536 n 256] div_mult_mod_eq[of n 256] by linarith
  ultimately show ?thesis by (simp add: ip octets_of_group)
qed

lemma mapped_iff:
  assumes "length s = 8"
  shows "to_ipv4_mapped s \<noteq> None \<longleftrightarrow> in_cidr 128 (u128_of_ipv6 s) (0xFFFF * 2 ^ 32, 96)"
proof -
  have "u128_of_ipv6 s div 2 ^ 32 = u128_of_ipv6 (take 6 s)" using u128_div[of 6 s] assms by simp
  moreover have "u128_of_ipv6 (take 6 s) = u128_of_ipv6 [0, 0, 0, 0, 0, 0xFFFF]
      \<longleftrightarrow> take 6 s = [0, 0, 0, 0, 0, 0xFFFF]"
    using assms by (intro u128_inject) simp
  ultimately show ?thesis by (simp add: to_ipv4_mapped_def in_cidr_def u128_of_ipv6_def)
qed

lemma blocked6_groups:
  assumes "length s = 8"
  shows "list_ex (in_cidr 128 (u128_of_ipv6 s)) blocked6 \<longleftrightarrow>
     is_loopback6 s \<or> is_unspecified6 s \<or> is_unicast_link_local6 s \<or> is_unique_local6 s
       \<or> is_multicast6 s \<or> s ! 0 = 0x2001 \<and> s ! 1 = 0x0DB8"
proof -
  let ?n = "u128_of_ipv6 s"
  have lo: "is_loopback6 s \<longleftrightarrow> ?n = 1"
    using u128_inject[of s "[0, 0, 0, 0, 0, 0, 0, 1]"] assms by (simp add: is_loopback6_def u128_of_ipv6_def)
  have un: "is_unspecified6 s \<longleftrightarrow> ?n = 0"
    using u128_inject[of s "[0, 0, 0, 0, 0, 0, 0, 0]"] assms by (simp add: is_unspecified6_def u128_of_ipv6_def)
  have masks: "NOT (mask 6) = (0xFFC0 :: 16 word)" "(0xFE80 :: 16 word) AND NOT (mask 6) = 0xFE80"
    "NOT (mask 9) = (0xFE00 :: 16 word)" "(0xFC00 :: 16 word) AND NOT (mask 9) = 0xFC00"
    "NOT (mask 8) = (0xFF00 :: 16 word)" "(0xFF00 :: 16 word) AND NOT (mask 8) = 0xFF00"
    by code_simp+
  have ll: "is_unicast_link_local6 s \<longleftrightarrow> ?n div 2 ^ 118 = 1018"
    using mask_prefix[where w = "s ! 0" and n = 6 and v = "0xFE80"] first_group[OF assms, where m = 6]
    by (simp add: masks is_unicast_link_local6_def)
  have ul: "is_unique_local6 s \<longleftrightarrow> ?n div 2 ^ 121 = 126"
    using mask_prefix[where w = "s ! 0" and n = 9 and v = "0xFC00"] first_group[OF assms, where m = 9]
    by (simp add: masks is_unique_local6_def)
  have mc: "is_multicast6 s \<longleftrightarrow> ?n div 2 ^ 120 = 255"
    using mask_prefix[where w = "s ! 0" and n = 8 and v = "0xFF00"] first_group[OF assms, where m = 8]
    by (simp add: masks is_multicast6_def)
  have "take 2 s = [s ! 0, s ! 1]" using assms by (cases s; cases "tl s") auto
  moreover have "?n div 2 ^ 96 = u128_of_ipv6 (take 2 s)" using u128_div[of 2 s] assms by simp
  ultimately have doc: "s ! 0 = 0x2001 \<and> s ! 1 = 0x0DB8 \<longleftrightarrow> ?n div 2 ^ 96 = 0x20010DB8"
    using u128_inject[of "[s ! 0, s ! 1]" "[0x2001, 0x0DB8]"] by (simp add: u128_of_ipv6_def)
  show ?thesis
    unfolding lo un ll ul mc doc blocked6_def in_cidr_def by simp
qed

lemma evaluate_ip6_allow:
  assumes "length s = 8"
  shows "evaluate_ip6 s = Allow \<longleftrightarrow> \<not> address_blocked (V6 s)"
proof (cases "to_ipv4_mapped s")
  case None
  then show ?thesis
    using mapped_iff[OF assms] blocked6_groups[OF assms]
    by (simp add: evaluate_ip6_def Let_def)
next
  case (Some ip)
  then have "\<not> is_loopback6 s" "\<not> is_unspecified6 s"
    by (auto simp: to_ipv4_mapped_def is_loopback6_def is_unspecified6_def)
  with Some show ?thesis
    using mapped_iff[OF assms] mapped_u32[OF assms Some] evaluate_ip4_allow[of ip]
    by (simp add: evaluate_ip6_def Let_def)
qed

text \<open>C30. The address policy blocks exactly the addresses of its CIDR blocks: loopback, link-local,
  private, documentation, carrier-grade NAT, zero, and multicast and reserved IPv4 ranges; the
  loopback, unspecified, link-local, unique-local, multicast and documentation IPv6 ranges; and an
  IPv4-mapped address exactly when the address it carries is blocked.\<close>

theorem evaluate_ip_allow_iff:
  "(\<forall>s. ip = V6 s \<longrightarrow> length s = 8) \<Longrightarrow> evaluate_ip ip = Allow \<longleftrightarrow> \<not> address_blocked ip"
  by (cases ip) (simp_all add: evaluate_ip4_allow evaluate_ip6_allow)

theorem evaluate_ip_allow_iff_witness:
  "\<not> address_blocked (V6 [0x2606, 0x4700, 0, 0, 0, 0, 0, 1])
     \<and> address_blocked (V6 [0, 0, 0, 0, 0, 0xFFFF, 0x7F00, 1])"
proof -
  have "evaluate_ip (V6 [0x2606, 0x4700, 0, 0, 0, 0, 0, 1]) = Allow"
    "evaluate_ip (V6 [0, 0, 0, 0, 0, 0xFFFF, 0x7F00, 1]) \<noteq> Allow" by code_simp+
  then show ?thesis
    using evaluate_ip_allow_iff[of "V6 [0x2606, 0x4700, 0, 0, 0, 0, 0, 1]"]
      evaluate_ip_allow_iff[of "V6 [0, 0, 0, 0, 0, 0xFFFF, 0x7F00, 1]"] by simp
qed

section \<open>The pinned connection\<close>

lemma for_all_candidates:
  "for_all_ok check_candidate ips = Inr u \<longleftrightarrow> list_all (\<lambda>ip. evaluate_ip ip = Allow) ips"
proof -
  have "check_candidate ip = Inr v \<longleftrightarrow> evaluate_ip ip = Allow" for ip v
    by (simp add: check_candidate_def split: egress_decision.split)
  then show ?thesis by (simp add: for_all_ok_Inr list_all_iff)
qed

lemma check_candidates_Inr:
  "check_candidates resolved = Inr ips \<longleftrightarrow>
     resolved = Some ips \<and> ips \<noteq> [] \<and> list_all (\<lambda>ip. evaluate_ip ip = Allow) ips"
proof (cases resolved)
  case (Some ips')
  then show ?thesis
    by (cases "ips' = []") (auto simp: check_candidates_def and_then_Inr for_all_candidates)
qed (simp add: check_candidates_def)

lemma check_target_Inr:
  "check_target uni host port = Inr u \<longleftrightarrow> evaluate_egress_target uni host port = Allow"
  by (simp add: check_target_def split: egress_decision.split)

text \<open>The connection loop tries the addresses in order up to the first that answers.\<close>

lemma connect_pinned_find:
  "connect_pinned reach port ips =
     (map (\<lambda>ip. Connect ip port False) (takeWhile (\<lambda>ip. \<not> reach ip port) ips)
        @ (case List.find (\<lambda>ip. reach ip port) ips of
             Some ip \<Rightarrow> [Connect ip port True] | None \<Rightarrow> []),
      List.find (\<lambda>ip. reach ip port) ips)"
  by (induction ips) (simp_all split: option.split)

text \<open>What reached the policy: a request read in time, in the given form, that the policy allows,
  and a resolution whose every address passed.\<close>

definition requested :: "bool \<Rightarrow> string \<Rightarrow> string \<Rightarrow> nat \<Rightarrow> bool" where
  "requested in_time input host port \<longleftrightarrow>
     in_time \<and> (\<exists>line. read_head MAX_HEAD_BYTES 0 None input = Some line
       \<and> parse_connect_line line = Inr (host, port))"

definition vetted ::
  "(string \<Rightarrow> string) \<Rightarrow> (string \<Rightarrow> ip_addr list option) \<Rightarrow> string \<Rightarrow> nat \<Rightarrow> ip_addr list \<Rightarrow> bool" where
  "vetted uni resolve host port ips \<longleftrightarrow>
     evaluate_egress_target uni host port = Allow \<and> resolve host = Some ips
       \<and> list_all (\<lambda>ip. evaluate_ip ip = Allow) ips"

fun attempted :: "effect list \<Rightarrow> ip_addr list" where
  "attempted [] = []"
| "attempted (Connect ip port ok # es) = ip # attempted es"
| "attempted (_ # es) = attempted es"

lemma attempted_append [simp]: "attempted (xs @ ys) = attempted xs @ attempted ys"
  by (induction xs rule: attempted.induct) auto

lemma attempted_failures [simp]: "attempted (map (\<lambda>ip. Connect ip port False) ips) = ips"
  by (induction ips) auto

text \<open>The four shapes a served connection can have.\<close>

lemma serve_connection_shape:
  obtains (refused) r where "serve_connection uni resolve reach in_time input = [Respond r]"
  | (unvetted) host port where
      "requested in_time input host port" "evaluate_egress_target uni host port = Allow"
      "\<nexists>ips. ips \<noteq> [] \<and> vetted uni resolve host port ips"
      "serve_connection uni resolve reach in_time input = [Resolve host, Respond FORBIDDEN]"
  | (served) host port ips where
      "requested in_time input host port" "vetted uni resolve host port ips"
      "serve_connection uni resolve reach in_time input =
         Resolve host # map (\<lambda>ip. Connect ip port False) (takeWhile (\<lambda>ip. \<not> reach ip port) ips)
           @ (case List.find (\<lambda>ip. reach ip port) ips of
                Some ip \<Rightarrow> [Connect ip port True, Respond ESTABLISHED, Tunnel ip port]
              | None \<Rightarrow> [Respond BAD_GATEWAY])"
proof (cases "if in_time then read_head MAX_HEAD_BYTES 0 None input else None")
  case None
  then show ?thesis by (intro refused) (simp add: serve_connection_def)
next
  case (Some line)
  show ?thesis
  proof (cases "parse_connect_line line")
    case (Inl e)
    with Some show ?thesis by (intro refused) (simp add: serve_connection_def)
  next
    case (Inr hp)
    then obtain host port where hp: "parse_connect_line line = Inr (host, port)" by (cases hp) auto
    with Some have sr: "serve_connection uni resolve reach in_time input
        = serve_request uni resolve reach host port"
      by (simp add: serve_connection_def)
    have rq: "requested in_time input host port"
      using Some hp by (auto simp: requested_def split: if_splits)
    show ?thesis
    proof (cases "check_target uni host port")
      case (Inl e)
      then show ?thesis by (intro refused) (simp add: sr serve_request_def)
    next
      case (Inr u)
      then have ok: "evaluate_egress_target uni host port = Allow" by (simp add: check_target_Inr)
      show ?thesis
      proof (cases "check_candidates (resolve host)")
        case (Inl e)
        then have "\<nexists>ips. ips \<noteq> [] \<and> vetted uni resolve host port ips"
          using check_candidates_Inr[of "resolve host"] by (auto simp: vetted_def)
        moreover have "serve_connection uni resolve reach in_time input = [Resolve host, Respond FORBIDDEN]"
          by (simp add: sr serve_request_def \<open>check_target uni host port = Inr u\<close> Inl)
        ultimately show ?thesis by (rule unvetted[OF rq ok])
      next
        case v: (Inr ips)
        then have "vetted uni resolve host port ips" using ok check_candidates_Inr by (simp add: vetted_def)
        then show ?thesis
          by (rule served[OF rq])
            (simp add: sr serve_request_def \<open>check_target uni host port = Inr u\<close> v
               connect_pinned_find split: option.split)
      qed
    qed
  qed
qed

text \<open>The resolver's side of the interface: it does not answer an address twice.\<close>

locale resolver =
  fixes resolve :: "string \<Rightarrow> ip_addr list option"
  assumes distinct_answer: "resolve host = Some ips \<Longrightarrow> distinct ips"
begin

lemma attempts_distinct: "distinct (attempted (serve_connection uni resolve reach in_time input))"
proof (cases rule: serve_connection_shape[of uni resolve reach in_time input])
  case (served host port ips)
  let ?P = "\<lambda>ip. \<not> reach ip port"
  have found: "List.find (\<lambda>ip. reach ip port) ips = Some ip \<Longrightarrow> reach ip port" for ip
    by (auto simp: find_Some_iff)
  have d: "distinct ips" using served(2) distinct_answer[of host ips] by (simp add: vetted_def)
  have "distinct (takeWhile ?P ips @ (case List.find (\<lambda>ip. reach ip port) ips of Some ip \<Rightarrow> [ip] | None \<Rightarrow> []))"
    using d by (auto dest!: set_takeWhileD found found[OF sym] split: option.split)
  then show ?thesis using served(3) by (simp split: option.splits)
qed simp_all

end

interpretation sys: resolver "system_resolve lookup" for lookup
  by unfold_locales (auto simp: system_resolve_def keep_first_distinct[where f = "\<lambda>ip. ip", simplified])


text \<open>A tunnel to an address is opened exactly when a request for an allowed target was read in
  time, every address of its resolution passed the policy, and the address is the first of them that
  answers: no other condition and no other target opens one.\<close>

theorem tunnel_iff:
  "Tunnel ip port \<in> set (serve_connection uni resolve reach in_time input) \<longleftrightarrow>
     (\<exists>host ips. requested in_time input host port \<and> vetted uni resolve host port ips
        \<and> List.find (\<lambda>ip. reach ip port) ips = Some ip)"
proof -
  have det: "host = h \<and> port = p" if "requested in_time input host port" "requested in_time input h p"
    for host port h p
    using that by (auto simp: requested_def)
  show ?thesis
  proof (cases rule: serve_connection_shape[of uni resolve reach in_time input])
    case (refused r)
    have "\<not> (requested in_time input host port \<and> vetted uni resolve host port ips
        \<and> List.find (\<lambda>ip. reach ip port) ips = Some ip)" for host ips
    proof
      assume h: "requested in_time input host port \<and> vetted uni resolve host port ips
        \<and> List.find (\<lambda>ip. reach ip port) ips = Some ip"
      then have "ips \<noteq> []" by auto
      with h have "check_target uni host port = Inr ()" "check_candidates (resolve host) = Inr ips"
        by (auto simp: check_target_Inr check_candidates_Inr vetted_def)
      with h have "Resolve host \<in> set (serve_connection uni resolve reach in_time input)"
        by (auto simp: requested_def serve_connection_def serve_request_def split: prod.split)
      with refused show False by simp
    qed
    with refused show ?thesis by simp
  next
    case (unvetted h p)
    have "\<not> vetted uni resolve h p ips" if "List.find (\<lambda>ip. reach ip p) ips = Some ip" for ips
      using unvetted(3) that by (cases ips) auto
    with unvetted(4) show ?thesis by (auto dest!: det[OF unvetted(1)])
  next
    case (served h p ips)
    have "Tunnel ip port \<in> set (serve_connection uni resolve reach in_time input)
        \<longleftrightarrow> port = p \<and> List.find (\<lambda>ip. reach ip p) ips = Some ip"
      by (auto simp: served(3) split: option.splits)
    with served(1,2) show ?thesis by (auto dest: det simp: vetted_def)
  qed
qed

section \<open>The concurrency bound\<close>

lemma accepting_bound: "accepting n \<Longrightarrow> n \<le> MAX_CONCURRENT_CONNECTIONS"
  by (induction rule: accepting.induct) (auto simp: handle_accept_def)

lemma served_not_overloaded:
  "serve_connection uni resolve reach in_time input \<noteq> [Respond OVERLOADED]"
  by (auto simp: serve_connection_def serve_request_def OVERLOADED_def BAD_REQUEST_def FORBIDDEN_def
      split: option.splits sum.splits prod.splits if_splits)

text \<open>However connections are accepted and finish, at most 128 are served at any time, and an
  accepted connection is refused with 503 exactly when 128 are being served.\<close>

theorem concurrency_bounded:
  assumes "accepting n"
  shows "n \<le> 128 \<and> snd (handle_accept uni lookup reach in_time input n) \<le> 128
    \<and> (fst (handle_accept uni lookup reach in_time input n) = [Respond OVERLOADED] \<longleftrightarrow> n = 128)"
  using accepting_bound[OF assms]
  by (auto simp: handle_accept_def MAX_CONCURRENT_CONNECTIONS_def served_not_overloaded)

theorem concurrency_bounded_witness:
  "fst (handle_accept id (\<lambda>_. None) (\<lambda>_ _. False) False [] 0) \<noteq> [Respond OVERLOADED]"
  using concurrency_bounded[OF accepting.idle, of id "\<lambda>_. None" "\<lambda>_ _. False" False "[]"] by simp

section \<open>Framing\<close>

lemma visible_framing:
  "list_all is_visible s \<Longrightarrow> \<not> has_whitespace s" "list_all is_visible s \<Longrightarrow> \<not> has_control s"
proof -
  assume v: "list_all is_visible s"
  show "\<not> has_whitespace s"
  proof
    assume "has_whitespace s"
    then obtain w where "w \<in> set ws_chars" "sublist w s" by (auto simp: has_whitespace_def list_ex_iff)
    moreover from this have "w \<noteq> []" using nil_notin_ws(1) by metis
    ultimately have "hd w \<in> set s" using set_mono_sublist by fastforce
    then show False using v ws_hd[OF \<open>w \<in> set ws_chars\<close>] by (auto simp: list_all_iff)
  qed
  show "\<not> has_control s"
    using v by (induction s) (auto simp: is_visible_def in_range_def)
qed

lemma nat_str_visible: "list_all is_visible (nat_str n)"
  using nat_str_digits[of n]
  by (auto simp: list_all_iff is_digit_def is_visible_def in_range_def)

lemma split_ws_word:
  "list_all is_visible w \<Longrightarrow> split_ws acc (w @ s) = split_ws (acc @ w) s"
proof (induction w arbitrary: acc)
  case (Cons c w)
  have "lead_len ws_chars (c # w @ s) = 0"
    using Cons.prems by (auto simp: lead_len_0 prefix_Cons dest: ws_hd)
  then show ?case using Cons by (subst split_ws.simps) simp
qed simp

lemma split_ws_space: "split_ws w (CHR '' '' # s) = (if w = [] then [] else [w]) @ split_ws [] s"
proof -
  have "lead_len ws_chars (CHR '' '' # s) = 1" by (simp add: lead_len_def ws_chars_def)
  then show ?thesis by (subst split_ws.simps) simp
qed

lemma split_ws_end: "split_ws w [] = (if w = [] then [] else [w])"
  by (subst split_ws.simps) simp

lemma split_whitespace_three:
  assumes "list_all is_visible a" "list_all is_visible b" "list_all is_visible c"
    and "a \<noteq> []" "b \<noteq> []" "c \<noteq> []"
  shows "split_whitespace (a @ '' '' @ b @ '' '' @ c) = [a, b, c]"
  using assms split_ws_word[of a "[]"] split_ws_word[of b "[]"] split_ws_word[of c "[]" "[]"]
  by (simp add: split_whitespace_def split_ws_space split_ws_end)

lemma rsplit_once_colon:
  "CHR '':'' \<notin> set b \<Longrightarrow> rsplit_once (CHR '':'') (a @ CHR '':'' # b) = Some (a, b)"
  by (simp add: rsplit_once_Some)

lemma parse_connect_line_host:
  assumes "host \<noteq> []" "list_all is_visible host" "\<forall>c \<in> set host. c \<notin> set '':@/[]''"
    and "port < 2 ^ 16" "length (host @ '':'' @ nat_str port) \<le> 253"
  shows "parse_connect_line (''CONNECT '' @ host @ '':'' @ nat_str port @ '' HTTP/1.1'') = Inr (host, port)"
proof -
  let ?a = "host @ CHR '':'' # nat_str port"
  have vis: "list_all is_visible ?a"
  proof -
    have "is_visible (CHR '':'')" by (simp add: is_visible_def in_range_def)
    with assms(2) nat_str_visible show ?thesis by simp
  qed
  have "split_whitespace (''CONNECT'' @ '' '' @ ?a @ '' '' @ ''HTTP/1.1'') = [''CONNECT'', ?a, ''HTTP/1.1'']"
    by (rule split_whitespace_three) (simp_all add: assms(2) nat_str_visible is_visible_def in_range_def)
  moreover have digits: "c \<in> set (nat_str port) \<Longrightarrow> c \<notin> set '':@/[]''" for c
    using nat_str_mem[of c port] by (auto simp: is_digit_def in_range_def)
  have "parse_authority ?a = Inr (host, port)"
  proof -
    have "strip_prefix ''['' ?a = None"
      using assms(1,3) by (cases host) (auto simp: strip_prefix_None)
    moreover have "\<not> (\<exists>c \<in> set ''@/[]''. c \<in> set ?a)" using assms(3) digits by auto
    moreover have "CHR '':'' \<notin> set (nat_str port)" "CHR '':'' \<notin> set host" using assms(3) digits by auto
    ultimately show ?thesis
      using assms(1,4,5) visible_framing[OF vis]
      by (simp add: parse_authority_def rsplit_once_colon parse_uint_nat_str)
  qed
  ultimately show ?thesis by (simp add: parse_connect_line_def)
qed

text \<open>The framing of the proxy inverts the CONNECT line of a client: a host name of printable
  characters without delimiters and a port are read back exactly as they were written.\<close>

theorem connect_line_roundtrip:
  assumes "host \<noteq> []" "list_all is_visible host" "\<forall>c \<in> set host. c \<notin> set '':@/[]''"
    and "port < 2 ^ 16" "length (host @ '':'' @ nat_str port) \<le> 253"
  shows "parse_connect_line (''CONNECT '' @ host @ '':'' @ nat_str port @ '' HTTP/1.1'') = Inr (host, port)"
  using assms by (rule parse_connect_line_host)

theorem connect_line_roundtrip_witness:
  "parse_connect_line ''CONNECT api.osv.dev:443 HTTP/1.1'' = Inr (''api.osv.dev'', 443)"
proof -
  have "nat_str 443 = ''443''" by code_simp
  with connect_line_roundtrip[of "''api.osv.dev''" 443] show ?thesis
    by (simp add: is_visible_def in_range_def)
qed

definition demo_lookup :: "string \<Rightarrow> ip_addr list option" where
  "demo_lookup host = (if host = ''osv.dev'' then Some [V4 (IPv4 93 184 216 34)] else None)"

definition demo_input :: string where
  "demo_input = ''CONNECT osv.dev:443 HTTP/1.1'' @ [CHR 0x0D, CHR 0x0A, CHR 0x0D, CHR 0x0A]"

lemma demo_target: "evaluate_egress_target id ''osv.dev'' 443 = Allow"
proof -
  have "to_lowercase id ''osv.dev'' = ''osv.dev''" by code_simp
  moreover have "trim ''osv.dev'' = ''osv.dev''"
    by (rule trim_visible) (simp_all add: is_visible_def in_range_def)
  ultimately have h: "normal_host id ''osv.dev'' = ''osv.dev''"
    by (simp add: normal_host_def strip_suffix_def suffix_def)
  have "\<not> smuggles ''osv.dev''" "approved_domain ''osv.dev''" by code_simp+
  then show ?thesis unfolding egress_allow h by simp
qed

lemma demo_requested: "requested True demo_input ''osv.dev'' 443"
proof -
  have "nat_str 443 = ''443''" by code_simp
  with parse_connect_line_host[of "''osv.dev''" 443]
  have "parse_connect_line ''CONNECT osv.dev:443 HTTP/1.1'' = Inr (''osv.dev'', 443)"
    by (simp add: is_visible_def in_range_def)
  moreover have "read_head MAX_HEAD_BYTES 0 None demo_input = Some ''CONNECT osv.dev:443 HTTP/1.1''"
    by code_simp
  ultimately show ?thesis by (simp add: requested_def)
qed

lemma demo_served:
  "serve_connection id (system_resolve demo_lookup) (\<lambda>_ _. True) True demo_input =
     [Resolve ''osv.dev'', Connect (V4 (IPv4 93 184 216 34)) 443 True, Respond ESTABLISHED,
      Tunnel (V4 (IPv4 93 184 216 34)) 443]"
proof -
  from demo_requested obtain line where
    "read_head MAX_HEAD_BYTES 0 None demo_input = Some line" "parse_connect_line line = Inr (''osv.dev'', 443)"
    by (auto simp: requested_def)
  moreover have "check_target id ''osv.dev'' 443 = Inr ()" by (simp add: check_target_Inr demo_target)
  moreover have "check_candidates (system_resolve demo_lookup ''osv.dev'') = Inr [V4 (IPv4 93 184 216 34)]"
    by code_simp
  ultimately show ?thesis by (simp add: serve_connection_def serve_request_def)
qed


end
