(* ===== verification/Tar_Archive.thy ===== *)
theory Tar_Archive
  imports App_Error "HOL-Library.Word"
begin

text \<open>
  The hand-written tar reader of \<open>backend/src/agents/fetch.rs\<close>: the numeric and name
  fields of a header, the confinement of a member name to the extraction directory, the
  bounded streaming of member bodies, and the extraction loop.

  The gzip decoder is third-party code.  It is the bytes it inflates (\<open>st_in\<close>), how many
  of them one \<open>read\<close> call returns (\<open>xe_grain\<close>, at least one while bytes are left) and how
  the stream ends (\<open>xe_end\<close>: cleanly, or with a decoding error).  The disk is a map from
  absolute paths (lists of components) to nodes; \<open>xe_refuses\<close> says which operations the
  operating system refuses for a reason of its own, and \<open>xe_cancel\<close> what each call of the
  caller's \<open>cancel\<close> closure returns.
\<close>

section \<open>Caps\<close>

definition MAX_TOTAL_BYTES :: nat where "MAX_TOTAL_BYTES = 150 * 1024 * 1024"

definition MAX_FILE_BYTES :: nat where "MAX_FILE_BYTES = 20 * 1024 * 1024"

definition MAX_FILE_COUNT :: nat where "MAX_FILE_COUNT = 20000"

definition MAX_PATH_CHARS :: nat where "MAX_PATH_CHARS = 1024"

definition MAX_COMPONENT_CHARS :: nat where "MAX_COMPONENT_CHARS = 255"

definition STREAM_CHUNK_BYTES :: nat where "STREAM_CHUNK_BYTES = 64 * 1024"

definition MAX_META_BYTES :: nat where "MAX_META_BYTES = 64 * 1024"

lemmas caps = MAX_TOTAL_BYTES_def MAX_FILE_BYTES_def MAX_FILE_COUNT_def MAX_PATH_CHARS_def
  MAX_COMPONENT_CHARS_def STREAM_CHUNK_BYTES_def MAX_META_BYTES_def

section \<open>Header fields\<close>

definition NUL :: char where "NUL = CHR 0x00"

definition cstr :: "string \<Rightarrow> string" where
  "cstr bytes = trim (from_utf8_lossy (takeWhile (\<lambda>b. b \<noteq> NUL) bytes))"

definition is_octal :: "char \<Rightarrow> bool" where
  "is_octal c \<longleftrightarrow> in_range 48 55 c"

definition octal_val :: "string \<Rightarrow> nat" where
  "octal_val s = fold (\<lambda>c n. 8 * n + digit_val c) s 0"

text \<open>\<open>u64::from_str_radix(s, 8)\<close>: an optional plus sign, at least one digit, no overflow.\<close>

definition from_str_radix8 :: "string \<Rightarrow> nat option" where
  "from_str_radix8 s =
     (let digits = (case s of c # r \<Rightarrow> if c = CHR ''+'' then r else s | [] \<Rightarrow> []) in
      if digits \<noteq> [] \<and> list_all is_octal digits \<and> octal_val digits < 2 ^ 64
      then Some (octal_val digits) else None)"

text \<open>The base-256 form shifts a \<open>u64\<close> left, losing the high bytes.\<close>

definition base256 :: "string \<Rightarrow> 64 word" where
  "base256 bytes = fold (\<lambda>b v. or (push_bit 8 v) (word_of_nat (byte b))) bytes 0"

definition parse_octal :: "string \<Rightarrow> app_error + nat" where
  "parse_octal bytes =
     (case bytes of
        [] \<Rightarrow> Inr 0
      | b # rest \<Rightarrow>
          if byte b \<ge> 128 then Inr (unat (base256 rest))
          else
            (let s = cstr bytes in
             if s = [] then Inr 0
             else ok_or (Internal ''invalid octal field in tar header'') (from_str_radix8 s)))"

definition pad :: "nat \<Rightarrow> nat" where
  "pad n = (512 - n mod 512) mod 512"

text \<open>The value of the first record of a PAX header whose text after the length is \<open>path=\<close>.\<close>

fun pax_lines :: "string list \<Rightarrow> string option" where
  "pax_lines [] = None"
| "pax_lines (line # lines) =
     (case split_once (CHR '' '') line of
        Some (_, rest) \<Rightarrow>
          (case strip_prefix ''path='' rest of Some v \<Rightarrow> Some v | None \<Rightarrow> pax_lines lines)
      | None \<Rightarrow> pax_lines lines)"

definition pax_path :: "string \<Rightarrow> string option" where
  "pax_path body = pax_lines (split_on (CHR 0x0A) (from_utf8_lossy body))"

definition resolve_name :: "string option \<Rightarrow> string \<Rightarrow> string \<Rightarrow> string" where
  "resolve_name pending raw pre =
     (case pending of
        Some p \<Rightarrow> p
      | None \<Rightarrow> if pre = [] then raw else pre @ ''/'' @ raw)"

section \<open>Member paths\<close>

text \<open>\<open>std::path::Component\<close> on a Unix path, and \<open>Path::components\<close>: repeated separators
  and inner dots vanish, a leading dot is \<open>CurDir\<close>.\<close>

datatype component = RootDir | CurDir | ParentDir | Normal string

definition part_component :: "string \<Rightarrow> component" where
  "part_component c = (if c = ''..'' then ParentDir else Normal c)"

definition components :: "string \<Rightarrow> component list" where
  "components s =
     (let parts = split_on (CHR ''/'') s in
      (if prefix ''/'' s then [RootDir] else if hd parts = ''.'' then [CurDir] else [])
      @ map part_component (filter (\<lambda>c. c \<noteq> [] \<and> c \<noteq> ''.'') parts))"

definition escapes :: "string \<Rightarrow> app_error" where
  "escapes name = Internal (''tar entry escapes the extraction root: '' @ name)"

fun push_components :: "string \<Rightarrow> component list \<Rightarrow> string list \<Rightarrow> app_error + string list" where
  "push_components name [] out = Inr out"
| "push_components name (Normal c # cs) out =
     (if length c > MAX_COMPONENT_CHARS then Inl PayloadTooLarge
      else push_components name cs (out @ [c]))"
| "push_components name (CurDir # cs) out = push_components name cs out"
| "push_components name (_ # cs) out = Inl (escapes name)"

text \<open>\<open>name.trim_start_matches("./")\<close>\<close>

fun trim_dot_slash :: "string \<Rightarrow> string" where
  "trim_dot_slash (a # b # s) =
     (if a = CHR ''.'' \<and> b = CHR ''/'' then trim_dot_slash s else a # b # s)"
| "trim_dot_slash s = s"

definition safe_join :: "string list \<Rightarrow> string \<Rightarrow> app_error + string list" where
  "safe_join dest name0 =
     (let name = trim_dot_slash name0 in
      if name = [] then Inl (Internal ''tar entry has an empty name'')
      else if char_count name > MAX_PATH_CHARS then Inl PayloadTooLarge
      else
        and_then (push_components name (components name) dest) (\<lambda>out.
          if \<not> prefix dest out then Inl (escapes name) else Inr out))"

section \<open>The disk\<close>

datatype node = DirN | FileN string | LinkN

type_synonym tree = "string list \<Rightarrow> node option"

datatype fs_op = CreateDir "string list" | CreateFile "string list" | WriteAt "string list" nat

record xenv =
  xe_grain :: "nat \<Rightarrow> nat \<Rightarrow> nat"
  xe_end :: "string option"
  xe_cancel :: "nat \<Rightarrow> bool"
  xe_refuses :: "fs_op \<Rightarrow> bool"
  xe_error :: "fs_op \<Rightarrow> string"

text \<open>\<open>create_dir_all\<close>: every missing ancestor is made, shortest first.  A file or a link
  in the way is an error (no link is in a tree that extraction built).\<close>

fun create_dirs :: "xenv \<Rightarrow> string list list \<Rightarrow> tree \<Rightarrow> tree \<times> (app_error + unit)" where
  "create_dirs E [] t = (t, Inr ())"
| "create_dirs E (p # ps) t =
     (case t p of
        Some DirN \<Rightarrow> create_dirs E ps t
      | Some _ \<Rightarrow> (t, Inl (Internal (''failed to create directory: '' @ xe_error E (CreateDir p))))
      | None \<Rightarrow>
          if xe_refuses E (CreateDir p)
          then (t, Inl (Internal (''failed to create directory: '' @ xe_error E (CreateDir p))))
          else create_dirs E ps (t(p \<mapsto> DirN)))"

definition create_dir_all :: "xenv \<Rightarrow> string list \<Rightarrow> tree \<Rightarrow> tree \<times> (app_error + unit)" where
  "create_dir_all E p t = create_dirs E (prefixes p) t"

definition create_file :: "xenv \<Rightarrow> string list \<Rightarrow> tree \<Rightarrow> app_error + tree" where
  "create_file E p t =
     (if xe_refuses E (CreateFile p) \<or> t p = Some DirN
      then Inl (Internal (''failed to write file: '' @ xe_error E (CreateFile p)))
      else Inr (t(p \<mapsto> FileN [])))"

section \<open>Streaming\<close>

record stream =
  st_in :: string
  st_polls :: nat
  st_total :: nat

text \<open>One \<open>read\<close> of the decoder into a buffer of \<open>want\<close> bytes.\<close>

definition gz_read :: "xenv \<Rightarrow> nat \<Rightarrow> string \<Rightarrow> string + string \<times> string" where
  "gz_read E want s =
     (if s = [] then (case xe_end E of None \<Rightarrow> Inr ([], []) | Some e \<Rightarrow> Inl e)
      else
        (let k = min (min want (length s)) (max 1 (xe_grain E (length s) want))
         in Inr (take k s, drop k s)))"

definition truncated :: app_error where
  "truncated = Internal ''truncated tar archive''"

definition gzip_failed :: "string \<Rightarrow> app_error" where
  "gzip_failed e = Internal (''gzip decode failed: '' @ e)"

definition MAX_U64 :: nat where "MAX_U64 = 2 ^ 64 - 1"

definition saturating_add :: "nat \<Rightarrow> nat \<Rightarrow> nat" where
  "saturating_add a b = min (a + b) MAX_U64"

definition charge :: "nat \<Rightarrow> nat \<Rightarrow> app_error + nat" where
  "charge tot n =
     (let t = saturating_add tot n in
      if t > MAX_TOTAL_BYTES then Inl PayloadTooLarge else Inr t)"

lemma gz_read_shrinks:
  assumes "gz_read E want s = Inr (b, rest)" "want > 0" "b \<noteq> []"
  shows "s = b @ rest" "length b \<le> want" "0 < length b"
  using assms by (auto simp: gz_read_def Let_def split: if_splits option.splits)

text \<open>The block is filled by as many reads as it takes; the end of the stream before its
  first byte is the clean end of the archive.\<close>

function fill_block :: "xenv \<Rightarrow> nat \<Rightarrow> string \<Rightarrow> string \<Rightarrow> app_error + string option \<times> string" where
  "fill_block E need acc s =
     (if need = 0 then Inr (Some acc, s)
      else
        (case gz_read E need s of
           Inl e \<Rightarrow> Inl (gzip_failed e)
         | Inr (b, rest) \<Rightarrow>
             if b = [] then (if acc = [] then Inr (None, s) else Inl truncated)
             else fill_block E (need - length b) (acc @ b) rest))"
  by pat_completeness auto
termination by (relation "measure (\<lambda>(E, need, acc, s). need)") auto

declare fill_block.simps [simp del]

function stream_exact ::
  "xenv \<Rightarrow> (nat \<Rightarrow> app_error option) \<Rightarrow> nat \<Rightarrow> string \<Rightarrow> stream \<Rightarrow> stream \<times> (app_error + string)" where
  "stream_exact E out remaining written st =
     (if remaining = 0 then (st, Inr written)
      else
        (let polled = st\<lparr>st_polls := Suc (st_polls st)\<rparr> in
         if xe_cancel E (st_polls st) then (polled, Inl (Cancelled ''extract cancelled''))
         else
           (case gz_read E (min remaining STREAM_CHUNK_BYTES) (st_in st) of
              Inl e \<Rightarrow> (polled, Inl (gzip_failed e))
            | Inr (b, rest) \<Rightarrow>
                if b = [] then (polled, Inl truncated)
                else
                  (case out (length written) of
                     Some e \<Rightarrow> (polled\<lparr>st_in := rest\<rparr>, Inl e)
                   | None \<Rightarrow>
                       (case charge (st_total st) (length b) of
                          Inl e \<Rightarrow> (polled\<lparr>st_in := rest\<rparr>, Inl e)
                        | Inr t \<Rightarrow>
                            stream_exact E out (remaining - length b) (written @ b)
                              (polled\<lparr>st_in := rest, st_total := t\<rparr>))))))"
  by pat_completeness auto
termination by (relation "measure (\<lambda>(E, out, remaining, written, st). remaining)") auto

declare stream_exact.simps [simp del]

text \<open>A memory buffer and the sink take every byte.\<close>

definition no_refusal :: "nat \<Rightarrow> app_error option" where
  "no_refusal offset = None"

definition read_meta_body :: "xenv \<Rightarrow> nat \<Rightarrow> stream \<Rightarrow> stream \<times> (app_error + string)" where
  "read_meta_body E n st =
     (if n > MAX_META_BYTES then (st, Inl PayloadTooLarge)
      else stream_exact E no_refusal n [] st)"

definition discard_exact :: "xenv \<Rightarrow> nat \<Rightarrow> stream \<Rightarrow> stream \<times> (app_error + string)" where
  "discard_exact E n st = stream_exact E no_refusal n [] st"

definition file_refusal :: "xenv \<Rightarrow> string list \<Rightarrow> nat \<Rightarrow> app_error option" where
  "file_refusal E p offset =
     (if xe_refuses E (WriteAt p offset)
      then Some (Internal (''failed to write file: '' @ xe_error E (WriteAt p offset))) else None)"

fun skip_padding :: "xenv \<Rightarrow> nat \<Rightarrow> string \<Rightarrow> app_error + string" where
  "skip_padding E 0 s = Inr s"
| "skip_padding E (Suc n) s =
     (case gz_read E 1 s of
        Inl e \<Rightarrow> Inl (gzip_failed e)
      | Inr (b, rest) \<Rightarrow> if b = [] then Inl truncated else skip_padding E n rest)"

section \<open>Extraction\<close>

record xstate =
  xs_stream :: stream
  xs_pending :: "string option"
  xs_count :: nat
  xs_tree :: tree

definition then_stream ::
  "xstate \<Rightarrow> stream \<times> (app_error + string) \<Rightarrow> (string \<Rightarrow> xstate \<Rightarrow> xstate \<times> (app_error + unit))
     \<Rightarrow> xstate \<times> (app_error + unit)" where
  "then_stream st r k =
     (case snd r of
        Inl e \<Rightarrow> (st\<lparr>xs_stream := fst r\<rparr>, Inl e)
      | Inr body \<Rightarrow> k body (st\<lparr>xs_stream := fst r\<rparr>))"

text \<open>Type \<open>L\<close>: the payload names the next member.\<close>

definition long_name :: "xenv \<Rightarrow> nat \<Rightarrow> xstate \<Rightarrow> xstate \<times> (app_error + unit)" where
  "long_name E n st =
     then_stream st (read_meta_body E n (xs_stream st)) (\<lambda>body st.
       (st\<lparr>xs_pending := Some (trim_end_matches NUL (from_utf8_lossy body))\<rparr>, Inr ()))"

text \<open>Type \<open>x\<close>: only the path record counts.\<close>

definition pax_header :: "xenv \<Rightarrow> nat \<Rightarrow> xstate \<Rightarrow> xstate \<times> (app_error + unit)" where
  "pax_header E n st =
     then_stream st (read_meta_body E n (xs_stream st)) (\<lambda>body st.
       (case pax_path body of
          Some p \<Rightarrow> (st\<lparr>xs_pending := Some p\<rparr>, Inr ())
        | None \<Rightarrow> (st, Inr ())))"

definition skip_body :: "xenv \<Rightarrow> nat \<Rightarrow> xstate \<Rightarrow> xstate \<times> (app_error + unit)" where
  "skip_body E n st = then_stream st (discard_exact E n (xs_stream st)) (\<lambda>_ st. (st, Inr ()))"

text \<open>The body of a regular file: the file is created, filled from the stream, and removed
  again when the stream or a write fails.\<close>

definition write_body ::
  "xenv \<Rightarrow> string list \<Rightarrow> nat \<Rightarrow> xstate \<Rightarrow> xstate \<times> (app_error + unit)" where
  "write_body E p n st =
     (case create_file E p (xs_tree st) of
        Inl e \<Rightarrow> (st, Inl e)
      | Inr t \<Rightarrow>
          (let r = stream_exact E (file_refusal E p) n [] (xs_stream st);
               st = st\<lparr>xs_stream := fst r\<rparr> in
           case snd r of
             Inl e \<Rightarrow> (st\<lparr>xs_tree := t(p := None)\<rparr>, Inl e)
           | Inr body \<Rightarrow> (st\<lparr>xs_tree := t(p \<mapsto> FileN body)\<rparr>, Inr ())))"

definition make_dirs ::
  "xenv \<Rightarrow> string list \<Rightarrow> xstate \<Rightarrow> (xstate \<Rightarrow> xstate \<times> (app_error + unit)) \<Rightarrow> xstate \<times> (app_error + unit)" where
  "make_dirs E p st k =
     (let r = create_dir_all E p (xs_tree st); st = st\<lparr>xs_tree := fst r\<rparr> in
      case snd r of Inl e \<Rightarrow> (st, Inl e) | Inr _ \<Rightarrow> k st)"

text \<open>The parent directories first, when the path has a parent.\<close>

definition write_member ::
  "xenv \<Rightarrow> string list \<Rightarrow> nat \<Rightarrow> xstate \<Rightarrow> xstate \<times> (app_error + unit)" where
  "write_member E p n st =
     (if p = [] then write_body E p n st else make_dirs E (butlast p) st (write_body E p n))"

definition count_entry ::
  "xstate \<Rightarrow> (xstate \<Rightarrow> xstate \<times> (app_error + unit)) \<Rightarrow> xstate \<times> (app_error + unit)" where
  "count_entry st k =
     (let st = st\<lparr>xs_count := Suc (xs_count st)\<rparr> in
      if xs_count st > MAX_FILE_COUNT then (st, Inl PayloadTooLarge) else k st)"

definition file_member ::
  "xenv \<Rightarrow> string list \<Rightarrow> string \<Rightarrow> nat \<Rightarrow> xstate \<Rightarrow> xstate \<times> (app_error + unit)" where
  "file_member E dest name n st0 =
     (let st = st0\<lparr>xs_pending := None\<rparr> in
      if n > MAX_FILE_BYTES then (st, Inl PayloadTooLarge)
      else
        (case charge (st_total (xs_stream st)) n of
           Inl e \<Rightarrow> (st, Inl e)
         | Inr tot \<Rightarrow>
             count_entry (st\<lparr>xs_stream := (xs_stream st)\<lparr>st_total := tot\<rparr>\<rparr>) (\<lambda>st.
               (case safe_join dest name of
                  Inl e \<Rightarrow> (st, Inl e)
                | Inr p \<Rightarrow>
                    if xs_tree st p = Some LinkN
                    then (st, Inl (Internal ''refusing to write through a symlink in the archive''))
                    else write_member E p n st))))"

definition dir_member ::
  "xenv \<Rightarrow> string list \<Rightarrow> string \<Rightarrow> nat \<Rightarrow> xstate \<Rightarrow> xstate \<times> (app_error + unit)" where
  "dir_member E dest name n st0 =
     count_entry (st0\<lparr>xs_pending := None\<rparr>) (\<lambda>st.
       (case safe_join dest name of
          Inl e \<Rightarrow> (st, Inl e)
        | Inr p \<Rightarrow>
            then_stream st (discard_exact E n (xs_stream st)) (\<lambda>_ st.
              make_dirs E p st (\<lambda>st. (st, Inr ())))))"

definition skip_member :: "xenv \<Rightarrow> nat \<Rightarrow> xstate \<Rightarrow> xstate \<times> (app_error + unit)" where
  "skip_member E n st =
     then_stream st (discard_exact E n (xs_stream st)) (\<lambda>_ st. (st\<lparr>xs_pending := None\<rparr>, Inr ()))"

definition member_step ::
  "xenv \<Rightarrow> string list \<Rightarrow> string \<Rightarrow> nat \<Rightarrow> xstate \<Rightarrow> xstate \<times> (app_error + unit)" where
  "member_step E dest header n st =
     (let raw_name = cstr (take 100 header);
          typeflag = header ! 156;
          pre = cstr (take 155 (drop 345 header));
          name = resolve_name (xs_pending st) raw_name pre in
      if typeflag = CHR ''L'' then long_name E n st
      else if typeflag = CHR ''x'' then pax_header E n st
      else if typeflag = CHR ''g'' then skip_body E n st
      else if typeflag \<in> {CHR ''0'', NUL, CHR ''7''} then file_member E dest name n st
      else if typeflag = CHR ''5'' then dir_member E dest name n st
      else if typeflag \<in> {CHR ''1'', CHR ''2''}
      then (st, Inl (Internal ''repository archive contains a link entry; refusing to extract''))
      else skip_member E n st)"

definition header_size :: "string \<Rightarrow> app_error + nat" where
  "header_size header = parse_octal (take 12 (drop 124 header))"

text \<open>One pass of the loop: \<open>Inr True\<close> goes on, \<open>Inr False\<close> is the end of the archive.\<close>

definition extract_pass :: "xenv \<Rightarrow> string list \<Rightarrow> xstate \<Rightarrow> xstate \<times> (app_error + bool)" where
  "extract_pass E dest st0 =
     (let polls = st_polls (xs_stream st0);
          st = st0\<lparr>xs_stream := (xs_stream st0)\<lparr>st_polls := Suc polls\<rparr>\<rparr> in
      if xe_cancel E polls then (st, Inl (Cancelled ''extract cancelled''))
      else
        (case fill_block E 512 [] (st_in (xs_stream st)) of
           Inl e \<Rightarrow> (st, Inl e)
         | Inr (None, _) \<Rightarrow> (st, Inr False)
         | Inr (Some header, rest) \<Rightarrow>
             (let st = st\<lparr>xs_stream := (xs_stream st)\<lparr>st_in := rest\<rparr>\<rparr> in
              if list_all (\<lambda>b. b = NUL) header then (st, Inr False)
              else
                (case header_size header of
                   Inl e \<Rightarrow> (st, Inl e)
                 | Inr n \<Rightarrow>
                     (case member_step E dest header n st of
                        (st, Inl e) \<Rightarrow> (st, Inl e)
                      | (st, Inr _) \<Rightarrow>
                          (case skip_padding E (pad n) (st_in (xs_stream st)) of
                             Inl e \<Rightarrow> (st, Inl e)
                           | Inr rest \<Rightarrow> (st\<lparr>xs_stream := (xs_stream st)\<lparr>st_in := rest\<rparr>\<rparr>, Inr True)))))))"

end
