(* ===== verification/Tar_Extract.thy ===== *)
theory Tar_Extract
  imports Tar_Archive
begin

text \<open>
  The extraction loop of \<open>extract_tarball_with_cancel\<close> in \<open>backend/src/agents/fetch.rs\<close>,
  its termination, and what its parts guarantee: how much of the stream each part
  consumes and charges, where it writes, and what the tree it builds looks like.
\<close>

named_theorems xs_simps \<open>unfolding one extraction operation\<close>

section \<open>Streaming\<close>

lemma fill_block_app:
  "fill_block E n acc s = Inr (Some h, rest) \<Longrightarrow> h @ rest = acc @ s \<and> length h = length acc + n"
  by (induction E n acc s rule: fill_block.induct)
     (subst (asm) fill_block.simps, auto split: if_splits sum.splits prod.splits dest: gz_read_shrinks)

lemma fill_block_shrinks:
  assumes "fill_block E 512 [] s = Inr (Some h, rest)"
  shows "length h = 512" "s = h @ rest"
  using fill_block_app[OF assms] by auto

lemma gz_read_Cons:
  assumes "s \<noteq> []" "want > 0"
  obtains b rest where "gz_read E want s = Inr (b, rest)" "b \<noteq> []" "s = b @ rest" "length b \<le> want"
proof
  define k where "k = min (min want (length s)) (max 1 (xe_grain E (length s) want))"
  show "gz_read E want s = Inr (take k s, drop k s)" using assms by (simp add: gz_read_def k_def Let_def)
  have "0 < k" using assms by (auto simp: k_def)
  then show "take k s \<noteq> []" using assms by auto
qed (auto simp: min_def)

lemma fill_block_take:
  "n \<le> length s \<Longrightarrow> fill_block E n acc s = Inr (Some (acc @ take n s), drop n s)"
proof (induction E n acc s rule: fill_block.induct)
  case (1 E need acc s)
  show ?case
  proof (cases "need = 0")
    case False
    with 1(2) have "s \<noteq> []" "need > 0" by auto
    then obtain b rest where b: "gz_read E need s = Inr (b, rest)" "b \<noteq> []" "s = b @ rest" "length b \<le> need"
      by (rule gz_read_Cons)
    with 1(1)[OF False b(1) refl b(2)] 1(2) False show ?thesis
      by (subst fill_block.simps) auto
  qed (simp add: fill_block.simps)
qed

lemma stream_exact_suffix: "suffix (st_in (fst (stream_exact E out n w st))) (st_in st)"
proof (induction E out n w st rule: stream_exact.induct)
  case (1 E out remaining written st)
  show ?case
  proof (cases "remaining = 0 \<or> xe_cancel E (st_polls st)")
    case False
    show ?thesis
    proof (cases "gz_read E (min remaining STREAM_CHUNK_BYTES) (st_in st)")
      case (Inr r)
      obtain b rest where r: "gz_read E (min remaining STREAM_CHUNK_BYTES) (st_in st) = Inr (b, rest)"
        using Inr by (cases r) auto
      show ?thesis
      proof (cases "b = []")
        case b: False
        have s: "st_in st = b @ rest"
          using gz_read_shrinks(1)[OF r _ b] False by (auto simp: STREAM_CHUNK_BYTES_def)
        then have suf: "suffix rest (st_in st)" by (auto simp: suffix_def)
        have IH: "suffix (st_in (fst (stream_exact E out (remaining - length b) (written @ b)
            (st\<lparr>st_polls := Suc (st_polls st), st_in := rest, st_total := t\<rparr>)))) rest"
          if "out (length written) = None" "charge (st_total st) (length b) = Inr t" for t
          using 1[OF _ refl _ r refl b that(1)] that(2) False by simp
        show ?thesis
          by (subst stream_exact.simps)
             (auto simp: r b False Let_def split: option.splits sum.splits
               intro: suf suffix_order.trans[OF IH suf])
      qed (use False r in \<open>subst stream_exact.simps; simp add: Let_def\<close>)
    qed (use False in \<open>subst stream_exact.simps; simp add: Let_def\<close>)
  qed (subst stream_exact.simps; auto simp: Let_def)
qed

lemma charge_Inr: "charge tot n = Inr t \<longleftrightarrow> t = tot + n \<and> t \<le> MAX_TOTAL_BYTES"
  by (auto simp: charge_def Let_def saturating_add_def min_def MAX_U64_def MAX_TOTAL_BYTES_def)

text \<open>A body that streams completely is the next bytes, each charged once.\<close>

lemma stream_exact_Inr:
  "stream_exact E out n w st = (st', Inr body) \<Longrightarrow>
     n \<le> length (st_in st) \<and> body = w @ take n (st_in st) \<and> st_in st' = drop n (st_in st)
     \<and> st_total st' = st_total st + n \<and> (n > 0 \<longrightarrow> st_total st' \<le> MAX_TOTAL_BYTES)
     \<and> st_polls st \<le> st_polls st'"
proof (induction E out n w st arbitrary: st' body rule: stream_exact.induct)
  case (1 E out remaining written st)
  note IH = 1(1) and run = 1(2)
  show ?case
  proof (cases "remaining = 0")
    case False
    from run False obtain b rest t where
      nc: "\<not> xe_cancel E (st_polls st)"
      and r: "gz_read E (min remaining STREAM_CHUNK_BYTES) (st_in st) = Inr (b, rest)"
      and b: "b \<noteq> []" and out: "out (length written) = None"
      and t: "charge (st_total st) (length b) = Inr t"
      and rec: "stream_exact E out (remaining - length b) (written @ b)
        (st\<lparr>st_polls := Suc (st_polls st), st_in := rest, st_total := t\<rparr>) = (st', Inr body)"
      by (subst (asm) stream_exact.simps)
         (auto simp: Let_def split: if_splits sum.splits option.splits prod.splits)
    have s: "st_in st = b @ rest" "length b \<le> remaining"
      using gz_read_shrinks[OF r _ b] False by (auto simp: STREAM_CHUNK_BYTES_def)
    have "stream_exact E out (remaining - length b) (written @ b)
        ((st\<lparr>st_polls := Suc (st_polls st)\<rparr>)\<lparr>st_in := rest, st_total := t\<rparr>) = (st', Inr body)"
      using rec by simp
    from IH[OF False refl nc r refl b out t this] s t[unfolded charge_Inr] show ?thesis
      by (cases "remaining = length b") auto
  qed (use run in \<open>simp add: stream_exact.simps\<close>)
qed

lemma stream_exact_ok:
  assumes "\<And>i. \<not> xe_cancel E i" "\<And>k. out k = None"
  shows "n \<le> length (st_in st) \<Longrightarrow> st_total st + n \<le> MAX_TOTAL_BYTES \<Longrightarrow>
    \<exists>i. stream_exact E out n w st
      = (\<lparr>st_in = drop n (st_in st), st_polls = i, st_total = st_total st + n\<rparr>, Inr (w @ take n (st_in st)))"
proof (induction n arbitrary: w st rule: less_induct)
  case (less n)
  show ?case
  proof (cases "n = 0")
    case True
    then show ?thesis by (subst stream_exact.simps) (cases st; simp)
  next
    case False
    with less.prems have "st_in st \<noteq> []" "min n STREAM_CHUNK_BYTES > 0" by (auto simp: STREAM_CHUNK_BYTES_def)
    then obtain b rest where b: "gz_read E (min n STREAM_CHUNK_BYTES) (st_in st) = Inr (b, rest)" "b \<noteq> []"
      "st_in st = b @ rest" "length b \<le> min n STREAM_CHUNK_BYTES"
      by (rule gz_read_Cons)
    have t: "charge (st_total st) (length b) = Inr (st_total st + length b)"
      using b(4) less.prems by (auto simp: charge_Inr)
    let ?st = "(st\<lparr>st_polls := Suc (st_polls st)\<rparr>)\<lparr>st_in := rest, st_total := st_total st + length b\<rparr>"
    have "n - length b < n" using False b(2) by (cases b) auto
    moreover have "n - length b \<le> length (st_in ?st)" using less.prems(1) b(3) by simp
    moreover have "st_total ?st + (n - length b) \<le> MAX_TOTAL_BYTES" using less.prems(2) b(4) by simp
    ultimately obtain i where i: "stream_exact E out (n - length b) (w @ b) ?st
      = (\<lparr>st_in = drop (n - length b) (st_in ?st), st_polls = i, st_total = st_total ?st + (n - length b)\<rparr>,
         Inr ((w @ b) @ take (n - length b) (st_in ?st)))"
      using less.IH by blast
    show ?thesis
      using False b i by (subst stream_exact.simps) (auto simp: assms t Let_def)
  qed
qed

lemma skip_padding_Inr: "skip_padding E n s = Inr rest \<Longrightarrow> n \<le> length s \<and> rest = drop n s"
proof (induction E n s rule: skip_padding.induct)
  case (2 E n s)
  then show ?case
    by (cases s) (auto simp: gz_read_def Let_def split: option.splits)
qed simp

lemma skip_padding_ok: "n \<le> length s \<Longrightarrow> skip_padding E n s = Inr (drop n s)"
proof (induction E n s rule: skip_padding.induct)
  case (2 E n s)
  then show ?case
    by (cases s) (auto simp: gz_read_def Let_def)
qed simp

section \<open>The loop\<close>

text \<open>The bytes still to inflate: no part of a pass gives any back, and reading a header
  takes 512 of them, so the loop ends.\<close>

abbreviation left :: "xstate \<Rightarrow> nat" where
  "left st \<equiv> length (st_in (xs_stream st))"

lemma stream_exact_left: "length (st_in (fst (stream_exact E out n w st))) \<le> length (st_in st)"
  by (rule suffix_length_le[OF stream_exact_suffix])

lemma then_stream_left:
  assumes "length (st_in (fst r)) \<le> left st" "\<And>b st'. left st' \<le> left st \<Longrightarrow> left (fst (k b st')) \<le> left st"
  shows "left (fst (then_stream st r k)) \<le> left st"
  using assms by (auto simp: then_stream_def split: sum.splits)

lemma make_dirs_left:
  assumes "\<And>st'. left st' \<le> m \<Longrightarrow> left (fst (k st')) \<le> m" "left st \<le> m"
  shows "left (fst (make_dirs E p st k)) \<le> m"
  using assms by (auto simp: make_dirs_def Let_def split: sum.splits)

lemma write_body_left: "left (fst (write_body E p n st)) \<le> left st"
  using stream_exact_left[of E "file_refusal E p" n "[]" "xs_stream st"]
  by (auto simp: write_body_def Let_def split: sum.splits)

lemma write_member_left: "left (fst (write_member E p n st)) \<le> left st"
  using write_body_left by (auto simp: write_member_def intro!: make_dirs_left intro: order_trans[OF write_body_left])

lemma file_member_left: "left (fst (file_member E dest name n st)) \<le> left st"
  by (auto simp: file_member_def count_entry_def Let_def
      intro: order_trans[OF write_member_left] split: sum.splits)

lemma dir_member_left: "left (fst (dir_member E dest name n st)) \<le> left st"
  using stream_exact_left
  by (auto simp: dir_member_def count_entry_def discard_exact_def Let_def
      intro!: order_trans[OF then_stream_left] make_dirs_left split: sum.splits)

lemma member_step_left: "left (fst (member_step E dest h n st)) \<le> left st"
  using stream_exact_left[of E no_refusal n "[]" "xs_stream st"]
  by (auto simp: member_step_def Let_def long_name_def pax_header_def skip_body_def skip_member_def
      read_meta_body_def discard_exact_def file_member_left dir_member_left
      intro!: then_stream_left split: option.splits)

lemma extract_pass_left:
  assumes "extract_pass E dest st = (st', Inr True)"
  shows "left st' + 512 \<le> left st"
proof -
  let ?s = "xs_stream st"
  from assms obtain h rest n st1 st2 rest2 where
    h: "fill_block E 512 [] (st_in ?s) = Inr (Some h, rest)"
    and st1: "st1 = st\<lparr>xs_stream := ?s\<lparr>st_polls := Suc (st_polls ?s), st_in := rest\<rparr>\<rparr>"
    and m: "member_step E dest h n st1 = (st2, Inr ())"
    and p: "skip_padding E (pad n) (st_in (xs_stream st2)) = Inr rest2"
    and st': "st' = st2\<lparr>xs_stream := (xs_stream st2)\<lparr>st_in := rest2\<rparr>\<rparr>"
    by (auto simp: extract_pass_def Let_def split: if_splits sum.splits option.splits prod.splits)
  have "left st2 \<le> left st1" using member_step_left[of E dest h n st1] m by simp
  moreover have "left st' \<le> left st2" using skip_padding_Inr[OF p] st' by simp
  ultimately show ?thesis using fill_block_shrinks[OF h] st1 by simp
qed

function extract_loop ::
  "xenv \<Rightarrow> string list \<Rightarrow> xstate \<Rightarrow> xstate \<times> (app_error + unit)" where
  "extract_loop E dest st =
     (case extract_pass E dest st of
        (st', Inl e) \<Rightarrow> (st', Inl e)
      | (st', Inr go_on) \<Rightarrow> if go_on then extract_loop E dest st' else (st', Inr ()))"
  by pat_completeness auto
termination
  by (relation "measure (\<lambda>(E, dest, st). left st)") (auto dest: extract_pass_left[OF sym])

declare extract_loop.simps [simp del]

definition extract_tarball_with_cancel ::
  "xenv \<Rightarrow> string \<Rightarrow> string list \<Rightarrow> tree \<Rightarrow> xstate \<times> (app_error + unit)" where
  "extract_tarball_with_cancel E inflated dest t =
     extract_loop E dest
       \<lparr>xs_stream = \<lparr>st_in = inflated, st_polls = 0, st_total = 0\<rparr>, xs_pending = None,
        xs_count = 0, xs_tree = t\<rparr>"

definition extract_tarball :: "xenv \<Rightarrow> string \<Rightarrow> string list \<Rightarrow> tree \<Rightarrow> xstate \<times> (app_error + unit)" where
  "extract_tarball E inflated dest t =
     extract_tarball_with_cancel (E\<lparr>xe_cancel := \<lambda>_. False\<rparr>) inflated dest t"

end
