(* ===== verification/Tar_Polls.thy ===== *)
theory Tar_Polls
  imports Tar_Extract
begin

text \<open>
  How long an extraction can run and how soon it heeds a cancellation: the polls of the
  \<open>cancel\<close> closure, counted against the bytes inflated.
\<close>

definition cancelled :: "app_error + 'a \<Rightarrow> bool" where
  "cancelled r \<longleftrightarrow> r = Inl (Cancelled ''extract cancelled'')"

definition polled :: "xenv \<Rightarrow> nat \<Rightarrow> nat \<Rightarrow> app_error + 'a \<Rightarrow> bool" where
  "polled E i j r \<longleftrightarrow> i \<le> j
     \<and> (\<forall>k. i \<le> k \<and> k < j \<and> xe_cancel E k \<longrightarrow> Suc k = j \<and> cancelled r)
     \<and> (cancelled r \<longrightarrow> i < j \<and> xe_cancel E (j - 1))"

lemma polled_none: "\<not> cancelled r \<Longrightarrow> polled E i i r"
  by (simp add: polled_def)

lemma polled_first: "polled E (Suc i) j r \<Longrightarrow> \<not> xe_cancel E i \<Longrightarrow> polled E i j r"
proof -
  assume p: "polled E (Suc i) j r" and n: "\<not> xe_cancel E i"
  have "Suc k = j \<and> cancelled r" if "i \<le> k" "k < j" "xe_cancel E k" for k
  proof -
    have "Suc i \<le> k" using n that by (cases "k = i") auto
    moreover have "\<forall>k. Suc i \<le> k \<and> k < j \<and> xe_cancel E k \<longrightarrow> Suc k = j \<and> cancelled r"
      using p unfolding polled_def by blast
    ultimately show ?thesis using that by blast
  qed
  with p show ?thesis by (auto simp: polled_def)
qed

lemma polled_err: "polled E i j (Inr x) \<Longrightarrow> \<not> cancelled r \<Longrightarrow> polled E i j r"
  by (auto simp: polled_def cancelled_def)

lemma polled_trans: "polled E i j (Inr x :: app_error + 'a) \<Longrightarrow> polled E j k r \<Longrightarrow> polled E i k r"
proof -
  assume p: "polled E i j (Inr x :: app_error + 'a)" and q: "polled E j k r"
  have "Suc l = k \<and> cancelled r" if "i \<le> l" "l < k" "xe_cancel E l" for l
  proof (cases "l < j")
    case True
    have "\<forall>k. i \<le> k \<and> k < j \<and> xe_cancel E k \<longrightarrow> Suc k = j \<and> cancelled (Inr x :: app_error + 'a)"
      using p unfolding polled_def by blast
    with True that show ?thesis by (auto simp: cancelled_def)
  next
    case False
    have "\<forall>l. j \<le> l \<and> l < k \<and> xe_cancel E l \<longrightarrow> Suc l = k \<and> cancelled r"
      using q unfolding polled_def by blast
    moreover have "j \<le> l" using False by simp
    ultimately show ?thesis using that by blast
  qed
  with p q show ?thesis by (auto simp: polled_def)
qed

lemma not_cancelled [simp]: "\<not> cancelled (Inr x)" "\<not> cancelled (Inl PayloadTooLarge)"
  "\<not> cancelled (Inl (Internal m))" "\<not> cancelled (Inl truncated)" "\<not> cancelled (Inl (gzip_failed m))"
  by (simp_all add: cancelled_def truncated_def gzip_failed_def)

lemma cancelled_stop: "xe_cancel E i \<Longrightarrow> polled E i (Suc i) (Inl (Cancelled ''extract cancelled''))"
  by (auto simp: polled_def cancelled_def)

lemma charge_Inl: "charge tot n = Inl e \<Longrightarrow> e = PayloadTooLarge"
  by (auto simp: charge_def Let_def split: if_splits)

text \<open>Every poll of a stream inflates a byte, but the last.\<close>

lemma stream_exact_polled:
  assumes "\<And>k e. out k = Some e \<Longrightarrow> \<not> cancelled (Inl e :: app_error + string)"
  shows "polled E (st_polls st) (st_polls (fst (stream_exact E out n w st))) (snd (stream_exact E out n w st))
    \<and> st_polls (fst (stream_exact E out n w st)) + length (st_in (fst (stream_exact E out n w st)))
        \<le> Suc (st_polls st + length (st_in st))
    \<and> (\<not> isl (snd (stream_exact E out n w st)) \<longrightarrow>
        st_polls (fst (stream_exact E out n w st)) + length (st_in (fst (stream_exact E out n w st)))
        \<le> st_polls st + length (st_in st))"
  using assms
proof (induction E out n w st rule: stream_exact.induct)
  case (1 E out remaining written st)
  show ?case
  proof (cases "remaining = 0 \<or> xe_cancel E (st_polls st)")
    case False
    let ?R = "\<lambda>b rest t. stream_exact E out (remaining - length b) (written @ b)
          (st\<lparr>st_polls := Suc (st_polls st), st_in := rest, st_total := t\<rparr>)"
    have IH: "polled E (Suc (st_polls st)) (st_polls (fst (?R b rest t))) (snd (?R b rest t))
      \<and> st_polls (fst (?R b rest t)) + length (st_in (fst (?R b rest t))) \<le> Suc (Suc (st_polls st) + length rest)
      \<and> (\<not> isl (snd (?R b rest t)) \<longrightarrow>
         st_polls (fst (?R b rest t)) + length (st_in (fst (?R b rest t))) \<le> Suc (st_polls st) + length rest)"
      if "gz_read E (min remaining STREAM_CHUNK_BYTES) (st_in st) = Inr (b, rest)" "b \<noteq> []"
        "out (length written) = None" "charge (st_total st) (length b) = Inr t" for b rest t
      using 1(1)[OF _ refl _ that(1) refl that(2-4) 1(2)] False by auto
    have first: "polled E (st_polls st) (Suc (st_polls st)) r" if "\<not> cancelled r" for r :: "app_error + string"
      by (rule polled_first[OF polled_none[OF that]]) (use False in simp)
    have len: "Suc (length rest) \<le> length (st_in st)"
      if "gz_read E (min remaining STREAM_CHUNK_BYTES) (st_in st) = Inr (b, rest)" "b \<noteq> []" for b rest
      using gz_read_shrinks[OF that(1) _ that(2)] False by (cases b) (auto simp: STREAM_CHUNK_BYTES_def)
    show ?thesis
    proof (cases "gz_read E (min remaining STREAM_CHUNK_BYTES) (st_in st)")
      case (Inr r)
      obtain b rest where r: "gz_read E (min remaining STREAM_CHUNK_BYTES) (st_in st) = Inr (b, rest)"
        using Inr by (cases r) auto
      show ?thesis
      proof (cases "b \<noteq> [] \<and> out (length written) = None \<and> (\<exists>t. charge (st_total st) (length b) = Inr t)")
        case True
        then obtain t where t: "charge (st_total st) (length b) = Inr t" "out (length written) = None" "b \<noteq> []"
          by auto
        have "stream_exact E out remaining written st = ?R b rest t"
          using False r t by (subst stream_exact.simps) (simp add: Let_def)
        then show ?thesis
          using IH[OF r t(3,2,1)] len[OF r t(3)] False by (auto intro: polled_first)
      next
        case stop: False
        then have "\<exists>e st'. stream_exact E out remaining written st = (st', Inl e) \<and> \<not> cancelled (Inl e :: app_error + string)
          \<and> st_polls st' = Suc (st_polls st) \<and> length (st_in st') \<le> length (st_in st)"
          using False r 1(2) len[OF r] by (subst stream_exact.simps)
            (auto simp: Let_def dest: charge_Inl split: sum.splits option.splits)
        then show ?thesis using first by auto
      qed
    next
      case (Inl e)
      then have "stream_exact E out remaining written st = (st\<lparr>st_polls := Suc (st_polls st)\<rparr>, Inl (gzip_failed e))"
        using False by (subst stream_exact.simps) (simp add: Let_def)
      then show ?thesis using first by simp
    qed
  next
    case True
    then have "stream_exact E out remaining written st = (if remaining = 0 then (st, Inr written)
        else (st\<lparr>st_polls := Suc (st_polls st)\<rparr>, Inl (Cancelled ''extract cancelled'')))"
      by (subst stream_exact.simps) (auto simp: Let_def)
    then show ?thesis using True by (auto simp: polled_none cancelled_stop)
  qed
qed

section \<open>The polls of a pass\<close>

abbreviation polls :: "xstate \<Rightarrow> nat" where
  "polls st \<equiv> st_polls (xs_stream st)"

definition paced :: "xenv \<Rightarrow> xstate \<Rightarrow> xstate \<times> (app_error + 'a) \<Rightarrow> bool" where
  "paced E st r \<longleftrightarrow>
     polled E (polls st) (polls (fst r)) (snd r)
     \<and> polls (fst r) + left (fst r) \<le> Suc (polls st + left st)
     \<and> (\<not> isl (snd r) \<longrightarrow> polls (fst r) + left (fst r) \<le> polls st + left st)"

lemma paced_same: "polls st' = polls st \<Longrightarrow> left st' = left st \<Longrightarrow> \<not> cancelled r \<Longrightarrow> paced E st (st', r)"
  by (simp add: paced_def polled_none)

lemma paced_start: "paced E st' r \<Longrightarrow> polls st' = polls st \<Longrightarrow> left st' = left st \<Longrightarrow> paced E st r"
  by (simp add: paced_def)

lemma paced_trans:
  assumes "paced E st (st', Inr (x :: 'a))" "paced E st' r"
  shows "paced E st r"
  using assms polled_trans[of E "polls st" "polls st'" x "polls (fst r)" "snd r"]
  by (auto simp: paced_def)

lemma no_refusal_none [simp]: "no_refusal k \<noteq> Some e"
  by (simp add: no_refusal_def)

lemma file_refusal_plain: "file_refusal E p k = Some e \<Longrightarrow> \<not> cancelled (Inl e)"
  by (auto simp: file_refusal_def split: if_splits)

lemma stream_exact_paced:
  assumes "\<And>k e. out k = Some e \<Longrightarrow> \<not> cancelled (Inl e :: app_error + string)"
  shows "paced E st (st\<lparr>xs_stream := fst (stream_exact E out n w (xs_stream st))\<rparr>,
    snd (stream_exact E out n w (xs_stream st)))"
  using stream_exact_polled[OF assms, where st = "xs_stream st" and E = E and n = n and w = w] by (simp add: paced_def)

lemma then_stream_paced_at:
  assumes "\<And>b s. paced E (st\<lparr>xs_stream := s\<rparr>) (k b (st\<lparr>xs_stream := s\<rparr>))"
  shows "paced E st (then_stream st (stream_exact E no_refusal n w (xs_stream st)) k)"
proof -
  let ?r = "stream_exact E no_refusal n w (xs_stream st)"
  have p: "paced E st (st\<lparr>xs_stream := fst ?r\<rparr>, snd ?r)"
    by (rule stream_exact_paced) simp
  show ?thesis
  proof (cases "snd ?r")
    case (Inl e)
    with p show ?thesis by (auto simp: then_stream_def paced_def polled_def cancelled_def)
  next
    case (Inr b)
    then show ?thesis using paced_trans[OF p[unfolded Inr] assms(1)] by (simp add: then_stream_def)
  qed
qed

lemma then_stream_paced:
  assumes "\<And>b s. paced E (st\<lparr>xs_stream := s\<rparr>) (k b (st\<lparr>xs_stream := s\<rparr>))" "xs_stream st = s0"
  shows "paced E st (then_stream st (stream_exact E no_refusal n w s0) k)"
  using then_stream_paced_at[OF assms(1)] assms(2) by simp

lemma create_dirs_plain: "snd (create_dirs E ps t) = Inl e \<Longrightarrow> \<not> cancelled (Inl e)"
  by (induction ps arbitrary: t) (auto split: option.splits node.splits if_splits)

lemma make_dirs_paced:
  assumes "\<And>t. paced E (st\<lparr>xs_tree := t\<rparr>) (k (st\<lparr>xs_tree := t\<rparr>))"
  shows "paced E st (make_dirs E p st k)"
proof (cases "snd (create_dir_all E p (xs_tree st))")
  case (Inl e)
  then show ?thesis
    using create_dirs_plain[of E "prefixes p" "xs_tree st" e]
    by (auto simp: make_dirs_def Let_def create_dir_all_def intro!: paced_same simp: cancelled_def)
next
  case (Inr u)
  then show ?thesis using assms by (simp add: make_dirs_def Let_def paced_def)
qed

lemma write_body_paced: "paced E st (write_body E p n st)"
proof (cases "create_file E p (xs_tree st)")
  case (Inl e)
  then show ?thesis
    by (auto simp: write_body_def create_file_def split: if_splits intro!: paced_same)
next
  case (Inr t)
  let ?r = "stream_exact E (file_refusal E p) n [] (xs_stream st)"
  have p: "paced E st (st\<lparr>xs_stream := fst ?r\<rparr>, snd ?r)"
    by (rule stream_exact_paced) (use file_refusal_plain in \<open>auto simp: cancelled_def\<close>)
  then show ?thesis
    by (cases "snd ?r") (auto simp: write_body_def Inr Let_def paced_def polled_def cancelled_def)
qed

lemma safe_join_plain: "safe_join dest name = Inl e \<Longrightarrow> \<not> cancelled (Inl e)"
proof -
  have push: "push_components nm cs out = Inl e \<Longrightarrow> \<not> cancelled (Inl e)" for nm cs out
    by (induction nm cs out rule: push_components.induct) (auto simp: escapes_def split: if_splits)
  assume "safe_join dest name = Inl e"
  then show ?thesis
    using push by (auto simp: safe_join_def Let_def escapes_def and_then_def split: if_splits sum.splits)
qed

lemma count_entry_paced:
  assumes "\<And>c. paced E (st\<lparr>xs_count := c\<rparr>) (k (st\<lparr>xs_count := c\<rparr>))"
  shows "paced E st (count_entry st k)"
proof (cases "Suc (xs_count st) > MAX_FILE_COUNT")
  case True
  then show ?thesis by (simp add: count_entry_def Let_def paced_same)
next
  case False
  then show ?thesis
    by (simp add: count_entry_def Let_def) (rule paced_start[OF assms], simp_all)
qed

lemma write_member_paced: "paced E st (write_member E p n st)"
  using write_body_paced by (auto simp: write_member_def intro!: make_dirs_paced)

lemma file_member_paced: "paced E st (file_member E dest name n st)"
proof (cases "n \<le> MAX_FILE_BYTES")
  case True
  let ?p = "st\<lparr>xs_pending := None\<rparr>"
  show ?thesis
  proof (cases "charge (st_total (xs_stream ?p)) n")
    case (Inl e)
    with True show ?thesis using charge_Inl[OF Inl] by (auto simp: file_member_def intro!: paced_same)
  next
    case (Inr t)
    let ?s = "?p\<lparr>xs_stream := (xs_stream ?p)\<lparr>st_total := t\<rparr>\<rparr>"
    have "paced E ?s (count_entry ?s (\<lambda>st.
               (case safe_join dest name of
                  Inl e \<Rightarrow> (st, Inl e)
                | Inr p \<Rightarrow>
                    if xs_tree st p = Some LinkN
                    then (st, Inl (Internal ''refusing to write through a symlink in the archive''))
                    else write_member E p n st)))"
      by (rule count_entry_paced)
         (auto intro!: paced_same write_member_paced dest: safe_join_plain simp: cancelled_def split: sum.split)
    then have "paced E ?s (file_member E dest name n st)"
      using True Inr by (simp add: file_member_def)
    then show ?thesis by (rule paced_start) simp_all
  qed
qed (simp add: file_member_def Let_def paced_same)

lemma dir_member_paced: "paced E st (dir_member E dest name n st)"
proof -
  let ?p = "st\<lparr>xs_pending := None\<rparr>"
  have "paced E ?p (dir_member E dest name n st)"
    unfolding dir_member_def
    by (rule count_entry_paced)
       (auto simp: discard_exact_def cancelled_def intro!: paced_same make_dirs_paced then_stream_paced
         dest: safe_join_plain split: sum.split)
  then show ?thesis by (rule paced_start) simp_all
qed

lemma member_step_paced: "paced E st (member_step E dest h n st)"
proof -
  have meta: "paced E st (then_stream st (read_meta_body E n (xs_stream st)) k)"
    if "\<And>b s. paced E (st\<lparr>xs_stream := s\<rparr>) (k b (st\<lparr>xs_stream := s\<rparr>))" for k
    using then_stream_paced[OF that refl, where n = n and w = "[]"]
    by (auto simp: read_meta_body_def then_stream_def paced_same)
  show ?thesis
    by (auto simp: member_step_def Let_def long_name_def pax_header_def skip_body_def skip_member_def
        discard_exact_def file_member_paced dir_member_paced
        intro!: meta then_stream_paced paced_same split: option.split)
qed

lemma fill_block_plain: "fill_block E k acc s = Inl e \<Longrightarrow> \<not> cancelled (Inl e)"
  by (induction E k acc s rule: fill_block.induct)
     (subst (asm) fill_block.simps, auto split: if_splits sum.splits prod.splits)

lemma header_size_plain: "header_size h = Inl e \<Longrightarrow> \<not> cancelled (Inl e)"
  by (auto simp: header_size_def parse_octal_def Let_def ok_or_def split: list.splits if_splits option.splits)

lemma skip_padding_plain: "skip_padding E n s = Inl e \<Longrightarrow> \<not> cancelled (Inl e)"
  by (induction E n s rule: skip_padding.induct) (auto split: sum.splits prod.splits if_splits)

lemma polled_Inl: "polled E i j (Inl e :: app_error + 'a) \<Longrightarrow> polled E i j (Inl e :: app_error + 'b)"
  by (simp add: polled_def cancelled_def)

text \<open>A pass that does not reach a member polls once; the others poll for the member too.\<close>

lemma extract_pass_cases:
  assumes "extract_pass E dest st = (st', r)" "\<not> xe_cancel E (polls st)"
  obtains (short) "polls st' = Suc (polls st)" "left st' \<le> left st" "\<not> cancelled r" "r \<noteq> Inr True"
  | (member) h n st1 st2 q where
      "polls st1 = Suc (polls st)" "left st1 + 512 = left st"
      "member_step E dest h n st1 = (st2, q)" "polls st' = polls st2" "left st' \<le> left st2"
      "\<And>e. q = Inl e \<Longrightarrow> r = Inl e" "q = Inr () \<Longrightarrow> \<not> cancelled r"
proof (cases "fill_block E 512 [] (st_in (xs_stream st))")
  case (Inl e)
  with assms show ?thesis by (intro short) (auto simp: extract_pass_def Let_def dest: fill_block_plain)
next
  case (Inr hr)
  obtain ho rest where hr: "hr = (ho, rest)" by (cases hr)
  show ?thesis
  proof (cases ho)
    case None
    with Inr hr assms show ?thesis by (intro short) (auto simp: extract_pass_def Let_def)
  next
    case (Some h)
    then have fb: "fill_block E 512 [] (st_in (xs_stream st)) = Inr (Some h, rest)" using Inr hr by simp
    then have len: "left st = 512 + length rest" using fill_block_shrinks[OF fb] by simp
    let ?st1 = "st\<lparr>xs_stream := (xs_stream st)\<lparr>st_polls := Suc (polls st), st_in := rest\<rparr>\<rparr>"
    show ?thesis
    proof (cases "list_all (\<lambda>b. b = NUL) h")
      case True
      with fb len assms show ?thesis by (intro short) (auto simp: extract_pass_def Let_def)
    next
      case nz: False
      show ?thesis
      proof (cases "header_size h")
        case (Inl e)
        with fb nz len assms show ?thesis
          by (intro short) (auto simp: extract_pass_def Let_def dest: header_size_plain)
      next
        case (Inr n)
        obtain st2 q where m: "member_step E dest h n ?st1 = (st2, q)" by fastforce
        show ?thesis
          by (rule member[OF _ _ m])
             (use fb nz Inr m len assms in \<open>auto simp: extract_pass_def Let_def skip_padding_Inr
                dest: skip_padding_plain skip_padding_Inr split: sum.splits\<close>)
      qed
    qed
  qed
qed

lemma extract_pass_paced:
  assumes "extract_pass E dest st = (st', r)"
  shows "polled E (polls st) (polls st') r \<and> polls st' + left st' \<le> Suc (polls st + left st)
    \<and> (r = Inr True \<longrightarrow> polls st' + left st' \<le> polls st + left st)"
proof (cases "xe_cancel E (polls st)")
  case True
  then show ?thesis using assms by (auto simp: extract_pass_def Let_def cancelled_stop)
next
  case nc: False
  from assms nc show ?thesis
  proof (cases rule: extract_pass_cases)
    case short
    then show ?thesis using polled_first[OF polled_none nc, of r] by auto
  next
    case (member h n st1 st2 q)
    have p: "paced E st1 (st2, q)" using member_step_paced[of E st1 dest h n] member(3) by simp
    have "polled E (Suc (polls st)) (polls st2) r"
    proof (cases q)
      case (Inl e)
      then show ?thesis using p member(1) member(6)[OF Inl] by (auto simp: paced_def intro: polled_Inl)
    next
      case (Inr u)
      then show ?thesis using p member(1,7) by (auto simp: paced_def intro: polled_err)
    qed
    then show ?thesis using polled_first[OF _ nc] p member(1-5) by (auto simp: paced_def)
  qed
qed

lemma extract_loop_paced:
  "polled E (polls st) (polls (fst (extract_loop E dest st))) (snd (extract_loop E dest st))
    \<and> polls (fst (extract_loop E dest st)) + left (fst (extract_loop E dest st)) \<le> Suc (polls st + left st)"
proof (induction E dest st rule: extract_loop.induct)
  case (1 E dest st)
  obtain st' r where p: "extract_pass E dest st = (st', r)" by (cases "extract_pass E dest st")
  note pc = extract_pass_paced[OF p]
  show ?case
  proof (cases "r = Inr True")
    case True
    have "extract_loop E dest st = extract_loop E dest st'"
      by (subst extract_loop.simps) (simp add: p True)
    then show ?thesis
      using 1[OF p[symmetric] True] pc True polled_trans[of E "polls st" "polls st'" True] by auto
  next
    case False
    then have "\<exists>q. extract_loop E dest st = (st', q) \<and> (cancelled q \<longleftrightarrow> cancelled r)"
      using p by (subst extract_loop.simps) (auto simp: cancelled_def split: sum.splits)
    then show ?thesis using pc by (auto simp: polled_def)
  qed
qed

text \<open>C15. Extraction of any archive ends after at most one poll of the cancellation flag per
  inflated byte and one more, and it stops at the first poll that answers true, with
  \<open>Cancelled\<close>; without such a poll it never reports a cancellation.\<close>

theorem extract_polls:
  "let (st, r) = extract_tarball_with_cancel E inflated dest t; n = st_polls (xs_stream st) in
     n \<le> length inflated + 1
     \<and> {k. k < n \<and> xe_cancel E k} \<subseteq> {n - 1}
     \<and> (r = Inl (Cancelled ''extract cancelled'') \<longleftrightarrow> (\<exists>k < n. xe_cancel E k))"
proof -
  let ?st = "\<lparr>xs_stream = \<lparr>st_in = inflated, st_polls = 0, st_total = 0\<rparr>, xs_pending = None,
        xs_count = 0, xs_tree = t\<rparr>"
  obtain st r where r: "extract_loop E dest ?st = (st, r)" by fastforce
  have p: "polled E 0 (polls st) r" "polls st + left st \<le> Suc (length inflated)"
    using extract_loop_paced[of E ?st dest] r by auto
  then have c: "cancelled r \<longleftrightarrow> (\<exists>k < polls st. xe_cancel E k)"
    unfolding polled_def by (metis diff_less less_numeral_extra(1) zero_le)
  have "k = polls st - 1" if "k < polls st" "xe_cancel E k" for k
    using p(1) that by (auto simp: polled_def)
  then have "{k. k < polls st \<and> xe_cancel E k} \<subseteq> {polls st - 1}" by blast
  with p(2) c show ?thesis
    by (simp add: extract_tarball_with_cancel_def r cancelled_def[symmetric] Let_def)
qed

end
