(* ===== verification/Tar_Props.thy ===== *)
theory Tar_Props
  imports Tar_Extract
begin

text \<open>
  What the tar reader guarantees of the tree it leaves on disk, whatever the archive, the
  chunking of the decoder, the moment of a cancellation and the failures of the operating
  system: it stays inside the extraction directory and within the caps.  A well-formed
  archive, on the other hand, is extracted to exactly its members.
\<close>

section \<open>Confinement\<close>

definition safe_component :: "string \<Rightarrow> bool" where
  "safe_component c \<longleftrightarrow> c \<notin> {[], ''.'', ''..''} \<and> CHR ''/'' \<notin> set c \<and> length c \<le> MAX_COMPONENT_CHARS"

text \<open>The extraction directory is there and empty.\<close>

definition fresh :: "string list \<Rightarrow> tree \<Rightarrow> bool" where
  "fresh dest t \<longleftrightarrow> (\<forall>q. prefix q dest \<longrightarrow> t q = Some DirN) \<and> (\<forall>q. strict_prefix dest q \<longrightarrow> t q = None)"

definition confined :: "string list \<Rightarrow> tree \<Rightarrow> tree \<Rightarrow> bool" where
  "confined dest t0 t \<longleftrightarrow>
     (\<forall>p. \<not> strict_prefix dest p \<longrightarrow> t p = t0 p)
     \<and> (\<forall>p n. strict_prefix dest p \<longrightarrow> t p = Some n \<longrightarrow>
          n \<noteq> LinkN \<and> t (butlast p) = Some DirN \<and> list_all safe_component (drop (length dest) p))"

lemma components_safe:
  assumes "Normal c \<in> set (components s)"
  shows "c \<notin> {[], ''.'', ''..''}" "CHR ''/'' \<notin> set c"
proof -
  from assms have "c \<in> set (split_on (CHR ''/'') s)" "c \<noteq> []" "c \<noteq> ''.''" "c \<noteq> ''..''"
    by (auto simp: components_def part_component_def Let_def split: if_splits)
  then show "c \<notin> {[], ''.'', ''..''}" "CHR ''/'' \<notin> set c" by (auto dest: split_on_parts)
qed

lemma push_components_Inr:
  "push_components name cs out = Inr p \<Longrightarrow>
     \<exists>ds. p = out @ ds \<and> (\<forall>d \<in> set ds. Normal d \<in> set cs \<and> length d \<le> MAX_COMPONENT_CHARS)"
  by (induction name cs out arbitrary: p rule: push_components.induct)
     (fastforce split: if_splits)+

lemma safe_join_Inr:
  assumes "safe_join dest name = Inr p"
  obtains cs where "p = dest @ cs" "list_all safe_component cs"
proof -
  let ?n = "trim_dot_slash name"
  from assms have "push_components ?n (components ?n) dest = Inr p"
    by (auto simp: safe_join_def Let_def and_then_Inr split: if_splits)
  from push_components_Inr[OF this] obtain ds where "p = dest @ ds"
    "\<forall>d \<in> set ds. Normal d \<in> set (components ?n) \<and> length d \<le> MAX_COMPONENT_CHARS" by blast
  then show ?thesis
    using components_safe[of _ ?n] by (intro that) (auto simp: list_all_iff safe_component_def)
qed

lemma create_dirs_append:
  "create_dirs E (ps @ qs) t =
     (case snd (create_dirs E ps t) of
        Inl e \<Rightarrow> create_dirs E ps t
      | Inr _ \<Rightarrow> create_dirs E qs (fst (create_dirs E ps t)))"
  by (induction ps arbitrary: t)
     (auto split: option.splits node.splits sum.splits)

lemma create_dirs_id: "\<forall>q \<in> set ps. t q = Some DirN \<Longrightarrow> create_dirs E ps t = (t, Inr ())"
  by (induction ps) auto

lemma confined_add:
  assumes "confined dest t0 t" "strict_prefix dest p" "t (butlast p) = Some DirN" "t p \<noteq> Some DirN"
    "list_all safe_component (drop (length dest) p)" "n \<noteq> LinkN"
  shows "confined dest t0 (t(p \<mapsto> n))"
proof -
  have "p \<noteq> []" using assms(2) by auto
  then have "butlast p \<noteq> p" by (metis append_butlast_last_id append_self_conv list.distinct(1))
  with assms show ?thesis unfolding confined_def by auto
qed

text \<open>Making the directories of a safe path keeps the tree confined and touches no file.\<close>

definition same_files :: "tree \<Rightarrow> tree \<Rightarrow> bool" where
  "same_files t t' \<longleftrightarrow> (\<forall>p b. t p = Some (FileN b) \<longleftrightarrow> t' p = Some (FileN b))"

lemma dest_dir: "fresh dest t0 \<Longrightarrow> confined dest t0 t \<Longrightarrow> prefix q dest \<Longrightarrow> t q = Some DirN"
  unfolding fresh_def confined_def by (metis prefix_order.leD)

lemma create_dir_all_confined:
  assumes "fresh dest t0" "confined dest t0 t" "list_all safe_component cs"
  shows "confined dest t0 (fst (create_dir_all E (dest @ cs) t))
    \<and> same_files t (fst (create_dir_all E (dest @ cs) t))
    \<and> (snd (create_dir_all E (dest @ cs) t) = Inr () \<longrightarrow>
         fst (create_dir_all E (dest @ cs) t) (dest @ cs) = Some DirN)"
  using assms(3)
proof (induction cs rule: rev_induct)
  case Nil
  have "create_dirs E (prefixes dest) t = (t, Inr ())"
    using dest_dir[OF assms(1,2)] by (intro create_dirs_id) auto
  then show ?case using dest_dir[OF assms(1,2)] assms(2) by (auto simp: create_dir_all_def same_files_def)
next
  case (snoc c cs)
  let ?r = "create_dir_all E (dest @ cs) t"
  have r: "create_dir_all E (dest @ cs @ [c]) t =
     (case snd ?r of Inl e \<Rightarrow> ?r | Inr _ \<Rightarrow> create_dirs E [dest @ cs @ [c]] (fst ?r))"
    using create_dirs_append[of E "prefixes (dest @ cs)" "[dest @ cs @ [c]]" t]
    by (simp add: create_dir_all_def prefixes_snoc[of "dest @ cs" c, simplified] split: sum.splits)
  have IH: "confined dest t0 (fst ?r)" "same_files t (fst ?r)"
    "snd ?r = Inr () \<Longrightarrow> fst ?r (dest @ cs) = Some DirN"
    using snoc by auto
  show ?case
  proof (cases "snd ?r")
    case (Inr u)
    have "confined dest t0 ((fst ?r)(dest @ cs @ [c] \<mapsto> DirN))" if "fst ?r (dest @ cs @ [c]) = None"
      using that IH snoc.prems Inr
      by (intro confined_add) (auto simp: butlast_append strict_prefix_def)
    moreover have "same_files t ((fst ?r)(dest @ cs @ [c] \<mapsto> DirN))" if "fst ?r (dest @ cs @ [c]) = None"
      using IH(2) that by (auto simp: same_files_def)
    ultimately show ?thesis using IH(1,2) by (auto simp: r Inr fun_upd_def split: option.splits node.splits)
  qed (use IH in \<open>simp add: r\<close>)
qed

section \<open>The budget\<close>

definition files :: "tree \<Rightarrow> string list set" where
  "files t = {p. \<exists>b. t p = Some (FileN b)}"

definition file_bytes :: "node option \<Rightarrow> nat" where
  "file_bytes n = (case n of Some (FileN b) \<Rightarrow> length b | _ \<Rightarrow> 0)"

text \<open>What extraction keeps: a confined tree whose new files number at most the entries
  counted and hold at most half of the bytes charged.\<close>

definition new_files :: "string list \<Rightarrow> tree \<Rightarrow> string list set" where
  "new_files dest t = {p \<in> files t. strict_prefix dest p}"

definition in_budget :: "string list \<Rightarrow> tree \<Rightarrow> nat \<Rightarrow> nat \<Rightarrow> bool" where
  "in_budget dest t entries charged \<longleftrightarrow>
     finite (new_files dest t) \<and> card (new_files dest t) \<le> entries
     \<and> 2 * (\<Sum>p \<in> new_files dest t. file_bytes (t p)) \<le> charged
     \<and> (\<forall>p \<in> new_files dest t. file_bytes (t p) \<le> MAX_FILE_BYTES)"

lemma in_budget_mono: "in_budget dest t c m \<Longrightarrow> c \<le> c' \<Longrightarrow> m \<le> m' \<Longrightarrow> in_budget dest t c' m'"
  by (auto simp: in_budget_def)

lemma same_files_budget: "same_files t t' \<Longrightarrow> in_budget dest t c m \<longleftrightarrow> in_budget dest t' c m"
proof -
  assume "same_files t t'"
  then have f: "new_files dest t = new_files dest t'" and "\<forall>p \<in> new_files dest t'. t p = t' p"
    by (auto simp: same_files_def new_files_def files_def)
  then show ?thesis by (simp add: in_budget_def cong: sum.cong)
qed

lemma in_budget_remove:
  assumes "in_budget dest t c m"
  shows "in_budget dest (t(p := None)) c m"
proof -
  have f: "new_files dest (t(p := None)) = new_files dest t - {p}"
    by (auto simp: new_files_def files_def)
  have "(\<Sum>q \<in> new_files dest t - {p}. file_bytes ((t(p := None)) q)) = (\<Sum>q \<in> new_files dest t - {p}. file_bytes (t q))"
    by (rule sum.cong) auto
  also have "\<dots> \<le> (\<Sum>q \<in> new_files dest t. file_bytes (t q))"
    using assms by (intro sum_mono2) (auto simp: in_budget_def)
  finally show ?thesis
    using assms card_Diff1_le[of "new_files dest t" p] unfolding in_budget_def f by auto
qed

lemma in_budget_add:
  assumes "in_budget dest t c m" "length b \<le> MAX_FILE_BYTES"
  shows "in_budget dest (t(p \<mapsto> FileN b)) (Suc c) (m + 2 * length b)"
proof -
  have r: "in_budget dest (t(p := None)) c m" by (rule in_budget_remove[OF assms(1)])
  let ?t = "t(p := None)" and ?t' = "t(p \<mapsto> FileN b)"
  have p: "p \<notin> new_files dest ?t" by (auto simp: new_files_def files_def)
  have f: "new_files dest ?t' = new_files dest ?t \<or> new_files dest ?t' = insert p (new_files dest ?t)"
    by (auto simp: new_files_def files_def)
  have s: "(\<Sum>q \<in> new_files dest ?t. file_bytes (?t' q)) = (\<Sum>q \<in> new_files dest ?t. file_bytes (?t q))"
    using p by (intro sum.cong) auto
  from f show ?thesis
    using r p s assms(2) unfolding in_budget_def
    by (elim disjE) (auto simp: file_bytes_def)
qed

section \<open>The invariant of the loop\<close>

definition xs_ok :: "string list \<Rightarrow> tree \<Rightarrow> xstate \<Rightarrow> bool" where
  "xs_ok dest t0 st \<longleftrightarrow>
     confined dest t0 (xs_tree st)
     \<and> in_budget dest (xs_tree st) (min (xs_count st) MAX_FILE_COUNT) (st_total (xs_stream st))
     \<and> st_total (xs_stream st) \<le> MAX_TOTAL_BYTES"

lemma stream_exact_total:
  "st_total st \<le> MAX_TOTAL_BYTES \<Longrightarrow>
     st_total st \<le> st_total (fst (stream_exact E out n w st))
     \<and> st_total (fst (stream_exact E out n w st)) \<le> MAX_TOTAL_BYTES"
proof (induction E out n w st rule: stream_exact.induct)
  case (1 E out remaining written st)
  show ?case
  proof (cases "remaining = 0 \<or> xe_cancel E (st_polls st)")
    case False
    have IH: "st_total st \<le> st_total (fst (stream_exact E out (remaining - length b) (written @ b)
          (st\<lparr>st_polls := Suc (st_polls st), st_in := rest, st_total := t\<rparr>)))
      \<and> st_total (fst (stream_exact E out (remaining - length b) (written @ b)
          (st\<lparr>st_polls := Suc (st_polls st), st_in := rest, st_total := t\<rparr>))) \<le> MAX_TOTAL_BYTES"
      if "gz_read E (min remaining STREAM_CHUNK_BYTES) (st_in st) = Inr (b, rest)" "b \<noteq> []"
        "out (length written) = None" "charge (st_total st) (length b) = Inr t" for b rest t
      using 1(1)[OF _ refl _ that(1) refl that(2-4)] that(4) False by (auto simp: charge_Inr)
    show ?thesis
      using False 1(2) IH by (subst (1 2) stream_exact.simps) (auto simp: Let_def split: sum.splits option.splits)
  qed (use 1(2) in \<open>subst (1 2) stream_exact.simps; auto simp: Let_def\<close>)
qed

lemma xs_ok_stream:
  "xs_ok dest t0 st \<Longrightarrow> st_total (xs_stream st) \<le> st_total s \<Longrightarrow> st_total s \<le> MAX_TOTAL_BYTES \<Longrightarrow>
     xs_ok dest t0 (st\<lparr>xs_stream := s\<rparr>)"
  by (auto simp: xs_ok_def intro: in_budget_mono)

lemma xs_ok_pending [simp]: "xs_ok dest t0 (st\<lparr>xs_pending := p\<rparr>) = xs_ok dest t0 st"
  by (simp add: xs_ok_def)

lemma then_stream_ok:
  assumes "xs_ok dest t0 st"
    "\<And>b s. xs_ok dest t0 (st\<lparr>xs_stream := s\<rparr>) \<Longrightarrow> xs_ok dest t0 (fst (k b (st\<lparr>xs_stream := s\<rparr>)))"
  shows "xs_ok dest t0 (fst (then_stream st (stream_exact E out n w (xs_stream st)) k))"
proof -
  have "xs_ok dest t0 (st\<lparr>xs_stream := fst (stream_exact E out n w (xs_stream st))\<rparr>)"
    using stream_exact_total[of "xs_stream st" E out n w] assms(1)
    by (intro xs_ok_stream) (auto simp: xs_ok_def)
  with assms(2) show ?thesis by (auto simp: then_stream_def split: sum.splits)
qed

lemma make_dirs_rule:
  assumes "fresh dest t0" "confined dest t0 (xs_tree st)" "list_all safe_component cs"
    "\<And>t. confined dest t0 t \<Longrightarrow> same_files (xs_tree st) t \<Longrightarrow> P (st\<lparr>xs_tree := t\<rparr>)"
    "\<And>t. confined dest t0 t \<Longrightarrow> same_files (xs_tree st) t \<Longrightarrow> t (dest @ cs) = Some DirN \<Longrightarrow>
       P (fst (k (st\<lparr>xs_tree := t\<rparr>)))"
  shows "P (fst (make_dirs E (dest @ cs) st k))"
  using create_dir_all_confined[OF assms(1-3), of E] assms(4,5)
  by (auto simp: make_dirs_def Let_def split: sum.splits)

lemma confined_remove:
  assumes "confined dest t0 t" "strict_prefix dest p" "t p \<noteq> Some DirN"
  shows "confined dest t0 (t(p := None))"
  using assms unfolding confined_def by auto

lemma write_body_ok:
  assumes conf: "confined dest t0 (xs_tree st)"
    and bud: "in_budget dest (xs_tree st) c m" "c < xs_count st" "xs_count st \<le> MAX_FILE_COUNT"
      "m + n \<le> st_total (xs_stream st)" "st_total (xs_stream st) \<le> MAX_TOTAL_BYTES" "n \<le> MAX_FILE_BYTES"
    and p: "strict_prefix dest p" "xs_tree st (butlast p) = Some DirN"
      "list_all safe_component (drop (length dest) p)"
  shows "xs_ok dest t0 (fst (write_body E p n st))"
proof (cases "create_file E p (xs_tree st)")
  case (Inl e)
  then show ?thesis using conf bud by (auto simp: write_body_def xs_ok_def intro: in_budget_mono)
next
  case (Inr t)
  then have nd: "xs_tree st p \<noteq> Some DirN" and t: "t = (xs_tree st)(p \<mapsto> FileN [])"
    by (auto simp: create_file_def split: if_splits)
  let ?r = "stream_exact E (file_refusal E p) n [] (xs_stream st)"
  have tot: "st_total (xs_stream st) \<le> st_total (fst ?r)" "st_total (fst ?r) \<le> MAX_TOTAL_BYTES"
    using stream_exact_total[OF bud(5)] by auto
  show ?thesis
  proof (cases "snd ?r")
    case (Inl e)
    have "in_budget dest ((xs_tree st)(p := None)) (min (xs_count st) MAX_FILE_COUNT) (st_total (fst ?r))"
      using in_budget_remove[OF bud(1), of p] bud tot by (auto elim: in_budget_mono)
    then show ?thesis
      using Inl tot confined_remove[OF conf p(1) nd]
      by (simp add: write_body_def \<open>create_file E p (xs_tree st) = Inr t\<close> t xs_ok_def Let_def)
  next
    case (Inr body)
    have b: "length body = n" "st_total (fst ?r) = st_total (xs_stream st) + n"
      using stream_exact_Inr[of E "file_refusal E p" n "[]" "xs_stream st" "fst ?r" body] Inr
      by (auto simp: prod_eq_iff)
    have "in_budget dest ((xs_tree st)(p \<mapsto> FileN body)) (min (xs_count st) MAX_FILE_COUNT) (st_total (fst ?r))"
      using in_budget_add[OF bud(1), of body p] b bud by (auto elim!: in_budget_mono)
    moreover have "confined dest t0 ((xs_tree st)(p \<mapsto> FileN body))"
      using conf p nd by (intro confined_add) auto
    ultimately show ?thesis
      using Inr tot by (simp add: write_body_def \<open>create_file E p (xs_tree st) = Inr t\<close> t xs_ok_def Let_def)
  qed
qed

text \<open>The write of a counted and charged member, below the extraction directory or at it.\<close>

lemma make_dirs_present:
  "\<forall>q. prefix q p \<longrightarrow> xs_tree st q = Some DirN \<Longrightarrow> make_dirs E p st k = k st"
  using create_dirs_id[of "prefixes p" "xs_tree st" E]
  by (auto simp: make_dirs_def create_dir_all_def Let_def)

lemma write_body_dir: "xs_tree st p = Some DirN \<Longrightarrow> fst (write_body E p n st) = st"
  by (simp add: write_body_def create_file_def)

lemma write_member_at_dest:
  assumes "fresh dest t0" "confined dest t0 (xs_tree st)"
  shows "fst (write_member E dest n st) = st"
proof -
  have "xs_tree st q = Some DirN" if "prefix q dest" for q using dest_dir[OF assms that] .
  moreover have "prefix q dest" if "prefix q (butlast dest)" for q
    using that by (metis prefix_order.trans prefixeq_butlast)
  ultimately show ?thesis
    using make_dirs_present[of "butlast dest" st] by (simp add: write_member_def write_body_dir)
qed

lemma write_member_ok:
  assumes fr: "fresh dest t0" and conf: "confined dest t0 (xs_tree st)"
    and bud: "in_budget dest (xs_tree st) c m" "c < xs_count st" "xs_count st \<le> MAX_FILE_COUNT"
      "m + n \<le> st_total (xs_stream st)" "st_total (xs_stream st) \<le> MAX_TOTAL_BYTES" "n \<le> MAX_FILE_BYTES"
    and cs: "list_all safe_component cs"
  shows "xs_ok dest t0 (fst (write_member E (dest @ cs) n st))"
proof (cases "cs = []")
  case True
  then show ?thesis
    using write_member_at_dest[OF fr conf, of E n] conf bud by (auto simp: xs_ok_def elim!: in_budget_mono)
next
  case False
  let ?p = "dest @ cs"
  have p: "butlast ?p = dest @ butlast cs" "?p \<noteq> []" "strict_prefix dest ?p"
    "list_all safe_component (butlast cs)"
    using False cs by (auto simp: butlast_append strict_prefix_def list_all_iff dest: in_set_butlastD)
  have "xs_ok dest t0 (fst (make_dirs E (dest @ butlast cs) st (write_body E ?p n)))"
  proof (rule make_dirs_rule[OF fr conf p(4)])
    fix t assume t: "confined dest t0 t" "same_files (xs_tree st) t"
    have b: "in_budget dest t c m" using bud(1) same_files_budget[OF t(2)] by simp
    then show "xs_ok dest t0 (st\<lparr>xs_tree := t\<rparr>)"
      using t bud by (auto simp: xs_ok_def elim!: in_budget_mono)
    assume d: "t (dest @ butlast cs) = Some DirN"
    show "xs_ok dest t0 (fst (write_body E ?p n (st\<lparr>xs_tree := t\<rparr>)))"
      by (rule write_body_ok[where c = c and m = m]) (use t b d bud p cs in simp_all)
  qed
  then show ?thesis using p False by (simp add: write_member_def)
qed

lemma file_member_ok:
  assumes "fresh dest t0" "xs_ok dest t0 st"
  shows "xs_ok dest t0 (fst (file_member E dest name n st))"
proof -
  let ?c = "min (xs_count st) MAX_FILE_COUNT" and ?m = "st_total (xs_stream st)"
  have base: "confined dest t0 (xs_tree st)" "in_budget dest (xs_tree st) ?c ?m" "?m \<le> MAX_TOTAL_BYTES"
    using assms(2) by (auto simp: xs_ok_def)
  let ?st = "st\<lparr>xs_pending := None, xs_stream := (xs_stream st)\<lparr>st_total := ?m + n\<rparr>,
      xs_count := Suc (xs_count st)\<rparr>"
  have ok: "xs_ok dest t0 (fst (write_member E p n ?st))"
    if join: "safe_join dest name = Inr p" and n: "n \<le> MAX_FILE_BYTES" "?m + n \<le> MAX_TOTAL_BYTES"
      and c: "Suc (xs_count st) \<le> MAX_FILE_COUNT" for p
  proof -
    obtain cs where p: "p = dest @ cs" "list_all safe_component cs" by (rule safe_join_Inr[OF join])
    show ?thesis unfolding p(1)
      by (rule write_member_ok[OF assms(1), where c = ?c and m = ?m]) (use base n c p in simp_all)
  qed
  show ?thesis
    unfolding file_member_def using base ok
    by (auto simp: count_entry_def Let_def xs_ok_def charge_Inr split: sum.splits elim: in_budget_mono)
qed

lemma dir_member_ok:
  assumes "fresh dest t0" "xs_ok dest t0 st"
  shows "xs_ok dest t0 (fst (dir_member E dest name n st))"
proof -
  let ?st = "st\<lparr>xs_pending := None, xs_count := Suc (xs_count st)\<rparr>"
  have st: "xs_ok dest t0 ?st" using assms(2) by (auto simp: xs_ok_def elim: in_budget_mono)
  have mk: "xs_ok dest t0 (fst (make_dirs E (dest @ cs) s (\<lambda>st. (st, Inr ()))))"
    if "xs_ok dest t0 s" "list_all safe_component cs" for s cs
    by (rule make_dirs_rule[OF assms(1) _ that(2)])
       (use that(1) same_files_budget in \<open>auto simp: xs_ok_def\<close>)
  have "xs_ok dest t0 (fst (then_stream ?st (stream_exact E no_refusal n [] (xs_stream ?st))
      (\<lambda>_ st. make_dirs E p st (\<lambda>st. (st, Inr ())))))" if j: "safe_join dest name = Inr p" for p
    by (rule safe_join_Inr[OF j], hypsubst, rule then_stream_ok[OF st mk])
  then show ?thesis
    using st by (auto simp: dir_member_def count_entry_def Let_def discard_exact_def split: sum.splits)
qed

lemma member_step_ok:
  assumes "fresh dest t0" "xs_ok dest t0 st"
  shows "xs_ok dest t0 (fst (member_step E dest h n st))"
  using assms(2) file_member_ok[OF assms] dir_member_ok[OF assms]
  by (auto simp: member_step_def Let_def long_name_def pax_header_def skip_body_def skip_member_def
      read_meta_body_def discard_exact_def then_stream_def[of _ "(_, Inl PayloadTooLarge)"]
      intro!: then_stream_ok split: option.splits)

lemma extract_pass_ok:
  assumes "fresh dest t0" "xs_ok dest t0 st"
  shows "xs_ok dest t0 (fst (extract_pass E dest st))"
proof -
  have s: "xs_ok dest t0 (st\<lparr>xs_stream := (xs_stream st)\<lparr>st_polls := i, st_in := b\<rparr>\<rparr>)"
    and s': "xs_ok dest t0 (st\<lparr>xs_stream := (xs_stream st)\<lparr>st_polls := i\<rparr>\<rparr>)" for i b
    using assms(2) by (auto simp: xs_ok_def)
  have m: "xs_ok dest t0 u" if "member_step E dest h n (st\<lparr>xs_stream := (xs_stream st)\<lparr>st_polls := i, st_in := b\<rparr>\<rparr>) = (u, r)"
    for h n i b u r
    using member_step_ok[OF assms(1) s[where i = i and b = b], of E h n] that by simp
  have r: "xs_ok dest t0 (u\<lparr>xs_stream := (xs_stream u)\<lparr>st_in := b\<rparr>\<rparr>)" if "xs_ok dest t0 u" for u b
    using that by (simp add: xs_ok_def)
  show ?thesis
    by (auto simp: extract_pass_def Let_def s s' split: sum.splits option.splits prod.splits
        dest: m intro!: r)
qed

lemma extract_loop_ok:
  "fresh dest t0 \<Longrightarrow> xs_ok dest t0 st \<Longrightarrow> xs_ok dest t0 (fst (extract_loop E dest st))"
proof (induction E dest st rule: extract_loop.induct)
  case (1 E dest st)
  obtain st' r where p: "extract_pass E dest st = (st', r)" by (cases "extract_pass E dest st")
  have "xs_ok dest t0 st'" using extract_pass_ok[OF 1(2,3), of E] p by simp
  with 1(1)[OF p[symmetric] _ _ 1(2)] p show ?case
    by (subst extract_loop.simps) (auto split: sum.splits)
qed

lemma fresh_no_files: "fresh dest t \<Longrightarrow> new_files dest t = {}"
  by (auto simp: fresh_def new_files_def files_def)

lemma extracted_ok:
  assumes "fresh dest t"
  shows "xs_ok dest t (fst (extract_tarball_with_cancel E inflated dest t))"
  unfolding extract_tarball_with_cancel_def
  by (rule extract_loop_ok[OF assms])
     (use assms fresh_no_files[OF assms] in
       \<open>auto simp: xs_ok_def in_budget_def confined_def fresh_def\<close>)

text \<open>C12. Whatever the archive and however its extraction ends, nothing outside the extraction
  directory changes, and every entry made inside is a file or a directory, below existing
  directories, whose path components are plain names.\<close>

theorem extract_confined:
  assumes "fresh dest t"
  shows "let t' = xs_tree (fst (extract_tarball_with_cancel E inflated dest t)) in
     (\<forall>p. \<not> strict_prefix dest p \<longrightarrow> t' p = t p)
     \<and> (\<forall>p n. strict_prefix dest p \<longrightarrow> t' p = Some n \<longrightarrow>
          n \<noteq> LinkN \<and> t' (butlast p) = Some DirN
          \<and> (\<forall>c \<in> set (drop (length dest) p).
               c \<notin> {[], ''.'', ''..''} \<and> CHR ''/'' \<notin> set c \<and> length c \<le> MAX_COMPONENT_CHARS))"
  using extracted_ok[OF assms, of E inflated]
  by (auto simp: xs_ok_def confined_def Let_def list_all_iff safe_component_def)

definition sample_dest :: "string list" where
  "sample_dest = [''tmp'', ''firecrow-scan'']"

definition sample_tree :: tree where
  "sample_tree = (\<lambda>q. if prefix q sample_dest then Some DirN else None)"

lemma sample_fresh: "fresh sample_dest sample_tree"
  by (auto simp: fresh_def sample_tree_def strict_prefix_def dest: prefix_order.antisym)

lemma extract_confined_witness:
  "fresh sample_dest sample_tree \<and>
   (\<forall>E inflated. let t' = xs_tree (fst (extract_tarball_with_cancel E inflated sample_dest sample_tree)) in
     (\<forall>p. \<not> strict_prefix sample_dest p \<longrightarrow> t' p = sample_tree p)
     \<and> (\<forall>p n. strict_prefix sample_dest p \<longrightarrow> t' p = Some n \<longrightarrow>
          n \<noteq> LinkN \<and> t' (butlast p) = Some DirN
          \<and> (\<forall>c \<in> set (drop (length sample_dest) p).
               c \<notin> {[], ''.'', ''..''} \<and> CHR ''/'' \<notin> set c \<and> length c \<le> MAX_COMPONENT_CHARS)))"
  using sample_fresh extract_confined[OF sample_fresh] by blast

text \<open>C14. The files an extraction leaves, whatever the archive: at most the cap on entries,
  each at most the cap on a file, and together at most half of the cap on inflated bytes,
  because a regular file is charged once from its header and once more as it streams.\<close>

theorem extract_bounded:
  assumes "fresh dest t"
  shows "let t' = xs_tree (fst (extract_tarball_with_cancel E inflated dest t));
         fs = {p. strict_prefix dest p \<and> (\<exists>b. t' p = Some (FileN b))} in
     finite fs \<and> card fs \<le> MAX_FILE_COUNT \<and> (\<forall>p \<in> fs. file_bytes (t' p) \<le> MAX_FILE_BYTES)
     \<and> 2 * (\<Sum>p \<in> fs. file_bytes (t' p)) \<le> MAX_TOTAL_BYTES"
proof -
  let ?t = "xs_tree (fst (extract_tarball_with_cancel E inflated dest t))"
  have fs: "{p. strict_prefix dest p \<and> (\<exists>b. ?t p = Some (FileN b))} = new_files dest ?t"
    by (auto simp: new_files_def files_def)
  show ?thesis
    unfolding Let_def fs using extracted_ok[OF assms, of E inflated] by (auto simp: xs_ok_def in_budget_def)
qed

lemma extract_bounded_witness:
  "fresh sample_dest sample_tree \<and>
   (\<forall>E inflated. let t' = xs_tree (fst (extract_tarball_with_cancel E inflated sample_dest sample_tree));
         fs = {p. strict_prefix sample_dest p \<and> (\<exists>b. t' p = Some (FileN b))} in
     finite fs \<and> card fs \<le> MAX_FILE_COUNT \<and> (\<forall>p \<in> fs. file_bytes (t' p) \<le> MAX_FILE_BYTES)
     \<and> 2 * (\<Sum>p \<in> fs. file_bytes (t' p)) \<le> MAX_TOTAL_BYTES)"
  using sample_fresh extract_bounded[OF sample_fresh] by blast

end
