(* ===== verification/Tar_Roundtrip.thy ===== *)
theory Tar_Roundtrip
  imports Tar_Props
begin

text \<open>
  Extraction against a reference writer of the ustar format: the archive of a list of
  files and directories unpacks to exactly that list, as long as the caps allow it.
\<close>

section \<open>The writer\<close>

datatype member = FileM "string list" string | DirM "string list"

primrec member_path :: "member \<Rightarrow> string list" where
  "member_path (FileM p b) = p"
| "member_path (DirM p) = p"

primrec member_body :: "member \<Rightarrow> string" where
  "member_body (FileM p b) = b"
| "member_body (DirM p) = []"

primrec type_flag :: "member \<Rightarrow> char" where
  "type_flag (FileM p b) = CHR ''0''"
| "type_flag (DirM p) = CHR ''5''"

text \<open>The header fields the reader does not look at: mode and owners, times and checksum,
  the link name and the device numbers, the tail of the block.\<close>

record ustar_meta = um_ids :: string um_times :: string um_link :: string um_tail :: string

definition meta_ok :: "ustar_meta \<Rightarrow> bool" where
  "meta_ok M \<longleftrightarrow> length (um_ids M) = 24 \<and> length (um_times M) = 20 \<and> length (um_link M) = 188
     \<and> length (um_tail M) = 12"

fun octal_str :: "nat \<Rightarrow> nat \<Rightarrow> string" where
  "octal_str 0 n = []"
| "octal_str (Suc k) n = octal_str k (n div 8) @ [digit_char (n mod 8)]"

definition nul_pad :: "nat \<Rightarrow> string \<Rightarrow> string" where
  "nul_pad k s = s @ replicate (k - length s) NUL"

definition ustar_header :: "ustar_meta \<Rightarrow> string \<Rightarrow> nat \<Rightarrow> char \<Rightarrow> string" where
  "ustar_header M name n flag =
     nul_pad 100 name @ um_ids M @ (octal_str 11 n @ [NUL]) @ um_times M @ [flag] @ um_link M
     @ replicate 155 NUL @ um_tail M"

definition member_name :: "member \<Rightarrow> string" where
  "member_name m = join ''/'' (member_path m)"

definition member_bytes :: "ustar_meta \<Rightarrow> member \<Rightarrow> string" where
  "member_bytes M m =
     ustar_header M (member_name m) (length (member_body m)) (type_flag m)
     @ member_body m @ replicate (pad (length (member_body m))) NUL"

definition archive :: "ustar_meta \<Rightarrow> member list \<Rightarrow> string" where
  "archive M ms = concat (map (member_bytes M) ms) @ replicate 1024 NUL"

section \<open>Reading a header back\<close>

lemma octal_digit: "d < 8 \<Longrightarrow> is_octal (digit_char d) \<and> digit_val (digit_char d) = d"
  using byte_digit_char[of d] digit_val_digit_char[of d] by (auto simp: is_octal_def in_range_def)

lemma octal_str_length [simp]: "length (octal_str k n) = k"
  by (induction k n rule: octal_str.induct) auto

lemma octal_str_octal: "list_all is_octal (octal_str k n)"
  by (induction k n rule: octal_str.induct) (auto simp: octal_digit)

lemma octal_val_str: "octal_val (octal_str k n) = n mod 8 ^ k"
proof (induction k n rule: octal_str.induct)
  case (2 k n)
  have "octal_val (octal_str (Suc k) n) = 8 * (n div 8 mod 8 ^ k) + n mod 8"
    using 2 octal_digit[of "n mod 8"] by (simp add: octal_val_def)
  also have "\<dots> = n mod 8 ^ Suc k" by (simp add: mod_mult2_eq)
  finally show ?case .
qed (simp add: octal_val_def)

lemma octal_visible: "is_octal c \<Longrightarrow> is_visible c \<and> is_ascii c \<and> c \<noteq> NUL \<and> c \<noteq> CHR ''+'' \<and> \<not> byte c \<ge> 128"
  by (auto simp: is_octal_def is_visible_def is_ascii_def in_range_def NUL_def)

definition plain_name :: "string \<Rightarrow> bool" where
  "plain_name s \<longleftrightarrow> from_utf8_ok s \<and> trim s = s \<and> NUL \<notin> set s"

lemma cstr_pad: "plain_name s \<Longrightarrow> cstr (s @ NUL # r) = s"
proof -
  assume p: "plain_name s"
  then have "takeWhile (\<lambda>b. b \<noteq> NUL) (s @ NUL # r) = s"
    by (auto simp: plain_name_def takeWhile_append)
  with p show ?thesis by (simp add: cstr_def plain_name_def from_utf8_lossy_ok)
qed

lemma cstr_full: "plain_name s \<Longrightarrow> cstr s = s"
proof -
  assume p: "plain_name s"
  then have "takeWhile (\<lambda>b. b \<noteq> NUL) s = s" by (auto simp: plain_name_def takeWhile_eq_all_conv)
  with p show ?thesis by (simp only: cstr_def plain_name_def from_utf8_lossy_ok)
qed

lemma plain_octal: "0 < k \<Longrightarrow> plain_name (octal_str k n)"
proof -
  assume k: "0 < k"
  let ?s = "octal_str k n"
  have o: "\<forall>c \<in> set ?s. is_octal c" using octal_str_octal[of k n] by (simp add: list_all_iff)
  have ne: "?s \<noteq> []" using k by (metis length_0_conv less_numeral_extra(3) octal_str_length)
  have "trim ?s = ?s" using o ne octal_visible by (intro trim_visible) auto
  moreover have "from_utf8_ok ?s" using o octal_visible by (intro from_utf8_ok_ascii) (auto simp: list_all_iff)
  ultimately show ?thesis using o octal_visible by (auto simp: plain_name_def)
qed

lemma parse_octal_str: "n < 8 ^ 11 \<Longrightarrow> parse_octal (octal_str 11 n @ [NUL]) = Inr n"
proof -
  assume n: "n < 8 ^ 11"
  let ?s = "octal_str 11 n"
  obtain c r where s: "?s = c # r" by (metis Suc_length_conv numeral_eq_Suc octal_str_length)
  have o: "list_all is_octal ?s" by (rule octal_str_octal)
  then have c: "is_octal c" using s by simp
  have "cstr (?s @ [NUL]) = ?s" by (rule cstr_pad) (simp add: plain_octal)
  moreover have "from_str_radix8 ?s = Some n"
    using o octal_visible[OF c] octal_val_str[of 11 n] n by (simp add: from_str_radix8_def s)
  ultimately show ?thesis
    using octal_visible[OF c] by (simp add: parse_octal_def Let_def s)
qed

lemma nul_pad_length: "length s \<le> k \<Longrightarrow> length (nul_pad k s) = k"
  by (simp add: nul_pad_def)

lemma cstr_nul_pad: "plain_name s \<Longrightarrow> cstr (nul_pad k s) = s"
  by (cases "k - length s") (simp_all add: nul_pad_def cstr_pad cstr_full)

lemma header_parts:
  fixes flag :: char
  assumes "meta_ok M" "length name \<le> 100" "plain_name name" "n < 8 ^ 11"
  defines h_def: "h \<equiv> ustar_header M name n flag"
  shows "length h = 512" "cstr (take 100 h) = name" "header_size h = Inr n" "h ! 156 = flag"
    "cstr (take 155 (drop 345 h)) = []"
proof -
  have l: "length (nul_pad 100 name) = 100" using assms(2) by (rule nul_pad_length)
  note m = assms(1)[unfolded meta_ok_def]
  show "length h = 512" using l m by (simp add: h_def ustar_header_def)
  show "cstr (take 100 h) = name"
    using l cstr_nul_pad[OF assms(3)] by (simp add: h_def ustar_header_def)
  show "header_size h = Inr n"
    using l m parse_octal_str[OF assms(4)] by (simp add: h_def ustar_header_def header_size_def)
  show "h ! 156 = flag" using l m by (simp add: h_def ustar_header_def nth_append)
  have "take 155 (drop 345 h) = replicate 155 NUL" using l m by (simp add: h_def ustar_header_def)
  then show "cstr (take 155 (drop 345 h)) = []"
    by (simp add: cstr_def numeral_eq_Suc from_utf8_lossy_ok)
qed

section \<open>Reading a member name back\<close>

definition member_ok :: "member \<Rightarrow> bool" where
  "member_ok m \<longleftrightarrow> member_path m \<noteq> [] \<and> list_all safe_component (member_path m)
     \<and> length (member_name m) \<le> 100 \<and> plain_name (member_name m) \<and> length (member_body m) < 8 ^ 11"

lemma split_name: "member_ok m \<Longrightarrow> split_on (CHR ''/'') (member_name m) = member_path m"
  unfolding member_name_def
  by (rule split_on_join) (auto simp: member_ok_def list_all_iff safe_component_def)

lemma first_component:
  assumes "member_ok m" "c \<in> {[], ''.''}"
  shows "\<not> prefix (c @ ''/'') (member_name m)"
proof
  assume "prefix (c @ ''/'') (member_name m)"
  then obtain r where "member_name m = c @ CHR ''/'' # r" by (auto simp: prefix_def)
  then have "member_path m = c # split_on (CHR ''/'') r"
    using split_name[OF assms(1)] split_on_append[of "CHR ''/''" c r] assms(2) by auto
  then show False using assms by (auto simp: member_ok_def safe_component_def)
qed

lemma trim_dot_slash_id: "\<not> prefix ''./'' s \<Longrightarrow> trim_dot_slash s = s"
  by (cases s rule: trim_dot_slash.cases) auto

lemma safe_join_name:
  assumes "member_ok m"
  shows "safe_join dest (member_name m) = Inr (dest @ member_path m)"
proof -
  let ?n = "member_name m" and ?p = "member_path m"
  have safe: "\<forall>c \<in> set ?p. safe_component c" and p: "?p \<noteq> []"
    using assms by (auto simp: member_ok_def list_all_iff)
  have hd: "hd ?p \<noteq> ''.''" using safe p by (cases ?p) (auto simp: safe_component_def)
  have f: "filter (\<lambda>c. c \<noteq> [] \<and> c \<noteq> ''.'') ?p = ?p"
    using safe by (auto simp: filter_id_conv safe_component_def)
  have n: "map part_component ?p = map Normal ?p"
    using safe by (auto simp: part_component_def safe_component_def)
  have comps: "components ?n = map Normal ?p"
    using first_component[OF assms, of "[]"] hd by (simp add: components_def split_name[OF assms] f n)
  have push: "\<forall>c \<in> set cs. safe_component c \<Longrightarrow> push_components nm (map Normal cs) out = Inr (out @ cs)"
    for nm cs out by (induction cs arbitrary: out) (simp_all add: safe_component_def)
  have "trim_dot_slash ?n = ?n" using first_component[OF assms, of "''.''"] by (intro trim_dot_slash_id) simp
  moreover have "?n \<noteq> []"
  proof
    assume "?n = []"
    then have "?p = [[]]" using split_name[OF assms] by (metis split_on.simps(1))
    then show False using safe by (simp add: safe_component_def)
  qed
  moreover have "char_count ?n \<le> MAX_PATH_CHARS"
    using char_count_le[of ?n] assms by (simp add: member_ok_def MAX_PATH_CHARS_def)
  ultimately show ?thesis by (simp add: safe_join_def comps push[OF safe])
qed

section \<open>The tree of a listing\<close>

definition is_file :: "member \<Rightarrow> bool" where
  "is_file m \<longleftrightarrow> type_flag m = CHR ''0''"

text \<open>The files of the list, and every directory on the way to a member.\<close>

definition listing :: "member list \<Rightarrow> string list \<Rightarrow> node option" where
  "listing ms q =
     (case find (\<lambda>m. is_file m \<and> member_path m = q) ms of
        Some m \<Rightarrow> Some (FileN (member_body m))
      | None \<Rightarrow> if list_ex (\<lambda>m. prefix q (member_path m)) ms then Some DirN else None)"

definition overlay :: "string list \<Rightarrow> member list \<Rightarrow> tree \<Rightarrow> tree" where
  "overlay dest ms t p = (if strict_prefix dest p then listing ms (drop (length dest) p) else t p)"

text \<open>No path twice, and nothing below a file.\<close>

definition consistent :: "member list \<Rightarrow> bool" where
  "consistent ms \<longleftrightarrow> distinct (map member_path ms)
     \<and> (\<forall>m \<in> set ms. \<forall>m' \<in> set ms. is_file m \<longrightarrow> \<not> strict_prefix (member_path m) (member_path m'))"

lemma consistent_snoc:
  assumes "consistent (ms @ [m])" "x \<in> set ms"
  shows "member_path x \<noteq> member_path m" "is_file x \<Longrightarrow> \<not> strict_prefix (member_path x) (member_path m)"
    "is_file m \<Longrightarrow> \<not> strict_prefix (member_path m) (member_path x)"
  using assms by (auto simp: consistent_def rev_image_eqI)

lemma no_file_on_path:
  assumes "consistent (ms @ [m])" "prefix q (member_path m)"
  shows "find (\<lambda>m'. is_file m' \<and> member_path m' = q) ms = None"
  using consistent_snoc(1,2)[OF assms(1)] assms(2) by (auto simp: find_None_iff strict_prefix_def)

lemma listing_below:
  assumes "consistent (ms @ [m])" "prefix q (member_path m)"
  shows "listing ms q = None \<or> listing ms q = Some DirN"
  using no_file_on_path[OF assms] by (simp add: listing_def)

lemma listing_at:
  assumes "consistent (ms @ [m])" "is_file m"
  shows "listing ms (member_path m) = None"
proof -
  have "\<not> list_ex (\<lambda>m'. prefix (member_path m) (member_path m')) ms"
    using consistent_snoc(1,3)[OF assms(1)] assms(2) by (fastforce simp: list_ex_iff strict_prefix_def)
  then show ?thesis using no_file_on_path[OF assms(1), of "member_path m"] by (simp add: listing_def)
qed

lemma find_snoc: "find P (xs @ [x]) = (case find P xs of Some y \<Rightarrow> Some y | None \<Rightarrow> if P x then Some x else None)"
  by (induction xs) auto

lemma listing_snoc:
  assumes "consistent (ms @ [m])"
  shows "listing (ms @ [m]) q =
     (if q = member_path m \<and> is_file m then Some (FileN (member_body m))
      else if prefix q (member_path m) then Some DirN else listing ms q)"
proof (cases "prefix q (member_path m)")
  case True
  then show ?thesis using no_file_on_path[OF assms True] by (simp add: listing_def find_snoc)
next
  case False
  then have "q \<noteq> member_path m" by auto
  with False show ?thesis by (simp add: listing_def find_snoc split: option.split)
qed

lemma create_dirs_make:
  assumes "\<And>op. \<not> xe_refuses E op"
  shows "\<forall>q \<in> set ps. T q = None \<or> T q = Some DirN \<Longrightarrow>
    create_dirs E ps T = ((\<lambda>q. if q \<in> set ps then Some DirN else T q), Inr ())"
proof (induction ps arbitrary: T)
  case (Cons p ps)
  have e: "(\<lambda>q. if q \<in> set ps then Some DirN else (T(p \<mapsto> DirN)) q)
      = (\<lambda>q. if q \<in> set (p # ps) then Some DirN else T q)" by auto
  have "create_dirs E (p # ps) T = create_dirs E ps (T(p \<mapsto> DirN))"
    using Cons.prems assms by (auto simp: fun_upd_idem)
  then show ?case using Cons.IH[of "T(p \<mapsto> DirN)"] Cons.prems e by simp
qed simp

text \<open>Making the directories of a path that runs inside the listing.\<close>

lemma create_dir_all_overlay:
  assumes "\<And>op. \<not> xe_refuses E op" "fresh dest t"
    "\<And>q. prefix q p \<Longrightarrow> q \<noteq> [] \<Longrightarrow> listing ms q = None \<or> listing ms q = Some DirN"
  shows "create_dir_all E (dest @ p) (overlay dest ms t)
    = ((\<lambda>q. if prefix q (dest @ p) then Some DirN else overlay dest ms t q), Inr ())"
proof -
  have "overlay dest ms t q = None \<or> overlay dest ms t q = Some DirN" if "prefix q (dest @ p)" for q
  proof (cases "prefix q dest")
    case True
    then have "\<not> strict_prefix dest q" by (auto simp: strict_prefix_def dest: prefix_order.antisym)
    then show ?thesis using True assms(2) by (simp add: overlay_def fresh_def)
  next
    case False
    with that obtain q' where "q = dest @ q'" "prefix q' p" by (auto simp: prefix_append)
    then show ?thesis using assms(3)[of q'] False by (auto simp: overlay_def strict_prefix_def)
  qed
  then show ?thesis
    by (simp add: create_dir_all_def create_dirs_make[OF assms(1)])
qed

section \<open>One member\<close>

text \<open>Nothing is cancelled and the operating system refuses nothing.\<close>

definition quiet :: "xenv \<Rightarrow> bool" where
  "quiet E \<longleftrightarrow> (\<forall>i. \<not> xe_cancel E i) \<and> (\<forall>op. \<not> xe_refuses E op)"

lemma file_refusal_quiet: "quiet E \<Longrightarrow> file_refusal E p k = None"
  by (simp add: quiet_def file_refusal_def)

lemma stream_exact_over:
  assumes "\<And>i. \<not> xe_cancel E i" "\<And>k. out k = None"
  shows "n \<le> length (st_in st) \<Longrightarrow> st_total st \<le> MAX_TOTAL_BYTES \<Longrightarrow> st_total st + n > MAX_TOTAL_BYTES \<Longrightarrow>
    snd (stream_exact E out n w st) = Inl PayloadTooLarge"
proof (induction n arbitrary: w st rule: less_induct)
  case (less n)
  then have n: "n \<noteq> 0" by auto
  with less.prems have "st_in st \<noteq> []" "min n STREAM_CHUNK_BYTES > 0" by (auto simp: STREAM_CHUNK_BYTES_def)
  then obtain b rest where b: "gz_read E (min n STREAM_CHUNK_BYTES) (st_in st) = Inr (b, rest)" "b \<noteq> []"
    "st_in st = b @ rest" "length b \<le> min n STREAM_CHUNK_BYTES"
    by (rule gz_read_Cons)
  show ?case
  proof (cases "st_total st + length b \<le> MAX_TOTAL_BYTES")
    case True
    then have t: "charge (st_total st) (length b) = Inr (st_total st + length b)" by (simp add: charge_Inr)
    let ?st = "(st\<lparr>st_polls := Suc (st_polls st)\<rparr>)\<lparr>st_in := rest, st_total := st_total st + length b\<rparr>"
    have "snd (stream_exact E out (n - length b) (w @ b) ?st) = Inl PayloadTooLarge"
      by (rule less.IH) (use n b less.prems True in \<open>cases b; auto\<close>)+
    then show ?thesis using n b t by (subst stream_exact.simps) (auto simp: assms Let_def)
  next
    case False
    then have "charge (st_total st) (length b) = Inl PayloadTooLarge"
      by (auto simp: charge_def Let_def saturating_add_def min_def MAX_U64_def MAX_TOTAL_BYTES_def)
    then show ?thesis using n b by (subst stream_exact.simps) (auto simp: assms Let_def)
  qed
qed

definition fits_member :: "xstate \<Rightarrow> member \<Rightarrow> bool" where
  "fits_member st m \<longleftrightarrow> length (member_body m) \<le> MAX_FILE_BYTES \<and> xs_count st < MAX_FILE_COUNT
     \<and> st_total (xs_stream st) + 2 * length (member_body m) \<le> MAX_TOTAL_BYTES"

text \<open>The write of a file whose directories the listing allows.\<close>

lemma write_member_listed:
  assumes q: "quiet E" and fr: "fresh dest t" and c: "consistent (prev @ [m])" "is_file m" "member_ok m"
    and st: "xs_tree st = overlay dest prev t" "st_in (xs_stream st) = member_body m @ rest"
      "st_total (xs_stream st) \<le> MAX_TOTAL_BYTES"
  shows "let r = write_member E (dest @ member_path m) (length (member_body m)) st in
     if st_total (xs_stream st) + length (member_body m) \<le> MAX_TOTAL_BYTES
     then snd r = Inr () \<and> xs_tree (fst r) = overlay dest (prev @ [m]) t
       \<and> (\<exists>i. xs_stream (fst r) = \<lparr>st_in = rest, st_polls = i,
            st_total = st_total (xs_stream st) + length (member_body m)\<rparr>)
       \<and> xs_count (fst r) = xs_count st \<and> xs_pending (fst r) = xs_pending st
     else snd r = Inl PayloadTooLarge"
proof -
  let ?p = "member_path m" and ?b = "member_body m"
  have p: "?p \<noteq> []" using c(3) by (simp add: member_ok_def)
  then have bl: "butlast (dest @ ?p) = dest @ butlast ?p" by (simp add: butlast_append)
  have cd: "create_dir_all E (dest @ butlast ?p) (xs_tree st)
      = ((\<lambda>q. if prefix q (dest @ butlast ?p) then Some DirN else overlay dest prev t q), Inr ())"
    unfolding st(1) using q
    by (intro create_dir_all_overlay[OF _ fr])
       (auto simp: quiet_def intro!: listing_below[OF c(1)] intro: prefix_order.trans prefixeq_butlast)
  define T where "T = (\<lambda>q. if prefix q (dest @ butlast ?p) then Some DirN else overlay dest prev t q)"
  have np: "\<not> prefix (dest @ ?p) (dest @ butlast ?p)"
    using p prefix_length_le[of ?p "butlast ?p"] by (cases ?p) auto
  have "T (dest @ ?p) = None"
    using np p listing_at[OF c(1,2)] by (simp add: T_def overlay_def strict_prefix_def)
  then have cf: "create_file E (dest @ ?p) T = Inr (T(dest @ ?p \<mapsto> FileN []))"
    using q by (simp add: create_file_def quiet_def)
  have tree: "T(dest @ ?p \<mapsto> FileN ?b) = overlay dest (prev @ [m]) t"
  proof
    fix z
    show "(T(dest @ ?p \<mapsto> FileN ?b)) z = overlay dest (prev @ [m]) t z"
    proof (cases "strict_prefix dest z")
      case True
      then obtain z' where z: "z = dest @ z'" "z' \<noteq> []" by (auto simp: strict_prefix_def prefix_def)
      have "prefix z' (butlast ?p) \<longleftrightarrow> prefix z' ?p \<and> z' \<noteq> ?p"
        using p by (metis append_butlast_last_id prefix_snoc not_Cons_self2 append_self_conv prefix_order.antisym prefixeq_butlast)
      then show ?thesis
        using z True c(2) by (simp add: overlay_def T_def listing_snoc[OF c(1)])
    next
      case False
      then have "z \<noteq> dest @ ?p" using p by (auto simp: strict_prefix_def)
      moreover have "t z = Some DirN" if "prefix z (dest @ butlast ?p)"
        using that False fr by (auto simp: fresh_def prefix_append strict_prefix_def)
      ultimately show ?thesis using False by (simp add: overlay_def T_def)
    qed
  qed
  have wm: "write_member E (dest @ ?p) (length ?b) st = write_body E (dest @ ?p) (length ?b) (st\<lparr>xs_tree := T\<rparr>)"
    using p by (simp add: write_member_def bl make_dirs_def cd T_def[symmetric])
  show ?thesis
  proof (cases "st_total (xs_stream st) + length ?b \<le> MAX_TOTAL_BYTES")
    case True
    obtain i where "stream_exact E (file_refusal E (dest @ ?p)) (length ?b) [] (xs_stream st)
      = (\<lparr>st_in = rest, st_polls = i, st_total = st_total (xs_stream st) + length ?b\<rparr>, Inr ?b)"
      using stream_exact_ok[of E "file_refusal E (dest @ ?p)" "length ?b" "xs_stream st" "[]"]
        q file_refusal_quiet[OF q] st True by (auto simp: quiet_def)
    then show ?thesis using True by (simp add: wm write_body_def cf tree Let_def)
  next
    case False
    have "snd (stream_exact E (file_refusal E (dest @ ?p)) (length ?b) [] (xs_stream st)) = Inl PayloadTooLarge"
      by (rule stream_exact_over) (use q file_refusal_quiet[OF q] st False in \<open>auto simp: quiet_def\<close>)
    then show ?thesis using False by (simp add: wm write_body_def cf Let_def)
  qed
qed

text \<open>A member that fits is added to the listing; one that does not fit is refused.\<close>

definition stepped ::
  "string list \<Rightarrow> tree \<Rightarrow> member list \<Rightarrow> string \<Rightarrow> xstate \<Rightarrow> member \<Rightarrow> xstate \<times> (app_error + unit) \<Rightarrow> bool" where
  "stepped dest t ms rest st m r \<longleftrightarrow>
     (if fits_member st m
      then snd r = Inr () \<and> xs_tree (fst r) = overlay dest (ms @ [m]) t
        \<and> st_in (xs_stream (fst r)) = rest
        \<and> st_total (xs_stream (fst r)) = st_total (xs_stream st) + 2 * length (member_body m)
        \<and> xs_count (fst r) = Suc (xs_count st) \<and> xs_pending (fst r) = None
      else snd r = Inl PayloadTooLarge)"

lemma file_member_listed:
  assumes q: "quiet E" and fr: "fresh dest t" and c: "consistent (prev @ [m])" "is_file m" "member_ok m"
    and st: "xs_tree st = overlay dest prev t" "st_in (xs_stream st) = member_body m @ rest"
      "st_total (xs_stream st) \<le> MAX_TOTAL_BYTES"
  shows "stepped dest t prev rest st m (file_member E dest (member_name m) (length (member_body m)) st)"
proof -
  let ?n = "length (member_body m)" and ?T = "st_total (xs_stream st)"
  let ?r = "file_member E dest (member_name m) ?n st"
  let ?st = "st\<lparr>xs_pending := None, xs_stream := (xs_stream st)\<lparr>st_total := ?T + ?n\<rparr>, xs_count := Suc (xs_count st)\<rparr>"
  have link: "overlay dest prev t (dest @ member_path m) \<noteq> Some LinkN"
    using listing_at[OF c(1,2)] c(3) by (simp add: overlay_def strict_prefix_def member_ok_def)
  show ?thesis
  proof (cases "?n \<le> MAX_FILE_BYTES \<and> ?T + ?n \<le> MAX_TOTAL_BYTES \<and> Suc (xs_count st) \<le> MAX_FILE_COUNT")
    case True
    then have "charge ?T ?n = Inr (?T + ?n)" by (simp add: charge_Inr)
    then have r: "?r = write_member E (dest @ member_path m) ?n ?st"
      using True link by (simp add: file_member_def Let_def count_entry_def safe_join_name[OF c(3)] st(1))
    have "st_total (xs_stream ?st) \<le> MAX_TOTAL_BYTES" using True by simp
    from write_member_listed[OF q fr c, of ?st rest] st this True show ?thesis
      unfolding r by (auto simp: stepped_def fits_member_def Let_def mult_2)
  next
    case False
    then have "snd ?r = Inl PayloadTooLarge"
      by (auto simp: file_member_def Let_def count_entry_def charge_def saturating_add_def min_def
          MAX_U64_def MAX_TOTAL_BYTES_def)
    with False show ?thesis by (auto simp: stepped_def fits_member_def)
  qed
qed

lemma dir_member_listed:
  assumes q: "quiet E" and fr: "fresh dest t" and c: "consistent (prev @ [m])" "\<not> is_file m" "member_ok m"
    and st: "xs_tree st = overlay dest prev t" "st_in (xs_stream st) = rest"
      "st_total (xs_stream st) \<le> MAX_TOTAL_BYTES"
  shows "stepped dest t prev rest st m (dir_member E dest (member_name m) (length (member_body m)) st)"
proof -
  have b: "member_body m = []" using c(2) by (cases m) (auto simp: is_file_def)
  let ?p = "member_path m"
  have cd: "create_dir_all E (dest @ ?p) (overlay dest prev t)
      = ((\<lambda>q. if prefix q (dest @ ?p) then Some DirN else overlay dest prev t q), Inr ())"
    using q by (intro create_dir_all_overlay[OF _ fr]) (auto simp: quiet_def intro!: listing_below[OF c(1)])
  have tree: "(\<lambda>q. if prefix q (dest @ ?p) then Some DirN else overlay dest prev t q) = overlay dest (prev @ [m]) t"
  proof
    fix z
    have "t z = Some DirN" if "prefix z (dest @ ?p)" "\<not> strict_prefix dest z"
      using that fr by (auto simp: fresh_def prefix_append strict_prefix_def)
    then show "(if prefix z (dest @ ?p) then Some DirN else overlay dest prev t z) = overlay dest (prev @ [m]) t z"
      using c(2) by (auto simp: overlay_def listing_snoc[OF c(1)] strict_prefix_def prefix_def)
  qed
  show ?thesis
    by (auto simp: stepped_def fits_member_def b dir_member_def count_entry_def Let_def safe_join_name[OF c(3)]
        then_stream_def discard_exact_def stream_exact.simps make_dirs_def st cd tree MAX_FILE_BYTES_def st(3))
qed

lemma member_step_listed:
  assumes q: "quiet E" and fr: "fresh dest t" and c: "consistent (prev @ [m])" "member_ok m" and M: "meta_ok M"
    and st: "xs_tree st = overlay dest prev t" "st_in (xs_stream st) = member_body m @ rest"
      "st_total (xs_stream st) \<le> MAX_TOTAL_BYTES" "xs_pending st = None"
  defines h_def: "h \<equiv> ustar_header M (member_name m) (length (member_body m)) (type_flag m)"
  shows "stepped dest t prev rest st m (member_step E dest h (length (member_body m)) st)"
proof -
  note h = header_parts[where M = M and name = "member_name m" and n = "length (member_body m)"
      and flag = "type_flag m", folded h_def]
  have name: "resolve_name (xs_pending st) (cstr (take 100 h)) (cstr (take 155 (drop 345 h))) = member_name m"
    using h c(2) M st(4) by (simp add: member_ok_def resolve_name_def)
  have flag: "h ! 156 = type_flag m" using h(4) c(2) M by (simp add: member_ok_def)
  show ?thesis
  proof (cases m)
    case (FileM p b)
    then have "member_step E dest h (length (member_body m)) st
        = file_member E dest (member_name m) (length (member_body m)) st"
      by (simp add: member_step_def Let_def flag name)
    with FileM show ?thesis
      using file_member_listed[OF q fr c(1) _ c(2) st(1-3)] by (simp add: is_file_def)
  next
    case (DirM p)
    then have "member_step E dest h (length (member_body m)) st
        = dir_member E dest (member_name m) (length (member_body m)) st"
      by (simp add: member_step_def Let_def flag name NUL_def)
    with DirM show ?thesis
      using dir_member_listed[OF q fr c(1) _ c(2) st(1) _ st(3)] st(2) by (simp add: is_file_def)
  qed
qed

section \<open>The archive\<close>

lemma extract_pass_listed:
  assumes q: "quiet E" and fr: "fresh dest t" and c: "consistent (prev @ [m])" "member_ok m" and M: "meta_ok M"
    and st: "xs_tree st = overlay dest prev t" "st_in (xs_stream st) = member_bytes M m @ rest"
      "st_total (xs_stream st) \<le> MAX_TOTAL_BYTES" "xs_pending st = None"
  shows "if fits_member st m
     then snd (extract_pass E dest st) = Inr True
       \<and> xs_tree (fst (extract_pass E dest st)) = overlay dest (prev @ [m]) t
       \<and> st_in (xs_stream (fst (extract_pass E dest st))) = rest
       \<and> st_total (xs_stream (fst (extract_pass E dest st))) = st_total (xs_stream st) + 2 * length (member_body m)
       \<and> xs_count (fst (extract_pass E dest st)) = Suc (xs_count st)
       \<and> xs_pending (fst (extract_pass E dest st)) = None
     else snd (extract_pass E dest st) = Inl PayloadTooLarge"
proof -
  let ?n = "length (member_body m)"
  define h where "h = ustar_header M (member_name m) ?n (type_flag m)"
  note parts = header_parts[where M = M and name = "member_name m" and n = ?n and flag = "type_flag m",
      folded h_def]
  have h: "length h = 512" "header_size h = Inr ?n" "h ! 156 = type_flag m"
    using parts c(2) M by (auto simp: member_ok_def)
  define r where "r = replicate (pad ?n) NUL @ rest"
  have inp: "st_in (xs_stream st) = h @ member_body m @ r"
    using st(2) by (simp add: member_bytes_def h_def r_def)
  have fb: "fill_block E 512 [] (st_in (xs_stream st)) = Inr (Some h, member_body m @ r)"
    using fill_block_take[of 512 "st_in (xs_stream st)" E "[]"] h(1) by (simp add: inp)
  have nz: "\<not> list_all (\<lambda>b. b = NUL) h"
  proof
    assume "list_all (\<lambda>b. b = NUL) h"
    then have "h ! 156 = NUL" using h(1) by (simp add: list_all_length)
    then show False using h(3) by (cases m) (simp_all add: NUL_def)
  qed
  define st1 where "st1 = st\<lparr>xs_stream := (xs_stream st)\<lparr>st_polls := Suc (st_polls (xs_stream st)),
    st_in := member_body m @ r\<rparr>\<rparr>"
  have s: "stepped dest t prev r st1 m (member_step E dest h ?n st1)"
    unfolding h_def by (rule member_step_listed[OF q fr c M]) (use st in \<open>simp_all add: st1_def\<close>)
  have f: "fits_member st1 m = fits_member st m" by (simp add: fits_member_def st1_def)
  obtain st2 u where m2: "member_step E dest h ?n st1 = (st2, u)" by fastforce
  have pass: "extract_pass E dest st =
     (case u of
        Inl e \<Rightarrow> (st2, Inl e)
      | Inr _ \<Rightarrow>
          (case skip_padding E (pad ?n) (st_in (xs_stream st2)) of
             Inl e \<Rightarrow> (st2, Inl e)
           | Inr rest \<Rightarrow> (st2\<lparr>xs_stream := (xs_stream st2)\<lparr>st_in := rest\<rparr>\<rparr>, Inr True)))"
    using q m2 by (simp add: extract_pass_def Let_def quiet_def fb nz h(2) st1_def)
  have same: "st_total (xs_stream st1) = st_total (xs_stream st)" "xs_count st1 = xs_count st"
    by (simp_all add: st1_def)
  show ?thesis
  proof (cases "fits_member st m")
    case True
    have "skip_padding E (pad ?n) r = Inr rest" using skip_padding_ok[of "pad ?n" r E] by (simp add: r_def)
    then show ?thesis using s True by (simp add: stepped_def f m2 pass same)
  next
    case False
    then show ?thesis using s by (simp add: stepped_def f m2 pass)
  qed
qed

lemma extract_end:
  assumes "quiet E" "st_in (xs_stream st) = replicate 1024 NUL"
  shows "snd (extract_loop E dest st) = Inr () \<and> xs_tree (fst (extract_loop E dest st)) = xs_tree st"
proof -
  have "fill_block E 512 [] (st_in (xs_stream st)) = Inr (Some (replicate 512 NUL), replicate 512 NUL)"
    using fill_block_take[of 512 "st_in (xs_stream st)" E "[]"] assms(2) by simp
  then show ?thesis
    using assms by (subst (1 2) extract_loop.simps) (auto simp: extract_pass_def Let_def quiet_def list_all_iff)
qed

definition fits_from :: "xstate \<Rightarrow> member list \<Rightarrow> bool" where
  "fits_from st ms \<longleftrightarrow> xs_count st + length ms \<le> MAX_FILE_COUNT
     \<and> (\<forall>m \<in> set ms. length (member_body m) \<le> MAX_FILE_BYTES)
     \<and> st_total (xs_stream st) + 2 * (\<Sum>m \<leftarrow> ms. length (member_body m)) \<le> MAX_TOTAL_BYTES"

lemma fits_from_Cons:
  "fits_from st (m # ms) \<longleftrightarrow> fits_member st m
     \<and> (\<forall>st'. xs_count st' = Suc (xs_count st)
          \<longrightarrow> st_total (xs_stream st') = st_total (xs_stream st) + 2 * length (member_body m) \<longrightarrow> fits_from st' ms)"
  by (auto simp: fits_from_def fits_member_def
      dest: spec[of _ "st\<lparr>xs_count := Suc (xs_count st),
        xs_stream := (xs_stream st)\<lparr>st_total := st_total (xs_stream st) + 2 * length (member_body m)\<rparr>\<rparr>"])

lemma extract_loop_listed:
  assumes q: "quiet E" and fr: "fresh dest t" and M: "meta_ok M"
  shows "consistent (prev @ ms) \<Longrightarrow> list_all member_ok ms \<Longrightarrow> xs_tree st = overlay dest prev t \<Longrightarrow>
     st_in (xs_stream st) = archive M ms \<Longrightarrow> st_total (xs_stream st) \<le> MAX_TOTAL_BYTES \<Longrightarrow>
     xs_count st \<le> MAX_FILE_COUNT \<Longrightarrow> xs_pending st = None \<Longrightarrow>
     if fits_from st ms
     then snd (extract_loop E dest st) = Inr () \<and> xs_tree (fst (extract_loop E dest st)) = overlay dest (prev @ ms) t
     else snd (extract_loop E dest st) = Inl PayloadTooLarge"
proof (induction ms arbitrary: prev st)
  case Nil
  then show ?case using extract_end[OF q, of st dest] by (simp add: fits_from_def archive_def)
next
  case (Cons m ms)
  have c: "consistent (prev @ [m])" "member_ok m" using Cons.prems by (auto simp: consistent_def)
  obtain st' r where p: "extract_pass E dest st = (st', r)" by fastforce
  have inp: "st_in (xs_stream st) = member_bytes M m @ archive M ms"
    using Cons.prems by (simp add: archive_def)
  note pass = extract_pass_listed[OF q fr c M Cons.prems(3) inp Cons.prems(5,7), unfolded p]
  show ?case
  proof (cases "fits_member st m")
    case True
    then have st': "r = Inr True" "xs_tree st' = overlay dest (prev @ [m]) t"
      "st_in (xs_stream st') = archive M ms"
      "st_total (xs_stream st') = st_total (xs_stream st) + 2 * length (member_body m)"
      "xs_count st' = Suc (xs_count st)" "xs_pending st' = None"
      using pass by auto
    have l: "extract_loop E dest st = extract_loop E dest st'"
      by (subst extract_loop.simps) (simp add: p st'(1))
    have f: "fits_from st (m # ms) \<longleftrightarrow> fits_from st' ms"
      using True st'(4,5) by (auto simp: fits_from_def fits_member_def)
    show ?thesis
      unfolding l f using Cons.IH[of "prev @ [m]" st'] Cons.prems st' True by (simp add: fits_member_def)
  next
    case False
    then have "snd (extract_loop E dest st) = Inl PayloadTooLarge"
      using pass by (subst extract_loop.simps) (simp add: p)
    then show ?thesis using False by (simp add: fits_from_Cons)
  qed
qed

text \<open>C13. An archive of files and directories written in the ustar format is extracted to
  exactly those files, with their contents, and the directories on the way to them, for
  every chunking of the decoder, if the entries are within the caps and the files together
  within half of the cap on bytes; otherwise it is refused as too large.\<close>

theorem archive_roundtrip:
  assumes "quiet E" "fresh dest t" "meta_ok M" "consistent ms" "list_all member_ok ms"
  shows "let (st, r) = extract_tarball_with_cancel E (archive M ms) dest t in
     if length ms \<le> MAX_FILE_COUNT \<and> (\<forall>m \<in> set ms. length (member_body m) \<le> MAX_FILE_BYTES)
       \<and> 2 * (\<Sum>m \<leftarrow> ms. length (member_body m)) \<le> MAX_TOTAL_BYTES
     then r = Inr () \<and> (\<forall>p. xs_tree st p = (if strict_prefix dest p then listing ms (drop (length dest) p) else t p))
     else r = Inl PayloadTooLarge"
proof -
  let ?st = "\<lparr>xs_stream = \<lparr>st_in = archive M ms, st_polls = 0, st_total = 0\<rparr>, xs_pending = None,
        xs_count = 0, xs_tree = t\<rparr>"
  have t: "xs_tree ?st = overlay dest [] t"
    using assms(2) by (auto simp: overlay_def listing_def fresh_def)
  have c: "consistent ([] @ ms)" using assms(4) by simp
  obtain st r where r: "extract_loop E dest ?st = (st, r)" by fastforce
  have "if fits_from ?st ms then r = Inr () \<and> xs_tree st = overlay dest ms t else r = Inl PayloadTooLarge"
    using extract_loop_listed[OF assms(1-3) c assms(5) t] by (auto simp: r split: if_splits)
  moreover have "overlay dest ms t p = (if strict_prefix dest p then listing ms (drop (length dest) p) else t p)" for p
    by (simp add: overlay_def)
  ultimately show ?thesis
    by (simp add: extract_tarball_with_cancel_def r fits_from_def split: if_splits)
qed

definition sample_xenv :: xenv where
  "sample_xenv = \<lparr>xe_grain = (\<lambda>left want. 7), xe_end = None, xe_cancel = (\<lambda>_. False),
     xe_refuses = (\<lambda>_. False), xe_error = (\<lambda>_. [])\<rparr>"

definition sample_meta :: ustar_meta where
  "sample_meta = \<lparr>um_ids = replicate 24 (CHR ''0''), um_times = replicate 20 (CHR ''0''),
     um_link = replicate 188 NUL, um_tail = replicate 12 NUL\<rparr>"

definition sample_members :: "member list" where
  "sample_members = [FileM [''src'', ''a.rs''] ''fn'', DirM [''docs'', ''en'']]"

lemma sample_plain: "plain_name ''src/a.rs''" "plain_name ''docs/en''"
  unfolding plain_name_def NUL_def by code_simp+

lemma sample_members_ok:
  "quiet sample_xenv" "meta_ok sample_meta" "consistent sample_members" "list_all member_ok sample_members"
  using sample_plain
  by (auto simp: quiet_def sample_xenv_def meta_ok_def sample_meta_def consistent_def sample_members_def
      is_file_def member_ok_def member_name_def safe_component_def MAX_COMPONENT_CHARS_def strict_prefix_def)

lemma archive_roundtrip_witness:
  "quiet sample_xenv \<and> fresh sample_dest sample_tree \<and> meta_ok sample_meta \<and> consistent sample_members
   \<and> list_all member_ok sample_members
   \<and> (let (st, r) = extract_tarball_with_cancel sample_xenv (archive sample_meta sample_members) sample_dest sample_tree in
      r = Inr ()
      \<and> xs_tree st (sample_dest @ [''src'', ''a.rs'']) = Some (FileN ''fn'')
      \<and> xs_tree st (sample_dest @ [''src'']) = Some DirN
      \<and> xs_tree st (sample_dest @ [''docs'']) = Some DirN
      \<and> xs_tree st (sample_dest @ [''tmp'']) = None)"
proof -
  have fit: "length sample_members \<le> MAX_FILE_COUNT \<and> (\<forall>m \<in> set sample_members. length (member_body m) \<le> MAX_FILE_BYTES)
    \<and> 2 * (\<Sum>m \<leftarrow> sample_members. length (member_body m)) \<le> MAX_TOTAL_BYTES"
    by (simp add: sample_members_def caps)
  show ?thesis
    using sample_fresh sample_members_ok
      archive_roundtrip[OF sample_members_ok(1) sample_fresh sample_members_ok(2,3,4)] fit
    by (auto simp: Let_def listing_def sample_members_def is_file_def strict_prefix_def split: prod.splits)
qed

section \<open>What the caps do not count\<close>

lemma extract_pass_global:
  assumes q: "quiet E" and M: "meta_ok M" and name: "plain_name name" "length name \<le> 100"
    and inp: "st_in (xs_stream st) = ustar_header M name 0 (CHR ''g'') @ rest"
  shows "extract_pass E dest st =
    (st\<lparr>xs_stream := (xs_stream st)\<lparr>st_polls := Suc (st_polls (xs_stream st)), st_in := rest\<rparr>\<rparr>, Inr True)"
proof -
  define h where "h = ustar_header M name 0 (CHR ''g'')"
  have h: "length h = 512" "header_size h = Inr 0" "h ! 156 = CHR ''g''"
    using header_parts[where M = M and name = name and n = 0 and flag = "CHR ''g''", folded h_def] M name by auto
  have fb: "fill_block E 512 [] (st_in (xs_stream st)) = Inr (Some h, rest)"
    using fill_block_take[of 512 "st_in (xs_stream st)" E "[]"] h(1) inp by (simp add: h_def[symmetric])
  have nz: "\<not> list_all (\<lambda>b. b = NUL) h"
  proof
    assume "list_all (\<lambda>b. b = NUL) h"
    then have "h ! 156 = NUL" using h(1) by (simp add: list_all_length)
    then show False using h(3) by (simp add: NUL_def)
  qed
  show ?thesis
    using q by (simp add: extract_pass_def Let_def quiet_def fb nz h member_step_def skip_body_def
        then_stream_def discard_exact_def stream_exact.simps pad_def)
qed

text \<open>Entries that are neither files nor directories are not counted, and header blocks
  are not charged: any number of empty global headers inflates through the extractor, which
  reports success with nothing counted and nothing charged.\<close>

theorem header_flood:
  assumes "quiet E" "meta_ok M" "plain_name name" "length name \<le> 100"
  shows "let (st, r) = extract_tarball_with_cancel E
           (concat (replicate n (ustar_header M name 0 (CHR ''g''))) @ replicate 1024 NUL) dest t in
     r = Inr () \<and> xs_tree st = t \<and> xs_count st = 0 \<and> st_total (xs_stream st) = 0"
proof -
  let ?in = "\<lambda>n. concat (replicate n (ustar_header M name 0 (CHR ''g''))) @ replicate 1024 NUL"
  have "snd (extract_loop E dest st) = Inr () \<and> xs_tree (fst (extract_loop E dest st)) = xs_tree st
      \<and> xs_count (fst (extract_loop E dest st)) = xs_count st
      \<and> st_total (xs_stream (fst (extract_loop E dest st))) = st_total (xs_stream st)"
    if "st_in (xs_stream st) = ?in n" for st
    using that
  proof (induction n arbitrary: st)
    case 0
    have "fill_block E 512 [] (st_in (xs_stream st)) = Inr (Some (replicate 512 NUL), replicate 512 NUL)"
      using fill_block_take[of 512 "st_in (xs_stream st)" E "[]"] 0 by simp
    then show ?case
      using assms(1) by (subst (1 2 3 4) extract_loop.simps) (auto simp: extract_pass_def Let_def quiet_def list_all_iff)
  next
    case (Suc n)
    let ?s = "st\<lparr>xs_stream := (xs_stream st)\<lparr>st_polls := Suc (st_polls (xs_stream st)), st_in := ?in n\<rparr>\<rparr>"
    have "extract_pass E dest st = (?s, Inr True)"
      by (rule extract_pass_global[OF assms]) (use Suc.prems in simp)
    then have "extract_loop E dest st = extract_loop E dest ?s" by (subst extract_loop.simps) simp
    with Suc.IH[of ?s] show ?case by simp
  qed
  from this[of "\<lparr>xs_stream = \<lparr>st_in = ?in n, st_polls = 0, st_total = 0\<rparr>, xs_pending = None,
        xs_count = 0, xs_tree = t\<rparr>"]
  show ?thesis by (auto simp: extract_tarball_with_cancel_def split: prod.splits)
qed

lemma header_flood_witness:
  "quiet sample_xenv \<and> meta_ok sample_meta \<and> plain_name ''src/a.rs'' \<and> length ''src/a.rs'' \<le> 100
   \<and> (\<forall>n. let (st, r) = extract_tarball_with_cancel sample_xenv
           (concat (replicate n (ustar_header sample_meta ''src/a.rs'' 0 (CHR ''g''))) @ replicate 1024 NUL)
           sample_dest sample_tree in
       r = Inr () \<and> xs_tree st = sample_tree \<and> xs_count st = 0 \<and> st_total (xs_stream st) = 0)"
  using sample_members_ok sample_plain
    header_flood[OF sample_members_ok(1,2) sample_plain(1), of _ sample_dest sample_tree]
  by simp

end
