(* ===== verification/Repo_Snapshot.thy ===== *)
theory Repo_Snapshot
  imports Tar_Archive
begin

text \<open>
  The inventory of an extracted tree in \<open>backend/src/agents/fetch.rs\<close>: the classification
  of files by name and content, and the walk of \<open>snapshot_repo\<close> over the directories.

  A directory is the list of its entries in the order \<open>read_dir\<close> yields them.  What the
  operating system may refuse (listing a directory, reading an entry, its metadata or the
  first bytes of a file) and the Unicode part of \<open>to_lowercase\<close> are the record
  \<open>snap_env\<close>.
\<close>

definition SNAPSHOT_SNIFF_BYTES :: nat where "SNAPSHOT_SNIFF_BYTES = 8000"

record tree_snapshot =
  ts_commit_sha :: string
  ts_file_count :: nat
  ts_total_size :: nat
  ts_languages :: "(string \<times> nat) list"
  ts_manifests :: "string list"
  ts_directories :: "string list"
  ts_binary_file_count :: nat
  ts_security_sensitive :: "string list"

section \<open>Classification\<close>

definition LANGUAGES :: "(string list \<times> string) list" where
  "LANGUAGES =
     [([''rs''], ''Rust''), ([''py'', ''pyi''], ''Python''),
      ([''js'', ''mjs'', ''cjs'', ''jsx''], ''JavaScript''),
      ([''ts'', ''mts'', ''cts'', ''tsx''], ''TypeScript''), ([''go''], ''Go''), ([''java''], ''Java''),
      ([''rb''], ''Ruby''), ([''php''], ''PHP''), ([''c'', ''h''], ''C''),
      ([''cpp'', ''cc'', ''cxx'', ''hpp'', ''hh'', ''hxx''], ''C++''), ([''cs''], ''C#''),
      ([''swift''], ''Swift''), ([''kt'', ''kts''], ''Kotlin''), ([''scala''], ''Scala''),
      ([''sh'', ''bash''], ''Shell''), ([''ps1''], ''PowerShell''), ([''sql''], ''SQL''),
      ([''html'', ''htm''], ''HTML''), ([''css'', ''scss'', ''less''], ''CSS''),
      ([''vue'', ''svelte''], ''JavaScript''), ([''sol''], ''Solidity''), ([''tf''], ''Terraform''),
      ([''yaml'', ''yml''], ''YAML''), ([''json''], ''JSON''), ([''toml''], ''TOML''), ([''xml''], ''XML''),
      ([''md'', ''markdown''], ''Markdown'')]"

definition language_for_extension :: "string \<Rightarrow> string option" where
  "language_for_extension ext = map_option snd (find (\<lambda>(exts, _). ext \<in> set exts) LANGUAGES)"

definition is_manifest_file_name :: "string \<Rightarrow> bool" where
  "is_manifest_file_name file_name \<longleftrightarrow> file_name \<in>
     {''package.json'', ''package-lock.json'', ''yarn.lock'', ''pnpm-lock.yaml'', ''cargo.toml'',
      ''cargo.lock'', ''go.mod'', ''go.sum'', ''requirements.txt'', ''pipfile'', ''pipfile.lock'',
      ''poetry.lock'', ''pyproject.toml'', ''gemfile'', ''gemfile.lock'', ''pom.xml'', ''build.gradle'',
      ''build.gradle.kts'', ''composer.json'', ''composer.lock''}"

definition is_security_sensitive_path :: "(string \<Rightarrow> string) \<Rightarrow> string \<Rightarrow> bool" where
  "is_security_sensitive_path uni repo_relative_path =
     (let lower = to_lowercase uni repo_relative_path;
          parts = split_on (CHR ''/'') lower;
          name = last parts in
      if name = ''.env'' \<or> prefix ''.env.'' name then True
      else if contains_str name ''credentials'' then True
      else if name = ''config'' \<or> prefix ''config.'' name then True
      else if suffix ''.tfstate'' name \<or> suffix ''.tfvars'' name then True
      else if name = ''dockerfile'' \<or> prefix ''dockerfile-'' name \<or> prefix ''dockerfile_'' name
           \<or> prefix ''dockerfile.'' name
             \<and> last (split_on (CHR ''.'') name) \<notin> {''md'', ''markdown'', ''txt'', ''rst'', ''adoc''}
      then True
      else if prefix ''docker-compose.'' name then True
      else if contains_str lower ''.github/workflows/'' then True
      else if suffix ''.tf'' name \<or> suffix ''.tofu'' name then True
      else if name = ''kustomization.yaml'' \<or> name = ''kustomization.yml'' then True
      else if list_ex (\<lambda>c. c \<in> {''config'', ''terraform'', ''kubernetes'', ''k8s''}) parts then True
      else False)"

definition looks_binary :: "string \<Rightarrow> bool" where
  "looks_binary sample \<longleftrightarrow> NUL \<in> set sample"

text \<open>\<open>Path::extension\<close> of a file name: what follows its last dot, unless that dot starts it.\<close>

definition extension :: "string \<Rightarrow> string option" where
  "extension file_name =
     (case rsplit_once (CHR ''.'') file_name of
        Some (stem, ext) \<Rightarrow> if stem = [] then None else Some ext
      | None \<Rightarrow> None)"

text \<open>\<open>OsStr::to_str\<close>\<close>

definition to_str :: "string \<Rightarrow> string option" where
  "to_str s = (if from_utf8_ok s then Some s else None)"

section \<open>The walk\<close>

datatype entry =
    EDir string "entry list"
  | EFile string string
  | ELink string
  | ESpecial string

primrec entry_name :: "entry \<Rightarrow> string" where
  "entry_name (EDir n es) = n"
| "entry_name (EFile n b) = n"
| "entry_name (ELink n) = n"
| "entry_name (ESpecial n) = n"

record snap_env =
  se_lower :: "string \<Rightarrow> string"
  se_read_dir :: "string list \<Rightarrow> string option"
  se_entry :: "string list \<Rightarrow> string option"
  se_stat :: "string list \<Rightarrow> string option"
  se_open :: "string list \<Rightarrow> bool"

text \<open>\<open>read_prefix(\<dots>).unwrap_or_default()\<close>\<close>

definition read_prefix :: "snap_env \<Rightarrow> string list \<Rightarrow> string \<Rightarrow> string" where
  "read_prefix V p body = (if se_open V p then take SNAPSHOT_SNIFF_BYTES body else [])"

definition rel_path :: "string list \<Rightarrow> string" where
  "rel_path p = from_utf8_lossy (join ''/'' p)"

definition manifest_file :: "snap_env \<Rightarrow> string \<Rightarrow> bool" where
  "manifest_file V name =
     (case to_str name of
        Some n \<Rightarrow> is_manifest_file_name (to_lowercase (se_lower V) n)
      | None \<Rightarrow> False)"

definition file_language :: "snap_env \<Rightarrow> string \<Rightarrow> string option" where
  "file_language V name =
     Option.bind (Option.bind (extension name) to_str)
       (\<lambda>ext. language_for_extension (to_lowercase (se_lower V) ext))"

text \<open>One regular file; \<open>p\<close> is its path below the root.\<close>

definition record_file ::
  "snap_env \<Rightarrow> string list \<Rightarrow> string \<Rightarrow> string \<Rightarrow> tree_snapshot \<Rightarrow> app_error + tree_snapshot" where
  "record_file V p name body s =
     (let count = Suc (ts_file_count s);
          tot = saturating_add (ts_total_size s) (length body) in
      if count > MAX_FILE_COUNT then Inl PayloadTooLarge
      else if tot > MAX_TOTAL_BYTES then Inl PayloadTooLarge
      else
        (let rel = rel_path p;
             sensitive = is_security_sensitive_path (se_lower V) rel in
         Inr (s\<lparr>ts_file_count := count, ts_total_size := tot,
           ts_manifests := ts_manifests s @ (if manifest_file V name then [rel] else []),
           ts_security_sensitive := ts_security_sensitive s @ (if sensitive then [rel] else []),
           ts_binary_file_count := ts_binary_file_count s
             + (if \<not> sensitive \<and> looks_binary (read_prefix V p body) then 1 else 0),
           ts_languages := (case file_language V name of
              Some lang \<Rightarrow> bt_incr lang (ts_languages s) | None \<Rightarrow> ts_languages s)\<rparr>)))"

type_synonym dir = "string list \<times> entry list"

text \<open>The entries of one directory; the directories met are pushed, the last on top.\<close>

fun snap_entries ::
  "snap_env \<Rightarrow> string list \<Rightarrow> entry list \<Rightarrow> dir list \<Rightarrow> tree_snapshot \<Rightarrow> app_error + dir list \<times> tree_snapshot" where
  "snap_entries V cur [] stack s = Inr (stack, s)"
| "snap_entries V cur (e # es) stack s =
     (let p = cur @ [entry_name e] in
      case se_entry V p of
        Some err \<Rightarrow> Inl (Internal (''snapshot walk failed: '' @ err))
      | None \<Rightarrow>
          (case se_stat V p of
             Some err \<Rightarrow> Inl (Internal (''snapshot stat failed: '' @ err))
           | None \<Rightarrow>
               (case e of
                  ELink _ \<Rightarrow> snap_entries V cur es stack s
                | EDir _ sub \<Rightarrow>
                    snap_entries V cur es ((p, sub) # stack)
                      (s\<lparr>ts_directories := ts_directories s @ [rel_path p]\<rparr>)
                | ESpecial _ \<Rightarrow> snap_entries V cur es stack s
                | EFile name body \<Rightarrow>
                    (case record_file V p name body s of
                       Inl err \<Rightarrow> Inl err
                     | Inr s' \<Rightarrow> snap_entries V cur es stack s'))))"

text \<open>Every directory pushed is an entry of the one popped, so the stack shrinks in size.\<close>

definition weight :: "dir list \<Rightarrow> nat" where
  "weight stack = (\<Sum>(p, es) \<leftarrow> stack. Suc (size_list size es))"

lemma weight_Cons [simp]: "weight ((p, es) # stack) = Suc (size_list size es) + weight stack"
  by (simp add: weight_def)

lemma snap_entries_weight:
  "snap_entries V cur es stack s = Inr (stack', s') \<Longrightarrow> weight stack' \<le> size_list size es + weight stack"
  by (induction V cur es stack s rule: snap_entries.induct)
     (force split: option.splits entry.splits sum.splits simp: Let_def)+

function snap_walk :: "snap_env \<Rightarrow> dir list \<Rightarrow> tree_snapshot \<Rightarrow> app_error + tree_snapshot" where
  "snap_walk V [] s = Inr s"
| "snap_walk V ((cur, es) # stack) s =
     (case se_read_dir V cur of
        Some err \<Rightarrow> Inl (Internal (''snapshot walk failed: '' @ err))
      | None \<Rightarrow>
          (case snap_entries V cur es stack s of
             Inl err \<Rightarrow> Inl err
           | Inr (stack', s') \<Rightarrow> snap_walk V stack' s'))"
  by pat_completeness auto
termination
  by (relation "measure (\<lambda>(V, stack, s). weight stack)") (auto simp: less_Suc_eq_le dest: snap_entries_weight)

definition empty_snapshot :: "string \<Rightarrow> tree_snapshot" where
  "empty_snapshot commit_sha =
     \<lparr>ts_commit_sha = commit_sha, ts_file_count = 0, ts_total_size = 0, ts_languages = [],
      ts_manifests = [], ts_directories = [], ts_binary_file_count = 0, ts_security_sensitive = []\<rparr>"

definition snapshot_repo :: "snap_env \<Rightarrow> entry list \<Rightarrow> string \<Rightarrow> app_error + tree_snapshot" where
  "snapshot_repo V root commit_sha =
     and_then (snap_walk V [([], root)] (empty_snapshot commit_sha)) (\<lambda>s.
       Inr (s\<lparr>ts_manifests := sort (ts_manifests s), ts_directories := sort (ts_directories s),
         ts_security_sensitive := sort (ts_security_sensitive s)\<rparr>))"

end
