(* ===== verification/Snapshot_Props.thy ===== *)
theory Snapshot_Props
  imports Repo_Snapshot
begin

text \<open>
  The snapshot against a recursive reference: the walk with its stack records exactly the
  regular files and directories of the tree, whatever the order of the entries.
\<close>

section \<open>The reference\<close>

type_synonym found = "string list \<times> string \<times> string"

fun files_of :: "string list \<Rightarrow> entry \<Rightarrow> found list" where
  "files_of cur (EDir n es) = concat (map (files_of (cur @ [n])) es)"
| "files_of cur (EFile n b) = [(cur @ [n], n, b)]"
| "files_of cur (ELink n) = []"
| "files_of cur (ESpecial n) = []"

fun dirs_of :: "string list \<Rightarrow> entry \<Rightarrow> string list list" where
  "dirs_of cur (EDir n es) = (cur @ [n]) # concat (map (dirs_of (cur @ [n])) es)"
| "dirs_of cur (EFile n b) = []"
| "dirs_of cur (ELink n) = []"
| "dirs_of cur (ESpecial n) = []"

abbreviation fpath :: "found \<Rightarrow> string list" where "fpath f \<equiv> fst f"
abbreviation fname :: "found \<Rightarrow> string" where "fname f \<equiv> fst (snd f)"
abbreviation fbody :: "found \<Rightarrow> string" where "fbody f \<equiv> snd (snd f)"

definition within_caps :: "found list \<Rightarrow> bool" where
  "within_caps fs \<longleftrightarrow> length fs \<le> MAX_FILE_COUNT \<and> (\<Sum>f \<leftarrow> fs. length (fbody f)) \<le> MAX_TOTAL_BYTES"

definition sensitive :: "snap_env \<Rightarrow> found \<Rightarrow> bool" where
  "sensitive V f \<longleftrightarrow> is_security_sensitive_path (se_lower V) (rel_path (fpath f))"

definition opened_binary :: "snap_env \<Rightarrow> found \<Rightarrow> bool" where
  "opened_binary V f \<longleftrightarrow> \<not> sensitive V f \<and> looks_binary (read_prefix V (fpath f) (fbody f))"

text \<open>The snapshot of given files and directories, in the order given.\<close>

definition tally :: "snap_env \<Rightarrow> string \<Rightarrow> found list \<Rightarrow> string list list \<Rightarrow> tree_snapshot" where
  "tally V c fs ds =
     \<lparr>ts_commit_sha = c, ts_file_count = length fs, ts_total_size = (\<Sum>f \<leftarrow> fs. length (fbody f)),
      ts_languages = count_by id (List.map_filter (\<lambda>f. file_language V (fname f)) fs),
      ts_manifests = map (rel_path \<circ> fst) (filter (\<lambda>f. manifest_file V (fname f)) fs),
      ts_directories = map rel_path ds,
      ts_binary_file_count = length (filter (opened_binary V) fs),
      ts_security_sensitive = map (rel_path \<circ> fst) (filter (sensitive V) fs)\<rparr>"

section \<open>One directory\<close>

lemma map_filter_snoc:
  "List.map_filter f (xs @ [x]) = List.map_filter f xs @ (case f x of Some y \<Rightarrow> [y] | None \<Rightarrow> [])"
  by (simp add: List.map_filter_def split: option.split)

lemma count_by_snoc: "count_by f (xs @ [x]) = bt_incr (f x) (count_by f xs)"
  by (simp add: count_by_def)

lemma record_file_tally:
  assumes "within_caps fs"
  shows "record_file V p n b (tally V c fs ds) =
    (if within_caps (fs @ [(p, n, b)]) then Inr (tally V c (fs @ [(p, n, b)]) ds) else Inl PayloadTooLarge)"
proof -
  have sat: "saturating_add (\<Sum>f \<leftarrow> fs. length (fbody f)) (length b) > MAX_TOTAL_BYTES
      \<longleftrightarrow> (\<Sum>f \<leftarrow> fs. length (fbody f)) + length b > MAX_TOTAL_BYTES"
    "\<not> (\<Sum>f \<leftarrow> fs. length (fbody f)) + length b > MAX_TOTAL_BYTES \<Longrightarrow>
      saturating_add (\<Sum>f \<leftarrow> fs. length (fbody f)) (length b) = (\<Sum>f \<leftarrow> fs. length (fbody f)) + length b"
    by (auto simp: saturating_add_def min_def MAX_U64_def MAX_TOTAL_BYTES_def)
  show ?thesis
    using sat by (auto simp: record_file_def tally_def Let_def within_caps_def sensitive_def opened_binary_def
        map_filter_snoc count_by_snoc split: option.split)
qed

definition direct_files :: "string list \<Rightarrow> entry list \<Rightarrow> found list" where
  "direct_files cur es = List.map_filter (\<lambda>e. case e of EFile n b \<Rightarrow> Some (cur @ [n], n, b) | _ \<Rightarrow> None) es"

definition direct_dirs :: "string list \<Rightarrow> entry list \<Rightarrow> dir list" where
  "direct_dirs cur es = List.map_filter (\<lambda>e. case e of EDir n sub \<Rightarrow> Some (cur @ [n], sub) | _ \<Rightarrow> None) es"

lemma direct_simps [simp]:
  "direct_files cur [] = []" "direct_dirs cur [] = []"
  "direct_files cur (EFile n b # es) = (cur @ [n], n, b) # direct_files cur es"
  "direct_files cur (EDir n sub # es) = direct_files cur es"
  "direct_files cur (ELink n # es) = direct_files cur es"
  "direct_files cur (ESpecial n # es) = direct_files cur es"
  "direct_dirs cur (EFile n b # es) = direct_dirs cur es"
  "direct_dirs cur (EDir n sub # es) = (cur @ [n], sub) # direct_dirs cur es"
  "direct_dirs cur (ELink n # es) = direct_dirs cur es"
  "direct_dirs cur (ESpecial n # es) = direct_dirs cur es"
  by (simp_all add: direct_files_def direct_dirs_def List.map_filter_def)

definition readable :: "snap_env \<Rightarrow> bool" where
  "readable V \<longleftrightarrow> (\<forall>p. se_read_dir V p = None \<and> se_entry V p = None \<and> se_stat V p = None)"

lemma within_caps_append: "within_caps (fs @ gs) \<Longrightarrow> within_caps fs"
  by (auto simp: within_caps_def)

lemma tally_dirs: "(tally V c fs ds)\<lparr>ts_directories := ts_directories (tally V c fs ds) @ [rel_path p]\<rparr>
    = tally V c fs (ds @ [p])"
  by (simp add: tally_def)

lemma snap_entries_tally:
  assumes "readable V"
  shows "within_caps fs \<Longrightarrow>
    snap_entries V cur es stack (tally V c fs ds) =
      (if within_caps (fs @ direct_files cur es)
       then Inr (rev (direct_dirs cur es) @ stack,
         tally V c (fs @ direct_files cur es) (ds @ map fst (direct_dirs cur es)))
       else Inl PayloadTooLarge)"
proof (induction es arbitrary: stack fs ds)
  case (Cons e es)
  have r: "se_entry V p = None" "se_stat V p = None" for p using assms by (auto simp: readable_def)
  show ?case
  proof (cases e)
    case (EFile n b)
    show ?thesis
    proof (cases "within_caps (fs @ [(cur @ [n], n, b)])")
      case True
      then show ?thesis
        using Cons.IH[OF True, of stack ds] Cons.prems EFile by (simp add: r record_file_tally)
    next
      case False
      then have "\<not> within_caps (fs @ direct_files cur (e # es))"
        using within_caps_append[of "fs @ [(cur @ [n], n, b)]" "direct_files cur es"] EFile by auto
      then show ?thesis using False Cons.prems EFile by (simp add: r record_file_tally)
    qed
  next
    case (EDir n sub)
    then show ?thesis
      using Cons.IH[OF Cons.prems, of "(cur @ [n], sub) # stack" "ds @ [cur @ [n]]"]
      by (simp add: r tally_dirs Let_def)
  qed (use Cons r in simp_all)
qed simp

section \<open>The whole tree\<close>

definition stack_files :: "dir list \<Rightarrow> found list" where
  "stack_files stack = concat (map (\<lambda>(p, es). concat (map (files_of p) es)) stack)"

definition stack_dirs :: "dir list \<Rightarrow> string list list" where
  "stack_dirs stack = concat (map (\<lambda>(p, es). concat (map (dirs_of p) es)) stack)"

lemma stack_Cons [simp]:
  "stack_files ((p, es) # stack) = concat (map (files_of p) es) @ stack_files stack"
  "stack_dirs ((p, es) # stack) = concat (map (dirs_of p) es) @ stack_dirs stack"
  by (simp_all add: stack_files_def stack_dirs_def)

lemma mset_stack_rev:
  "mset (stack_files (rev ds @ stack)) = mset (stack_files ds) + mset (stack_files stack)"
  "mset (stack_dirs (rev ds @ stack)) = mset (stack_dirs ds) + mset (stack_dirs stack)"
  by (induction ds arbitrary: stack) (auto simp: stack_files_def stack_dirs_def)

lemma mset_dir_files:
  "mset (concat (map (files_of cur) es)) = mset (direct_files cur es) + mset (stack_files (direct_dirs cur es))"
proof (induction es)
  case (Cons e es)
  then show ?case by (cases e) simp_all
qed (simp add: stack_files_def)

lemma mset_dir_dirs:
  "mset (concat (map (dirs_of cur) es)) = mset (map fst (direct_dirs cur es)) + mset (stack_dirs (direct_dirs cur es))"
proof (induction es)
  case (Cons e es)
  then show ?case by (cases e) simp_all
qed (simp add: stack_dirs_def)

lemma within_caps_mset: "mset fs = mset gs \<Longrightarrow> within_caps fs \<longleftrightarrow> within_caps gs"
proof -
  assume m: "mset fs = mset gs"
  have "sum_list (map f fs) = sum_list (map f gs)" for f :: "found \<Rightarrow> nat"
    using m by (metis mset_map sum_mset_sum_list)
  then show ?thesis using mset_eq_length[OF m] by (simp add: within_caps_def)
qed

lemma snap_walk_tally:
  assumes "readable V"
  shows "within_caps fs \<Longrightarrow>
    \<exists>fs' ds'. mset fs' = mset (stack_files stack) \<and> mset ds' = mset (stack_dirs stack)
      \<and> snap_walk V stack (tally V c fs ds)
        = (if within_caps (fs @ fs') then Inr (tally V c (fs @ fs') (ds @ ds')) else Inl PayloadTooLarge)"
proof (induction "weight stack" arbitrary: stack fs ds rule: less_induct)
  case less
  show ?case
  proof (cases stack)
    case Nil
    then show ?thesis using less.prems by (simp add: stack_files_def stack_dirs_def)
  next
    case (Cons d rest)
    obtain cur es where d: "d = (cur, es)" by (cases d)
    let ?F = "direct_files cur es" and ?D = "direct_dirs cur es"
    have rd: "se_read_dir V cur = None" using assms by (simp add: readable_def)
    note step = snap_entries_tally[OF assms less.prems, where cur = cur and es = es and stack = rest and c = c and ds = ds]
    show ?thesis
    proof (cases "within_caps (fs @ ?F)")
      case True
      have "weight (rev ?D @ rest) < weight stack"
        using snap_entries_weight[OF step[unfolded if_P[OF True]]] Cons d by simp
      from less.hyps[OF this True, of "ds @ map fst ?D"] obtain fs' ds' where
        m: "mset fs' = mset (stack_files (rev ?D @ rest))" "mset ds' = mset (stack_dirs (rev ?D @ rest))"
        and w: "snap_walk V (rev ?D @ rest) (tally V c (fs @ ?F) (ds @ map fst ?D))
          = (if within_caps ((fs @ ?F) @ fs') then Inr (tally V c ((fs @ ?F) @ fs') ((ds @ map fst ?D) @ ds'))
             else Inl PayloadTooLarge)" by blast
      show ?thesis
      proof (intro exI conjI)
        show "mset (?F @ fs') = mset (stack_files stack)"
          using m(1) mset_dir_files[of cur es] Cons d by (simp add: mset_stack_rev)
        show "mset (map fst ?D @ ds') = mset (stack_dirs stack)"
          using m(2) mset_dir_dirs[of cur es] Cons d by (simp add: mset_stack_rev)
        show "snap_walk V stack (tally V c fs ds)
          = (if within_caps (fs @ ?F @ fs') then Inr (tally V c (fs @ ?F @ fs') (ds @ map fst ?D @ ds'))
             else Inl PayloadTooLarge)"
          using w step True Cons d rd by simp
      qed
    next
      case False
      let ?fs' = "?F @ stack_files (?D @ rest)"
      have "mset ?fs' = mset (stack_files stack)"
        using mset_dir_files[of cur es] Cons d by (simp add: stack_files_def)
      moreover have "\<not> within_caps (fs @ ?fs')"
        using False within_caps_append[of "fs @ ?F" "stack_files (?D @ rest)"] by auto
      moreover have "snap_walk V stack (tally V c fs ds) = Inl PayloadTooLarge"
        using step False Cons d rd by simp
      ultimately show ?thesis by (intro exI[of _ ?fs'] exI[of _ "stack_dirs stack"]) simp
    qed
  qed
qed

text \<open>Sorting the lists of the snapshot makes the order of the walk irrelevant.\<close>

definition sorted_tally :: "snap_env \<Rightarrow> string \<Rightarrow> found list \<Rightarrow> string list list \<Rightarrow> tree_snapshot" where
  "sorted_tally V c fs ds =
     (let s = tally V c fs ds in
      s\<lparr>ts_manifests := sort (ts_manifests s), ts_directories := sort (ts_directories s),
        ts_security_sensitive := sort (ts_security_sensitive s)\<rparr>)"

lemma count_by_keys: "fst ` set (count_by f xs) = f ` set xs"
proof -
  have "fst ` set (fold (\<lambda>x. bt_incr (f x)) xs m) = f ` set xs \<union> fst ` set m" for m
    by (induction xs arbitrary: m) (auto simp: bt_incr_def)
  from this[of "[]"] show ?thesis by (simp add: count_by_def)
qed

lemma count_by_eq: "count_by f xs = map (\<lambda>k. (k, count_list (map f xs) k)) (bt_set (map f xs))"
proof -
  have keys: "map fst (count_by f xs) = bt_set (map f xs)"
  proof (rule sorted_distinct_set_unique)
    show "sorted (map fst (count_by f xs))" "distinct (map fst (count_by f xs))"
      using count_by_wf[of f xs] by (auto simp: bt_wf_def strict_sorted_iff)
    show "sorted (bt_set (map f xs))" "distinct (bt_set (map f xs))"
      using group_by_wf[of f xs] by (auto simp: group_by_eq bt_wf_def strict_sorted_iff comp_def)
    show "set (map fst (count_by f xs)) = set (bt_set (map f xs))" by (simp add: count_by_keys)
  qed
  have "snd e = count_list (map f xs) (fst e)" if "e \<in> set (count_by f xs)" for e
  proof -
    have "bt_get (count_by f xs) (fst e) = Some (snd e)"
      using that bt_wf_distinct[OF count_by_wf] by (metis map_of_eq_Some_iff prod.collapse)
    then show ?thesis using bt_get_count_by[of f xs "fst e"] by simp
  qed
  then have "count_by f xs = map (\<lambda>e. (fst e, count_list (map f xs) (fst e))) (count_by f xs)"
    by (intro map_idI[symmetric]) (auto simp: prod_eq_iff)
  also have "\<dots> = map (\<lambda>k. (k, count_list (map f xs) k)) (map fst (count_by f xs))" by simp
  finally show ?thesis by (simp add: keys)
qed

lemma count_by_perm: "mset xs = mset ys \<Longrightarrow> count_by id xs = count_by id ys"
proof -
  assume m: "mset xs = mset ys"
  have "count_list xs = count_list ys" using m by (intro ext) (metis count_mset)
  moreover have "bt_set xs = bt_set ys" using m by (intro bt_set_cong) (rule mset_eq_setD)
  ultimately show ?thesis by (simp add: count_by_eq)
qed

lemma sort_perm: "mset xs = mset ys \<Longrightarrow> sort xs = sort ys"
  by (metis properties_for_sort sorted_sort mset_sort)

lemma map_filter_mset: "mset xs = mset ys \<Longrightarrow> mset (List.map_filter f xs) = mset (List.map_filter f ys)"
  by (simp add: List.map_filter_def mset_filter)

lemma sorted_tally_perm:
  assumes "mset fs = mset gs" "mset ds = mset es"
  shows "sorted_tally V c fs ds = sorted_tally V c gs es"
proof -
  have l: "length fs = length gs" using assms(1) by (rule mset_eq_length)
  have s: "sum_list (map f fs) = sum_list (map f gs)" for f :: "found \<Rightarrow> nat"
    using assms(1) by (metis mset_map sum_mset_sum_list)
  have f: "sort (map h (filter P fs)) = sort (map h (filter P gs))" for h :: "found \<Rightarrow> string" and P
    using assms(1) by (intro sort_perm) simp
  have n: "length (filter P fs) = length (filter P gs)" for P
    using assms(1) by (metis mset_eq_length mset_filter)
  have d: "sort (map rel_path ds) = sort (map rel_path es)" using assms(2) by (intro sort_perm) simp
  show ?thesis
    by (simp add: sorted_tally_def tally_def l s f n d Let_def count_by_perm[OF map_filter_mset[OF assms(1)]])
qed

text \<open>C19. When the tree can be read, its snapshot is the one computed by plain recursion over
  the tree, independently of the order in which directories are listed: all regular files
  counted and classified, links skipped, the path lists sorted, sensitive files never sniffed;
  a tree over a cap is refused as too large.\<close>

theorem snapshot_reference:
  assumes "\<forall>p. se_read_dir V p = None \<and> se_entry V p = None \<and> se_stat V p = None"
  shows "snapshot_repo V root c =
    (let fs = concat (map (files_of []) root); ds = concat (map (dirs_of []) root) in
     if within_caps fs then Inr (sorted_tally V c fs ds) else Inl PayloadTooLarge)"
proof -
  have r: "readable V" using assms by (simp add: readable_def)
  have e: "empty_snapshot c = tally V c [] []"
    by (simp add: empty_snapshot_def tally_def count_by_def List.map_filter_def)
  have w: "within_caps []" by (simp add: within_caps_def)
  let ?fs = "concat (map (files_of []) root)" and ?ds = "concat (map (dirs_of []) root)"
  have st: "stack_files [([], root)] = ?fs" "stack_dirs [([], root)] = ?ds"
    by (simp_all add: stack_files_def stack_dirs_def)
  from snap_walk_tally[OF r w, of "[([], root)]" c "[]"] obtain fs' ds' where
    m: "mset fs' = mset ?fs" "mset ds' = mset ?ds"
    and walk: "snap_walk V [([], root)] (tally V c [] [])
      = (if within_caps fs' then Inr (tally V c fs' ds') else Inl PayloadTooLarge)"
    unfolding st by auto
  have "snapshot_repo V root c
    = (if within_caps fs' then Inr (sorted_tally V c fs' ds') else Inl PayloadTooLarge)"
    by (simp add: snapshot_repo_def e walk sorted_tally_def Let_def del: snap_walk.simps)
  then show ?thesis
    by (simp add: Let_def within_caps_mset[OF m(1)] sorted_tally_perm[OF m])
qed

definition sample_snap_env :: snap_env where
  "sample_snap_env = \<lparr>se_lower = id, se_read_dir = (\<lambda>_. None), se_entry = (\<lambda>_. None),
     se_stat = (\<lambda>_. None), se_open = (\<lambda>_. True)\<rparr>"

definition sample_root :: "entry list" where
  "sample_root = [EFile ''Cargo.toml'' ''x'', EDir ''src'' [EFile ''main.rs'' ''fn'', ELink ''up''],
     EFile ''.env'' [NUL]]"

lemma sample_classes:
  "file_language sample_snap_env ''Cargo.toml'' = Some ''TOML''"
  "file_language sample_snap_env ''main.rs'' = Some ''Rust''"
  "file_language sample_snap_env ''.env'' = None"
  "manifest_file sample_snap_env ''Cargo.toml''" "\<not> manifest_file sample_snap_env ''main.rs''"
  "\<not> manifest_file sample_snap_env ''.env''"
  "\<not> is_security_sensitive_path id ''Cargo.toml''" "\<not> is_security_sensitive_path id ''src/main.rs''"
  "is_security_sensitive_path id ''.env''"
  "rel_path [''Cargo.toml''] = ''Cargo.toml''" "rel_path [''src'', ''main.rs''] = ''src/main.rs''"
  "rel_path [''.env''] = ''.env''" "rel_path [''src''] = ''src''"
  "count_by id [''TOML'', ''Rust''] = [(''Rust'', 1), (''TOML'', 1)]"
  by code_simp+

lemma snapshot_reference_witness:
  "(\<forall>p. se_read_dir sample_snap_env p = None \<and> se_entry sample_snap_env p = None
       \<and> se_stat sample_snap_env p = None)
   \<and> snapshot_repo sample_snap_env sample_root ''c'' =
     Inr \<lparr>ts_commit_sha = ''c'', ts_file_count = 3, ts_total_size = 4,
       ts_languages = [(''Rust'', 1), (''TOML'', 1)], ts_manifests = [''Cargo.toml''],
       ts_directories = [''src''], ts_binary_file_count = 0, ts_security_sensitive = [''.env'']\<rparr>"
proof -
  have q: "\<forall>p. se_read_dir sample_snap_env p = None \<and> se_entry sample_snap_env p = None
       \<and> se_stat sample_snap_env p = None" by (simp add: sample_snap_env_def)
  have "concat (map (files_of []) sample_root)
      = [([''Cargo.toml''], ''Cargo.toml'', ''x''), ([''src'', ''main.rs''], ''main.rs'', ''fn''), ([''.env''], ''.env'', [NUL])]"
    "concat (map (dirs_of []) sample_root) = [[''src'']]"
    by (simp_all add: sample_root_def)
  moreover have "within_caps [([''Cargo.toml''], ''Cargo.toml'', ''x''), ([''src'', ''main.rs''], ''main.rs'', ''fn''), ([''.env''], ''.env'', [NUL])]"
    by (simp add: within_caps_def caps)
  moreover have "sorted_tally sample_snap_env ''c''
      [([''Cargo.toml''], ''Cargo.toml'', ''x''), ([''src'', ''main.rs''], ''main.rs'', ''fn''), ([''.env''], ''.env'', [NUL])] [[''src'']]
      = \<lparr>ts_commit_sha = ''c'', ts_file_count = 3, ts_total_size = 4,
       ts_languages = [(''Rust'', 1), (''TOML'', 1)], ts_manifests = [''Cargo.toml''],
       ts_directories = [''src''], ts_binary_file_count = 0, ts_security_sensitive = [''.env'']\<rparr>"
    by (simp add: sorted_tally_def tally_def Let_def sample_classes List.map_filter_def sensitive_def
        opened_binary_def looks_binary_def read_prefix_def NUL_def SNAPSHOT_SNIFF_BYTES_def sample_snap_env_def[THEN arg_cong[where f = se_lower]])
  ultimately show ?thesis using q snapshot_reference[OF q, of sample_root "''c''"] by simp
qed

end
