(* ===== verification/Repo_Fetch.thy ===== *)
theory Repo_Fetch
  imports Tar_Extract Repo_Snapshot Scan_Contract Egress_Policy
begin

text \<open>
  The fetch phase of \<open>backend/src/agents/fetch.rs\<close>: the GitHub requests it makes, how it
  reads their answers, and \<open>fetch_repo_with_cancel\<close>, which pins a commit, downloads its
  tarball, extracts it and takes the snapshot.

  The record \<open>fetch_env\<close> holds what is outside the code: the two environment variables, the
  URL parser, the HTTP client (what each request is answered with), the answers of the
  caller's \<open>cancel\<close> closure, the gzip decoder, the operating system, and the order in which
  a directory is listed.
\<close>

section \<open>Names\<close>

definition MAX_DOWNLOAD_BYTES :: nat where "MAX_DOWNLOAD_BYTES = 100 * 1024 * 1024"

definition FORBIDDEN_BRANCH_CHARS :: string where
  "FORBIDDEN_BRANCH_CHARS = ''~^:?*[#&<>;`$|{}'' @ [CHR 0x5C, CHR 0x27, CHR 0x22]"

definition is_valid_branch_name :: "string \<Rightarrow> bool" where
  "is_valid_branch_name value =
     (let s = trim value in
      if s = [] \<or> length s > 255 then False
      else if prefix ''/'' s \<or> prefix ''.'' s \<or> prefix ''-'' s then False
      else if suffix ''/'' s \<or> suffix ''.'' s \<or> suffix ''.lock'' s then False
      else if contains_str s ''..'' \<or> contains_str s ''//'' \<or> contains_str s [CHR 0x40, CHR 0x7B] then False
      else if list_ex (\<lambda>c. byte c < 32 \<or> byte c = 127) s \<or> has_whitespace s then False
      else \<not> list_ex (\<lambda>c. c \<in> set FORBIDDEN_BRANCH_CHARS) s)"

definition is_valid_commit_sha :: "string \<Rightarrow> bool" where
  "is_valid_commit_sha value \<longleftrightarrow> length value = 40 \<and> list_all is_lower_hex value"

definition resolve_branch :: "string \<Rightarrow> string \<Rightarrow> string" where
  "resolve_branch requested fallback =
     (let r = trim requested in if r = [] then fallback else r)"

definition auth_header_value :: "string \<Rightarrow> string option" where
  "auth_header_value token =
     (let t = trim token in if t = [] then None else Some (''Bearer '' @ t))"

definition parse_github_owner_repo :: "string \<Rightarrow> (string \<times> string) option" where
  "parse_github_owner_repo url =
     (case normalize_repository_url url of
        Inl _ \<Rightarrow> None
      | Inr canonical \<Rightarrow>
          Option.bind (strip_prefix GITHUB canonical) (\<lambda>rest.
            (case split_on (CHR ''/'') rest of [owner, repo] \<Rightarrow> Some (owner, repo) | _ \<Rightarrow> None)))"

section \<open>The environment\<close>

record http_request =
  hq_url :: string
  hq_api_headers :: bool
  hq_auth :: "string option"

record http_response =
  hr_status :: nat
  hr_rate_limit :: "string option"
  hr_json :: "string + json"
  hr_length :: "nat option"
  hr_chunks :: "string list"
  hr_end :: "string option"

record fetch_env =
  fe_api_url :: "string option"
  fe_app_env :: "string option"
  fe_parse_url :: "string \<Rightarrow> parsed_url option"
  fe_client :: "string option"
  fe_mkdir :: "string option"
  fe_send :: "nat \<Rightarrow> http_request \<Rightarrow> string + http_response"
  fe_cancel :: "nat \<Rightarrow> bool"
  fe_inflate :: "string \<Rightarrow> string \<times> string option"
  fe_grain :: "nat \<Rightarrow> nat \<Rightarrow> nat"
  fe_refuses :: "fs_op \<Rightarrow> bool"
  fe_error :: "fs_op \<Rightarrow> string"
  fe_disk :: tree
  fe_listing :: "tree \<Rightarrow> entry list"
  fe_snap :: snap_env

definition GITHUB_API :: string where "GITHUB_API = ''https://api.github.com''"

definition github_api_base :: "fetch_env \<Rightarrow> string" where
  "github_api_base F =
     (let raw = Option.bind (map_option (\<lambda>v. trim_end_matches (CHR ''/'') (trim v)) (fe_api_url F))
        (\<lambda>v. if v = [] then None else Some v) in
      case raw of
        None \<Rightarrow> GITHUB_API
      | Some val \<Rightarrow>
          (case fe_parse_url F val of
             None \<Rightarrow> GITHUB_API
           | Some parsed \<Rightarrow>
               (let scheme = url_scheme parsed;
                    host = (case url_host parsed of Some h \<Rightarrow> h | None \<Rightarrow> []);
                    is_prod = (fe_app_env F = Some ''production'') in
                if is_prod \<and> scheme \<noteq> ''https'' \<and> host \<noteq> ''localhost'' \<and> host \<noteq> ''127.0.0.1''
                then GITHUB_API
                else if scheme = ''https'' \<or> scheme = ''http'' then val
                else GITHUB_API)))"

definition tarball_url :: "fetch_env \<Rightarrow> string \<Rightarrow> string \<Rightarrow> string \<Rightarrow> string" where
  "tarball_url F owner repo git_ref =
     github_api_base F @ ''/repos/'' @ owner @ ''/'' @ repo @ ''/tarball/'' @ git_ref"

section \<open>Answers\<close>

definition map_repo_access_error ::
  "nat \<Rightarrow> bool \<Rightarrow> string option \<Rightarrow> string \<Rightarrow> string \<Rightarrow> app_error" where
  "map_repo_access_error http_status token_present rate_limit_remaining owner repo =
     (let name = owner @ ''/'' @ repo in
      if http_status = 401 then
        Unauthorized (''GitHub rejected the supplied token (invalid, expired, or revoked); cannot read '' @ name)
      else if http_status = 403 \<and> rate_limit_remaining = Some ''0'' then RateLimited
      else if http_status = 403 then
        Forbidden (''the supplied GitHub token lacks permission to read '' @ name @ '' (HTTP 403)'')
      else if http_status = 404 \<and> token_present then
        NotFound (''repository '' @ name @ '' was not found, is private, or the token has no access to it'')
      else if http_status = 404 then
        NotFound (''repository '' @ name @ '' was not found, is private, or requires a token: ''
          @ ''no GitHub token was supplied and unauthenticated requests can only read public repositories'')
      else if http_status = 429 then RateLimited
      else HttpClientError (''GitHub repository access for '' @ name @ '' returned HTTP '' @ nat_str http_status))"

definition rate_limit_remaining :: "http_response \<Rightarrow> string option" where
  "rate_limit_remaining r = map_option trim (hr_rate_limit r)"

definition is_success :: "http_response \<Rightarrow> bool" where
  "is_success r \<longleftrightarrow> 200 \<le> hr_status r \<and> hr_status r < 300"

definition access_error :: "http_response \<Rightarrow> string \<Rightarrow> string \<Rightarrow> string \<Rightarrow> app_error" where
  "access_error r token owner repo =
     map_repo_access_error (hr_status r) (trim token \<noteq> []) (rate_limit_remaining r) owner repo"

datatype visibility = Public | Private

record repository_metadata =
  rm_owner :: string
  rm_repo :: string
  rm_repository_url :: string
  rm_default_branch :: string
  rm_commit_sha :: "string option"
  rm_visibility :: visibility

definition parse_repository_metadata ::
  "string \<Rightarrow> string \<Rightarrow> string \<Rightarrow> json \<Rightarrow> app_error + repository_metadata" where
  "parse_repository_metadata owner repo repository_url body =
     (let default_branch = map_option trim (Option.bind (member body ''default_branch'') as_str);
          private_flag = Option.bind (member body ''private'') as_bool;
          visibility_field = map_option trim (Option.bind (member body ''visibility'') as_str) in
      case default_branch of
        Some b \<Rightarrow>
          if b = []
          then Inl (Internal (''GitHub response for '' @ owner @ ''/'' @ repo @ '' is missing default_branch''))
          else Inr
            \<lparr>rm_owner = owner, rm_repo = repo, rm_repository_url = repository_url, rm_default_branch = b,
             rm_commit_sha = None,
             rm_visibility =
               (case visibility_field of
                  Some v \<Rightarrow> if v = ''public'' then Public else Private
                | None \<Rightarrow> if private_flag = Some False then Public else Private)\<rparr>
      | None \<Rightarrow> Inl (Internal (''GitHub response for '' @ owner @ ''/'' @ repo @ '' is missing default_branch'')))"

definition metadata_request :: "fetch_env \<Rightarrow> string \<Rightarrow> string \<Rightarrow> string \<Rightarrow> http_request" where
  "metadata_request F owner repo token =
     \<lparr>hq_url = github_api_base F @ ''/repos/'' @ owner @ ''/'' @ repo, hq_api_headers = True,
      hq_auth = auth_header_value token\<rparr>"

text \<open>\<open>fetch_repository_metadata\<close>, after its request has been answered.\<close>

definition metadata_answer ::
  "string \<Rightarrow> string \<Rightarrow> string \<Rightarrow> string \<Rightarrow> string + http_response \<Rightarrow> app_error + repository_metadata" where
  "metadata_answer owner repo repository_url token answer =
     (case answer of
        Inl e \<Rightarrow> Inl (HttpClientError (''GitHub access check failed: '' @ e))
      | Inr r \<Rightarrow>
          if \<not> is_success r then Inl (access_error r token owner repo)
          else
            (case hr_json r of
               Inl e \<Rightarrow> Inl (HttpClientError (''GitHub metadata decode failed: '' @ e))
             | Inr body \<Rightarrow> parse_repository_metadata owner repo repository_url body))"

definition branch_request :: "fetch_env \<Rightarrow> string \<Rightarrow> string \<Rightarrow> string \<Rightarrow> string \<Rightarrow> http_request" where
  "branch_request F owner repo branch token =
     \<lparr>hq_url = github_api_base F @ ''/repos/'' @ owner @ ''/'' @ repo @ ''/commits/'' @ branch,
      hq_api_headers = True, hq_auth = auth_header_value token\<rparr>"

text \<open>\<open>fetch_branch_head_sha\<close>, after its request has been answered.\<close>

definition branch_answer ::
  "string \<Rightarrow> string \<Rightarrow> string \<Rightarrow> string \<Rightarrow> string + http_response \<Rightarrow> app_error + string" where
  "branch_answer owner repo branch token answer =
     (case answer of
        Inl e \<Rightarrow> Inl (HttpClientError (''GitHub branch lookup failed: '' @ e))
      | Inr r \<Rightarrow>
          if hr_status r = 404
          then Inl (NotFound (''branch '' @ [CHR 0x27] @ branch @ [CHR 0x27] @ '' was not found in ''
            @ owner @ ''/'' @ repo))
          else if \<not> is_success r then Inl (access_error r token owner repo)
          else
            (case hr_json r of
               Inl e \<Rightarrow> Inl (HttpClientError (''GitHub branch decode failed: '' @ e))
             | Inr body \<Rightarrow>
                 (let sha = (case Option.bind (member body ''sha'') as_str of Some s \<Rightarrow> s | None \<Rightarrow> []) in
                  if \<not> is_valid_commit_sha sha
                  then Inl (Internal (''GitHub returned an invalid head sha for '' @ owner @ ''/'' @ repo
                    @ ''@'' @ branch))
                  else Inr sha)))"

text \<open>\<open>read_bounded\<close>: the number of polls made, and the body.\<close>

fun read_chunks ::
  "(nat \<Rightarrow> bool) \<Rightarrow> nat \<Rightarrow> string list \<Rightarrow> string option \<Rightarrow> nat \<Rightarrow> string \<Rightarrow> nat \<times> (app_error + string)" where
  "read_chunks cancel cap [] fin i out =
     (i, case fin of None \<Rightarrow> Inr out | Some e \<Rightarrow> Inl (HttpClientError e))"
| "read_chunks cancel cap (chunk # chunks) fin i out =
     (if cancel i then (Suc i, Inl (app_error.Cancelled ''download cancelled''))
      else if length out + length chunk > cap then (Suc i, Inl PayloadTooLarge)
      else read_chunks cancel cap chunks fin (Suc i) (out @ chunk))"

definition read_bounded ::
  "(nat \<Rightarrow> bool) \<Rightarrow> nat \<Rightarrow> http_response \<Rightarrow> nat \<Rightarrow> nat \<times> (app_error + string)" where
  "read_bounded cancel cap r i =
     (if (case hr_length r of Some len \<Rightarrow> len > cap | None \<Rightarrow> False) then (i, Inl PayloadTooLarge)
      else read_chunks cancel cap (hr_chunks r) (hr_end r) i [])"

section \<open>The fetch\<close>

datatype fetch_effect = MakeTemp | Ask http_request | Unpack string | RemoveTemp

record fetched_repo =
  fr_dir :: "string list"
  fr_metadata :: repository_metadata
  fr_snapshot :: tree_snapshot

type_synonym 'a fetching = "fetch_effect list \<times> (app_error + 'a)"

definition and_fetch :: "'a fetching \<Rightarrow> ('a \<Rightarrow> 'b fetching) \<Rightarrow> 'b fetching" where
  "and_fetch r k =
     (case snd r of
        Inl e \<Rightarrow> (fst r, Inl e)
      | Inr x \<Rightarrow> (fst r @ fst (k x), snd (k x)))"

definition pure_fetch :: "app_error + 'a \<Rightarrow> 'a fetching" where
  "pure_fetch r = ([], r)"

definition not_cancelled :: "fetch_env \<Rightarrow> nat \<Rightarrow> string \<Rightarrow> unit fetching" where
  "not_cancelled F i message =
     pure_fetch (if fe_cancel F i then Inl (app_error.Cancelled message) else Inr ())"

definition ask :: "fetch_env \<Rightarrow> nat \<Rightarrow> http_request \<Rightarrow> (string + http_response) fetching" where
  "ask F n q = ([Ask q], Inr (fe_send F n q))"

text \<open>The commit to scan: the pinned one, or the head of the branch.\<close>

definition commit_to_scan ::
  "fetch_env \<Rightarrow> repository_metadata \<Rightarrow> string \<Rightarrow> string \<Rightarrow> string option \<Rightarrow> string fetching" where
  "commit_to_scan F md branch token requested_sha =
     (case Option.bind (map_option trim requested_sha) (\<lambda>s. if s = [] then None else Some s) of
        Some pinned \<Rightarrow>
          pure_fetch (if \<not> is_valid_commit_sha pinned
            then Inl (BadRequest ''requested commit SHA is not a 40-character lowercase hex digest'')
            else Inr pinned)
      | None \<Rightarrow>
          and_fetch (ask F 1 (branch_request F (rm_owner md) (rm_repo md) branch token)) (\<lambda>answer.
            pure_fetch (branch_answer (rm_owner md) (rm_repo md) branch token answer)))"

definition tarball_request :: "fetch_env \<Rightarrow> repository_metadata \<Rightarrow> string \<Rightarrow> string \<Rightarrow> http_request" where
  "tarball_request F md sha token =
     \<lparr>hq_url = tarball_url F (rm_owner md) (rm_repo md) sha, hq_api_headers = False,
      hq_auth = auth_header_value token\<rparr>"

definition extraction_env :: "fetch_env \<Rightarrow> nat \<Rightarrow> string option \<Rightarrow> xenv" where
  "extraction_env F i fin =
     \<lparr>xe_grain = fe_grain F, xe_end = fin, xe_cancel = (\<lambda>k. fe_cancel F (i + k)),
      xe_refuses = fe_refuses F, xe_error = fe_error F\<rparr>"

text \<open>Steps 4 and 5; \<open>i\<close> is the number of polls made so far.\<close>

definition unpack :: "fetch_env \<Rightarrow> string list \<Rightarrow> string \<Rightarrow> nat \<Rightarrow> string \<Rightarrow> tree_snapshot fetching" where
  "unpack F base sha i bytes =
     (let inflated = fe_inflate F bytes;
          r = extract_tarball_with_cancel (extraction_env F i (snd inflated)) (fst inflated) base (fe_disk F) in
      and_fetch ([Unpack bytes], snd r) (\<lambda>_.
        pure_fetch (snapshot_repo (fe_snap F) (fe_listing F (xs_tree (fst r))) sha)))"

text \<open>Steps 3 to 5: download, extract, snapshot.\<close>

definition download_and_unpack ::
  "fetch_env \<Rightarrow> string list \<Rightarrow> repository_metadata \<Rightarrow> string \<Rightarrow> string \<Rightarrow> tree_snapshot fetching" where
  "download_and_unpack F base md sha token =
     and_fetch (ask F 2 (tarball_request F md sha token)) (\<lambda>answer.
       (case answer of
          Inl e \<Rightarrow> pure_fetch (Inl (HttpClientError (''GitHub tarball download failed: '' @ e)))
        | Inr r \<Rightarrow>
            if \<not> is_success r then pure_fetch (Inl (access_error r token (rm_owner md) (rm_repo md)))
            else
              (let (i, body) = read_bounded (fe_cancel F) MAX_DOWNLOAD_BYTES r 3 in
               and_fetch (pure_fetch body) (\<lambda>bytes.
               and_fetch (not_cancelled F i ''fetch cancelled before extract'') (\<lambda>_.
                 unpack F base sha (Suc i) bytes)))))"

definition fetch_in_dir ::
  "fetch_env \<Rightarrow> string list \<Rightarrow> string \<Rightarrow> string \<Rightarrow> string \<Rightarrow> string \<Rightarrow> string \<Rightarrow> string option \<Rightarrow> fetched_repo fetching" where
  "fetch_in_dir F base owner repo canonical_url repo_branch token requested_sha =
     and_fetch (pure_fetch (case fe_client F of Some e \<Rightarrow> Inl (HttpClientError e) | None \<Rightarrow> Inr ())) (\<lambda>_.
     and_fetch (ask F 0 (metadata_request F owner repo token)) (\<lambda>answer.
     and_fetch (pure_fetch (metadata_answer owner repo canonical_url token answer)) (\<lambda>md.
     and_fetch (not_cancelled F 1 ''fetch cancelled after intake'') (\<lambda>_.
       (let branch = resolve_branch repo_branch (rm_default_branch md) in
        if \<not> is_valid_branch_name branch
        then pure_fetch (Inl (BadRequest (''resolved branch name '' @ [CHR 0x27] @ branch @ [CHR 0x27]
          @ '' is invalid or contains forbidden characters'')))
        else
          and_fetch (commit_to_scan F md branch token requested_sha) (\<lambda>sha.
          and_fetch (not_cancelled F 2 ''fetch cancelled before download'') (\<lambda>_.
          and_fetch (download_and_unpack F base md sha token) (\<lambda>snapshot.
            pure_fetch (Inr \<lparr>fr_dir = base, fr_metadata = md\<lparr>rm_commit_sha := Some sha\<rparr>,
              fr_snapshot = snapshot\<rparr>)))))))))"

text \<open>The guard removes the directory on every error after it was made.\<close>

definition fetch_repo_with_cancel ::
  "fetch_env \<Rightarrow> string list \<Rightarrow> string \<Rightarrow> string \<Rightarrow> string \<Rightarrow> string option \<Rightarrow> fetched_repo fetching" where
  "fetch_repo_with_cancel F base repo_url repo_branch token requested_sha =
     and_fetch (not_cancelled F 0 ''fetch cancelled before intake'') (\<lambda>_.
       (case parse_github_owner_repo repo_url of
          None \<Rightarrow> pure_fetch (Inl (BadRequest ''repo_url must be an https://github.com/{owner}/{repo} URL''))
        | Some (owner, repo) \<Rightarrow>
            (case fe_mkdir F of
               Some e \<Rightarrow> pure_fetch (Inl (Internal (''failed to create temp scan dir: '' @ e)))
             | None \<Rightarrow>
                 (let r = fetch_in_dir F base owner repo (''https://github.com/'' @ owner @ ''/'' @ repo)
                        repo_branch token requested_sha in
                  (MakeTemp # fst r @ (if isl (snd r) then [RemoveTemp] else []), snd r)))))"

definition fetch_repo ::
  "fetch_env \<Rightarrow> string list \<Rightarrow> string \<Rightarrow> string \<Rightarrow> string \<Rightarrow> fetched_repo fetching" where
  "fetch_repo F base repo_url repo_branch token =
     fetch_repo_with_cancel (F\<lparr>fe_cancel := \<lambda>_. False\<rparr>) base repo_url repo_branch token None"

end
