(* ===== verification/Fetch_Props.thy ===== *)
theory Fetch_Props
  imports Repo_Fetch Tar_Props
begin

text \<open>
  What the fetch phase guarantees: a repository is handed on only when its commit was
  pinned, in a fixed order of requests, and a failure leaves no directory behind.
\<close>

named_theorems fetch_simps \<open>sequencing of the fetch phase\<close>

lemma and_fetch_Inr [fetch_simps]:
  "and_fetch r k = (fx, Inr y) \<longleftrightarrow>
     (\<exists>x fx1 fx2. r = (fx1, Inr x) \<and> k x = (fx2, Inr y) \<and> fx = fx1 @ fx2)"
  by (cases r; cases "snd r"; cases "k (projr (snd r))") (auto simp: and_fetch_def)

lemma pure_fetch_Inr [fetch_simps]: "pure_fetch r = (fx, Inr y) \<longleftrightarrow> fx = [] \<and> r = Inr y"
  by (auto simp: pure_fetch_def)

lemma not_cancelled_Inr [fetch_simps]: "not_cancelled F i m = (fx, Inr y) \<longleftrightarrow> fx = [] \<and> \<not> fe_cancel F i"
  by (auto simp: not_cancelled_def pure_fetch_def)

lemma ask_Inr [fetch_simps]: "ask F n q = (fx, Inr y) \<longleftrightarrow> fx = [Ask q] \<and> y = fe_send F n q"
  by (auto simp: ask_def)

section \<open>Bounded reads\<close>

lemma read_chunks_Inr:
  "read_chunks cancel cap chunks fin i out = (j, Inr body) \<Longrightarrow> length out \<le> cap \<Longrightarrow>
     body = out @ concat chunks \<and> length body \<le> cap \<and> fin = None"
  by (induction cancel cap chunks fin i out rule: read_chunks.induct) (auto split: if_splits option.splits)

lemma read_bounded_Inr:
  "read_bounded cancel cap r i = (j, Inr body) \<Longrightarrow> body = concat (hr_chunks r) \<and> length body \<le> cap"
  by (auto simp: read_bounded_def dest: read_chunks_Inr split: if_splits)

section \<open>The commit\<close>

definition pinned :: "string option \<Rightarrow> string option" where
  "pinned requested = Option.bind (map_option trim requested) (\<lambda>s. if s = [] then None else Some s)"

lemma branch_answer_valid: "branch_answer owner repo branch token a = Inr sha \<Longrightarrow> is_valid_commit_sha sha"
  by (auto simp: branch_answer_def Let_def split: sum.splits if_splits)

lemma commit_to_scan_Inr:
  assumes "commit_to_scan F md branch token requested = (fx, Inr sha)"
  shows "is_valid_commit_sha sha \<and> (\<forall>p. pinned requested = Some p \<longrightarrow> sha = p)
    \<and> fx = (if pinned requested = None
            then [Ask (branch_request F (rm_owner md) (rm_repo md) branch token)] else [])"
  using assms unfolding commit_to_scan_def pinned_def[symmetric]
  by (auto simp: fetch_simps dest: branch_answer_valid split: option.splits if_splits)

lemma metadata_answer_Inr:
  assumes "metadata_answer owner repo url token a = Inr md"
  shows "\<exists>r. a = Inr r \<and> is_success r \<and> rm_owner md = owner \<and> rm_repo md = repo"
  using assms by (auto simp: metadata_answer_def parse_repository_metadata_def Let_def
      split: sum.splits if_splits option.splits)

lemma snapshot_commit: "snapshot_repo V root c = Inr s \<Longrightarrow> ts_commit_sha s = c"
proof -
  have f: "record_file V p n b s = Inr s' \<Longrightarrow> ts_commit_sha s = ts_commit_sha s'" for V p n b s s'
    by (auto simp: record_file_def Let_def split: if_splits)
  have e: "snap_entries V cur es stack s = Inr (stack', s') \<Longrightarrow> ts_commit_sha s = ts_commit_sha s'" for V cur es stack s stack' s'
  proof (induction es arbitrary: stack s)
    case (Cons e es)
    from Cons.prems show ?case
      by (cases e) (auto simp: Let_def dest!: Cons.IH dest: f split: option.splits sum.splits)
  qed simp
  have w: "snap_walk V stack s = Inr s' \<Longrightarrow> ts_commit_sha s = ts_commit_sha s'" for stack s s'
    by (induction V stack s rule: snap_walk.induct) (auto dest!: e split: option.splits sum.splits)
  assume "snapshot_repo V root c = Inr s"
  then obtain s1 where "snap_walk V [([], root)] (empty_snapshot c) = Inr s1" "ts_commit_sha s = ts_commit_sha s1"
    by (auto simp: snapshot_repo_def and_then_Inr simp del: snap_walk.simps)
  then show ?thesis using w by (fastforce simp: empty_snapshot_def simp del: snap_walk.simps)
qed

lemma unpack_Inr: "unpack F base sha i bytes = (fx, Inr s) \<Longrightarrow> fx = [Unpack bytes] \<and> ts_commit_sha s = sha"
  by (auto simp: unpack_def Let_def fetch_simps dest: snapshot_commit)

lemma download_Inr:
  assumes "download_and_unpack F base md sha token = (fx, Inr s)"
  shows "\<exists>r. fe_send F 2 (tarball_request F md sha token) = Inr r \<and> is_success r
    \<and> length (concat (hr_chunks r)) \<le> MAX_DOWNLOAD_BYTES
    \<and> fx = [Ask (tarball_request F md sha token), Unpack (concat (hr_chunks r))] \<and> ts_commit_sha s = sha"
proof -
  from assms obtain r fx2 where r: "fe_send F 2 (tarball_request F md sha token) = Inr r" "is_success r"
    and fx: "fx = Ask (tarball_request F md sha token) # fx2"
    and k: "(let (i, body) = read_bounded (fe_cancel F) MAX_DOWNLOAD_BYTES r 3 in
               and_fetch (pure_fetch body) (\<lambda>bytes.
               and_fetch (not_cancelled F i ''fetch cancelled before extract'') (\<lambda>_.
                 unpack F base sha (Suc i) bytes))) = (fx2, Inr s)"
    by (auto simp: download_and_unpack_def fetch_simps split: sum.splits if_splits)
  obtain i body where b: "read_bounded (fe_cancel F) MAX_DOWNLOAD_BYTES r 3 = (i, body)" by fastforce
  from k obtain bytes where "body = Inr bytes" "unpack F base sha (Suc i) bytes = (fx2, Inr s)"
    by (auto simp: b fetch_simps)
  with b r fx show ?thesis by (auto dest!: read_bounded_Inr unpack_Inr)
qed

section \<open>The whole phase\<close>

lemma fetch_in_dir_Inr:
  assumes "fetch_in_dir F base owner repo url repo_branch token requested = (fx, Inr res)"
  shows "\<exists>md m sha r branch. fe_send F 0 (metadata_request F owner repo token) = Inr m \<and> is_success m
    \<and> metadata_answer owner repo url token (Inr m) = Inr md
    \<and> branch = resolve_branch repo_branch (rm_default_branch md) \<and> is_valid_branch_name branch
    \<and> is_valid_commit_sha sha \<and> (\<forall>p. pinned requested = Some p \<longrightarrow> sha = p)
    \<and> fe_send F 2 (tarball_request F md sha token) = Inr r \<and> is_success r
    \<and> length (concat (hr_chunks r)) \<le> MAX_DOWNLOAD_BYTES
    \<and> fx = [Ask (metadata_request F owner repo token)]
        @ (if pinned requested = None then [Ask (branch_request F owner repo branch token)] else [])
        @ [Ask (tarball_request F md sha token), Unpack (concat (hr_chunks r))]
    \<and> fr_dir res = base \<and> fr_metadata res = md\<lparr>rm_commit_sha := Some sha\<rparr>
    \<and> ts_commit_sha (fr_snapshot res) = sha"
proof -
  let ?answer = "fe_send F 0 (metadata_request F owner repo token)"
  from assms obtain md fx1 sha fx2 s where
    md: "metadata_answer owner repo url token ?answer = Inr md"
    and br: "is_valid_branch_name (resolve_branch repo_branch (rm_default_branch md))"
    and c: "commit_to_scan F md (resolve_branch repo_branch (rm_default_branch md)) token requested = (fx1, Inr sha)"
    and d: "download_and_unpack F base md sha token = (fx2, Inr s)"
    and fx: "fx = Ask (metadata_request F owner repo token) # fx1 @ fx2"
    and res: "res = \<lparr>fr_dir = base, fr_metadata = md\<lparr>rm_commit_sha := Some sha\<rparr>, fr_snapshot = s\<rparr>"
    by (auto simp: fetch_in_dir_def fetch_simps Let_def split: if_splits)
  from metadata_answer_Inr[OF md] obtain m where m: "?answer = Inr m" "is_success m" "rm_owner md = owner" "rm_repo md = repo"
    by blast
  from download_Inr[OF d] obtain r where r: "fe_send F 2 (tarball_request F md sha token) = Inr r" "is_success r"
    "length (concat (hr_chunks r)) \<le> MAX_DOWNLOAD_BYTES"
    "fx2 = [Ask (tarball_request F md sha token), Unpack (concat (hr_chunks r))]" "ts_commit_sha s = sha" by blast
  show ?thesis
    using commit_to_scan_Inr[OF c] m r md br fx res
    by (intro exI[of _ md] exI[of _ m] exI[of _ sha] exI[of _ r] exI conjI) auto
qed

text \<open>C16. A repository is handed on only after this exact sequence: the directory is made, the
  metadata request succeeds, the branch head is asked for (unless the caller pinned a
  commit), the tarball of that commit is downloaded within the cap and unpacked.  The commit
  is a full lower-case digest, the pinned one when there is one, and it is the commit of both
  the metadata and the snapshot.\<close>

theorem fetch_pinned:
  assumes "fetch_repo_with_cancel F base repo_url repo_branch token requested = (fx, Inr res)"
  shows "\<exists>owner repo md m r sha branch.
     parse_github_owner_repo repo_url = Some (owner, repo)
     \<and> fe_send F 0 (metadata_request F owner repo token) = Inr m \<and> is_success m
     \<and> metadata_answer owner repo (''https://github.com/'' @ owner @ ''/'' @ repo) token (Inr m) = Inr md
     \<and> branch = resolve_branch repo_branch (rm_default_branch md) \<and> is_valid_branch_name branch
     \<and> is_valid_commit_sha sha \<and> (\<forall>p. pinned requested = Some p \<longrightarrow> sha = p)
     \<and> fe_send F 2 (tarball_request F md sha token) = Inr r \<and> is_success r
     \<and> length (concat (hr_chunks r)) \<le> MAX_DOWNLOAD_BYTES
     \<and> fx = [MakeTemp, Ask (metadata_request F owner repo token)]
         @ (if pinned requested = None then [Ask (branch_request F owner repo branch token)] else [])
         @ [Ask (tarball_request F md sha token), Unpack (concat (hr_chunks r))]
     \<and> fr_dir res = base \<and> fr_metadata res = md\<lparr>rm_commit_sha := Some sha\<rparr>
     \<and> ts_commit_sha (fr_snapshot res) = sha"
proof -
  let ?dir = "\<lambda>owner repo. fetch_in_dir F base owner repo (''https://github.com/'' @ owner @ ''/'' @ repo)
    repo_branch token requested"
  from assms obtain owner repo where
    p: "parse_github_owner_repo repo_url = Some (owner, repo)"
    and s: "snd (?dir owner repo) = Inr res" and fx: "fx = MakeTemp # fst (?dir owner repo)"
    unfolding fetch_repo_with_cancel_def fetch_simps Let_def
    by (auto simp: fetch_simps simp del: append_Cons split: option.splits)
  have f: "?dir owner repo = (fst (?dir owner repo), Inr res)" using s by (simp add: prod_eq_iff)
  from fetch_in_dir_Inr[OF f] obtain md m sha r branch where
    H: "fe_send F 0 (metadata_request F owner repo token) = Inr m" "is_success m"
    "metadata_answer owner repo (''https://github.com/'' @ owner @ ''/'' @ repo) token (Inr m) = Inr md"
    "branch = resolve_branch repo_branch (rm_default_branch md)" "is_valid_branch_name branch"
    "is_valid_commit_sha sha" "\<forall>p. pinned requested = Some p \<longrightarrow> sha = p"
    "fe_send F 2 (tarball_request F md sha token) = Inr r" "is_success r"
    "length (concat (hr_chunks r)) \<le> MAX_DOWNLOAD_BYTES"
    "fst (?dir owner repo) = [Ask (metadata_request F owner repo token)]
        @ (if pinned requested = None then [Ask (branch_request F owner repo branch token)] else [])
        @ [Ask (tarball_request F md sha token), Unpack (concat (hr_chunks r))]"
    "fr_dir res = base" "fr_metadata res = md\<lparr>rm_commit_sha := Some sha\<rparr>" "ts_commit_sha (fr_snapshot res) = sha"
    by blast
  show ?thesis
    by (intro exI[of _ owner] exI[of _ repo] exI[of _ md] exI[of _ m] exI[of _ r] exI[of _ sha]
        exI[of _ branch] conjI) (use H p fx in simp_all)
qed

text \<open>What the phase may do at all: its requests carry the caller's token, to the GitHub API.\<close>

definition allowed_effect :: "fetch_env \<Rightarrow> string \<Rightarrow> fetch_effect \<Rightarrow> bool" where
  "allowed_effect F token fx \<longleftrightarrow>
     (case fx of
        Ask q \<Rightarrow> hq_auth q = auth_header_value token \<and> prefix (github_api_base F @ ''/repos/'') (hq_url q)
      | Unpack b \<Rightarrow> length b \<le> MAX_DOWNLOAD_BYTES
      | _ \<Rightarrow> False)"

lemma and_fetch_all:
  assumes "list_all P (fst r)" "\<And>x. snd r = Inr x \<Longrightarrow> list_all P (fst (k x))"
  shows "list_all P (fst (and_fetch r k))"
  using assms by (auto simp: and_fetch_def split: sum.splits)

lemma quiet_steps [simp]: "fst (pure_fetch r) = []" "fst (not_cancelled F i m) = []"
  "fst (ask F n q) = [Ask q]"
  by (simp_all add: pure_fetch_def not_cancelled_def ask_def)

lemma allowed_requests:
  "allowed_effect F token (Ask (metadata_request F owner repo token))"
  "allowed_effect F token (Ask (branch_request F owner repo branch token))"
  "allowed_effect F token (Ask (tarball_request F md sha token))"
  by (simp_all add: allowed_effect_def metadata_request_def branch_request_def tarball_request_def tarball_url_def)

lemma commit_allowed: "list_all (allowed_effect F token) (fst (commit_to_scan F md branch token requested))"
  by (auto simp: commit_to_scan_def allowed_requests intro!: and_fetch_all split: option.split)

lemma download_allowed: "list_all (allowed_effect F token) (fst (download_and_unpack F base md sha token))"
proof -
  have u: "list_all (allowed_effect F token) (fst (unpack F base sha i b))" if "length b \<le> MAX_DOWNLOAD_BYTES" for i b
    using that by (auto simp: unpack_def Let_def allowed_effect_def intro!: and_fetch_all)
  have "length b \<le> MAX_DOWNLOAD_BYTES" if "snd (pure_fetch body) = Inr b"
    "read_bounded (fe_cancel F) MAX_DOWNLOAD_BYTES r 3 = (i, body)" for b body r i
    using that read_bounded_Inr[of _ MAX_DOWNLOAD_BYTES r 3 i b] by (simp add: pure_fetch_def)
  then show ?thesis
    by (auto simp: download_and_unpack_def allowed_requests intro!: and_fetch_all u
        split: sum.split if_split prod.split)
qed

lemma fetch_in_dir_allowed:
  "list_all (allowed_effect F token) (fst (fetch_in_dir F base owner repo url repo_branch token requested))"
  by (auto simp: fetch_in_dir_def Let_def allowed_requests commit_allowed download_allowed
      intro!: and_fetch_all split: if_split)

text \<open>C17. However a fetch ends, each request goes below the repositories of the configured API
  with the caller's token (none when it is blank), nothing above the download cap is
  unpacked, and a directory that was made is removed again as the last step if the fetch
  fails, and kept if it succeeds.\<close>

theorem fetch_cleanup:
  "let (fx, r) = fetch_repo_with_cancel F base repo_url repo_branch token requested in
     {q. Ask q \<in> set fx} \<subseteq>
        {q. hq_auth q = auth_header_value token \<and> prefix (github_api_base F @ ''/repos/'') (hq_url q)}
     \<and> {b. Unpack b \<in> set fx} \<subseteq> {b. length b \<le> MAX_DOWNLOAD_BYTES}
     \<and> (case r of
          Inr _ \<Rightarrow> hd fx = MakeTemp \<and> MakeTemp \<notin> set (tl fx) \<and> RemoveTemp \<notin> set fx
        | Inl _ \<Rightarrow> fx = [] \<or> (\<exists>mid. fx = MakeTemp # mid @ [RemoveTemp] \<and> MakeTemp \<notin> set mid \<and> RemoveTemp \<notin> set mid))"
proof -
  have all: "\<forall>e \<in> set (fst (fetch_in_dir F base owner repo url repo_branch token requested)). allowed_effect F token e"
    for owner repo url using fetch_in_dir_allowed by (simp add: list_all_iff)
  then have no: "MakeTemp \<notin> set (fst (fetch_in_dir F base owner repo url repo_branch token requested))"
    "RemoveTemp \<notin> set (fst (fetch_in_dir F base owner repo url repo_branch token requested))"
    for owner repo url by (force simp: allowed_effect_def)+
  have ask: "hq_auth q = auth_header_value token \<and> prefix (github_api_base F @ ''/repos/'') (hq_url q)"
    if "Ask q \<in> set (fst (fetch_in_dir F base owner repo url repo_branch token requested))" for q owner repo url
    using all that by (fastforce simp: allowed_effect_def)
  have unp: "length b \<le> MAX_DOWNLOAD_BYTES"
    if "Unpack b \<in> set (fst (fetch_in_dir F base owner repo url repo_branch token requested))" for b owner repo url
    using all that by (fastforce simp: allowed_effect_def)
  show ?thesis
    using ask unp no
    by (auto simp: fetch_repo_with_cancel_def and_fetch_def not_cancelled_def pure_fetch_def Let_def
        split: option.split sum.split)
qed

section \<open>A run\<close>

definition sample_sha :: string where
  "sample_sha = replicate 40 (CHR ''a'')"

definition sample_response :: http_response where
  "sample_response = \<lparr>hr_status = 200, hr_rate_limit = None,
     hr_json = Inr (JObj [(''default_branch'', JStr ''main''), (''private'', JBool False)]),
     hr_length = None, hr_chunks = [''gz''], hr_end = None\<rparr>"

definition sample_fetch_env :: fetch_env where
  "sample_fetch_env = \<lparr>fe_api_url = None, fe_app_env = None, fe_parse_url = (\<lambda>_. None), fe_client = None,
     fe_mkdir = None, fe_send = (\<lambda>_ _. Inr sample_response), fe_cancel = (\<lambda>_. False),
     fe_inflate = (\<lambda>_. ([], None)), fe_grain = (\<lambda>_ _. 7), fe_refuses = (\<lambda>_. False), fe_error = (\<lambda>_. []),
     fe_disk = sample_tree, fe_listing = (\<lambda>_. []),
     fe_snap = \<lparr>se_lower = id, se_read_dir = (\<lambda>_. None), se_entry = (\<lambda>_. None), se_stat = (\<lambda>_. None),
       se_open = (\<lambda>_. True)\<rparr>\<rparr>"

definition sample_metadata :: repository_metadata where
  "sample_metadata = \<lparr>rm_owner = ''acme'', rm_repo = ''app'', rm_repository_url = ''https://github.com/acme/app'',
     rm_default_branch = ''main'', rm_commit_sha = None, rm_visibility = Public\<rparr>"

lemma sample_facts:
  "parse_github_owner_repo ''https://github.com/acme/app'' = Some (''acme'', ''app'')"
  "resolve_branch [] ''main'' = ''main''" "is_valid_branch_name ''main''" "is_valid_commit_sha sample_sha"
  "trim sample_sha = sample_sha" "sample_sha \<noteq> []" "auth_header_value [] = None"
  "metadata_answer ''acme'' ''app'' ''https://github.com/acme/app'' [] (Inr sample_response) = Inr sample_metadata"
  by code_simp+

lemma sample_unpack:
  "unpack sample_fetch_env base c i bytes = ([Unpack bytes], Inr (empty_snapshot c))"
proof -
  have f: "fill_block (extraction_env sample_fetch_env i None) 512 [] [] = Inr (None, [])"
    by (subst fill_block.simps) (simp add: gz_read_def extraction_env_def)
  have e: "snd (extract_tarball_with_cancel (extraction_env sample_fetch_env i None) [] base (fe_disk sample_fetch_env)) = Inr ()"
    unfolding extract_tarball_with_cancel_def using f
    by (subst extract_loop.simps) (simp add: extract_pass_def Let_def, simp add: extraction_env_def sample_fetch_env_def)
  have "snapshot_repo (fe_snap sample_fetch_env) (fe_listing sample_fetch_env t) c = Inr (empty_snapshot c)" for t
    by (simp add: snapshot_repo_def empty_snapshot_def sample_fetch_env_def)
  with e show ?thesis
    by (simp add: unpack_def Let_def and_fetch_def pure_fetch_def sample_fetch_env_def[THEN arg_cong[where f = fe_inflate]])
qed

lemma sample_fetch:
  "fetch_repo_with_cancel sample_fetch_env sample_dest ''https://github.com/acme/app'' [] [] (Some sample_sha)
   = ([MakeTemp, Ask (metadata_request sample_fetch_env ''acme'' ''app'' []),
       Ask (tarball_request sample_fetch_env sample_metadata sample_sha []), Unpack ''gz''],
      Inr \<lparr>fr_dir = sample_dest, fr_metadata = sample_metadata\<lparr>rm_commit_sha := Some sample_sha\<rparr>,
        fr_snapshot = empty_snapshot sample_sha\<rparr>)"
proof -
  have env: "fe_cancel sample_fetch_env = (\<lambda>_. False)" "fe_mkdir sample_fetch_env = None"
    "fe_client sample_fetch_env = None" "fe_send sample_fetch_env n q = Inr sample_response" for n q
    by (simp_all add: sample_fetch_env_def)
  have r: "read_bounded (\<lambda>_. False) MAX_DOWNLOAD_BYTES sample_response 3 = (4, Inr ''gz'')" "is_success sample_response"
    by (simp_all add: read_bounded_def sample_response_def MAX_DOWNLOAD_BYTES_def is_success_def)
  have d: "download_and_unpack sample_fetch_env sample_dest sample_metadata sample_sha []
    = ([Ask (tarball_request sample_fetch_env sample_metadata sample_sha []), Unpack ''gz''], Inr (empty_snapshot sample_sha))"
    by (simp add: download_and_unpack_def and_fetch_def ask_def env r not_cancelled_def pure_fetch_def sample_unpack)
  have c: "commit_to_scan sample_fetch_env sample_metadata ''main'' [] (Some sample_sha) = ([], Inr sample_sha)"
    by (simp add: commit_to_scan_def sample_facts pure_fetch_def)
  have b: "rm_default_branch sample_metadata = ''main''" by (simp add: sample_metadata_def)
  show ?thesis
    using sample_facts(8)
    by (simp add: fetch_repo_with_cancel_def fetch_in_dir_def and_fetch_def ask_def env not_cancelled_def
        pure_fetch_def sample_facts(1-7) b c d)
qed

lemma fetch_pinned_witness:
  "\<exists>owner repo md m r sha branch.
     parse_github_owner_repo ''https://github.com/acme/app'' = Some (owner, repo)
     \<and> fe_send sample_fetch_env 0 (metadata_request sample_fetch_env owner repo []) = Inr m \<and> is_success m
     \<and> metadata_answer owner repo (''https://github.com/'' @ owner @ ''/'' @ repo) [] (Inr m) = Inr md
     \<and> branch = resolve_branch [] (rm_default_branch md) \<and> is_valid_branch_name branch
     \<and> is_valid_commit_sha sha \<and> (\<forall>p. pinned (Some sample_sha) = Some p \<longrightarrow> sha = p)
     \<and> fe_send sample_fetch_env 2 (tarball_request sample_fetch_env md sha []) = Inr r \<and> is_success r
     \<and> length (concat (hr_chunks r)) \<le> MAX_DOWNLOAD_BYTES"
  using fetch_pinned[OF sample_fetch] by blast

end
