(* ===== verification/Audit_Report.thy ===== *)
theory Audit_Report
  imports Canonical_Audit "HOL-Library.Product_Lexorder"
begin

text \<open>
  The report contract of \<open>backend/src/schemas/report.rs\<close>: the coverage verdict derived from
  the scanner runs, and \<open>build_report\<close>, the pure transformation of a canonical audit.
\<close>

definition REPORT_SCHEMA_VERSION :: nat where "REPORT_SCHEMA_VERSION = 1"

datatype coverage_state =
    SuccessClean | SuccessFindings | Failed | Timeout | Cancelled | NoFilesAnalyzed

fun state_str :: "coverage_state \<Rightarrow> string" where
  "state_str SuccessClean = ''SUCCESS_CLEAN''"
| "state_str SuccessFindings = ''SUCCESS_FINDINGS''"
| "state_str Failed = ''FAILED''"
| "state_str Timeout = ''TIMEOUT''"
| "state_str Cancelled = ''CANCELLED''"
| "state_str NoFilesAnalyzed = ''NO_FILES_ANALYZED''"

definition state_known :: "coverage_state \<Rightarrow> bool" where
  "state_known s \<longleftrightarrow> s = SuccessClean \<or> s = SuccessFindings"

record report_identity =
  ri_audit_id :: string
  ri_execution_id :: string
  ri_attempt_number :: int
  ri_repository_url :: string
  ri_repo_branch :: string
  ri_repo_owner :: string
  ri_repo_name :: string
  ri_snapshot_commit :: "string option"
  ri_snapshot_file_count :: nat
  ri_snapshot_total_size :: nat
  ri_canonical_version :: nat
  ri_report_version :: nat

record execution_identity =
  ei_execution_id :: string
  ei_attempt_number :: int

record report_coverage =
  rc_state :: coverage_state
  rc_status :: coverage_status
  rc_complete :: bool
  rc_scanner_runs :: "canonical_run list"
  rc_successful :: "string list"
  rc_unsuccessful :: "(string \<times> string) list"
  rc_limitations :: "string list"

record report_summary =
  rm_headline :: string
  rm_finding_count :: nat
  rm_by_severity :: "(string \<times> nat) list"
  rm_by_scanner :: "(string \<times> nat) list"
  rm_invalid_count :: nat
  rm_duplicate_groups :: nat
  rm_security_score :: "64 word option"

record audit_report =
  rp_version :: nat
  rp_identity :: report_identity
  rp_coverage :: report_coverage
  rp_summary :: report_summary
  rp_findings :: "canonical_finding list"
  rp_correlations :: "correlation list"
  rp_invalid :: "invalid_finding list"
  rp_limitations :: "string list"
  rp_disclaimers :: "string list"

datatype report_error = UnsupportedCanonicalVersion nat nat

definition report_error_text :: "report_error \<Rightarrow> string" where
  "report_error_text e =
     (case e of UnsupportedCanonicalVersion found expected \<Rightarrow>
        ''canonical audit schema version '' @ nat_str found @ '' is not supported (expected '' @ nat_str expected @ '')'')"

fun severity_rank :: "severity \<Rightarrow> nat" where
  "severity_rank Critical = 0"
| "severity_rank High = 1"
| "severity_rank Medium = 2"
| "severity_rank Low = 3"
| "severity_rank Info = 4"
| "severity_rank Unknown = 5"

definition derive_coverage_state :: "audit_document \<Rightarrow> coverage_state" where
  "derive_coverage_state audit =
     (if list_ex (\<lambda>r. cr_status r = StatusCancelled) (ca_runs audit) then Cancelled
      else if list_ex (\<lambda>r. case cr_status r of StatusTimeout _ \<Rightarrow> True | _ \<Rightarrow> False) (ca_runs audit) then Timeout
      else if cov_complete (ca_coverage audit) then
        (if su_finding_count (ca_summary audit) = 0 then SuccessClean else SuccessFindings)
      else
        (let unsuccessful = map cr_status (filter (\<lambda>r. \<not> cr_coverage_known r) (ca_runs audit)) in
         if unsuccessful \<noteq> []
            \<and> list_all (\<lambda>s. case s of canonical_status.NoFilesAnalyzed _ \<Rightarrow> True | _ \<Rightarrow> False) unsuccessful
         then NoFilesAnalyzed else Failed))"

definition status_list :: "(string \<times> string) list \<Rightarrow> string" where
  "status_list m = join '', '' (map (\<lambda>(scanner, status). scanner @ '' ('' @ status @ '')'') m)"

definition headline :: "audit_document \<Rightarrow> coverage_state \<Rightarrow> string" where
  "headline audit state =
     (let n = nat_str (length (cov_successful (ca_coverage audit))) in
      case state of
        SuccessClean \<Rightarrow> ''All '' @ n @ '' scanner(s) completed and reported no findings.''
      | SuccessFindings \<Rightarrow>
          nat_str (su_finding_count (ca_summary audit)) @ '' finding(s) reported across '' @ n @ '' scanner(s).''
      | Cancelled \<Rightarrow> ''The audit was cancelled before coverage could be established.''
      | Timeout \<Rightarrow> ''At least one scanner exceeded its time limit.''
      | NoFilesAnalyzed \<Rightarrow> ''No files were analyzed, so coverage is unknown rather than clean.''
      | Failed \<Rightarrow>
          if cov_unsuccessful (ca_coverage audit) = []
          then ''Coverage is incomplete; the result cannot be treated as clean.''
          else ''Coverage is incomplete: '' @ status_list (cov_unsuccessful (ca_coverage audit)) @ ''.'')"

definition disclaimers :: "string list" where
  "disclaimers =
     [''This report presents a frozen canonical audit. Generating it ran no scanners, ''
        @ ''accessed no repository, and called no AI service.'',
      ''A missing or \"unknown\" value means the scanner did not report it; it is never ''
        @ ''inferred or defaulted here.'',
      ''Remediation text is guidance suggested by the scanner or platform; it is not a ''
        @ ''verified fact about the repository.'']"

text \<open>The file of a quarantined finding is published only if it is a valid path.\<close>

definition publish_invalid :: "invalid_finding \<Rightarrow> invalid_finding" where
  "publish_invalid i =
     (case inv_file i of
        Some file \<Rightarrow> if isl (validate_repo_path file) then i\<lparr>inv_file := None\<rparr> else i
      | None \<Rightarrow> i)"

definition identity_of_audit :: "audit_document \<Rightarrow> execution_identity \<Rightarrow> report_identity" where
  "identity_of_audit audit execution =
     \<lparr>ri_audit_id = ca_scan_id audit, ri_execution_id = ei_execution_id execution,
      ri_attempt_number = ei_attempt_number execution, ri_repository_url = ca_repository_url audit,
      ri_repo_branch = ca_branch audit, ri_repo_owner = ca_owner audit, ri_repo_name = ca_name audit,
      ri_snapshot_commit = ca_snapshot_commit audit, ri_snapshot_file_count = ca_file_count audit,
      ri_snapshot_total_size = ca_total_size audit, ri_canonical_version = ca_version audit,
      ri_report_version = REPORT_SCHEMA_VERSION\<rparr>"

definition build_report :: "audit_document \<Rightarrow> execution_identity \<Rightarrow> report_error + audit_report" where
  "build_report audit execution =
     (if ca_version audit \<noteq> CANONICAL_AUDIT_VERSION
      then Inl (UnsupportedCanonicalVersion (ca_version audit) CANONICAL_AUDIT_VERSION)
      else
        (let state = derive_coverage_state audit; cov = ca_coverage audit; su = ca_summary audit in
         Inr \<lparr>rp_version = REPORT_SCHEMA_VERSION, rp_identity = identity_of_audit audit execution,
           rp_coverage =
             \<lparr>rc_state = state, rc_status = cov_status cov, rc_complete = cov_complete cov,
              rc_scanner_runs = sort_key cr_scanner (ca_runs audit), rc_successful = cov_successful cov,
              rc_unsuccessful = cov_unsuccessful cov, rc_limitations = cov_limitations cov\<rparr>,
           rp_summary =
             \<lparr>rm_headline = headline audit state, rm_finding_count = su_finding_count su,
              rm_by_severity = su_by_severity su, rm_by_scanner = su_by_scanner su,
              rm_invalid_count = su_invalid_count su, rm_duplicate_groups = su_duplicate_groups su,
              rm_security_score = su_score su\<rparr>,
           rp_findings = sort_key (\<lambda>f. (severity_rank (cf_severity f), cf_id f)) (ca_findings audit),
           rp_correlations = sort_key co_correlation_id (ca_correlations audit),
           rp_invalid = sort_key inv_id (map publish_invalid (ca_invalid audit)),
           rp_limitations = remdups_adj (sort (ca_limitations audit)),
           rp_disclaimers = disclaimers\<rparr>))"

end
