(* ===== verification/Report_Props.thy ===== *)
theory Report_Props
  imports Audit_Report Canonical_Identity
begin

text \<open>
  What a report promises about the audit it presents: its verdict is the verdict of the scan
  results, and the presentation reorders but does not add or lose.
\<close>

section \<open>The verdict\<close>

definition no_files :: "scanner_result \<Rightarrow> bool" where
  "no_files r \<longleftrightarrow> (\<exists>reason. res_outcome r = RunFailed reason) \<and> record_text r ''detail'' = ''no_files_analyzed''"

definition was_cancelled :: "scanner_result \<Rightarrow> bool" where
  "was_cancelled r \<longleftrightarrow> res_outcome r = RunCancelled"

definition timed_out :: "scanner_result \<Rightarrow> bool" where
  "timed_out r \<longleftrightarrow> (\<exists>secs. res_outcome r = scanner_outcome.Timeout secs)"

lemma status_cases:
  "canonical_status r = StatusCancelled \<longleftrightarrow> was_cancelled r"
  "(case canonical_status r of StatusTimeout _ \<Rightarrow> True | _ \<Rightarrow> False) \<longleftrightarrow> timed_out r"
  "(case canonical_status r of canonical_status.NoFilesAnalyzed _ \<Rightarrow> True | _ \<Rightarrow> False) \<longleftrightarrow> no_files r"
  by (auto simp: canonical_status_def was_cancelled_def timed_out_def no_files_def split: scanner_outcome.splits)

lemma not_both:
  "was_cancelled r \<Longrightarrow> \<not> usable r" "timed_out r \<Longrightarrow> \<not> usable r" "no_files r \<Longrightarrow> \<not> usable r"
  by (auto simp: was_cancelled_def timed_out_def no_files_def usable_def is_success_def)

definition verdict :: "scanner_result list \<Rightarrow> bool \<Rightarrow> coverage_state" where
  "verdict results clean =
     (if \<exists>r \<in> set results. was_cancelled r then Cancelled
      else if \<exists>r \<in> set results. timed_out r then Timeout
      else if \<forall>r \<in> set results. usable r then (if clean then SuccessClean else SuccessFindings)
      else if \<forall>r \<in> set results. usable r \<or> no_files r then NoFilesAnalyzed
      else Failed)"

lemma derive_verdict:
  assumes "ca_runs a = canonical_scanner_runs results" "results \<noteq> []"
    and "ca_coverage a = canonical_coverage (canonical_scanner_runs results)"
  shows "derive_coverage_state a = verdict results (su_finding_count (ca_summary a) = 0)"
proof -
  let ?bad = "map cr_status (filter (\<lambda>r. \<not> cr_coverage_known r) (canonical_scanner_runs results))"
  have bad: "set ?bad = canonical_status ` {r \<in> set results. \<not> usable r}"
    by (force simp: set_runs image_iff)
  have "(\<forall>x \<in> set ?bad. case x of canonical_status.NoFilesAnalyzed _ \<Rightarrow> True | _ \<Rightarrow> False)
      \<longleftrightarrow> (\<forall>r \<in> set results. usable r \<or> no_files r)"
    unfolding bad by (auto simp: status_cases(3))
  moreover have "?bad \<noteq> [] \<longleftrightarrow> (\<exists>r \<in> set results. \<not> usable r)"
    unfolding set_empty[symmetric] bad by auto
  ultimately show ?thesis
    unfolding derive_coverage_state_def verdict_def Let_def assms(1,3) coverage_complete(2) list_all_iff
      list_ex_iff set_runs
    using assms(2) by (auto simp: status_cases coverage_complete(1) list_all_iff)
qed

lemma no_findings_iff:
  assumes "canonical_audit E rq = Inr a" "validate_snapshot_commit (rq_snapshot_commit rq) = Inr c"
  shows "su_finding_count (ca_summary a) = 0
     \<longleftrightarrow> (\<forall>f \<in> set (rq_findings rq). \<not> is_ok (normalize_finding E c f))"
proof -
  obtain c' where c': "validate_snapshot_commit (rq_snapshot_commit rq) = Inr c'"
    "ca_summary a = canonical_summary (ca_coverage a) (ns_by_scanner (normalize_findings E c' (rq_findings rq)))
       (ns_by_severity (normalize_findings E c' (rq_findings rq))) (length (ca_invalid a))
       (ns_correlations (normalize_findings E c' (rq_findings rq))) (rq_score rq)"
    using assms(1) by (rule audit_Inr)
  then have [simp]: "c' = c" using assms(2) by simp
  have "su_finding_count (ca_summary a) = length (valid_ids E c (rq_findings rq))"
    by (simp add: c'(2) canonical_summary_def Let_def ns_simps count_by_sum ns_valid_eq)
  moreover have "set (valid_ids E c (rq_findings rq))
      = {nf_canonical_id n | n f. f \<in> set (rq_findings rq) \<and> normalize_finding E c f = Inr n}"
    unfolding valid_ids_def set_bt_set set_map image_def Bex_def oks_classify by blast
  ultimately show ?thesis by (auto simp: is_ok_def simp flip: set_empty split: sum.splits)
qed

text \<open>C26. The report of an audit can always be built, and its state is the verdict of the scan results:
  cancelled when one was cancelled, else timed out when one timed out, else successful exactly when
  every scanner succeeded, and clean exactly when, besides, no input finding is valid; otherwise no
  files were analysed when that is why every unsuccessful scanner failed, and failed when it is not.
  So known coverage means that every scanner succeeded.\<close>

theorem report_verdict:
  assumes "canonical_audit E rq = Inr a" "validate_snapshot_commit (rq_snapshot_commit rq) = Inr c"
  shows "\<exists>r. build_report a x = Inr r
     \<and> rc_state (rp_coverage r)
       = verdict (rq_results rq) (\<forall>f \<in> set (rq_findings rq). \<not> is_ok (normalize_finding E c f))
     \<and> (state_known (rc_state (rp_coverage r)) \<longleftrightarrow> (\<forall>q \<in> set (rq_results rq). usable q))
     \<and> (rc_complete (rp_coverage r) \<longleftrightarrow> state_known (rc_state (rp_coverage r)))"
proof -
  have a: "ca_version a = CANONICAL_AUDIT_VERSION" "ca_runs a = canonical_scanner_runs (rq_results rq)"
    "rq_results rq \<noteq> []" "ca_coverage a = canonical_coverage (canonical_scanner_runs (rq_results rq))"
    using assms(1) by (auto simp: canonical_audit_def document_of_def Let_def and_then_Inr split: if_splits)
  have "derive_coverage_state a = verdict (rq_results rq) (\<forall>f \<in> set (rq_findings rq). \<not> is_ok (normalize_finding E c f))"
    using derive_verdict[OF a(2-4)] no_findings_iff[OF assms] by simp
  moreover have "state_known (verdict rs cl) \<longleftrightarrow> (\<forall>q \<in> set rs. usable q)" for rs cl
    by (auto simp: verdict_def state_known_def dest: not_both)
  moreover have "cov_complete (ca_coverage a) \<longleftrightarrow> (\<forall>q \<in> set (rq_results rq). usable q)"
    using coverage_complete a(3,4) by (simp add: list_all_iff)
  ultimately show ?thesis by (simp add: build_report_def a(1) Let_def)
qed

lemma report_verdict_witness:
  "\<exists>a r. canonical_audit sample_env sample_request = Inr a \<and> build_report a \<lparr>ei_execution_id = ''e'', ei_attempt_number = 1\<rparr> = Inr r
     \<and> rc_state (rp_coverage r) = Timeout"
proof -
  obtain a where a: "canonical_audit sample_env sample_request = Inr a"
    using sample_audit by (auto simp: is_ok_iff)
  have c: "validate_snapshot_commit (rq_snapshot_commit sample_request) = Inr None"
    by (simp add: sample_request_def validate_snapshot_commit_def)
  have v: "verdict (rq_results sample_request) b = Timeout" for b
    by (simp add: verdict_def sample_request_def sample_result_def was_cancelled_def timed_out_def)
  show ?thesis using report_verdict[OF a c, of "\<lparr>ei_execution_id = ''e'', ei_attempt_number = 1\<rparr>"] a unfolding v by blast
qed

end
