(* ===== verification/Report_Render.thy ===== *)
theory Report_Render
  imports Audit_Report
begin

text \<open>
  The renderer of \<open>backend/src/services/reporter.rs\<close>: Markdown and HTML as pure functions of the
  report.  The parameter \<open>fmt\<close> prints a score with one decimal.  A string is the list of its
  UTF-8 bytes.
\<close>

definition NL :: string where "NL = [CHR 0x0A]"

definition sanitize_html_entities :: "string \<Rightarrow> string" where
  "sanitize_html_entities input =
     replace_str [CHR 0x27] ''&#x27;'' (replace_str [CHR 0x22] ''&quot;'' (replace_str ''>'' ''&gt;''
       (replace_str ''<'' ''&lt;'' (replace_str ''&'' ''&amp;'' input))))"

definition ZERO_WIDTH_SPACE :: string where "ZERO_WIDTH_SPACE = [CHR 0xE2, CHR 0x80, CHR 0x8B]"

definition FENCE :: string where "FENCE = [CHR 0x60, CHR 0x60, CHR 0x60]"

definition neutralize_code_fence :: "string \<Rightarrow> string" where
  "neutralize_code_fence input =
     replace_str FENCE ([CHR 0x60, CHR 0x60] @ ZERO_WIDTH_SPACE @ [CHR 0x60]) input"

fun confidence_source_str :: "confidence_source \<Rightarrow> string" where
  "confidence_source_str FromScanner = ''scanner''"
| "confidence_source_str ScannerDefault = ''scanner_default''"
| "confidence_source_str NoConfidence = ''absent''"

fun evidence_kind_str :: "evidence_kind \<Rightarrow> string" where
  "evidence_kind_str Secret = ''secret''"
| "evidence_kind_str Dependency = ''dependency''"
| "evidence_kind_str Source = ''source''"
| "evidence_kind_str UnknownKind = ''unknown''"

definition CORRELATION_BASIS :: string where "CORRELATION_BASIS = ''exact_canonical_identity''"

definition or_none :: "string list \<Rightarrow> string" where
  "or_none names = (if names = [] then ''(none)'' else join '', '' names)"

definition or_unknown :: "string option \<Rightarrow> string" where
  "or_unknown x = (case x of Some s \<Rightarrow> s | None \<Rightarrow> ''unknown'')"

definition status_texts :: "(string \<times> string) list \<Rightarrow> string list" where
  "status_texts m = map (\<lambda>(scanner, status). scanner @ '' ('' @ status @ '')'') m"

definition NO_SCORE :: string where
  "NO_SCORE = ''Security score: unavailable because scan coverage is incomplete. ''
     @ ''A partial scan cannot be scored; the missing value is not zero.''"

definition score_text :: "(64 word \<Rightarrow> string) \<Rightarrow> 64 word option \<Rightarrow> string" where
  "score_text fmt score =
     (case score of Some v \<Rightarrow> ''Security score: '' @ fmt v @ ''/10'' | None \<Rightarrow> NO_SCORE)"

text \<open>The findings with the numbers they are shown under.\<close>

definition numbered :: "'a list \<Rightarrow> (nat \<times> 'a) list" where
  "numbered xs = zip [1..<Suc (length xs)] xs"

section \<open>Markdown\<close>

definition item :: "string \<Rightarrow> string" where
  "item s = ''- '' @ s @ NL"

definition para :: "string \<Rightarrow> string" where
  "para s = s @ NL @ NL"

definition md_identity :: "audit_report \<Rightarrow> string" where
  "md_identity report =
     (let i = rp_identity report in
      para ''# FireCrow Security Audit Report'' @ para ''## Identity''
      @ item (''Audit ID: '' @ sanitize_html_entities (ri_audit_id i))
      @ item (''Execution ID: '' @ sanitize_html_entities (ri_execution_id i))
      @ item (''Attempt: '' @ int_str (ri_attempt_number i))
      @ item (''Repository: '' @ sanitize_html_entities (ri_repository_url i))
      @ item (''Branch: '' @ sanitize_html_entities (ri_repo_branch i))
      @ item (''Snapshot: '' @ (case ri_snapshot_commit i of Some c \<Rightarrow> c | None \<Rightarrow> ''unavailable''))
      @ item (''Files analyzed: '' @ nat_str (ri_snapshot_file_count i))
      @ item (''Snapshot size (bytes): '' @ nat_str (ri_snapshot_total_size i))
      @ item (''Coverage state: '' @ state_str (rc_state (rp_coverage report)))
      @ item (''Canonical schema version: '' @ nat_str (ri_canonical_version i))
      @ item (''Report schema version: '' @ nat_str (ri_report_version i)) @ NL)"

definition md_counts :: "(string \<Rightarrow> string) \<Rightarrow> (string \<times> nat) list \<Rightarrow> string" where
  "md_counts show_key m =
     (if m = [] then item ''(none)''
      else concat (map (\<lambda>(k, n). item (show_key k @ '': '' @ nat_str n)) m)) @ NL"

definition md_summary :: "(64 word \<Rightarrow> string) \<Rightarrow> audit_report \<Rightarrow> string" where
  "md_summary fmt report =
     (let s = rp_summary report in
      para ''## Executive Summary'' @ para (sanitize_html_entities (rm_headline s))
      @ item (''Findings: '' @ nat_str (rm_finding_count s))
      @ item (''Invalid findings: '' @ nat_str (rm_invalid_count s))
      @ item (''Duplicate groups: '' @ nat_str (rm_duplicate_groups s))
      @ item (score_text fmt (rm_security_score s)) @ NL
      @ para ''### Findings by severity'' @ md_counts id (rm_by_severity s)
      @ para ''### Findings by scanner'' @ md_counts sanitize_html_entities (rm_by_scanner s))"

definition md_coverage :: "audit_report \<Rightarrow> string" where
  "md_coverage report =
     (let c = rp_coverage report in
      para ''## Coverage'' @ item (''Status: '' @ coverage_str (rc_status c))
      @ item (''Complete: '' @ (if rc_complete c then ''yes'' else ''no''))
      @ item (''Successful scanners: '' @ or_none (rc_successful c))
      @ item (''Unsuccessful scanners: '' @ or_none (status_texts (rc_unsuccessful c))) @ NL)"

definition md_limitations :: "audit_report \<Rightarrow> string" where
  "md_limitations report =
     para ''### Limitations''
     @ (if rp_limitations report = [] then item ''(none)''
        else concat (map (\<lambda>l. item (sanitize_html_entities l)) (rp_limitations report))) @ NL"

definition md_location :: "location \<Rightarrow> string" where
  "md_location l =
     (case loc_end_line l of
        Some e \<Rightarrow>
          if e \<noteq> loc_line l
          then loc_file l @ '':'' @ int_str (loc_line l) @ [CHR 0xE2, CHR 0x80, CHR 0x93] @ int_str e
          else loc_file l @ '':'' @ int_str (loc_line l)
      | None \<Rightarrow> loc_file l @ '':'' @ int_str (loc_line l))"

definition md_optional :: "string \<Rightarrow> (string \<Rightarrow> string) \<Rightarrow> string option \<Rightarrow> string" where
  "md_optional label show_value x =
     (case x of Some v \<Rightarrow> para (''**'' @ label @ '':** '' @ show_value v) | None \<Rightarrow> [])"

definition md_references :: "reference list \<Rightarrow> string" where
  "md_references refs =
     (if refs = [] then []
      else para ''**References:**''
        @ concat (map (\<lambda>r. item (''['' @ sanitize_html_entities (ref_type r) @ ''] ''
            @ sanitize_html_entities (ref_url r))) refs) @ NL)"

definition md_evidence :: "canonical_finding \<Rightarrow> string" where
  "md_evidence f =
     ''**Evidence ('' @ evidence_kind_str (cf_evidence_kind f) @ '')**''
     @ (if cf_evidence_truncated f then '' [truncated]'' else []) @ '':'' @ NL @ FENCE @ NL
     @ neutralize_code_fence (cf_evidence f) @ NL @ FENCE @ NL @ NL"

definition md_finding :: "nat \<times> canonical_finding \<Rightarrow> string" where
  "md_finding = (\<lambda>(index, f).
     para (''### '' @ nat_str index @ ''. '' @ sanitize_html_entities (cf_title f) @ '' ['' @ severity_str (cf_severity f) @ '']'')
     @ para (sanitize_html_entities (cf_description f))
     @ para (''**Scanner:** '' @ sanitize_html_entities (ap_scanner (cf_provenance f)) @ '' (''
         @ sanitize_html_entities (ap_version (cf_provenance f)) @ '')'')
     @ para (''**Rule:** '' @ sanitize_html_entities (ap_rule_id (cf_provenance f)))
     @ para (''**Location:** '' @ [CHR 0x60] @ filter (\<lambda>c. c \<noteq> CHR 0x60) (md_location (cf_location f)) @ [CHR 0x60])
     @ md_optional ''CWE'' sanitize_html_entities (cf_cwe_id f)
     @ md_optional ''OWASP'' sanitize_html_entities (cf_owasp f)
     @ md_optional ''Confidence''
         (\<lambda>c. sanitize_html_entities c @ '' ('' @ confidence_source_str (cf_confidence_source f) @ '')'') (cf_confidence f)
     @ md_evidence f
     @ md_optional ''Suggested remediation'' sanitize_html_entities (cf_remediation f)
     @ md_references (cf_references f))"

definition md_findings :: "audit_report \<Rightarrow> string" where
  "md_findings report =
     para (''## Findings ('' @ nat_str (rm_finding_count (rp_summary report)) @ '')'')
     @ (if rp_findings report = [] then para ''No findings were reported.'' else [])
     @ concat (map md_finding (numbered (rp_findings report)))"

definition md_correlations :: "audit_report \<Rightarrow> string" where
  "md_correlations report =
     (if rp_correlations report = [] then []
      else para ''## Correlations''
        @ concat (map (\<lambda>c. item ([CHR 0x60] @ co_correlation_id c @ [CHR 0x60] @ '' ('' @ CORRELATION_BASIS @ ''): ''
            @ nat_str (co_occurrences c) @ '' occurrence(s)'')) (rp_correlations report)) @ NL)"

definition md_invalid :: "audit_report \<Rightarrow> string" where
  "md_invalid report =
     (if rp_invalid report = [] then []
      else para ''## Invalid findings''
        @ concat (map (\<lambda>i. item ([CHR 0x60] @ inv_id i @ [CHR 0x60] @ '': '' @ sanitize_html_entities (inv_reason i)
            @ '' (scanner: '' @ sanitize_html_entities (or_unknown (inv_scanner i)) @ '', file: ''
            @ sanitize_html_entities (or_unknown (inv_file i)) @ '')'')) (rp_invalid report)) @ NL)"

definition md_notices :: "audit_report \<Rightarrow> string" where
  "md_notices report =
     para ''## Notices'' @ concat (map (\<lambda>d. item (sanitize_html_entities d)) (rp_disclaimers report)) @ NL"

definition render_markdown :: "(64 word \<Rightarrow> string) \<Rightarrow> audit_report \<Rightarrow> string" where
  "render_markdown fmt report =
     md_identity report @ md_summary fmt report @ md_coverage report @ md_limitations report
     @ md_findings report @ md_correlations report @ md_invalid report @ md_notices report"

section \<open>HTML\<close>

definition tagged :: "string \<Rightarrow> string \<Rightarrow> string" where
  "tagged tag body = ''<'' @ tag @ ''>'' @ body @ ''</'' @ tag @ ''>'' @ NL"

definition labelled :: "string \<Rightarrow> string \<Rightarrow> string" where
  "labelled label value = tagged ''li'' (''<strong>'' @ label @ '':</strong> '' @ value)"

definition html_list :: "string \<Rightarrow> string \<Rightarrow> string" where
  "html_list heading items = tagged ''h2'' heading @ ''<ul>'' @ NL @ items @ ''</ul>'' @ NL"

definition html_head :: string where
  "html_head = ''<!DOCTYPE html>'' @ NL @ ''<html lang='' @ [CHR 0x22] @ ''en'' @ [CHR 0x22] @ ''>'' @ NL
     @ ''<head>'' @ NL @ ''<meta charset='' @ [CHR 0x22] @ ''utf-8'' @ [CHR 0x22] @ ''>'' @ NL
     @ tagged ''title'' ''FireCrow Security Audit Report'' @ ''</head>'' @ NL @ ''<body>'' @ NL
     @ tagged ''h1'' ''FireCrow Security Audit Report''"

definition html_identity :: "audit_report \<Rightarrow> string" where
  "html_identity report =
     (let i = rp_identity report in
      html_list ''Identity''
        (labelled ''Audit ID'' (sanitize_html_entities (ri_audit_id i))
         @ labelled ''Execution ID'' (sanitize_html_entities (ri_execution_id i))
         @ labelled ''Attempt'' (int_str (ri_attempt_number i))
         @ labelled ''Repository'' (sanitize_html_entities (ri_repository_url i))
         @ labelled ''Branch'' (sanitize_html_entities (ri_repo_branch i))
         @ labelled ''Snapshot'' (case ri_snapshot_commit i of Some c \<Rightarrow> sanitize_html_entities c | None \<Rightarrow> ''unavailable'')
         @ labelled ''Files analyzed'' (nat_str (ri_snapshot_file_count i))
         @ labelled ''Snapshot size (bytes)'' (nat_str (ri_snapshot_total_size i))
         @ labelled ''Coverage state'' (state_str (rc_state (rp_coverage report)))
         @ labelled ''Canonical schema version'' (nat_str (ri_canonical_version i))
         @ labelled ''Report schema version'' (nat_str (ri_report_version i))))"

definition html_summary :: "(64 word \<Rightarrow> string) \<Rightarrow> audit_report \<Rightarrow> string" where
  "html_summary fmt report =
     (let s = rp_summary report in
      tagged ''h2'' ''Executive Summary'' @ tagged ''p'' (sanitize_html_entities (rm_headline s)) @ ''<ul>'' @ NL
      @ tagged ''li'' (''Findings: '' @ nat_str (rm_finding_count s))
      @ tagged ''li'' (''Invalid findings: '' @ nat_str (rm_invalid_count s))
      @ tagged ''li'' (''Duplicate groups: '' @ nat_str (rm_duplicate_groups s))
      @ tagged ''li'' (score_text fmt (rm_security_score s)) @ ''</ul>'' @ NL)"

definition html_coverage :: "audit_report \<Rightarrow> string" where
  "html_coverage report =
     (let c = rp_coverage report in
      html_list ''Coverage''
        (tagged ''li'' (''Status: '' @ coverage_str (rc_status c))
         @ tagged ''li'' (''Complete: '' @ (if rc_complete c then ''yes'' else ''no''))
         @ tagged ''li'' (''Successful scanners: '' @ sanitize_html_entities (or_none (rc_successful c)))
         @ tagged ''li'' (''Unsuccessful scanners: '' @ sanitize_html_entities (or_none (status_texts (rc_unsuccessful c))))))"

definition html_limitations :: "audit_report \<Rightarrow> string" where
  "html_limitations report =
     html_list ''Limitations''
       (if rp_limitations report = [] then tagged ''li'' ''(none)''
        else concat (map (\<lambda>l. tagged ''li'' (sanitize_html_entities l)) (rp_limitations report)))"

definition html_finding :: "nat \<times> canonical_finding \<Rightarrow> string" where
  "html_finding = (\<lambda>(index, f).
     tagged ''h3'' (nat_str index @ ''. '' @ sanitize_html_entities (cf_title f) @ '' ['' @ severity_str (cf_severity f) @ '']'')
     @ tagged ''p'' (sanitize_html_entities (cf_description f))
     @ tagged ''p'' (''Scanner: '' @ sanitize_html_entities (ap_scanner (cf_provenance f)))
     @ tagged ''p'' (''Rule: '' @ sanitize_html_entities (ap_rule_id (cf_provenance f)))
     @ tagged ''p'' (''Location: <code>'' @ sanitize_html_entities (loc_file (cf_location f)) @ '':''
         @ int_str (loc_line (cf_location f)) @ ''</code>'')
     @ tagged ''pre'' (sanitize_html_entities (cf_evidence f))
     @ (case cf_remediation f of
          Some r \<Rightarrow> tagged ''p'' (''<strong>Suggested remediation:</strong> '' @ sanitize_html_entities r)
        | None \<Rightarrow> []))"

definition html_findings :: "audit_report \<Rightarrow> string" where
  "html_findings report =
     tagged ''h2'' (''Findings ('' @ nat_str (rm_finding_count (rp_summary report)) @ '')'')
     @ (if rp_findings report = [] then tagged ''p'' ''No findings were reported.'' else [])
     @ concat (map html_finding (numbered (rp_findings report)))"

definition html_notices :: "audit_report \<Rightarrow> string" where
  "html_notices report =
     html_list ''Notices'' (concat (map (\<lambda>d. tagged ''li'' (sanitize_html_entities d)) (rp_disclaimers report)))"

definition render_html :: "(64 word \<Rightarrow> string) \<Rightarrow> audit_report \<Rightarrow> string" where
  "render_html fmt report =
     html_head @ html_identity report @ html_summary fmt report @ html_coverage report
     @ html_limitations report @ html_findings report @ html_notices report
     @ ''</body>'' @ NL @ ''</html>'' @ NL"

end
