(* ===== verification/Render_Props.thy ===== *)
theory Render_Props
  imports Report_Render
begin

text \<open>
  What the renderer promises of the text it is given: escaped text carries no markup and can be
  read back, so no scanner text can change the structure of the HTML report; evidence can end
  the code fence of the Markdown report exactly when it has five backticks in a row.
\<close>

section \<open>Replacing one character\<close>

lemma replace_str_Nil [simp]: "replace_str pat rep [] = []"
  by (subst replace_str.simps) simp

lemma replace_char: "replace_str [c] rep s = concat (map (\<lambda>x. if x = c then rep else [x]) s)"
proof (induction s)
  case (Cons x s)
  then show ?case by (subst replace_str.simps) (auto simp: prefix_def)
qed simp

fun esc :: "char \<Rightarrow> string" where
  "esc c = (if c = CHR 0x26 then ''&amp;'' else if c = CHR 0x3C then ''&lt;'' else if c = CHR 0x3E then ''&gt;''
     else if c = CHR 0x22 then ''&quot;'' else if c = CHR 0x27 then ''&#x27;'' else [c])"

lemma sanitize_esc: "sanitize_html_entities s = concat (map esc s)"
  by (induction s) (simp_all add: sanitize_html_entities_def replace_char)

lemma sanitize_simps [simp]:
  "sanitize_html_entities [] = []"
  "sanitize_html_entities (c # s) = esc c @ sanitize_html_entities s"
  "sanitize_html_entities (s @ t) = sanitize_html_entities s @ sanitize_html_entities t"
  by (simp_all add: sanitize_esc)

definition plain :: "string \<Rightarrow> bool" where
  "plain s \<longleftrightarrow> CHR 0x3C \<notin> set s \<and> CHR 0x3E \<notin> set s"

lemma plain_simps [simp]:
  "plain []" "plain (c # s) \<longleftrightarrow> c \<noteq> CHR 0x3C \<and> c \<noteq> CHR 0x3E \<and> plain s" "plain (s @ t) \<longleftrightarrow> plain s \<and> plain t"
  by (auto simp: plain_def)

lemma plain_esc [simp]: "plain (esc c)"
  by (simp add: plain_def)

lemma plain_sanitize [simp]: "plain (sanitize_html_entities s)"
  by (induction s) simp_all

lemma plain_digit [simp]: "digit_char n \<noteq> CHR 0x3C" "digit_char n \<noteq> CHR 0x3E"
  if "n < 10"
  using that by (auto simp: digit_char_def dest: arg_cong[where f = "of_char :: char \<Rightarrow> nat"])

lemma plain_nat_str [simp]: "plain (nat_str n)"
  by (induction n rule: nat_str.induct) (subst nat_str.simps, simp)

lemma plain_int_str [simp]: "plain (int_str i)"
  by (simp add: int_str_def)

lemma plain_enums [simp]: "plain (state_str x)" "plain (severity_str y)" "plain (coverage_str z)"
  by (cases x; cases y; cases z; simp)+

section \<open>Escaped text can be read back\<close>

definition ENTITIES :: "(string \<times> char) list" where
  "ENTITIES = [(''amp;'', CHR 0x26), (''lt;'', CHR 0x3C), (''gt;'', CHR 0x3E), (''quot;'', CHR 0x22), (''#x27;'', CHR 0x27)]"

function unescape :: "string \<Rightarrow> string" where
  "unescape [] = []"
| "unescape (c # s) =
     (if c \<noteq> CHR 0x26 then c # unescape s
      else
        (case find (\<lambda>(e, _). prefix e s) ENTITIES of
           Some (e, x) \<Rightarrow> x # unescape (drop (length e) s)
         | None \<Rightarrow> c # unescape s))"
  by pat_completeness auto
termination
  by (relation "measure length") auto

lemma unescape_esc: "unescape (esc c @ s) = c # unescape s"
  by (simp add: ENTITIES_def)

lemma unescape_sanitize: "unescape (sanitize_html_entities s) = s"
  by (induction s) (simp_all only: sanitize_simps unescape_esc unescape.simps)

section \<open>The markup of a document\<close>

text \<open>What is left of a document when the text between its tags is removed.\<close>

fun markup :: "bool \<Rightarrow> string \<Rightarrow> string" where
  "markup b [] = []"
| "markup False (c # s) = (if c = CHR 0x3C then c # markup True s else markup False s)"
| "markup True (c # s) = c # markup (c \<noteq> CHR 0x3E) s"

lemma markup_plain: "plain s \<Longrightarrow> markup False (s @ t) = markup False t"
  by (induction s) simp_all

lemma markup_tag: "plain s \<Longrightarrow> markup True (s @ CHR 0x3E # t) = s @ CHR 0x3E # markup False t"
  by (induction s) simp_all

text \<open>A piece that ends outside of a tag, whatever follows it.\<close>

definition closed :: "string \<Rightarrow> bool" where
  "closed p \<longleftrightarrow> (\<forall>t. markup False (p @ t) = markup False p @ markup False t)"

lemma markup_closed [simp]: "closed p \<Longrightarrow> markup False (p @ t) = markup False p @ markup False t"
  by (simp add: closed_def)

lemma closed_plain [simp]: "plain s \<Longrightarrow> closed s"
  using markup_plain[of s "[]"] by (simp add: closed_def markup_plain)

lemma markup_of_plain [simp]: "plain s \<Longrightarrow> markup False s = []"
  using markup_plain[of s "[]"] by simp

lemma closed_append [simp]: "closed p \<Longrightarrow> closed q \<Longrightarrow> closed (p @ q)"
  by (simp add: closed_def)

lemma closed_concat [simp]: "(\<And>x. x \<in> set xs \<Longrightarrow> closed (f x)) \<Longrightarrow> closed (concat (map f xs))"
  by (induction xs) simp_all

lemma markup_concat: "(\<And>x. x \<in> set xs \<Longrightarrow> closed (f x)) \<Longrightarrow>
    markup False (concat (map f xs)) = concat (map (\<lambda>x. markup False (f x)) xs)"
  by (induction xs) simp_all

lemma plain_NL [simp]: "plain NL"
  by (simp add: NL_def)

lemma tagged_simps:
  assumes "plain tag" "closed body"
  shows "markup False (tagged tag body @ t)
      = ''<'' @ tag @ ''>'' @ markup False body @ ''</'' @ tag @ ''>'' @ markup False t"
proof -
  have "markup False (CHR 0x3C # CHR 0x2F # tag @ CHR 0x3E # NL @ t) = ''</'' @ tag @ ''>'' @ markup False t"
    using markup_tag[OF assms(1)] by simp
  with assms show ?thesis by (simp add: tagged_def markup_tag)
qed

lemma closed_tagged [simp]: "plain tag \<Longrightarrow> closed body \<Longrightarrow> closed (tagged tag body)"
  using tagged_simps[of tag body "[]"] by (simp add: closed_def tagged_simps)

lemma markup_tagged [simp]:
  "plain tag \<Longrightarrow> closed body \<Longrightarrow>
    markup False (tagged tag body) = ''<'' @ tag @ ''>'' @ markup False body @ ''</'' @ tag @ ''>''"
  using tagged_simps[of tag body "[]"] by simp

lemma closed_open_tag [simp]: "plain tag \<Longrightarrow> closed (CHR 0x3C # tag @ [CHR 0x3E])"
  by (simp add: closed_def markup_tag)

lemma ul_facts: "closed ''<ul>''" "closed ''</ul>''" "markup False ''<ul>'' = ''<ul>''" "markup False ''</ul>'' = ''</ul>''"
  by (simp_all add: closed_def)

lemma closed_list [simp]: "plain heading \<Longrightarrow> closed items \<Longrightarrow> closed (html_list heading items)"
  unfolding html_list_def by (intro closed_append closed_tagged ul_facts) simp_all

lemma markup_list [simp]:
  assumes "plain heading" "closed items"
  shows "markup False (html_list heading items) = ''<h2></h2><ul>'' @ markup False items @ ''</ul>''"
proof -
  have c: "closed (tagged ''h2'' heading)" "closed NL" using assms(1) by simp_all
  show ?thesis
    unfolding html_list_def markup_closed[OF c(1)] markup_closed[OF ul_facts(1)] markup_closed[OF ul_facts(2)]
      markup_closed[OF c(2)] markup_closed[OF assms(2)] ul_facts(3,4)
    using assms(1) by simp
qed

lemma labelled_facts [simp]:
  assumes "plain label" "plain value"
  shows "markup False (labelled label value) = ''<li><strong></strong></li>'' \<and> closed (labelled label value)"
proof -
  have b: "closed (''<strong>'' @ label @ '':</strong> '' @ value)"
    "markup False (''<strong>'' @ label @ '':</strong> '' @ value) = ''<strong></strong>''"
    using assms by (simp_all add: closed_def markup_plain)
  have "plain ''li''" by simp
  then show ?thesis
    unfolding labelled_def using closed_tagged[OF _ b(1)] markup_tagged[OF _ b(1)] b(2) by simp
qed

section \<open>Scanner text cannot change the HTML document\<close>

text \<open>A report without its texts: the numbers, the states and which parts there are.\<close>

definition blank_finding :: "canonical_finding \<Rightarrow> canonical_finding" where
  "blank_finding f = f\<lparr>cf_title := [], cf_description := [],
     cf_provenance := (cf_provenance f)\<lparr>ap_scanner := [], ap_rule_id := []\<rparr>,
     cf_location := (cf_location f)\<lparr>loc_file := []\<rparr>, cf_evidence := [],
     cf_remediation := map_option (\<lambda>_. []) (cf_remediation f)\<rparr>"

definition blank_report :: "audit_report \<Rightarrow> audit_report" where
  "blank_report r = r\<lparr>
     rp_identity := (rp_identity r)\<lparr>ri_audit_id := [], ri_execution_id := [], ri_repository_url := [],
       ri_repo_branch := [], ri_snapshot_commit := None\<rparr>,
     rp_coverage := (rp_coverage r)\<lparr>rc_successful := [], rc_unsuccessful := []\<rparr>,
     rp_summary := (rp_summary r)\<lparr>rm_headline := []\<rparr>,
     rp_findings := map blank_finding (rp_findings r),
     rp_limitations := map (\<lambda>_. []) (rp_limitations r),
     rp_disclaimers := map (\<lambda>_. []) (rp_disclaimers r)\<rparr>"

lemma blank_finding_simps [simp]:
  "cf_title (blank_finding f) = []" "cf_description (blank_finding f) = []" "cf_evidence (blank_finding f) = []"
  "ap_scanner (cf_provenance (blank_finding f)) = []" "ap_rule_id (cf_provenance (blank_finding f)) = []"
  "loc_file (cf_location (blank_finding f)) = []" "loc_line (cf_location (blank_finding f)) = loc_line (cf_location f)"
  "cf_remediation (blank_finding f) = map_option (\<lambda>_. []) (cf_remediation f)"
  "cf_severity (blank_finding f) = cf_severity f"
  by (simp_all add: blank_finding_def)

lemma numbered_Nil [simp]: "numbered [] = []"
  by (simp add: numbered_def)

lemma numbered_map: "numbered (map f xs) = map (\<lambda>(i, x). (i, f x)) (numbered xs)"
  by (simp add: numbered_def zip_map2)

definition finding_markup :: "bool \<Rightarrow> string" where
  "finding_markup advised =
     ''<h3></h3><p></p><p></p><p></p><p><code></code></p><pre></pre>''
     @ (if advised then ''<p><strong></strong></p>'' else [])"

lemma html_finding_facts:
  "closed (html_finding (i, f)) \<and> markup False (html_finding (i, f)) = finding_markup (cf_remediation f \<noteq> None)"
proof -
  have c: "closed (''Location: <code>'' @ sanitize_html_entities a @ '':'' @ int_str n @ ''</code>'')"
    "markup False (''Location: <code>'' @ sanitize_html_entities a @ '':'' @ int_str n @ ''</code>'') = ''<code></code>''"
    "closed (''<strong>Suggested remediation:</strong> '' @ sanitize_html_entities a)"
    "markup False (''<strong>Suggested remediation:</strong> '' @ sanitize_html_entities a) = ''<strong></strong>''"
    for a n by (simp_all add: closed_def markup_plain)
  have r: "closed (case x of Some r \<Rightarrow> tagged ''p'' (''<strong>Suggested remediation:</strong> '' @ sanitize_html_entities r) | None \<Rightarrow> [])"
    "markup False (case x of Some r \<Rightarrow> tagged ''p'' (''<strong>Suggested remediation:</strong> '' @ sanitize_html_entities r) | None \<Rightarrow> [])
      = (if x \<noteq> None then ''<p><strong></strong></p>'' else [])" for x
    using closed_tagged[OF _ c(3)] markup_tagged[OF _ c(3)] c(4) by (simp_all split: option.split)
  note p = closed_tagged[of "''p''", OF _ c(1)] markup_tagged[of "''p''", OF _ c(1)]
  show ?thesis
    unfolding html_finding_def finding_markup_def prod.case
    using p r(1) by (intro conjI closed_append) (simp_all only: markup_closed closed_append, simp_all add: c(2) r(2))
qed

lemma closed_head [simp]: "closed html_head"
  by (simp add: closed_def html_head_def tagged_def NL_def)

lemma labelled_closed [simp]:
  "plain label \<Longrightarrow> plain value \<Longrightarrow> closed (labelled label value)"
  "plain label \<Longrightarrow> plain value \<Longrightarrow> markup False (labelled label value) = ''<li><strong></strong></li>''"
  using labelled_facts by simp_all

lemma plain_snapshot [simp]:
  "plain (case c of Some x \<Rightarrow> sanitize_html_entities x | None \<Rightarrow> ''unavailable'')"
  by (simp split: option.split)

lemma identity_facts:
  "closed (html_identity r) \<and> markup False (html_identity r)
     = ''<h2></h2><ul>'' @ concat (replicate 11 ''<li><strong></strong></li>'') @ ''</ul>''"
  by (simp add: html_identity_def Let_def numeral_eq_Suc)

lemma plain_score: "(\<And>x. plain (fmt x)) \<Longrightarrow> plain (score_text fmt s)"
  by (simp add: score_text_def NO_SCORE_def split: option.split)

lemma summary_facts:
  assumes "\<And>x. plain (fmt x)"
  shows "closed (html_summary fmt r) \<and> markup False (html_summary fmt r)
     = ''<h2></h2><p></p><ul>'' @ concat (replicate 4 ''<li></li>'') @ ''</ul>''"
proof -
  note u = ul_facts(1,2) markup_closed[OF ul_facts(1)] markup_closed[OF ul_facts(2)] ul_facts(3,4)
  have "closed (html_summary fmt r)"
    unfolding html_summary_def Let_def
    by (intro closed_append closed_tagged u(1,2) closed_plain plain_score assms) simp_all
  moreover have "markup False (html_summary fmt r)
     = ''<h2></h2><p></p><ul>'' @ concat (replicate 4 ''<li></li>'') @ ''</ul>''"
    unfolding html_summary_def Let_def u by (simp add: plain_score assms numeral_eq_Suc u)
  ultimately show ?thesis by blast
qed

lemma coverage_facts:
  "closed (html_coverage r) \<and> markup False (html_coverage r)
     = ''<h2></h2><ul>'' @ concat (replicate 4 ''<li></li>'') @ ''</ul>''"
  by (simp add: html_coverage_def Let_def numeral_eq_Suc)

lemma limitations_facts:
  "closed (html_limitations r) \<and> markup False (html_limitations r)
     = ''<h2></h2><ul>'' @ concat (replicate (max 1 (length (rp_limitations r))) ''<li></li>'') @ ''</ul>''"
proof -
  have "concat (map (\<lambda>x. ''<li></li>'') ls) = concat (replicate (length ls) ''<li></li>'')" for ls :: "string list"
    by (simp add: map_replicate_const)
  then show ?thesis
    by (cases "rp_limitations r") (simp_all add: html_limitations_def markup_concat)
qed

lemma notices_facts:
  "closed (html_notices r) \<and> markup False (html_notices r)
     = ''<h2></h2><ul>'' @ concat (replicate (length (rp_disclaimers r)) ''<li></li>'') @ ''</ul>''"
  by (simp add: html_notices_def markup_concat map_replicate_const)

lemma findings_facts:
  "closed (html_findings r) \<and> markup False (html_findings r)
     = ''<h2></h2>'' @ (if rp_findings r = [] then ''<p></p>'' else [])
       @ concat (map (\<lambda>f. finding_markup (cf_remediation f \<noteq> None)) (rp_findings r))"
proof -
  have c: "closed (html_finding x)" for x using html_finding_facts[of "fst x" "snd x"] by simp
  have m: "markup False (html_finding x) = finding_markup (cf_remediation (snd x) \<noteq> None)" for x
    using html_finding_facts[of "fst x" "snd x"] by simp
  have "map (\<lambda>x. finding_markup (cf_remediation (snd x) \<noteq> None)) (numbered fs)
      = map (\<lambda>f. finding_markup (cf_remediation f \<noteq> None)) fs" for fs
  proof -
    have "map snd (numbered fs) = fs" by (simp add: numbered_def del: upt_Suc)
    then show ?thesis by (metis (no_types, lifting) map_eq_conv map_map comp_apply)
  qed
  then have n: "concat (map (\<lambda>x. finding_markup (cf_remediation (snd x) \<noteq> None)) (numbered (rp_findings r)))
      = concat (map (\<lambda>f. finding_markup (cf_remediation f \<noteq> None)) (rp_findings r))"
    by (rule arg_cong[where f = concat])
  show ?thesis using n by (simp add: html_findings_def c m markup_concat)
qed

text \<open>C28. No text of a report can change the structure of its HTML page: emptying the identity, the
  headline, the scanner names, the limitations and every title, description, rule, path, piece of
  evidence and remediation leaves every tag of the page as it is.\<close>

theorem html_structure:
  assumes "\<And>x. CHR 0x3C \<notin> set (fmt x) \<and> CHR 0x3E \<notin> set (fmt x)"
  shows "markup False (render_html fmt r) = markup False (render_html fmt (blank_report r))"
proof -
  have p: "\<And>x. plain (fmt x)" using assms by (simp add: plain_def)
  have parts: "markup False (render_html fmt r) = markup False html_head @ markup False (html_identity r)
      @ markup False (html_summary fmt r) @ markup False (html_coverage r) @ markup False (html_limitations r)
      @ markup False (html_findings r) @ markup False (html_notices r)
      @ markup False (''</body>'' @ NL @ ''</html>'' @ NL)" for r
    using identity_facts summary_facts[OF p] coverage_facts limitations_facts findings_facts notices_facts
    unfolding render_html_def by (simp only: markup_closed closed_head)
  show ?thesis
    unfolding parts using identity_facts summary_facts[OF p] coverage_facts limitations_facts findings_facts notices_facts
    by (simp add: blank_report_def comp_def)
qed

lemma html_structure_witness:
  "CHR 0x3C \<notin> set ''9.0'' \<and> (\<forall>r. markup False (render_html (\<lambda>_. ''9.0'') r)
     = markup False (render_html (\<lambda>_. ''9.0'') (blank_report r)))"
  using html_structure[of "\<lambda>_. ''9.0''"] by simp

section \<open>Code fences\<close>

lemma contains_Cons: "contains_str (x # s) p \<longleftrightarrow> prefix p (x # s) \<or> contains_str s p" if "p \<noteq> []"
  using that by (auto simp: contains_str_def sublist_Cons_right)

abbreviation tick_char :: char where "tick_char \<equiv> CHR 0x60"

lemma neutralize_simps:
  "neutralize_code_fence [] = []"
  "neutralize_code_fence (tick_char # tick_char # tick_char # s)
     = tick_char # tick_char # ZERO_WIDTH_SPACE @ tick_char # neutralize_code_fence s"
  "\<not> prefix FENCE (c # s) \<Longrightarrow> neutralize_code_fence (c # s) = c # neutralize_code_fence s"
  unfolding neutralize_code_fence_def
    apply simp
   apply (subst replace_str.simps, simp add: FENCE_def)
  apply (subst replace_str.simps, auto simp: FENCE_def)
  done

text \<open>Neutralising keeps up to two leading backticks.\<close>

lemma neutralize_lead:
  "prefix [tick_char] (neutralize_code_fence s) \<longleftrightarrow> prefix [tick_char] s"
  "prefix [tick_char, tick_char] (neutralize_code_fence s) \<longleftrightarrow> prefix [tick_char, tick_char] s"
proof -
  have fence: "prefix FENCE s \<longleftrightarrow> (\<exists>t. s = tick_char # tick_char # tick_char # t)" for s
    by (auto simp: FENCE_def prefix_def)
  have one: "prefix [tick_char] (neutralize_code_fence s) \<longleftrightarrow> prefix [tick_char] s" for s
  proof (cases s)
    case (Cons c t)
    then show ?thesis
      by (cases "prefix FENCE s") (auto simp: fence neutralize_simps)
  qed (simp add: neutralize_simps)
  then show "prefix [tick_char] (neutralize_code_fence s) \<longleftrightarrow> prefix [tick_char] s" .
  show "prefix [tick_char, tick_char] (neutralize_code_fence s) \<longleftrightarrow> prefix [tick_char, tick_char] s"
  proof (cases s)
    case (Cons c t)
    then show ?thesis
      using one[of t] by (cases "prefix FENCE s") (auto simp: fence neutralize_simps)
  qed (simp add: neutralize_simps)
qed

text \<open>C10. Evidence can end the code fence it is shown in exactly when it has five backticks in a row: the
  neutralised text contains a fence exactly then.\<close>

theorem fence_survives_iff:
  "contains_str (neutralize_code_fence s) FENCE \<longleftrightarrow> contains_str s (replicate 5 tick_char)"
proof (induction s rule: length_induct)
  case (1 s)
  note lead = neutralize_lead(2) and five = FENCE_def numeral_eq_Suc contains_Cons
  show ?case
  proof (cases s)
    case Nil
    then show ?thesis by (simp add: neutralize_simps contains_str_def FENCE_def)
  next
    case (Cons c t)
    show ?thesis
    proof (cases "prefix FENCE s")
      case True
      then obtain u where u: "s = tick_char # tick_char # tick_char # u" by (auto simp: FENCE_def prefix_def)
      with 1 have "contains_str (neutralize_code_fence u) FENCE \<longleftrightarrow> contains_str u (replicate 5 tick_char)" by simp
      then show ?thesis
        using lead[of u] unfolding u neutralize_simps
        by (auto simp: five ZERO_WIDTH_SPACE_def prefix_def)
    next
      case False
      with 1 Cons have "contains_str (neutralize_code_fence t) FENCE \<longleftrightarrow> contains_str t (replicate 5 tick_char)" by simp
      moreover have "\<not> prefix FENCE (c # neutralize_code_fence t)"
        using False lead[of t] unfolding Cons by (auto simp: FENCE_def)
      moreover have "\<not> prefix (replicate 5 tick_char) s"
        using False by (auto simp: FENCE_def numeral_eq_Suc prefix_def)
      ultimately show ?thesis
        using False unfolding Cons by (auto simp: neutralize_simps contains_Cons FENCE_def numeral_eq_Suc)
    qed
  qed
qed

end
