(* ===== verification/Audit_Store.thy ===== *)
theory Audit_Store
  imports App_Error Canonical_Schema Lifecycle
begin

text \<open>
  The relational store behind the orchestrator: the tables of
  \<open>backend/migrations\<close> as lists of rows, the constraints and triggers that guard them, and the
  statements the Rust code sends.  A statement is a function that either raises an error and
  changes nothing or returns the new store; a transaction is one such function over several
  statements.  Column widths, foreign keys to \<open>users\<close> and the deletion of rows by other
  parts of the system are not modelled.
\<close>

section \<open>Rows\<close>

type_synonym time = int

record job_row =
  jb_id :: string
  jb_user :: string
  jb_tenant :: "string option"
  jb_repo_url :: string
  jb_branch :: string
  jb_requested_sha :: "string option"
  jb_delivery :: "string option"
  jb_installation :: "int option"
  jb_status :: string
  jb_cancel :: bool
  jb_cancel_at :: "time option"
  jb_created :: time
  jb_started :: "time option"
  jb_finished :: "time option"
  jb_commit :: "string option"
  jb_score :: "64 word option"
  jb_error :: "string option"

record exec_row =
  ex_id :: string
  ex_job :: string
  ex_attempt :: int
  ex_status :: string
  ex_commit :: "string option"
  ex_started :: time
  ex_finished :: "time option"
  ex_failure :: "string option"
  ex_owner :: "string option"
  ex_heartbeat :: "time option"
  ex_canonical :: "json option"

record finding_row =
  fw_job :: string
  fw_exec :: "string option"
  fw_finding :: audit_finding
  fw_created :: time

record run_row =
  rn_exec :: string
  rn_scanner :: string
  rn_version :: string
  rn_parser :: string
  rn_mode :: string
  rn_image :: string
  rn_status :: string
  rn_count :: "int option"
  rn_known :: bool
  rn_detail :: "string option"
  rn_limitations :: "string list"

record report_row =
  rw_job :: string
  rw_exec :: string
  rw_markdown :: "string option"
  rw_html :: "string option"
  rw_json :: "json option"
  rw_version :: int
  rw_canonical_version :: "int option"

record narrative_row =
  nv_exec :: string
  nv_json :: json
  nv_version :: int

record phase_row =
  ph_job :: string
  ph_exec :: "string option"
  ph_name :: string
  ph_status :: string
  ph_mode :: string
  ph_started :: time
  ph_ended :: "time option"
  ph_error :: "string option"

record store =
  st_jobs :: "job_row list"
  st_execs :: "exec_row list"
  st_findings :: "finding_row list"
  st_runs :: "run_row list"
  st_reports :: "report_row list"
  st_narratives :: "narrative_row list"
  st_phases :: "phase_row list"

abbreviation fw_id :: "finding_row \<Rightarrow> string" where
  "fw_id r \<equiv> fd_id (fw_finding r)"

section \<open>Constraints and triggers\<close>

datatype sql_error =
    UniqueViolation | RestrictViolation | CheckViolation | ForeignKeyViolation | InvalidText | RowNotFound | Unreachable

definition EXECUTION_STATUSES :: "string list" where
  "EXECUTION_STATUSES =
     [''running'', ''completed'', ''partial'', ''failed'', ''cancelled'', ''engine_unavailable'']"

definition JOB_STATUSES :: "string list" where
  "JOB_STATUSES = ''queued'' # EXECUTION_STATUSES"

text \<open>The trigger \<open>audit_jobs_lifecycle_guard\<close>: which status a job may be moved to.\<close>

definition audit_jobs_lifecycle_guard :: "string \<Rightarrow> string \<Rightarrow> bool" where
  "audit_jobs_lifecycle_guard old new \<longleftrightarrow>
     (if new = old then True
      else if old = ''completed'' then False
      else if old = ''queued'' then new \<in> {''running'', ''failed'', ''cancelled''}
      else if old = ''running'' then
        new \<in> {''completed'', ''partial'', ''failed'', ''cancelled'', ''engine_unavailable'', ''queued''}
      else if old \<in> {''failed'', ''cancelled'', ''partial'', ''engine_unavailable''} then new = ''queued''
      else False)"

text \<open>The triggers \<open>audit_executions_freeze\<close> and \<open>audit_executions_freeze_snapshot\<close>: a finished
  execution is never updated, and a bound snapshot never rebound.\<close>

definition audit_executions_freeze :: "exec_row \<Rightarrow> exec_row \<Rightarrow> bool" where
  "audit_executions_freeze old new \<longleftrightarrow>
     ex_status old = ''running'' \<and> (ex_commit old \<noteq> None \<longrightarrow> ex_commit new = ex_commit old)"

definition exec_status :: "store \<Rightarrow> string \<Rightarrow> string option" where
  "exec_status s e = map_option ex_status (find (\<lambda>x. ex_id x = e) (st_execs s))"

definition live_or_absent :: "store \<Rightarrow> string \<Rightarrow> bool" where
  "live_or_absent s e \<longleftrightarrow> (case exec_status s e of None \<Rightarrow> True | Some st \<Rightarrow> st = ''running'')"

definition job_finished :: "store \<Rightarrow> string \<Rightarrow> bool" where
  "job_finished s j \<longleftrightarrow>
     (case find (\<lambda>x. jb_id x = j) (st_jobs s) of None \<Rightarrow> False
      | Some x \<Rightarrow> jb_status x \<in> {''completed'', ''partial'', ''failed'', ''cancelled'', ''engine_unavailable''})"

text \<open>The trigger \<open>findings_require_live_parent\<close> on inserts.\<close>

definition findings_require_live_parent :: "store \<Rightarrow> finding_row \<Rightarrow> bool" where
  "findings_require_live_parent s new \<longleftrightarrow>
     (case fw_exec new of Some e \<Rightarrow> live_or_absent s e | None \<Rightarrow> \<not> job_finished s (fw_job new))"

text \<open>The trigger \<open>findings_freeze_when_execution_terminal\<close> on updates and on deletes.\<close>

definition findings_freeze_update :: "store \<Rightarrow> finding_row \<Rightarrow> finding_row \<Rightarrow> bool" where
  "findings_freeze_update s old new \<longleftrightarrow>
     (case fw_exec old of
        None \<Rightarrow> fw_exec new = None \<longrightarrow> \<not> job_finished s (fw_job old)
      | Some e \<Rightarrow> fw_exec new = Some e \<longrightarrow> live_or_absent s e)"

definition findings_freeze_delete :: "store \<Rightarrow> finding_row \<Rightarrow> bool" where
  "findings_freeze_delete s old \<longleftrightarrow>
     (case fw_exec old of None \<Rightarrow> \<not> job_finished s (fw_job old) | Some e \<Rightarrow> live_or_absent s e)"

section \<open>Statements on one table\<close>

text \<open>An update either changes every row it selects, and counts them, or raises and changes none.\<close>

definition update_jobs :: "(job_row \<Rightarrow> bool) \<Rightarrow> (job_row \<Rightarrow> job_row) \<Rightarrow> store \<Rightarrow> sql_error + store \<times> nat" where
  "update_jobs P f s =
     (let rows = filter P (st_jobs s) in
      if list_ex (\<lambda>j. \<not> audit_jobs_lifecycle_guard (jb_status j) (jb_status (f j))) rows then Inl RestrictViolation
      else if list_ex (\<lambda>j. jb_status (f j) \<notin> set JOB_STATUSES) rows then Inl CheckViolation
      else Inr (s\<lparr>st_jobs := map (\<lambda>j. if P j then f j else j) (st_jobs s)\<rparr>, length rows))"

definition update_execs :: "(exec_row \<Rightarrow> bool) \<Rightarrow> (exec_row \<Rightarrow> exec_row) \<Rightarrow> store \<Rightarrow> sql_error + store \<times> nat" where
  "update_execs P f s =
     (let rows = filter P (st_execs s) in
      if list_ex (\<lambda>e. \<not> audit_executions_freeze e (f e)) rows then Inl RestrictViolation
      else if list_ex (\<lambda>e. ex_status (f e) \<notin> set EXECUTION_STATUSES) rows then Inl CheckViolation
      else Inr (s\<lparr>st_execs := map (\<lambda>e. if P e then f e else e) (st_execs s)\<rparr>, length rows))"

definition insert_exec :: "exec_row \<Rightarrow> store \<Rightarrow> sql_error + store" where
  "insert_exec e s =
     (if list_ex (\<lambda>x. ex_id x = ex_id e
          \<or> ex_job x = ex_job e \<and> ex_attempt x = ex_attempt e
          \<or> ex_job x = ex_job e \<and> ex_status x = ''running'' \<and> ex_status e = ''running'') (st_execs s)
      then Inl UniqueViolation
      else if ex_status e \<notin> set EXECUTION_STATUSES \<or> ex_attempt e < 1 then Inl CheckViolation
      else if ex_job e \<notin> jb_id ` set (st_jobs s) then Inl ForeignKeyViolation
      else Inr (s\<lparr>st_execs := st_execs s @ [e]\<rparr>))"

text \<open>The foreign keys of a row that names a job and possibly an execution.\<close>

definition parents_exist :: "store \<Rightarrow> string \<Rightarrow> string option \<Rightarrow> bool" where
  "parents_exist s j e \<longleftrightarrow> j \<in> jb_id ` set (st_jobs s)
     \<and> (case e of None \<Rightarrow> True | Some x \<Rightarrow> x \<in> ex_id ` set (st_execs s))"

text \<open>\<open>ON CONFLICT (id) DO UPDATE\<close>: an existing finding keeps its job and the columns that are
  not listed.\<close>

definition adopt_finding :: "finding_row \<Rightarrow> finding_row \<Rightarrow> finding_row" where
  "adopt_finding new old = old\<lparr>fw_exec := fw_exec new,
     fw_finding := (fw_finding old)\<lparr>fd_title := fd_title (fw_finding new),
       fd_description := fd_description (fw_finding new), fd_severity := fd_severity (fw_finding new),
       fd_evidence := fd_evidence (fw_finding new), fd_metadata_json := fd_metadata_json (fw_finding new)\<rparr>\<rparr>"

definition upsert_finding :: "finding_row \<Rightarrow> store \<Rightarrow> sql_error + store" where
  "upsert_finding new s =
     (if \<not> findings_require_live_parent s new then Inl RestrictViolation
      else if \<not> parents_exist s (fw_job new) (fw_exec new) then Inl ForeignKeyViolation
      else
        (case find (\<lambda>r. fw_id r = fw_id new) (st_findings s) of
           None \<Rightarrow> Inr (s\<lparr>st_findings := st_findings s @ [new]\<rparr>)
         | Some old \<Rightarrow>
             if findings_freeze_update s old (adopt_finding new old)
             then Inr (s\<lparr>st_findings :=
               map (\<lambda>r. if fw_id r = fw_id new then adopt_finding new r else r) (st_findings s)\<rparr>)
             else Inl RestrictViolation))"

definition delete_findings :: "(finding_row \<Rightarrow> bool) \<Rightarrow> store \<Rightarrow> sql_error + store" where
  "delete_findings P s =
     (if list_ex (\<lambda>r. P r \<and> \<not> findings_freeze_delete s r) (st_findings s) then Inl RestrictViolation
      else Inr (s\<lparr>st_findings := filter (\<lambda>r. \<not> P r) (st_findings s)\<rparr>))"

text \<open>\<open>ON CONFLICT (execution_id, scanner) DO UPDATE\<close>: the version, parser, mode and image of an
  existing scanner row are kept.\<close>

definition adopt_run :: "run_row \<Rightarrow> run_row \<Rightarrow> run_row" where
  "adopt_run new old = old\<lparr>rn_status := rn_status new, rn_count := rn_count new, rn_known := rn_known new,
     rn_detail := rn_detail new, rn_limitations := rn_limitations new\<rparr>"

definition same_run :: "run_row \<Rightarrow> run_row \<Rightarrow> bool" where
  "same_run r q \<longleftrightarrow> rn_exec r = rn_exec q \<and> rn_scanner r = rn_scanner q"

definition upsert_run :: "run_row \<Rightarrow> store \<Rightarrow> sql_error + store" where
  "upsert_run new s =
     (if rn_exec new \<notin> ex_id ` set (st_execs s) then Inl ForeignKeyViolation
      else if list_ex (same_run new) (st_runs s)
      then Inr (s\<lparr>st_runs := map (\<lambda>r. if same_run new r then adopt_run new r else r) (st_runs s)\<rparr>)
      else Inr (s\<lparr>st_runs := st_runs s @ [new]\<rparr>))"

text \<open>The triggers \<open>audit_reports_require_live_execution\<close> and
  \<open>audit_reports_freeze_when_execution_terminal\<close> ask the same of an upsert: the execution is running.\<close>

definition adopt_report :: "report_row \<Rightarrow> report_row \<Rightarrow> report_row" where
  "adopt_report new old = old\<lparr>rw_markdown := rw_markdown new, rw_html := rw_html new, rw_json := rw_json new,
     rw_version := rw_version new, rw_canonical_version := rw_canonical_version new\<rparr>"

definition upsert_report :: "report_row \<Rightarrow> store \<Rightarrow> sql_error + store" where
  "upsert_report new s =
     (if \<not> live_or_absent s (rw_exec new) then Inl RestrictViolation
      else if \<not> parents_exist s (rw_job new) (Some (rw_exec new)) then Inl ForeignKeyViolation
      else if list_ex (\<lambda>r. rw_exec r = rw_exec new) (st_reports s)
      then Inr (s\<lparr>st_reports := map (\<lambda>r. if rw_exec r = rw_exec new then adopt_report new r else r) (st_reports s)\<rparr>)
      else Inr (s\<lparr>st_reports := st_reports s @ [new]\<rparr>))"

text \<open>The trigger \<open>ai_narratives_require_finalized_report\<close> and the unique index.\<close>

definition insert_narrative :: "narrative_row \<Rightarrow> store \<Rightarrow> sql_error + store" where
  "insert_narrative new s =
     (case exec_status s (nv_exec new) of
        None \<Rightarrow> Inl ForeignKeyViolation
      | Some status \<Rightarrow>
          if status = ''running'' \<or> \<not> list_ex (\<lambda>r. rw_exec r = nv_exec new) (st_reports s) then Inl RestrictViolation
          else if list_ex (\<lambda>n. nv_exec n = nv_exec new) (st_narratives s) then Inl UniqueViolation
          else Inr (s\<lparr>st_narratives := st_narratives s @ [new]\<rparr>))"

section \<open>Programs over the store\<close>

text \<open>
  The database answers a statement at some time, or cannot be reached; the driver prints its
  errors.  A program sends one statement at a time and goes on with the answer, so other
  programs may run between two of its statements.
\<close>

record tick =
  tk_now :: time
  tk_up :: bool
  tk_show :: "sql_error \<Rightarrow> string"

datatype 'a proc = Ret 'a | Step "tick \<Rightarrow> store \<Rightarrow> store \<times> 'a proc"

primrec bind :: "'a proc \<Rightarrow> ('a \<Rightarrow> 'b proc) \<Rightarrow> 'b proc" where
  "bind (Ret a) k = k a"
| "bind (Step f) k = Step (\<lambda>t s. map_prod id (\<lambda>p. bind p k) (f t s))"

type_synonym 'a reply = "sql_error \<times> string + 'a"

text \<open>One statement, with its error left to the caller.\<close>

definition query :: "(tick \<Rightarrow> store \<Rightarrow> sql_error + store \<times> 'a) \<Rightarrow> ('a reply \<Rightarrow> 'b proc) \<Rightarrow> 'b proc" where
  "query f k = Step (\<lambda>t s.
     case (if tk_up t then f t s else Inl Unreachable) of
       Inl e \<Rightarrow> (s, k (Inl (e, tk_show t e)))
     | Inr (s', a) \<Rightarrow> (s', k (Inr a)))"

text \<open>\<open>map_err(AppError::Database)?\<close>: the error ends the program.\<close>

definition must ::
  "(tick \<Rightarrow> store \<Rightarrow> sql_error + store \<times> 'a) \<Rightarrow> ('a \<Rightarrow> (app_error + 'b) proc) \<Rightarrow> (app_error + 'b) proc" where
  "must f k = query f (\<lambda>r. case r of Inl (_, m) \<Rightarrow> Ret (Inl (Database m)) | Inr a \<Rightarrow> k a)"

definition reads :: "(store \<Rightarrow> 'a) \<Rightarrow> tick \<Rightarrow> store \<Rightarrow> sql_error + store \<times> 'a" where
  "reads g t s = Inr (s, g s)"

text \<open>A transaction: its statements take effect together, or not at all.\<close>

definition transact ::
  "(tick \<Rightarrow> store \<Rightarrow> app_error + store \<times> 'a) \<Rightarrow> (app_error + 'a \<Rightarrow> 'b proc) \<Rightarrow> 'b proc" where
  "transact f k = Step (\<lambda>t s.
     case (if tk_up t then f t s else Inl (Database (tk_show t Unreachable))) of
       Inl e \<Rightarrow> (s, k (Inl e))
     | Inr (s', a) \<Rightarrow> (s', k (Inr a)))"

definition sql :: "tick \<Rightarrow> sql_error + 'a \<Rightarrow> app_error + 'a" where
  "sql t r = (case r of Inl e \<Rightarrow> Inl (Database (tk_show t e)) | Inr a \<Rightarrow> Inr a)"

text \<open>A program run without interference, one tick for each of its statements.\<close>

fun run_proc :: "tick list \<Rightarrow> store \<Rightarrow> 'a proc \<Rightarrow> (store \<times> 'a) option" where
  "run_proc ts s (Ret a) = Some (s, a)"
| "run_proc [] s (Step f) = None"
| "run_proc (t # ts) s (Step f) = run_proc ts (fst (f t s)) (snd (f t s))"

end
