(* ===== verification/Execution.thy ===== *)
theory Execution
  imports Audit_Store Canonical_Audit
begin

text \<open>
  The durable execution identity of \<open>backend/src/orchestrator/execution.rs\<close>: opening an attempt
  under a lease, the liveness operations, the reaper, the single commit that ends an execution,
  and the read paths.  A program parameter \<open>uuid\<close> stands for \<open>generate_uuid\<close>.
\<close>

record execution_lease =
  le_execution :: string
  le_job :: string
  le_attempt :: int
  le_owner :: string

section \<open>Opening an execution\<close>

definition running_of :: "string \<Rightarrow> store \<Rightarrow> exec_row option" where
  "running_of job s = find (\<lambda>e. ex_job e = job \<and> ex_status e = ''running'') (st_execs s)"

definition job_status_of :: "string \<Rightarrow> store \<Rightarrow> string option" where
  "job_status_of job s = map_option jb_status (find (\<lambda>j. jb_id j = job) (st_jobs s))"

definition next_attempt :: "string \<Rightarrow> store \<Rightarrow> int" where
  "next_attempt job s = foldr (\<lambda>e m. if ex_job e = job then max (ex_attempt e) m else m) (st_execs s) 0 + 1"

definition new_execution :: "string \<Rightarrow> string \<Rightarrow> int \<Rightarrow> string \<Rightarrow> time \<Rightarrow> exec_row" where
  "new_execution eid job attempt owner now =
     \<lparr>ex_id = eid, ex_job = job, ex_attempt = attempt, ex_status = ''running'', ex_commit = None,
      ex_started = now, ex_finished = None, ex_failure = None, ex_owner = Some owner,
      ex_heartbeat = Some now, ex_canonical = None\<rparr>"

definition insert_attempt :: "string \<Rightarrow> string \<Rightarrow> int \<Rightarrow> string \<Rightarrow> tick \<Rightarrow> store \<Rightarrow> sql_error + store \<times> unit" where
  "insert_attempt eid job attempt owner t s =
     map_sum id (\<lambda>s'. (s', ())) (insert_exec (new_execution eid job attempt owner (tk_now t)) s)"

definition MAX_OPEN_TRIES :: nat where "MAX_OPEN_TRIES = 5"

fun open_attempt :: "(nat \<Rightarrow> string) \<Rightarrow> string \<Rightarrow> nat \<Rightarrow> (app_error + execution_lease) proc" where
  "open_attempt uuid job 0 =
     Ret (Inl (Internal (''could not open an execution for job '' @ job @ '' after repeated conflicts'')))"
| "open_attempt uuid job (Suc n) =
     must (reads (next_attempt job)) (\<lambda>attempt.
       query (insert_attempt (uuid (MAX_OPEN_TRIES - n)) job attempt (uuid 0)) (\<lambda>r.
         case r of
           Inr _ \<Rightarrow> Ret (Inr \<lparr>le_execution = uuid (MAX_OPEN_TRIES - n), le_job = job, le_attempt = attempt,
                           le_owner = uuid 0\<rparr>)
         | Inl (UniqueViolation, _) \<Rightarrow> open_attempt uuid job n
         | Inl (_, m) \<Rightarrow> Ret (Inl (Database m))))"

definition requeue :: "string \<Rightarrow> tick \<Rightarrow> store \<Rightarrow> sql_error + store \<times> nat" where
  "requeue job t = update_jobs (\<lambda>j. jb_id j = job) (\<lambda>j. j\<lparr>jb_status := ''queued''\<rparr>)"

definition launch :: "string \<Rightarrow> tick \<Rightarrow> store \<Rightarrow> sql_error + store \<times> nat" where
  "launch job t = update_jobs (\<lambda>j. jb_id j = job \<and> jb_status j = ''queued'')
     (\<lambda>j. j\<lparr>jb_status := ''running'',
             jb_started := Some (case jb_started j of None \<Rightarrow> tk_now t | Some x \<Rightarrow> x)\<rparr>)"

definition begin_execution :: "(nat \<Rightarrow> string) \<Rightarrow> string \<Rightarrow> (app_error + execution_lease) proc" where
  "begin_execution uuid job =
     must (reads (running_of job)) (\<lambda>running.
       case running of
         Some e \<Rightarrow> Ret (Inl (Conflict (''job '' @ job @ '' already has running execution '' @ ex_id e)))
       | None \<Rightarrow>
           must (reads (job_status_of job)) (\<lambda>current.
             case current of
               None \<Rightarrow> open_attempt uuid job MAX_OPEN_TRIES
             | Some status \<Rightarrow>
                 if status \<in> {''failed'', ''cancelled'', ''partial'', ''engine_unavailable''}
                 then must (requeue job) (\<lambda>_. query (launch job) (\<lambda>_. open_attempt uuid job MAX_OPEN_TRIES))
                 else query (launch job) (\<lambda>_. open_attempt uuid job MAX_OPEN_TRIES)))"

section \<open>Liveness\<close>

definition not_owned :: "string \<Rightarrow> app_error" where
  "not_owned eid = Conflict (''execution '' @ eid @ '' is not owned by this worker'')"

definition bind_commit :: "string \<Rightarrow> string \<Rightarrow> string \<Rightarrow> tick \<Rightarrow> store \<Rightarrow> sql_error + store \<times> nat" where
  "bind_commit eid owner commit t =
     update_execs (\<lambda>e. ex_id e = eid \<and> ex_owner e = Some owner) (\<lambda>e. e\<lparr>ex_commit := Some commit\<rparr>)"

definition bind_snapshot :: "string \<Rightarrow> string \<Rightarrow> string \<Rightarrow> (app_error + unit) proc" where
  "bind_snapshot eid owner commit =
     must (bind_commit eid owner commit) (\<lambda>n. Ret (if n \<noteq> 1 then Inl (not_owned eid) else Inr ()))"

definition holds :: "string \<Rightarrow> string \<Rightarrow> exec_row \<Rightarrow> bool" where
  "holds eid owner e \<longleftrightarrow> ex_id e = eid \<and> ex_owner e = Some owner \<and> ex_status e = ''running''"

definition holds_lease :: "string \<Rightarrow> string \<Rightarrow> (app_error + bool) proc" where
  "holds_lease eid owner =
     must (reads (\<lambda>s. find (holds eid owner) (st_execs s))) (\<lambda>row. Ret (Inr (row \<noteq> None)))"

definition beat :: "string \<Rightarrow> string \<Rightarrow> tick \<Rightarrow> store \<Rightarrow> sql_error + store \<times> nat" where
  "beat eid owner t = update_execs (holds eid owner) (\<lambda>e. e\<lparr>ex_heartbeat := Some (tk_now t)\<rparr>)"

definition heartbeat :: "string \<Rightarrow> string \<Rightarrow> (app_error + bool) proc" where
  "heartbeat eid owner = must (beat eid owner) (\<lambda>n. Ret (Inr (n = 1)))"

section \<open>The reaper\<close>

definition last_seen :: "exec_row \<Rightarrow> time" where
  "last_seen e = (case ex_heartbeat e of Some h \<Rightarrow> h | None \<Rightarrow> ex_started e)"

definition clear_cancel :: "string \<Rightarrow> store \<Rightarrow> sql_error + store \<times> nat" where
  "clear_cancel job = update_jobs (\<lambda>j. jb_id j = job) (\<lambda>j. j\<lparr>jb_cancel := False, jb_cancel_at := None\<rparr>)"

definition release :: "string \<Rightarrow> store \<Rightarrow> sql_error + store \<times> nat" where
  "release job s =
     (if list_ex (\<lambda>e. ex_job e = job \<and> ex_status e = ''running'') (st_execs s) then Inr (s, 0)
      else update_jobs (\<lambda>j. jb_id j = job \<and> jb_status j = ''running'') (\<lambda>j. j\<lparr>jb_status := ''queued''\<rparr>) s)"

definition close_abandoned :: "string \<Rightarrow> string \<Rightarrow> time \<Rightarrow> store \<Rightarrow> sql_error + store \<times> nat" where
  "close_abandoned eid reason now =
     update_execs (\<lambda>e. ex_id e = eid \<and> ex_status e = ''running'')
       (\<lambda>e. e\<lparr>ex_status := ''failed'', ex_finished := Some now, ex_failure := Some reason, ex_heartbeat := Some now\<rparr>)"

definition reap_tx :: "string \<Rightarrow> time \<Rightarrow> string \<Rightarrow> tick \<Rightarrow> store \<Rightarrow> app_error + store \<times> bool" where
  "reap_tx eid stale_before reason t s =
     (case find (\<lambda>e. ex_id e = eid \<and> ex_status e = ''running'' \<and> last_seen e < stale_before) (st_execs s) of
        None \<Rightarrow> Inr (s, False)
      | Some e \<Rightarrow>
          and_then (sql t (close_abandoned eid reason (tk_now t) s)) (\<lambda>(s1, _).
          and_then (sql t (clear_cancel (ex_job e) s1)) (\<lambda>(s2, _).
          and_then (sql t (release (ex_job e) s2)) (\<lambda>(s3, _). Inr (s3, True)))))"

definition reap_abandoned_execution :: "string \<Rightarrow> time \<Rightarrow> string \<Rightarrow> (app_error + bool) proc" where
  "reap_abandoned_execution eid stale_before reason = transact (reap_tx eid stale_before reason) Ret"

definition fail_unowned :: "string \<Rightarrow> string \<Rightarrow> tick \<Rightarrow> store \<Rightarrow> sql_error + store \<times> nat" where
  "fail_unowned job reason t s =
     update_jobs (\<lambda>j. jb_id j = job \<and> jb_status j \<in> {''queued'', ''running''} \<and> running_of job s = None)
       (\<lambda>j. j\<lparr>jb_status := ''failed'', jb_error := Some reason, jb_finished := Some (tk_now t)\<rparr>) s"

definition fail_job_if_unowned :: "string \<Rightarrow> string \<Rightarrow> (app_error + unit) proc" where
  "fail_job_if_unowned job reason = must (fail_unowned job reason) (\<lambda>_. Ret (Inr ()))"

end
