(* ===== verification/Execution_Commit.thy ===== *)
theory Execution_Commit
  imports Execution
begin

text \<open>
  The commit point of \<open>backend/src/orchestrator/execution.rs\<close>: \<open>finalize_execution\<close> makes the
  findings, scanner runs, report, canonical document, execution status and job status durable in
  one transaction, and \<open>finalize_without_findings\<close> closes an attempt that has no result.  The
  transactions are taken as atomic: both lock the execution row before they read it.
\<close>

record scanner_run_record =
  sx_scanner :: string
  sx_version :: string
  sx_parser :: string
  sx_mode :: string
  sx_image :: string
  sx_status :: string
  sx_count :: "int option"
  sx_known :: bool
  sx_detail :: "string option"
  sx_limitations :: "string list"

record finalization =
  fz_findings :: "audit_finding list"
  fz_runs :: "scanner_run_record list"
  fz_coverage_status :: string
  fz_coverage_complete :: bool
  fz_limitations :: "string list"
  fz_summary :: "json option"
  fz_canonical :: "json option"
  fz_markdown :: "string option"
  fz_report :: "json option"
  fz_html :: "string option"
  fz_score :: "64 word option"
  fz_job_status :: string
  fz_failure :: "string option"

definition default_finalization :: finalization where
  "default_finalization = \<lparr>fz_findings = [], fz_runs = [], fz_coverage_status = [], fz_coverage_complete = False,
     fz_limitations = [], fz_summary = None, fz_canonical = None, fz_markdown = None, fz_report = None,
     fz_html = None, fz_score = None, fz_job_status = [], fz_failure = None\<rparr>"

fun fold_ok :: "('a \<Rightarrow> 's \<Rightarrow> 'e + 's) \<Rightarrow> 'a list \<Rightarrow> 's \<Rightarrow> 'e + 's" where
  "fold_ok f [] s = Inr s"
| "fold_ok f (x # xs) s = and_then (f x s) (fold_ok f xs)"

section \<open>Ownership\<close>

definition stale_worker :: "string \<Rightarrow> app_error" where
  "stale_worker eid = Conflict (''execution '' @ eid @ '' is owned by another worker; this one is stale'')"

definition owned_running :: "execution_lease \<Rightarrow> store \<Rightarrow> app_error + unit" where
  "owned_running lease s =
     (case find (\<lambda>e. ex_id e = le_execution lease) (st_execs s) of
        None \<Rightarrow> Inl (NotFound (''audit execution '' @ le_execution lease))
      | Some e \<Rightarrow>
          if ex_owner e \<noteq> Some (le_owner lease) then Inl (stale_worker (le_execution lease))
          else if ex_status e \<noteq> ''running'' then
            Inl (Conflict (''execution '' @ le_execution lease @ '' is already '' @ ex_status e @ '' and is immutable''))
          else Inr ())"

section \<open>The parts of the commit\<close>

definition final_status :: "bool \<Rightarrow> finalization \<Rightarrow> string" where
  "final_status cancelled fin =
     (if cancelled \<and> fz_job_status fin \<noteq> ''cancelled'' then ''cancelled'' else fz_job_status fin)"

definition final_score :: "bool \<Rightarrow> finalization \<Rightarrow> 64 word option" where
  "final_score cancelled fin =
     (let score = (if cancelled \<and> fz_job_status fin \<noteq> ''cancelled'' then None else fz_score fin) in
      if fz_coverage_complete fin \<and> final_status cancelled fin = ''completed'' then score else None)"

text \<open>The insert leaves the CVSS columns and the route empty, and metadata that is not JSON aborts it.\<close>

definition stored_finding :: "audit_finding \<Rightarrow> audit_finding" where
  "stored_finding f = f\<lparr>fd_cvss_vector := None, fd_cvss_score := None, fd_route := None\<rparr>"

definition write_finding :: "audit_env \<Rightarrow> execution_lease \<Rightarrow> time \<Rightarrow> audit_finding \<Rightarrow> store \<Rightarrow> sql_error + store" where
  "write_finding E lease now f s =
     (case fd_metadata_json f of
        Some raw \<Rightarrow> if env_parse E raw = None then Inl InvalidText
          else upsert_finding \<lparr>fw_job = le_job lease, fw_exec = Some (le_execution lease),
            fw_finding = stored_finding f, fw_created = now\<rparr> s
      | None \<Rightarrow> upsert_finding \<lparr>fw_job = le_job lease, fw_exec = Some (le_execution lease),
            fw_finding = stored_finding f, fw_created = now\<rparr> s)"

definition write_findings :: "audit_env \<Rightarrow> execution_lease \<Rightarrow> time \<Rightarrow> audit_finding list \<Rightarrow> store \<Rightarrow> sql_error + store" where
  "write_findings E lease now fs s =
     and_then (fold_ok (write_finding E lease now) fs s)
       (delete_findings (\<lambda>r. fw_exec r = Some (le_execution lease) \<and> fw_id r \<notin> fd_id ` set fs))"

definition write_run :: "execution_lease \<Rightarrow> scanner_run_record \<Rightarrow> store \<Rightarrow> sql_error + store" where
  "write_run lease r =
     upsert_run \<lparr>rn_exec = le_execution lease, rn_scanner = sx_scanner r, rn_version = sx_version r,
       rn_parser = sx_parser r, rn_mode = sx_mode r, rn_image = sx_image r, rn_status = sx_status r,
       rn_count = sx_count r, rn_known = sx_known r, rn_detail = sx_detail r, rn_limitations = sx_limitations r\<rparr>"

definition wrap_i32 :: "int \<Rightarrow> int" where
  "wrap_i32 i = sint (of_int i :: 32 word)"

definition report_version :: "json option \<Rightarrow> int" where
  "report_version j =
     (case Option.bind (Option.bind j (\<lambda>v. member v ''report_schema_version'')) as_i64 of
        Some i \<Rightarrow> wrap_i32 i | None \<Rightarrow> 1)"

definition canonical_version :: "json option \<Rightarrow> int option" where
  "canonical_version j =
     map_option wrap_i32 (Option.bind (Option.bind (Option.bind j (\<lambda>v. member v ''identity''))
       (\<lambda>v. member v ''canonical_schema_version'')) as_i64)"

definition write_report :: "execution_lease \<Rightarrow> finalization \<Rightarrow> store \<Rightarrow> sql_error + store" where
  "write_report lease fin s =
     (case fz_markdown fin of
        None \<Rightarrow> Inr s
      | Some markdown \<Rightarrow>
          upsert_report \<lparr>rw_job = le_job lease, rw_exec = le_execution lease, rw_markdown = Some markdown,
            rw_html = fz_html fin, rw_json = fz_report fin, rw_version = report_version (fz_report fin),
            rw_canonical_version = canonical_version (fz_report fin)\<rparr> s)"

definition mine :: "execution_lease \<Rightarrow> exec_row \<Rightarrow> bool" where
  "mine lease = holds (le_execution lease) (le_owner lease)"

definition close_execution ::
  "execution_lease \<Rightarrow> string \<Rightarrow> string option \<Rightarrow> json option \<Rightarrow> time \<Rightarrow> store \<Rightarrow> sql_error + store \<times> nat" where
  "close_execution lease status reason canonical now =
     update_execs (mine lease)
       (\<lambda>e. e\<lparr>ex_status := status, ex_finished := Some now, ex_failure := reason, ex_canonical := canonical,
               ex_heartbeat := Some now\<rparr>)"

definition OPEN_JOB :: "string set" where
  "OPEN_JOB = {''queued'', ''running'', ''failed'', ''cancelled'', ''partial'', ''engine_unavailable''}"

definition close_job ::
  "execution_lease \<Rightarrow> string \<Rightarrow> 64 word option \<Rightarrow> string option \<Rightarrow> time \<Rightarrow> store \<Rightarrow> sql_error + store \<times> nat" where
  "close_job lease status score reason now =
     update_jobs (\<lambda>j. jb_id j = le_job lease \<and> jb_status j \<in> OPEN_JOB)
       (\<lambda>j. j\<lparr>jb_status := status, jb_finished := Some now, jb_score := score, jb_error := reason\<rparr>)"

section \<open>The commit\<close>

definition finalize_tx :: "audit_env \<Rightarrow> execution_lease \<Rightarrow> finalization \<Rightarrow> tick \<Rightarrow> store \<Rightarrow> app_error + store \<times> unit" where
  "finalize_tx E lease fin t s =
     and_then (owned_running lease s) (\<lambda>_.
     and_then (sql t (ok_or RowNotFound (find (\<lambda>j. jb_id j = le_job lease) (st_jobs s)))) (\<lambda>job.
       let cancelled = jb_cancel job; status = final_status cancelled fin; score = final_score cancelled fin;
           now = tk_now t in
     and_then (if cancelled then sql t (clear_cancel (le_job lease) s) else Inr (s, 0)) (\<lambda>(s1, _).
     and_then (sql t (write_findings E lease now (fz_findings fin) s1)) (\<lambda>s2.
     and_then (sql t (fold_ok (write_run lease) (fz_runs fin) s2)) (\<lambda>s3.
     and_then (sql t (write_report lease fin s3)) (\<lambda>s4.
     and_then (sql t (close_execution lease status (fz_failure fin) (fz_canonical fin) now s4)) (\<lambda>(s5, _).
     and_then (sql t (close_job lease status score (fz_failure fin) now s5)) (\<lambda>(s6, _). Inr (s6, ())))))))))"

definition finalize_execution :: "audit_env \<Rightarrow> execution_lease \<Rightarrow> finalization \<Rightarrow> (app_error + unit) proc" where
  "finalize_execution E lease fin = transact (finalize_tx E lease fin) Ret"

definition close_bare :: "execution_lease \<Rightarrow> string \<Rightarrow> string \<Rightarrow> time \<Rightarrow> store \<Rightarrow> sql_error + store \<times> nat" where
  "close_bare lease status reason now =
     update_execs (mine lease)
       (\<lambda>e. e\<lparr>ex_status := status, ex_finished := Some now, ex_failure := Some reason, ex_heartbeat := Some now\<rparr>)"

definition finalize_bare_tx :: "execution_lease \<Rightarrow> string \<Rightarrow> string \<Rightarrow> tick \<Rightarrow> store \<Rightarrow> app_error + store \<times> unit" where
  "finalize_bare_tx lease status reason t s =
     and_then (owned_running lease s) (\<lambda>_.
     and_then (sql t (close_bare lease status reason (tk_now t) s)) (\<lambda>(s1, _).
     and_then (sql t (close_job lease status None (Some reason) (tk_now t) s1)) (\<lambda>(s2, _).
     and_then (sql t (clear_cancel (le_job lease) s2)) (\<lambda>(s3, _). Inr (s3, ())))))"

definition finalize_without_findings :: "execution_lease \<Rightarrow> string \<Rightarrow> string \<Rightarrow> (app_error + unit) proc" where
  "finalize_without_findings lease status reason = transact (finalize_bare_tx lease status reason) Ret"

section \<open>Reading back\<close>

definition latest_execution :: "string \<Rightarrow> store \<Rightarrow> exec_row option" where
  "latest_execution job s =
     (case sort_key (\<lambda>e. - ex_attempt e) (filter (\<lambda>e. ex_job e = job) (st_execs s)) of
        [] \<Rightarrow> None | e # _ \<Rightarrow> Some e)"

definition resolve_execution :: "string \<Rightarrow> string option \<Rightarrow> store \<Rightarrow> exec_row option" where
  "resolve_execution job eid s =
     (case eid of
        Some i \<Rightarrow> find (\<lambda>e. ex_id e = i \<and> ex_job e = job) (st_execs s)
      | None \<Rightarrow> latest_execution job s)"

record report_source =
  rs_audit :: audit_document
  rs_execution :: string
  rs_attempt :: int
  rs_status :: string

definition source_of :: "(json \<Rightarrow> string + audit_document) \<Rightarrow> exec_row \<Rightarrow> app_error + report_source" where
  "source_of decode e =
     (if ex_status e = ''running''
      then Inl (Conflict (''execution '' @ ex_id e @ '' is still running and has no finalized report''))
      else
        (case ex_canonical e of
           None \<Rightarrow> Inl (Conflict (''execution '' @ ex_id e @ '' reached no canonical audit; there is nothing to report''))
         | Some canonical \<Rightarrow>
             (case decode canonical of
                Inl m \<Rightarrow> Inl (Internal (''persisted canonical audit for execution '' @ ex_id e @ '' is unreadable: '' @ m))
              | Inr audit \<Rightarrow>
                  if ca_version audit \<noteq> CANONICAL_AUDIT_VERSION
                  then Inl (Conflict (''execution '' @ ex_id e @ '' carries canonical schema version ''
                    @ nat_str (ca_version audit) @ '', which this build does not support''))
                  else Inr \<lparr>rs_audit = audit, rs_execution = ex_id e, rs_attempt = ex_attempt e,
                    rs_status = ex_status e\<rparr>)))"

definition reconstruct_report_source ::
  "(json \<Rightarrow> string + audit_document) \<Rightarrow> string \<Rightarrow> string option \<Rightarrow> (app_error + report_source option) proc" where
  "reconstruct_report_source decode job eid =
     must (reads (resolve_execution job eid)) (\<lambda>e.
       Ret (case e of None \<Rightarrow> Inr None | Some e \<Rightarrow> map_sum id Some (source_of decode e)))"

record stored_report =
  sp_execution :: string
  sp_job :: string
  sp_attempt :: int
  sp_status :: string
  sp_version :: int
  sp_canonical_version :: "int option"
  sp_markdown :: "string option"
  sp_html :: "string option"
  sp_json :: "json option"

definition report_of_row :: "exec_row \<Rightarrow> report_row \<Rightarrow> stored_report" where
  "report_of_row e r = \<lparr>sp_execution = rw_exec r, sp_job = ex_job e, sp_attempt = ex_attempt e,
     sp_status = ex_status e, sp_version = rw_version r, sp_canonical_version = rw_canonical_version r,
     sp_markdown = rw_markdown r, sp_html = rw_html r, sp_json = rw_json r\<rparr>"

definition load_stored_report :: "string \<Rightarrow> string option \<Rightarrow> (app_error + stored_report option) proc" where
  "load_stored_report job eid =
     must (reads (resolve_execution job eid)) (\<lambda>e.
       case e of
         None \<Rightarrow> Ret (Inr None)
       | Some e \<Rightarrow>
           if ex_status e = ''running''
           then Ret (Inl (Conflict (''execution '' @ ex_id e @ '' is still running and has no finalized report'')))
           else must (reads (\<lambda>s. find (\<lambda>r. rw_exec r = ex_id e) (st_reports s))) (\<lambda>row.
             Ret (Inr (map_option (report_of_row e) row))))"

record reconstructed_audit =
  ra_exec :: exec_row
  ra_runs :: "run_row list"
  ra_count :: nat
  ra_score :: "64 word option"

definition reconstruct_latest_audit :: "string \<Rightarrow> (app_error + reconstructed_audit option) proc" where
  "reconstruct_latest_audit job =
     must (reads (latest_execution job)) (\<lambda>e.
       case e of
         None \<Rightarrow> Ret (Inr None)
       | Some e \<Rightarrow>
           must (reads (\<lambda>s. sort_key rn_scanner (filter (\<lambda>r. rn_exec r = ex_id e) (st_runs s)))) (\<lambda>runs.
           must (reads (\<lambda>s. length (filter (\<lambda>r. fw_exec r = Some (ex_id e)) (st_findings s)))) (\<lambda>count.
           must (\<lambda>t s. map_sum id (\<lambda>j. (s, jb_score j)) (ok_or RowNotFound (find (\<lambda>j. jb_id j = job) (st_jobs s)))) (\<lambda>score.
             Ret (Inr (Some \<lparr>ra_exec = e, ra_runs = runs, ra_count = count, ra_score = score\<rparr>))))))"

end
