(* ===== verification/Store_Programs.thy ===== *)
theory Store_Programs
  imports Execution_Commit
begin

text \<open>
  Programs that share the store.  A program keeps a contract when each of its statements, run
  in a store that satisfies the invariant, takes it to one it may evolve to; what a program
  remembers between two statements must be stable under every such evolution.  Any
  interleaving of programs that keep the contract then keeps it, whoever is scheduled.
\<close>

text \<open>One of the programs sends its next statement.\<close>

inductive pool_step :: "store \<times> 'a proc list \<Rightarrow> store \<times> 'a proc list \<Rightarrow> bool" where
  pool_step: "i < length ps \<Longrightarrow> ps ! i = Step f \<Longrightarrow>
    pool_step (s, ps) (fst (f t s), ps[i := snd (f t s)])"

inductive_cases pool_stepE: "pool_step (s, ps) c"

locale contract =
  fixes inv :: "store \<Rightarrow> bool" and evo :: "store \<Rightarrow> store \<Rightarrow> bool"
  assumes evo_refl: "inv s \<Longrightarrow> evo s s"
    and evo_trans: "evo s t \<Longrightarrow> evo t u \<Longrightarrow> evo s u"
    and evo_inv: "evo s t \<Longrightarrow> inv t"
begin

definition stable :: "(store \<Rightarrow> bool) \<Rightarrow> bool" where
  "stable K \<longleftrightarrow> (\<forall>s s'. inv s \<longrightarrow> evo s s' \<longrightarrow> K s \<longrightarrow> K s')"

lemma stable_simps [simp]: "stable (\<lambda>_. b)"
  by (simp add: stable_def)

lemma stable_conj: "stable K \<Longrightarrow> stable L \<Longrightarrow> stable (\<lambda>s. K s \<and> L s)"
  by (auto simp: stable_def)

text \<open>\<open>safe Q K p\<close>: from a store with the knowledge \<open>K\<close> the program keeps the contract, and what it
  returns satisfies \<open>Q\<close>.\<close>

inductive safe :: "('a \<Rightarrow> store \<Rightarrow> bool) \<Rightarrow> (store \<Rightarrow> bool) \<Rightarrow> 'a proc \<Rightarrow> bool" for Q where
  ret: "(\<And>s. inv s \<Longrightarrow> K s \<Longrightarrow> Q a s) \<Longrightarrow> safe Q K (Ret a)"
| step: "(\<And>t s. inv s \<Longrightarrow> K s \<Longrightarrow> evo s (fst (f t s))
      \<and> (\<exists>L. stable L \<and> L (fst (f t s)) \<and> safe Q L (snd (f t s)))) \<Longrightarrow> safe Q K (Step f)"

inductive_cases safe_StepE: "safe Q K (Step f)"

lemma safe_weaken:
  assumes "safe Q K p" "\<And>s. inv s \<Longrightarrow> L s \<Longrightarrow> K s"
  shows "safe Q L p"
  using assms(1)
proof cases
  case (ret a)
  then show ?thesis using assms(2) by (auto intro: safe.ret)
next
  case (step f)
  show ?thesis unfolding step(1) by (rule safe.step) (simp add: step(2) assms(2))
qed

lemma safe_mono:
  assumes "safe Q K p" "\<And>a s. Q a s \<Longrightarrow> R a s"
  shows "safe R K p"
  using assms(1)
proof (induction rule: safe.induct)
  case (ret K a)
  then show ?case using assms(2) by (auto intro: safe.ret)
next
  case (step K f)
  show ?case by (rule safe.step) (use step in blast)
qed

lemma safe_bind:
  assumes "safe Q K p" "\<And>a. safe R (Q a) (k a)"
  shows "safe R K (bind p k)"
  using assms(1)
proof (induction rule: safe.induct)
  case (ret K a)
  then show ?case using safe_weaken[OF assms(2)[of a]] by simp
next
  case (step K f)
  show ?case unfolding bind.simps
  proof (rule safe.step)
    fix t s
    assume s: "inv s" "K s"
    show "evo s (fst (map_prod id (\<lambda>p. bind p k) (f t s))) \<and> (\<exists>L. stable L
        \<and> L (fst (map_prod id (\<lambda>p. bind p k) (f t s))) \<and> safe R L (snd (map_prod id (\<lambda>p. bind p k) (f t s))))"
      using step[OF s, of t] by auto
  qed
qed

text \<open>Stable knowledge survives any program.\<close>

lemma safe_frame:
  assumes "safe Q K p" "stable R"
  shows "safe (\<lambda>a s. Q a s \<and> R s) (\<lambda>s. K s \<and> R s) p"
  using assms(1)
proof (induction rule: safe.induct)
  case (ret K a)
  then show ?case by (auto intro: safe.ret)
next
  case (step K f)
  show ?case
  proof (rule safe.step)
    fix t s
    assume s: "inv s" "K s \<and> R s"
    then obtain L where e: "evo s (fst (f t s))" and L: "stable L" "L (fst (f t s))"
      "safe (\<lambda>a s. Q a s \<and> R s) (\<lambda>s. L s \<and> R s) (snd (f t s))"
      using step[of s t] by blast
    moreover have "R (fst (f t s))" using assms(2) s e by (simp add: stable_def)
    ultimately show "evo s (fst (f t s)) \<and> (\<exists>L. stable L \<and> L (fst (f t s)) \<and> safe (\<lambda>a s. Q a s \<and> R s) L (snd (f t s)))"
      using stable_conj[OF L(1) assms(2)] by (intro conjI exI[of _ "\<lambda>s. L s \<and> R s"]) simp_all
  qed
qed

lemma safe_query:
  assumes "stable K" "\<And>a. stable (C a)"
    and "\<And>t s s' a. inv s \<Longrightarrow> K s \<Longrightarrow> f t s = Inr (s', a) \<Longrightarrow> evo s s' \<and> C a s'"
    and "\<And>a. safe Q (\<lambda>s. K s \<and> C a s) (k (Inr a))" "\<And>e. safe Q K (k (Inl e))"
  shows "safe Q K (query f k)"
  unfolding query_def
proof (rule safe.step)
  fix t s
  assume s: "inv s" "K s"
  let ?r = "case (if tk_up t then f t s else Inl Unreachable) of
       Inl e \<Rightarrow> (s, k (Inl (e, tk_show t e))) | Inr (s', a) \<Rightarrow> (s', k (Inr a))"
  show "evo s (fst ?r) \<and> (\<exists>L. stable L \<and> L (fst ?r) \<and> safe Q L (snd ?r))"
  proof (cases "if tk_up t then f t s else Inl Unreachable")
    case (Inl e)
    then show ?thesis using s assms(1,5) evo_refl by auto
  next
    case (Inr p)
    then obtain s' a where p: "p = (s', a)" "f t s = Inr (s', a)" by (cases p) (auto split: if_splits)
    then have e: "evo s s'" "C a s'" using assms(3) s by blast+
    then have "K s'" using assms(1) s by (auto simp: stable_def)
    then show ?thesis
      using Inr p e assms(4)[of a] stable_conj[OF assms(1,2)] by auto
  qed
qed

text \<open>A statement whose result needs no memory.\<close>

lemma safe_query_simple:
  assumes "stable K" "\<And>t s s' a. inv s \<Longrightarrow> K s \<Longrightarrow> f t s = Inr (s', a) \<Longrightarrow> evo s s'"
    and "\<And>r. safe Q K (k r)"
  shows "safe Q K (query f k)"
  by (rule safe_query[OF assms(1), where C = "\<lambda>_ _. True"]) (use assms in auto)

lemma safe_must_simple:
  assumes "stable K" "\<And>t s s' a. inv s \<Longrightarrow> K s \<Longrightarrow> f t s = Inr (s', a) \<Longrightarrow> evo s s'"
    and "\<And>a. safe Q K (k a)" "\<And>m s. Q (Inl (Database m)) s"
  shows "safe Q K (must f k)"
  unfolding must_def
  by (rule safe_query_simple[OF assms(1,2)]) (auto intro!: safe.ret assms(3,4) split: sum.split)

lemma safe_must_reads:
  assumes "stable K" "\<And>a. stable (C a)" "\<And>s. inv s \<Longrightarrow> K s \<Longrightarrow> C (g s) s"
    and "\<And>a. safe Q (\<lambda>s. K s \<and> C a s) (k a)" "\<And>m s. Q (Inl (Database m)) s"
  shows "safe Q K (must (reads g) k)"
  unfolding must_def
  by (rule safe_query[OF assms(1,2)])
    (auto simp: reads_def evo_refl assms(3) intro!: safe.ret assms(4,5) split: sum.split)

lemma safe_transact:
  assumes "stable K" "\<And>t s s' a. inv s \<Longrightarrow> K s \<Longrightarrow> f t s = Inr (s', a) \<Longrightarrow> evo s s'"
    and "\<And>r. safe Q K (k r)"
  shows "safe Q K (transact f k)"
  unfolding transact_def
proof (rule safe.step)
  fix t s
  assume s: "inv s" "K s"
  let ?r = "case (if tk_up t then f t s else Inl (Database (tk_show t Unreachable))) of
       Inl e \<Rightarrow> (s, k (Inl e)) | Inr (s', a) \<Rightarrow> (s', k (Inr a))"
  show "evo s (fst ?r) \<and> (\<exists>L. stable L \<and> L (fst ?r) \<and> safe Q L (snd ?r))"
  proof (cases "if tk_up t then f t s else Inl (Database (tk_show t Unreachable))")
    case (Inl e)
    then show ?thesis using s assms(1,3) evo_refl by auto
  next
    case (Inr p)
    then obtain s' a where p: "p = (s', a)" "f t s = Inr (s', a)" by (cases p) (auto split: if_splits)
    then have e: "evo s s'" using assms(2) s by blast
    then have "K s'" using assms(1) s by (auto simp: stable_def)
    then show ?thesis using Inr p e assms(1,3) by auto
  qed
qed

section \<open>Interleaving\<close>

definition kept :: "'a proc \<Rightarrow> store \<Rightarrow> bool" where
  "kept p s \<longleftrightarrow> (\<exists>K. stable K \<and> K s \<and> safe (\<lambda>_ _. True) K p)"

lemma kept_stable: "inv s \<Longrightarrow> evo s s' \<Longrightarrow> kept p s \<Longrightarrow> kept p s'"
  unfolding kept_def stable_def by blast

lemma kept_step: "inv s \<Longrightarrow> kept (Step f) s \<Longrightarrow> evo s (fst (f t s)) \<and> kept (snd (f t s)) (fst (f t s))"
  unfolding kept_def by (blast elim: safe_StepE)

lemma pool_keeps:
  assumes "pool_step\<^sup>*\<^sup>* (s, ps) (s', ps')" "inv s" "\<forall>p \<in> set ps. kept p s"
  shows "evo s s' \<and> (\<forall>p \<in> set ps'. kept p s')"
  using assms(1)
proof (induction rule: rtranclp_induct2)
  case refl
  then show ?case using assms(2,3) evo_refl by simp
next
  case (step u qs u' qs')
  from step(2) obtain i f t where i: "i < length qs" "qs ! i = Step f" "u' = fst (f t u)" "qs' = qs[i := snd (f t u)]"
    by (auto elim: pool_stepE)
  have "inv u" using step(3) evo_inv by blast
  moreover have "kept (Step f) u" using step(3) i(1,2) by (metis nth_mem)
  ultimately have e: "evo u u'" "kept (snd (f t u)) u'" using kept_step i(3) by auto
  have "kept p u'" if "p \<in> set qs'" for p
    using that i(4) set_update_subset_insert[of qs i] step(3) e kept_stable[OF \<open>inv u\<close> e(1)] by blast
  then show ?case using evo_trans step(3) e(1) by blast
qed

end

section \<open>A store\<close>

text \<open>One job with a running attempt, and a moment at which the database answers.\<close>

definition leased_store :: store where
  "leased_store = \<lparr>st_jobs = [\<lparr>jb_id = ''j1'', jb_user = ''u1'', jb_tenant = None,
       jb_repo_url = ''https://github.com/acme/app'', jb_branch = [], jb_requested_sha = None, jb_delivery = None,
       jb_installation = None, jb_status = ''running'', jb_cancel = False, jb_cancel_at = None, jb_created = 0,
       jb_started = Some 1, jb_finished = None, jb_commit = None, jb_score = None, jb_error = None\<rparr>],
     st_execs = [new_execution ''e1'' ''j1'' 1 ''w1'' 1],
     st_findings = [], st_runs = [], st_reports = [], st_narratives = [], st_phases = []\<rparr>"

definition lease_tick :: tick where
  "lease_tick = \<lparr>tk_now = 10, tk_up = True, tk_show = (\<lambda>_. ''error'')\<rparr>"

definition first_lease :: execution_lease where
  "first_lease = \<lparr>le_execution = ''e1'', le_job = ''j1'', le_attempt = 1, le_owner = ''w1''\<rparr>"

end
