(* ===== verification/Job_Queue.thy ===== *)
theory Job_Queue
  imports Execution_Commit Repo_Fetch
begin

text \<open>
  The life of a job around its executions: submission, cancellation and retry of
  \<open>backend/src/api/routes_audit.rs\<close>, the claims of \<open>backend/src/orchestrator/mod.rs\<close> and
  \<open>backend/src/workers/mod.rs\<close>, and the phase ledger.  Progress broadcasts only read and are
  left out.
\<close>

section \<open>Submission\<close>

record webhook_job =
  wj_delivery :: string
  wj_installation :: int

definition validate_github_repo_url :: "string \<Rightarrow> app_error + string" where
  "validate_github_repo_url url =
     map_err (BadRequest ''repo_url must be an https://github.com/{owner}/{repo} URL'') (normalize_repository_url url)"

definition requested_digest :: "string option \<Rightarrow> app_error + string option" where
  "requested_digest requested =
     (case map_option trim requested of
        None \<Rightarrow> Inr None
      | Some sha \<Rightarrow>
          if sha = [] then Inr None
          else if is_valid_commit_sha sha then Inr (Some sha)
          else Inl (BadRequest ''commit_sha must be a 40-character lowercase hex commit digest''))"

definition live_jobs :: "string \<Rightarrow> store \<Rightarrow> nat" where
  "live_jobs user s =
     length (filter (\<lambda>j. jb_user j = user \<and> jb_status j \<in> {''queued'', ''running''}) (st_jobs s))"

definition job_of_delivery :: "string \<Rightarrow> store \<Rightarrow> string option" where
  "job_of_delivery d s = map_option jb_id (find (\<lambda>j. jb_delivery j = Some d) (st_jobs s))"

definition new_job ::
  "string \<Rightarrow> string \<Rightarrow> string option \<Rightarrow> string \<Rightarrow> string \<Rightarrow> string option \<Rightarrow> webhook_job option \<Rightarrow> time \<Rightarrow> job_row" where
  "new_job jid user tenant url branch sha webhook now =
     \<lparr>jb_id = jid, jb_user = user, jb_tenant = tenant, jb_repo_url = url, jb_branch = branch,
      jb_requested_sha = sha, jb_delivery = map_option wj_delivery webhook,
      jb_installation = map_option wj_installation webhook, jb_status = ''queued'', jb_cancel = False,
      jb_cancel_at = None, jb_created = now, jb_started = None, jb_finished = None, jb_commit = None,
      jb_score = None, jb_error = None\<rparr>"

text \<open>\<open>ON CONFLICT (webhook_delivery_id) DO NOTHING\<close>.\<close>

definition insert_job :: "job_row \<Rightarrow> store \<Rightarrow> sql_error + store \<times> nat" where
  "insert_job j s =
     (if jb_delivery j \<noteq> None \<and> list_ex (\<lambda>x. jb_delivery x = jb_delivery j) (st_jobs s) then Inr (s, 0)
      else if list_ex (\<lambda>x. jb_id x = jb_id j) (st_jobs s) then Inl UniqueViolation
      else Inr (s\<lparr>st_jobs := st_jobs s @ [j]\<rparr>, 1))"

definition too_many :: "nat \<Rightarrow> int \<Rightarrow> app_error" where
  "too_many live max_active = Conflict (''too many active audits ('' @ nat_str live @ ''/'' @ int_str max_active
     @ ''); wait for one to finish or cancel it'')"

text \<open>The gate and the insert are one transaction under a lock of the user.\<close>

definition create_tx :: "int \<Rightarrow> (time \<Rightarrow> job_row) \<Rightarrow> tick \<Rightarrow> store \<Rightarrow> app_error + store \<times> nat" where
  "create_tx max_active job t s =
     (let j = job (tk_now t); live = live_jobs (jb_user j) s in
      if int live \<ge> max_active then Inl (too_many live max_active) else sql t (insert_job j s))"

definition found_or :: "string \<Rightarrow> string option \<Rightarrow> string" where
  "found_or jid existing = (case existing of Some x \<Rightarrow> x | None \<Rightarrow> jid)"

definition queue_job ::
  "string \<Rightarrow> int \<Rightarrow> (time \<Rightarrow> job_row) \<Rightarrow> webhook_job option \<Rightarrow> (app_error + string) proc" where
  "queue_job jid max_active job webhook =
     transact (create_tx max_active job) (\<lambda>r.
       case r of
         Inl e \<Rightarrow> Ret (Inl e)
       | Inr n \<Rightarrow>
           if n = 0
           then must (reads (job_of_delivery (case webhook of Some w \<Rightarrow> wj_delivery w | None \<Rightarrow> [])))
             (\<lambda>existing. Ret (Inr (found_or jid existing)))
           else Ret (Inr jid))"

definition create_audit_job_attributed ::
  "string \<Rightarrow> int \<Rightarrow> string \<Rightarrow> string option \<Rightarrow> string \<Rightarrow> string \<Rightarrow> string option \<Rightarrow> webhook_job option
     \<Rightarrow> (app_error + string) proc" where
  "create_audit_job_attributed jid max_active_jobs user tenant url branch requested webhook =
     (case validate_github_repo_url url of
        Inl e \<Rightarrow> Ret (Inl e)
      | Inr _ \<Rightarrow>
          if \<not> blank branch \<and> \<not> is_valid_branch_name branch
          then Ret (Inl (BadRequest ''repo_branch contains invalid characters or format''))
          else
            (case requested_digest requested of
               Inl e \<Rightarrow> Ret (Inl e)
             | Inr sha \<Rightarrow>
                 let queue = queue_job jid (max max_active_jobs 1) (new_job jid user tenant url branch sha webhook) webhook in
                 (case webhook of
                    None \<Rightarrow> queue
                  | Some w \<Rightarrow>
                      must (reads (job_of_delivery (wj_delivery w))) (\<lambda>existing.
                        case existing of Some x \<Rightarrow> Ret (Inr x) | None \<Rightarrow> queue))))"

definition create_audit_job ::
  "string \<Rightarrow> int \<Rightarrow> string \<Rightarrow> string option \<Rightarrow> string \<Rightarrow> string \<Rightarrow> string option \<Rightarrow> (app_error + string) proc" where
  "create_audit_job jid max_active_jobs user tenant url branch requested =
     create_audit_job_attributed jid max_active_jobs user tenant url branch requested None"

section \<open>Cancellation and retry\<close>

definition owned_by :: "string \<Rightarrow> string \<Rightarrow> job_row \<Rightarrow> bool" where
  "owned_by user job j \<longleftrightarrow> jb_id j = job \<and> jb_user j = user"

definition request_cancel :: "string \<Rightarrow> string \<Rightarrow> tick \<Rightarrow> store \<Rightarrow> sql_error + store \<times> nat" where
  "request_cancel user job t =
     update_jobs (\<lambda>j. owned_by user job j \<and> jb_status j \<in> {''queued'', ''running''})
       (\<lambda>j. j\<lparr>jb_cancel := True, jb_cancel_at := Some (tk_now t)\<rparr>)"

definition cancel_job :: "string \<Rightarrow> string \<Rightarrow> (app_error + unit) proc" where
  "cancel_job user job =
     must (request_cancel user job) (\<lambda>n. Ret (if n = 0
       then Inl (NotFound ''Job not found, already finished, or access denied'') else Inr ()))"

definition reopen :: "string \<Rightarrow> string \<Rightarrow> tick \<Rightarrow> store \<Rightarrow> sql_error + store \<times> nat" where
  "reopen user job t =
     update_jobs (\<lambda>j. owned_by user job j
         \<and> jb_status j \<in> {''failed'', ''cancelled'', ''partial'', ''engine_unavailable''})
       (\<lambda>j. j\<lparr>jb_status := ''queued'', jb_cancel := False, jb_cancel_at := None, jb_error := None\<rparr>)"

definition retry_job :: "string \<Rightarrow> string \<Rightarrow> (app_error + unit) proc" where
  "retry_job user job =
     must (reads (\<lambda>s. find (owned_by user job) (st_jobs s))) (\<lambda>row.
       case row of
         None \<Rightarrow> Ret (Inl (NotFound ''Job not found''))
       | Some j \<Rightarrow>
           if jb_status j \<in> {''completed'', ''running'', ''queued''}
           then Ret (Inl (Conflict (''job '' @ job @ '' is '' @ jb_status j @ '' and cannot be retried'')))
           else must (reads (running_of job)) (\<lambda>live.
             if live \<noteq> None then Ret (Inl (Conflict (''job '' @ job @ '' already has a running execution'')))
             else must (reopen user job) (\<lambda>n. Ret (if n = 0
               then Inl (Conflict (''job '' @ job @ '' cannot be retried from its current state'')) else Inr ()))))"

section \<open>Claims\<close>

definition claim :: "string \<Rightarrow> tick \<Rightarrow> store \<Rightarrow> sql_error + store \<times> nat" where
  "claim job t =
     update_jobs (\<lambda>j. jb_id j = job \<and> jb_status j = job_str Queued)
       (\<lambda>j. j\<lparr>jb_status := job_str Running, jb_started := Some (tk_now t)\<rparr>)"

definition claim_job_for_execution :: "string \<Rightarrow> (app_error + bool) proc" where
  "claim_job_for_execution job = must (claim job) (\<lambda>n. Ret (Inr (n = 1)))"

text \<open>The column constraint admits only the lower-case names, so the parser sees no other letters.\<close>

definition stored_status :: "string \<Rightarrow> job_status option" where
  "stored_status s = (case parse_job_status id s of Inr x \<Rightarrow> Some x | Inl _ \<Rightarrow> None)"

definition executable_job :: "string \<Rightarrow> store \<Rightarrow> bool" where
  "executable_job job s =
     (case Option.bind (job_status_of job s) stored_status of None \<Rightarrow> False | Some x \<Rightarrow> \<not> job_terminal x)"

definition may_execute_job :: "string \<Rightarrow> (app_error + bool) proc" where
  "may_execute_job job = must (reads (executable_job job)) (\<lambda>b. Ret (Inr b))"

text \<open>The claim of the worker loop: the oldest queued job that no other worker has locked.\<close>

definition claim_oldest :: "(string \<Rightarrow> bool) \<Rightarrow> tick \<Rightarrow> store \<Rightarrow> sql_error + store \<times> job_row option" where
  "claim_oldest locked t s =
     (case sort_key jb_created (filter (\<lambda>j. jb_status j = ''queued'' \<and> \<not> locked (jb_id j)) (st_jobs s)) of
        [] \<Rightarrow> Inr (s, None)
      | j # _ \<Rightarrow>
          map_sum id (\<lambda>(s', _). (s', find (\<lambda>x. jb_id x = jb_id j) (st_jobs s')))
            (update_jobs (\<lambda>x. jb_id x = jb_id j)
              (\<lambda>x. x\<lparr>jb_status := ''running'', jb_started := Some (tk_now t)\<rparr>) s))"

definition is_cancelled :: "string \<Rightarrow> store \<Rightarrow> bool" where
  "is_cancelled job s = (case find (\<lambda>j. jb_id j = job) (st_jobs s) of None \<Rightarrow> False | Some j \<Rightarrow> jb_cancel j)"

text \<open>The stale executions the reaper loop reads before it reaps them one by one.\<close>

definition abandoned :: "time \<Rightarrow> store \<Rightarrow> (string \<times> string) list" where
  "abandoned cutoff s =
     map (\<lambda>e. (ex_id e, ex_job e)) (filter (\<lambda>e. ex_status e = ''running'' \<and> last_seen e < cutoff) (st_execs s))"

definition REAPED :: string where "REAPED = ''execution owner stopped heartbeating (recovered by reaper)''"

fun reap_all :: "time \<Rightarrow> (string \<times> string) list \<Rightarrow> unit proc" where
  "reap_all cutoff [] = Ret ()"
| "reap_all cutoff ((e, _) # es) = bind (reap_abandoned_execution e cutoff REAPED) (\<lambda>_. reap_all cutoff es)"

definition reaper_pass :: "time \<Rightarrow> unit proc" where
  "reaper_pass cutoff =
     query (reads (abandoned cutoff)) (\<lambda>r. reap_all cutoff (case r of Inr es \<Rightarrow> es | Inl _ \<Rightarrow> []))"

section \<open>The phase ledger\<close>

definition log_phase_started :: "string \<Rightarrow> string option \<Rightarrow> string \<Rightarrow> tick \<Rightarrow> store \<Rightarrow> sql_error + store \<times> unit" where
  "log_phase_started job eid phase t s =
     Inr (s\<lparr>st_phases := st_phases s @ [\<lparr>ph_job = job, ph_exec = eid, ph_name = phase, ph_status = ''started'',
       ph_mode = ''real'', ph_started = tk_now t, ph_ended = None, ph_error = None\<rparr>]\<rparr>, ())"

text \<open>The latest started row of the phase is completed, whatever execution it belongs to.\<close>

definition latest_started :: "string \<Rightarrow> string \<Rightarrow> phase_row list \<Rightarrow> nat option" where
  "latest_started job phase rows =
     (case sort_key (\<lambda>i. - ph_started (rows ! i))
        (filter (\<lambda>i. ph_job (rows ! i) = job \<and> ph_name (rows ! i) = phase \<and> ph_status (rows ! i) = ''started'')
          [0..<length rows]) of
        [] \<Rightarrow> None | i # _ \<Rightarrow> Some i)"

definition log_phase_completed ::
  "string \<Rightarrow> string \<Rightarrow> string \<Rightarrow> string option \<Rightarrow> tick \<Rightarrow> store \<Rightarrow> sql_error + store \<times> unit" where
  "log_phase_completed job phase status message t s =
     (case latest_started job phase (st_phases s) of
        None \<Rightarrow> Inr (s, ())
      | Some i \<Rightarrow> Inr (s\<lparr>st_phases := (st_phases s)[i := (st_phases s ! i)\<lparr>ph_status := status,
          ph_ended := Some (tk_now t), ph_error := message\<rparr>]\<rparr>, ()))"

definition log_phase_skipped ::
  "string \<Rightarrow> string option \<Rightarrow> string \<Rightarrow> string \<Rightarrow> tick \<Rightarrow> store \<Rightarrow> sql_error + store \<times> unit" where
  "log_phase_skipped job eid phase reason t s =
     Inr (s\<lparr>st_phases := st_phases s @ [\<lparr>ph_job = job, ph_exec = eid, ph_name = phase, ph_status = ''skipped'',
       ph_mode = ''skipped'', ph_started = tk_now t, ph_ended = Some (tk_now t), ph_error = Some reason\<rparr>]\<rparr>, ())"

definition close_phases :: "string \<Rightarrow> tick \<Rightarrow> store \<Rightarrow> sql_error + store \<times> unit" where
  "close_phases eid t s =
     Inr (s\<lparr>st_phases := map (\<lambda>p. if ph_exec p = Some eid \<and> ph_status p = ''started''
       then p\<lparr>ph_status := ''skipped'', ph_ended := Some (tk_now t)\<rparr> else p) (st_phases s)\<rparr>, ())"

end
