(* ===== verification/Orchestrator.thy ===== *)
theory Orchestrator
  imports Job_Queue Native_Exec Report_Render
begin

text \<open>
  The pipeline of \<open>backend/src/orchestrator/mod.rs\<close> and its caller in \<open>backend/src/workers/mod.rs\<close>:
  fetch, scan, normalise, score, report and deliver under one lease, and the single commit that
  ends them.  Fetching and scanning are the programs of the theories \<open>Repo_Fetch\<close> and
  \<open>Native_Exec\<close>; what those leave to the outside world is in their environments.
\<close>

section \<open>Scores\<close>

text \<open>A score is a multiple of one half: it is counted in halves, and encoded as a double.\<close>

fun exponent :: "nat \<Rightarrow> nat" where
  "exponent k = (if k < 2 then 0 else Suc (exponent (k div 2)))"

definition half_double :: "nat \<Rightarrow> 64 word" where
  "half_double k =
     (if k = 0 then 0
      else push_bit 52 (of_nat (1022 + exponent k)) + push_bit (52 - exponent k) (of_nat (k - 2 ^ exponent k)))"

definition score_scan :: "bool \<Rightarrow> nat \<Rightarrow> nat option" where
  "score_scan analyzed n = (if \<not> analyzed then None else Some (min 18 (20 - 3 * n)))"

definition risk_level :: "nat option \<Rightarrow> string" where
  "risk_level score =
     (case score of
        None \<Rightarrow> ''unknown''
      | Some s \<Rightarrow> if 16 \<le> s then ''low'' else if 10 \<le> s then ''medium'' else if 4 \<le> s then ''high'' else ''critical'')"

definition json_score :: "nat option \<Rightarrow> json" where
  "json_score s = (case s of None \<Rightarrow> JNull | Some k \<Rightarrow> JNum (Float (half_double k)))"

definition risk_summary :: "bool \<Rightarrow> nat \<Rightarrow> json" where
  "risk_summary analyzed n =
     (let score = score_scan analyzed n in
      JObj (bt_of_list [(''score'', json_score score), (''risk_level'', JStr (risk_level score)),
        (''total_findings'', json_i64 (int n)), (''analysis_performed'', JBool analyzed)]))"

section \<open>The state of one run\<close>

record audit_state =
  as_job :: string
  as_user :: string
  as_repo_url :: string
  as_repo_branch :: string
  as_repo_owner :: string
  as_repo_name :: string
  as_status :: job_status
  as_clone_path :: "string list"
  as_commit :: "string option"
  as_visibility :: "string option"
  as_findings :: "audit_finding list"
  as_score :: "64 word option"
  as_records :: "(string \<times> json) list"
  as_analyzed :: bool
  as_complete :: bool
  as_detail :: "string option"
  as_limitations :: "string list"
  as_markdown :: "string option"
  as_canonical :: "json option"
  as_report :: "json option"
  as_html :: "string option"
  as_risk :: json

definition new_state :: "string \<Rightarrow> string \<Rightarrow> string \<Rightarrow> string \<Rightarrow> audit_state" where
  "new_state job user url branch = \<lparr>as_job = job, as_user = user, as_repo_url = url, as_repo_branch = branch,
     as_repo_owner = [], as_repo_name = [], as_status = Running, as_clone_path = [], as_commit = None,
     as_visibility = None, as_findings = [], as_score = None, as_records = [], as_analyzed = False,
     as_complete = False, as_detail = None, as_limitations = [], as_markdown = None, as_canonical = None,
     as_report = None, as_html = None, as_risk = JNull\<rparr>"

datatype outcome = OkOutcome | PartialOutcome string | FailedOutcome string string | CancelledOutcome

record execution_input =
  ei_github_token :: "string option"
  ei_requested_sha :: "string option"

text \<open>The entries \<open>fetch_snapshot\<close>, \<open>coverage\<close> and \<open>normalize\<close> of \<open>scanner_execution\<close>, which nothing reads, and the phase name
  are left out of the state.  The outside of one run: the fetch and scan environments of the other theories, the uuids, the
  derived serialisers of the two documents, the printer of scores, the environment variable with
  the platform token, and after how many database statements the two time budgets are used up.\<close>

record pipeline_env =
  pe_audit :: audit_env
  pe_fetch :: fetch_env
  pe_temp :: "string list"
  pe_scan :: scan_env
  pe_formats :: formats
  pe_uuid :: "nat \<Rightarrow> string"
  pe_secret :: runtime
  pe_dependency :: runtime
  pe_sast :: runtime
  pe_parse_url :: "string \<Rightarrow> parsed_url option"
  pe_osv_proxy :: "string option"
  pe_osv_cancelled :: bool
  pe_encode_audit :: "audit_document \<Rightarrow> string + json"
  pe_encode_report :: "audit_report \<Rightarrow> string + json"
  pe_fmt :: "64 word \<Rightarrow> string"
  pe_debug_score :: "64 word option \<Rightarrow> string"
  pe_platform_token :: "string option"
  pe_budget :: nat
  pe_outer_budget :: nat

definition ENGINE_AVAILABLE :: bool where "ENGINE_AVAILABLE = True"

definition ENGINE_UNAVAILABLE_REASON :: string where
  "ENGINE_UNAVAILABLE_REASON =
     ''No vulnerability analysis engine is installed in this build. The repository was not ''
     @ ''fetched, read, or analyzed, and no findings were produced.''"

section \<open>Scanner rows\<close>

definition text_member :: "json \<Rightarrow> string \<Rightarrow> string" where
  "text_member v k = (case Option.bind (member v k) as_str of Some s \<Rightarrow> s | None \<Rightarrow> [])"

definition run_status :: "json \<Rightarrow> string" where
  "run_status v =
     (if member v ''error'' \<noteq> None then ''failed''
      else if Option.bind (member v ''coverage'') as_str = Some ''unknown'' then ''failed''
      else
        (case Option.bind (member v ''finding_count'') as_u64 of
           Some n \<Rightarrow> if n = 0 then ''success_clean'' else ''success_findings''
         | None \<Rightarrow> ''success_clean''))"

definition run_record :: "string \<times> json \<Rightarrow> scanner_run_record" where
  "run_record = (\<lambda>(name, v).
     \<lparr>sx_scanner = name, sx_version = text_member v ''version'', sx_parser = text_member v ''parser'',
      sx_mode = text_member v ''mode'', sx_image = text_member v ''image'', sx_status = run_status v,
      sx_count = map_option wrap_i32 (Option.bind (member v ''finding_count'') as_i64),
      sx_known = prefix ''success'' (run_status v), sx_detail = Option.bind (member v ''error'') as_str,
      sx_limitations = []\<rparr>)"

definition scanner_run_records :: "(string \<times> json) list \<Rightarrow> scanner_run_record list" where
  "scanner_run_records records =
     map run_record (filter (\<lambda>(name, _). name \<in> {''gitleaks'', ''osv'', ''semgrep''}) records)"

section \<open>Repository names and tokens\<close>

function trim_git :: "string \<Rightarrow> string" where
  "trim_git s = (case strip_suffix ''.git'' s of Some r \<Rightarrow> trim_git r | None \<Rightarrow> s)"
  by pat_completeness auto
termination
  by (relation "measure length") (auto simp: strip_suffix_def dest: suffix_length_le split: if_splits)

definition strip_git :: "string \<Rightarrow> string" where
  "strip_git url = trim_git (trim_end_matches (CHR ''/'') url)"

definition extract_repo_owner :: "string \<Rightarrow> string" where
  "extract_repo_owner url =
     (case rev (split_on (CHR ''/'') (strip_git url)) of _ # owner # _ \<Rightarrow> owner | _ \<Rightarrow> [])"

definition extract_repo_name :: "string \<Rightarrow> string" where
  "extract_repo_name url =
     (case rev (split_on (CHR ''/'') (strip_git url)) of name # _ \<Rightarrow> name | [] \<Rightarrow> ''repo'')"

definition github_token :: "pipeline_env \<Rightarrow> string" where
  "github_token P = trim (case pe_platform_token P of Some t \<Rightarrow> t | None \<Rightarrow> [])"

definition fetch_token :: "pipeline_env \<Rightarrow> execution_input \<Rightarrow> string" where
  "fetch_token P inp =
     (case map_option trim (ei_github_token inp) of
        Some t \<Rightarrow> if t = [] then github_token P else t
      | None \<Rightarrow> github_token P)"

section \<open>The phases\<close>

text \<open>A program that may never return has the result \<open>None\<close>.\<close>

type_synonym run = "(audit_state \<times> outcome) option proc"

definition finish :: "audit_state \<Rightarrow> outcome \<Rightarrow> run" where
  "finish st out = Ret (Some (st, out))"

text \<open>\<open>phase\<close>: the ledger rows around a phase; the phase itself is a result that needs no database.\<close>

definition phase ::
  "string \<Rightarrow> string \<Rightarrow> string \<Rightarrow> (app_error + 'a) option proc \<Rightarrow> ((app_error + 'a) option \<Rightarrow> 'b proc) \<Rightarrow> 'b proc" where
  "phase job eid name body k =
     query (log_phase_started job (Some eid) name) (\<lambda>_.
     bind body (\<lambda>r.
       case r of
         None \<Rightarrow> k None
       | Some (Inr v) \<Rightarrow> query (log_phase_completed job name ''completed'' None) (\<lambda>_. k r)
       | Some (Inl e) \<Rightarrow> query (log_phase_completed job name ''failed'' (Some (error_text e))) (\<lambda>_. k r)))"

definition cancel_seen :: "bool reply \<Rightarrow> bool" where
  "cancel_seen r = (case r of Inr b \<Rightarrow> b | Inl _ \<Rightarrow> False)"

text \<open>The macro \<open>step!\<close>; \<open>st'\<close> is the state as the phase leaves it when it fails.\<close>

definition run_step ::
  "execution_lease \<Rightarrow> audit_state \<Rightarrow> audit_state \<Rightarrow> string \<Rightarrow> (app_error + 'a) option proc \<Rightarrow> ('a \<Rightarrow> run) \<Rightarrow> run" where
  "run_step lease st st' name body k =
     query (reads (is_cancelled (le_job lease))) (\<lambda>c.
     if cancel_seen c then finish st CancelledOutcome
     else query (beat (le_execution lease) (le_owner lease)) (\<lambda>_.
       phase (le_job lease) (le_execution lease) name body (\<lambda>r.
         case r of
           None \<Rightarrow> Ret None
         | Some (Inr v) \<Rightarrow> k v
         | Some (Inl e) \<Rightarrow>
             query (reads (is_cancelled (le_job lease))) (\<lambda>c.
               if cancel_seen c then finish st' CancelledOutcome
               else finish st' (FailedOutcome name (error_text e))))))"

text \<open>A phase that needs no database of its own.\<close>

definition pure_phase :: "app_error + 'a \<Rightarrow> (app_error + 'a) option proc" where
  "pure_phase r = Ret (Some r)"

definition fetch_phase :: "pipeline_env \<Rightarrow> audit_state \<Rightarrow> execution_input \<Rightarrow> app_error + fetched_repo" where
  "fetch_phase P st inp =
     snd (fetch_repo_with_cancel (pe_fetch P) (pe_temp P) (as_repo_url st) (as_repo_branch st)
       (fetch_token P inp) (ei_requested_sha inp))"

definition bound_state :: "fetched_repo \<Rightarrow> audit_state \<Rightarrow> audit_state" where
  "bound_state fetched st = st\<lparr>as_clone_path := fr_dir fetched, as_commit := rm_commit_sha (fr_metadata fetched)\<rparr>"

definition pin_job :: "string \<Rightarrow> string \<Rightarrow> tick \<Rightarrow> store \<Rightarrow> sql_error + store \<times> nat" where
  "pin_job job commit t = update_jobs (\<lambda>j. jb_id j = job) (\<lambda>j. j\<lparr>jb_commit := Some commit\<rparr>)"

text \<open>The scanners, one after the other over the same tree.\<close>

definition scan_input_of :: "fetched_repo \<Rightarrow> scan_input" where
  "scan_input_of fetched =
     \<lparr>si_source_dir = concat (map (\<lambda>c. CHR ''/'' # c) (fr_dir fetched)),
      si_commit_sha = Some (ts_commit_sha (fr_snapshot fetched)), si_file_count = ts_file_count (fr_snapshot fetched),
      si_total_size = ts_total_size (fr_snapshot fetched)\<rparr>"

definition scan_results :: "pipeline_env \<Rightarrow> fetched_repo \<Rightarrow> scanner_result list option" where
  "scan_results P fetched =
     (let inp = scan_input_of fetched; E = pe_scan P; F = pe_formats P; u = pe_uuid P in
      Option.bind (run_secret_scan E F u (pe_secret P) inp) (\<lambda>secret.
      Option.bind (run_dependency_scan E F u (pe_parse_url P) (pe_osv_proxy P) (pe_osv_cancelled P)
        (pe_dependency P) inp) (\<lambda>dependency.
      Option.bind (run_sast_scan E F u (pe_sast P) inp) (\<lambda>sast. Some [secret, dependency, sast]))))"

definition scanned_state :: "scanner_result list \<Rightarrow> audit_state \<Rightarrow> audit_state" where
  "scanned_state results st =
     (let (findings, cov, detail) = aggregate_scan_results results in
      st\<lparr>as_records := foldl (\<lambda>m r. bt_insert (res_scanner r) (res_record r) m) (as_records st) results,
         as_analyzed := list_ex usable results, as_complete := cov_complete cov, as_detail := detail,
         as_limitations := cov_limitations cov, as_findings := findings\<rparr>)"

definition outcome_name :: "scanner_outcome \<Rightarrow> string" where
  "outcome_name x =
     (case x of Success _ \<Rightarrow> ''success'' | RunFailed _ \<Rightarrow> ''failed'' | scanner_outcome.Timeout _ \<Rightarrow> ''timeout'' | RunCancelled \<Rightarrow> ''cancelled'')"

definition scan_phase :: "scanner_result list \<Rightarrow> app_error + unit" where
  "scan_phase results =
     (if list_ex (\<lambda>r. res_outcome r = RunCancelled) results then Inl (app_error.Cancelled ''scan cancelled'')
      else if \<not> list_ex usable results then
        Inl (Internal (case find (\<lambda>r. \<not> usable r) results of
            Some r \<Rightarrow> ''scanner '' @ res_scanner r @ '' did not produce a trustworthy result (''
              @ outcome_name (res_outcome r) @ ''); no result can be reported''
          | None \<Rightarrow> ''no scanner produced a trustworthy result''))
      else Inr ())"

definition normalized_state :: "pipeline_env \<Rightarrow> audit_state \<Rightarrow> audit_state" where
  "normalized_state P st =
     (let n = normalize_findings_for_persist (pe_audit P) (as_findings st);
          note = nat_str (length (np_invalid n)) @ '' finding(s) failed canonical evidence validation'' in
      if np_invalid n \<noteq> []
      then st\<lparr>as_complete := False, as_detail := Some note,
              as_limitations := remdups_adj (sort (as_limitations st @ [note])), as_findings := np_valid n\<rparr>
      else st\<lparr>as_findings := np_valid n\<rparr>)"

definition coverage_risk_summary :: "audit_state \<Rightarrow> nat \<Rightarrow> json" where
  "coverage_risk_summary st n =
     (let score = score_scan (as_complete st) n in
      JObj (bt_of_list [(''score'', json_score score), (''risk_level'', JStr (risk_level score)),
        (''total_findings'', json_i64 (int n)), (''analysis_performed'', JBool (as_analyzed st)),
        (''coverage_complete'', JBool (as_complete st)),
        (''coverage_status'', JStr (if as_complete st then ''complete'' else ''partial'')),
        (''coverage_detail'', case as_detail st of None \<Rightarrow> JNull | Some d \<Rightarrow> JStr d),
        (''coverage_limitations'', JArr (map JStr (as_limitations st)))]))"

definition scored_state :: "audit_state \<Rightarrow> audit_state" where
  "scored_state st =
     st\<lparr>as_score := map_option half_double (score_scan (as_complete st) (length (as_findings st))),
        as_risk := coverage_risk_summary st (length (as_findings st))\<rparr>"

section \<open>The report phase\<close>

definition request_of :: "audit_state \<Rightarrow> fetched_repo \<Rightarrow> scanner_result list \<Rightarrow> audit_finding list \<Rightarrow> audit_request" where
  "request_of st fetched results findings =
     \<lparr>rq_scan_id = as_job st, rq_repository_url = as_repo_url st, rq_branch = as_repo_branch st,
      rq_owner = as_repo_owner st, rq_name = as_repo_name st, rq_snapshot_commit = as_commit st,
      rq_file_count = ts_file_count (fr_snapshot fetched), rq_total_size = ts_total_size (fr_snapshot fetched),
      rq_results = results, rq_findings = findings, rq_score = as_score st\<rparr>"

definition audit_error_text :: "(64 word option \<Rightarrow> string) \<Rightarrow> audit_error \<Rightarrow> string" where
  "audit_error_text debug e =
     (case e of
        MissingScanId \<Rightarrow> ''canonical audit requires a scan id''
      | MissingRepository \<Rightarrow> ''canonical audit requires a repository URL''
      | MissingScannerRuns \<Rightarrow> ''canonical audit requires at least one scanner run''
      | InconsistentScore score coverage \<Rightarrow>
          ''security score '' @ debug score @ '' is inconsistent with '' @ coverage @ '' coverage''
      | MissingSnapshot \<Rightarrow> ''canonical audit requires a snapshot commit'')"

text \<open>The canonical audit and the report that presents it, rendered and serialised.\<close>

definition report_phase ::
  "pipeline_env \<Rightarrow> execution_lease \<Rightarrow> audit_state \<Rightarrow> fetched_repo \<Rightarrow> scanner_result list \<Rightarrow> audit_finding list
     \<Rightarrow> app_error + audit_state" where
  "report_phase P lease st fetched results findings =
     (case canonical_audit (pe_audit P) (request_of st fetched results findings) of
        Inl e \<Rightarrow> Inl (Internal (''canonical audit failed: '' @ audit_error_text (pe_debug_score P) e))
      | Inr audit \<Rightarrow>
          (case build_report audit \<lparr>ei_execution_id = le_execution lease, ei_attempt_number = le_attempt lease\<rparr> of
             Inl e \<Rightarrow> Inl (Internal (''report build failed: '' @ report_error_text e))
           | Inr report \<Rightarrow>
               (case pe_encode_audit P audit of
                  Inl m \<Rightarrow> Inl (Internal (''canonical audit serialization failed: '' @ m))
                | Inr canonical \<Rightarrow>
                    (case pe_encode_report P report of
                       Inl m \<Rightarrow> Inl (Internal (''report serialization failed: '' @ m))
                     | Inr document \<Rightarrow>
                         Inr (st\<lparr>as_canonical := Some canonical, as_report := Some document,
                           as_html := Some (render_html (pe_fmt P) report),
                           as_markdown := Some (render_markdown (pe_fmt P) report)\<rparr>)))))"

definition deliver_phase :: "audit_state \<Rightarrow> app_error + unit" where
  "deliver_phase st =
     (if as_markdown st = None then Inl (Internal ''report was not generated before delivery'') else Inr ())"

definition end_of_pipeline :: "audit_state \<Rightarrow> outcome" where
  "end_of_pipeline st =
     (if \<not> as_complete st
      then PartialOutcome (case as_detail st of Some d \<Rightarrow> d
        | None \<Rightarrow> ''one or more scanners did not analyze the repository'')
      else OkOutcome)"

section \<open>The pipeline\<close>

text \<open>From the snapshot on: the three scans, with a heartbeat after them, and the phases that turn
  their results into one report.\<close>

definition analyze ::
  "pipeline_env \<Rightarrow> execution_lease \<Rightarrow> fetched_repo \<Rightarrow> audit_state \<Rightarrow> run" where
  "analyze P lease fetched st =
     (let scans = scan_results P fetched;
          st1 = (case scans of None \<Rightarrow> st | Some results \<Rightarrow> scanned_state results st) in
      run_step lease st st1 ''scan''
        (case scans of
           None \<Rightarrow> Ret None
         | Some results \<Rightarrow> query (beat (le_execution lease) (le_owner lease)) (\<lambda>_. pure_phase (scan_phase results)))
        (\<lambda>_.
          let results = the scans; st2 = normalized_state P st1 in
          run_step lease st1 st2 ''normalize'' (pure_phase (Inr ())) (\<lambda>_.
          run_step lease st2 st2 ''score'' (pure_phase (Inr ())) (\<lambda>_.
          let st3 = scored_state st2 in
          run_step lease st3 st3 ''report''
            (pure_phase (report_phase P lease st3 fetched results (as_findings st1))) (\<lambda>st4.
          run_step lease st4 st4 ''deliver'' (pure_phase (deliver_phase st4)) (\<lambda>_.
            finish st4 (end_of_pipeline st4)))))))"

fun visibility_name :: "visibility \<Rightarrow> string" where
  "visibility_name Public = ''public''"
| "visibility_name Private = ''private''"

definition run_pipeline :: "pipeline_env \<Rightarrow> execution_lease \<Rightarrow> audit_state \<Rightarrow> execution_input \<Rightarrow> run" where
  "run_pipeline P lease st inp =
     run_step lease st st ''fetch'' (pure_phase (fetch_phase P st inp)) (\<lambda>fetched.
       let st0 = bound_state fetched st in
       case as_commit st0 of
         None \<Rightarrow> analyze P lease fetched st0
       | Some commit \<Rightarrow>
           query (pin_job (le_job lease) commit) (\<lambda>_.
           bind (bind_snapshot (le_execution lease) (le_owner lease) commit) (\<lambda>r.
             case r of
               Inl e \<Rightarrow> finish st0 (FailedOutcome ''fetch'' (error_text e))
             | Inr _ \<Rightarrow> analyze P lease fetched
                 (st0\<lparr>as_visibility := Some (visibility_name (rm_visibility (fr_metadata fetched)))\<rparr>))))"

section \<open>The commit of a run\<close>

definition outcome_status :: "outcome \<Rightarrow> job_status" where
  "outcome_status out =
     (case out of
        FailedOutcome _ _ \<Rightarrow> job_status.Failed
      | CancelledOutcome \<Rightarrow> job_status.Cancelled
      | PartialOutcome _ \<Rightarrow> Partial
      | OkOutcome \<Rightarrow> if ENGINE_AVAILABLE then Completed else EngineUnavailable)"

definition finalization_of :: "audit_state \<Rightarrow> outcome \<Rightarrow> finalization" where
  "finalization_of st out =
     (case out of
        FailedOutcome name m \<Rightarrow>
          default_finalization\<lparr>fz_job_status := ''failed'', fz_failure := Some (name @ '' phase failed: '' @ m)\<rparr>
      | CancelledOutcome \<Rightarrow>
          default_finalization\<lparr>fz_job_status := ''cancelled'', fz_failure := Some ''Job cancelled by user''\<rparr>
      | PartialOutcome reason \<Rightarrow>
          \<lparr>fz_findings = as_findings st, fz_runs = scanner_run_records (as_records st),
           fz_coverage_status = ''partial'', fz_coverage_complete = False, fz_limitations = as_limitations st,
           fz_summary = Some (as_risk st), fz_canonical = as_canonical st, fz_markdown = as_markdown st,
           fz_report = as_report st, fz_html = as_html st, fz_score = None, fz_job_status = ''partial'',
           fz_failure = Some (''partial coverage: '' @ reason)\<rparr>
      | OkOutcome \<Rightarrow>
          \<lparr>fz_findings = as_findings st, fz_runs = scanner_run_records (as_records st),
           fz_coverage_status = (if as_complete st then ''complete'' else ''partial''),
           fz_coverage_complete = as_complete st, fz_limitations = as_limitations st,
           fz_summary = Some (as_risk st), fz_canonical = as_canonical st, fz_markdown = as_markdown st,
           fz_report = as_report st, fz_html = as_html st, fz_score = as_score st,
           fz_job_status = (if ENGINE_AVAILABLE then ''completed'' else ''engine_unavailable''),
           fz_failure = (if ENGINE_AVAILABLE then None else Some ENGINE_UNAVAILABLE_REASON)\<rparr>)"

text \<open>\<open>tokio::time::timeout\<close>: the program is dropped when its budget is used up or when it never
  returns.\<close>

primrec within :: "'a option proc \<Rightarrow> nat \<Rightarrow> 'a option proc" where
  "within (Ret a) n = Ret a"
| "within (Step f) n =
     (case n of 0 \<Rightarrow> Ret None | Suc m \<Rightarrow> Step (\<lambda>t s. map_prod id (\<lambda>p. within p m) (f t s)))"

definition PIPELINE_BUDGET_SECS :: nat where "PIPELINE_BUDGET_SECS = 1740"

definition timed_out_outcome :: outcome where
  "timed_out_outcome =
     FailedOutcome ''timeout'' (''Job timed out after '' @ nat_str PIPELINE_BUDGET_SECS @ '' seconds'')"

definition unanalyzed_state :: "audit_state \<Rightarrow> audit_state" where
  "unanalyzed_state st =
     st\<lparr>as_analyzed := False, as_score := None,
        as_risk := JObj (bt_of_list [(''score'', JNull), (''risk_level'', JStr ''unknown''),
          (''total_findings'', json_i64 0), (''analysis_performed'', JBool False)])\<rparr>"

definition pipeline :: "pipeline_env \<Rightarrow> execution_lease \<Rightarrow> audit_state \<Rightarrow> execution_input \<Rightarrow> run" where
  "pipeline P lease st inp =
     (let named = st\<lparr>as_repo_owner := extract_repo_owner (as_repo_url st),
        as_repo_name := extract_repo_name (as_repo_url st)\<rparr> in
      phase (le_job lease) (le_execution lease) ''intake'' (pure_phase (Inr ())) (\<lambda>_.
        if ENGINE_AVAILABLE then run_pipeline P lease named inp
        else query (log_phase_skipped (le_job lease) (Some (le_execution lease)) ''engine_unavailable''
               ENGINE_UNAVAILABLE_REASON) (\<lambda>_. finish (unanalyzed_state named) OkOutcome)))"

text \<open>After a refused commit the persisted status and score are read instead; a row whose status does not
  decode is an error and is ignored.\<close>

definition reread :: "audit_state \<Rightarrow> job_row option reply \<Rightarrow> audit_state" where
  "reread st r =
     (case r of
        Inr (Some j) \<Rightarrow>
          (case stored_status (jb_status j) of
             Some x \<Rightarrow> st\<lparr>as_status := x, as_score := jb_score j\<rparr> | None \<Rightarrow> st)
      | _ \<Rightarrow> st)"

definition commit_run :: "pipeline_env \<Rightarrow> execution_lease \<Rightarrow> audit_state \<Rightarrow> outcome \<Rightarrow> (app_error + audit_state) proc" where
  "commit_run P lease st out =
     query (close_phases (le_execution lease)) (\<lambda>_.
     bind (finalize_execution (pe_audit P) lease (finalization_of st out)) (\<lambda>r.
       case r of
         Inr _ \<Rightarrow> Ret (Inr (st\<lparr>as_status := outcome_status out\<rparr>))
       | Inl _ \<Rightarrow> query (reads (\<lambda>s. find (\<lambda>j. jb_id j = le_job lease) (st_jobs s)))
           (\<lambda>r. Ret (Inr (reread st r)))))"

definition skipped_state :: "audit_state \<Rightarrow> job_row option reply \<Rightarrow> audit_state" where
  "skipped_state st r =
     (case r of
        Inr (Some j) \<Rightarrow>
          (case stored_status (jb_status j) of
             Some x \<Rightarrow> st\<lparr>as_status := x, as_commit := jb_commit j, as_repo_url := jb_repo_url j, as_repo_branch := jb_branch j\<rparr>
           | None \<Rightarrow> st)
      | _ \<Rightarrow> st)"

definition execute_audit_job ::
  "pipeline_env \<Rightarrow> string \<Rightarrow> string \<Rightarrow> string \<Rightarrow> string \<Rightarrow> execution_input \<Rightarrow> (app_error + audit_state) proc" where
  "execute_audit_job P job user url branch inp =
     (let st = new_state job user url branch in
      bind (may_execute_job job) (\<lambda>may.
      if may = Inr True
      then bind (claim_job_for_execution job) (\<lambda>_.
           bind (begin_execution (pe_uuid P) job) (\<lambda>l.
             case l of
               Inl e \<Rightarrow> Ret (Inl e)
             | Inr lease \<Rightarrow>
                 bind (within (pipeline P lease st inp) (pe_budget P)) (\<lambda>r.
                   case r of
                     Some (st', out) \<Rightarrow> commit_run P lease st' out
                   | None \<Rightarrow> commit_run P lease st timed_out_outcome)))
      else query (reads (\<lambda>s. find (\<lambda>j. jb_id j = job) (st_jobs s))) (\<lambda>r. Ret (Inr (skipped_state st r)))))"

text \<open>The worker: a run that could open no lease fails the job, unless a successor holds it.\<close>

definition trimmed :: "string option \<Rightarrow> string option" where
  "trimmed x = (case map_option trim x of Some s \<Rightarrow> if s = [] then None else Some s | None \<Rightarrow> None)"

definition run_audit_job ::
  "pipeline_env \<Rightarrow> string \<Rightarrow> string \<Rightarrow> string \<Rightarrow> string \<Rightarrow> string option \<Rightarrow> string option \<Rightarrow> unit proc" where
  "run_audit_job P job user url branch token sha =
     bind (within
       (bind (execute_audit_job P job user url branch
         \<lparr>ei_github_token = trimmed token, ei_requested_sha = trimmed sha\<rparr>) (\<lambda>r. Ret (Some r)))
       (pe_outer_budget P)) (\<lambda>r.
       case r of
         Some (Inr _) \<Rightarrow> Ret ()
       | Some (Inl e) \<Rightarrow> bind (fail_job_if_unowned job (error_text e)) (\<lambda>_. Ret ())
       | None \<Rightarrow> bind (fail_job_if_unowned job ''Job timed out after 30 minutes'') (\<lambda>_. Ret ()))"

text \<open>One turn of the worker loop: claim the oldest queued job and run it.\<close>

definition worker_turn :: "(job_row \<Rightarrow> pipeline_env) \<Rightarrow> (string \<Rightarrow> bool) \<Rightarrow> (job_row \<Rightarrow> string) \<Rightarrow> unit proc" where
  "worker_turn env locked token =
     query (claim_oldest locked) (\<lambda>r.
       case r of
         Inr (Some j) \<Rightarrow>
           run_audit_job (env j) (jb_id j) (jb_user j) (jb_repo_url j) (jb_branch j) (Some (token j)) (jb_requested_sha j)
       | _ \<Rightarrow> Ret ())"

end
