(* ===== verification/Store_Safety.thy ===== *)
theory Store_Safety
  imports Store_Programs Orchestrator
begin

text \<open>
  The invariant of the store and how it may evolve: one running execution per job, dense
  attempt numbers, one job per webhook delivery, no row of an unfinished execution, a score only
  on a completed job, and finished executions and completed jobs that never change.  Every statement of
  \<open>execution.rs\<close> keeps this contract.
\<close>

section \<open>The invariant\<close>

definition finished :: "store \<Rightarrow> string \<Rightarrow> bool" where
  "finished s x \<longleftrightarrow> (\<exists>e \<in> set (st_execs s). ex_id e = x \<and> ex_status e \<noteq> ''running'')"

definition sound_execs :: "exec_row list \<Rightarrow> bool" where
  "sound_execs es \<longleftrightarrow> distinct (map ex_id es)
     \<and> (\<forall>e \<in> set es. 1 \<le> ex_attempt e
         \<and> (\<forall>a. 1 \<le> a \<and> a < ex_attempt e \<longrightarrow> (\<exists>d \<in> set es. ex_job d = ex_job e \<and> ex_attempt d = a)))
     \<and> (\<forall>d \<in> set es. \<forall>e \<in> set es. ex_job d = ex_job e
         \<and> (ex_attempt d = ex_attempt e \<or> ex_status d = ''running'' \<and> ex_status e = ''running'') \<longrightarrow> d = e)"

definition sound_jobs :: "store \<Rightarrow> bool" where
  "sound_jobs s \<longleftrightarrow> distinct (map jb_id (st_jobs s)) \<and> distinct (filter (\<lambda>d. d \<noteq> None) (map jb_delivery (st_jobs s)))
     \<and> (\<forall>j \<in> set (st_jobs s). jb_status j \<in> set JOB_STATUSES \<and> (jb_score j \<noteq> None \<longrightarrow> jb_status j = ''completed'')
         \<and> (jb_status j = ''completed'' \<longrightarrow>
             (\<exists>e \<in> set (st_execs s). ex_job e = jb_id j \<and> ex_status e = ''completed'')))"

definition sound_rows :: "store \<Rightarrow> bool" where
  "sound_rows s \<longleftrightarrow> (\<forall>r \<in> set (st_reports s). finished s (rw_exec r)) \<and> (\<forall>r \<in> set (st_runs s). finished s (rn_exec r))
     \<and> (\<forall>r \<in> set (st_findings s). \<forall>e. fw_exec r = Some e \<longrightarrow> finished s e)"

definition sound :: "store \<Rightarrow> bool" where
  "sound s \<longleftrightarrow> sound_execs (st_execs s) \<and> sound_jobs s \<and> sound_rows s"

section \<open>Evolution\<close>

definition same_exec :: "exec_row \<Rightarrow> exec_row \<Rightarrow> bool" where
  "same_exec d e \<longleftrightarrow> ex_id e = ex_id d \<and> ex_job e = ex_job d \<and> ex_attempt e = ex_attempt d
     \<and> ex_owner e = ex_owner d \<and> ex_started e = ex_started d \<and> (ex_commit d \<noteq> None \<longrightarrow> ex_commit e = ex_commit d)
     \<and> (ex_status d \<noteq> ''running'' \<longrightarrow> e = d)"

definition execs_evolve :: "exec_row list \<Rightarrow> exec_row list \<Rightarrow> bool" where
  "execs_evolve es es' \<longleftrightarrow> (\<forall>d \<in> set es. \<exists>e \<in> set es'. same_exec d e)
     \<and> (\<forall>e \<in> set es'. ex_id e \<in> ex_id ` set es \<or> (\<forall>d \<in> set es. ex_job d = ex_job e \<longrightarrow> ex_attempt d < ex_attempt e))"

definition same_job :: "job_row \<Rightarrow> job_row \<Rightarrow> bool" where
  "same_job i j \<longleftrightarrow> jb_id j = jb_id i \<and> jb_user j = jb_user i \<and> jb_repo_url j = jb_repo_url i
     \<and> jb_branch j = jb_branch i \<and> jb_requested_sha j = jb_requested_sha i \<and> jb_delivery j = jb_delivery i
     \<and> jb_created j = jb_created i
     \<and> (jb_status i = ''completed'' \<longrightarrow> jb_status j = ''completed'' \<and> jb_score j = jb_score i
         \<and> jb_error j = jb_error i \<and> jb_finished j = jb_finished i)"

definition jobs_evolve :: "job_row list \<Rightarrow> job_row list \<Rightarrow> bool" where
  "jobs_evolve js js' \<longleftrightarrow> (\<forall>i \<in> set js. \<exists>j \<in> set js'. same_job i j)"

definition frozen_at :: "string \<Rightarrow> store \<Rightarrow> store \<Rightarrow> bool" where
  "frozen_at x s s' \<longleftrightarrow>
     filter (\<lambda>r. rw_exec r = x) (st_reports s') = filter (\<lambda>r. rw_exec r = x) (st_reports s)
     \<and> filter (\<lambda>r. rn_exec r = x) (st_runs s') = filter (\<lambda>r. rn_exec r = x) (st_runs s)
     \<and> {r \<in> set (st_findings s'). fw_exec r = Some x} \<subseteq> {r \<in> set (st_findings s). fw_exec r = Some x}"

definition rows_frozen :: "store \<Rightarrow> store \<Rightarrow> bool" where
  "rows_frozen s s' \<longleftrightarrow> (\<forall>x. finished s x \<longrightarrow> frozen_at x s s')"

definition evolves :: "store \<Rightarrow> store \<Rightarrow> bool" where
  "evolves s s' \<longleftrightarrow> sound s' \<and> execs_evolve (st_execs s) (st_execs s') \<and> jobs_evolve (st_jobs s) (st_jobs s')
     \<and> rows_frozen s s'"

lemma same_exec_refl [simp]: "same_exec e e" by (simp add: same_exec_def)
lemma same_job_refl [simp]: "same_job j j" by (simp add: same_job_def)

lemma execs_evolve_refl [simp]: "execs_evolve es es"
  unfolding execs_evolve_def using same_exec_refl by blast

lemma jobs_evolve_refl [simp]: "jobs_evolve js js"
  unfolding jobs_evolve_def using same_job_refl by blast

lemma rows_frozen_refl [simp]: "rows_frozen s s"
  by (simp add: rows_frozen_def frozen_at_def)

lemma finished_evolve: "execs_evolve (st_execs s) (st_execs s') \<Longrightarrow> finished s x \<Longrightarrow> finished s' x"
  by (fastforce simp: execs_evolve_def finished_def same_exec_def)

lemma id_inj: "distinct (map ex_id es) \<Longrightarrow> d \<in> set es \<Longrightarrow> e \<in> set es \<Longrightarrow> ex_id d = ex_id e \<Longrightarrow> d = e"
  by (auto simp: distinct_map dest: inj_onD)

lemma same_exec_trans: "same_exec d e \<Longrightarrow> same_exec e f \<Longrightarrow> same_exec d f"
  by (cases "ex_status d = ''running''"; cases "ex_commit d") (simp_all add: same_exec_def)

lemma same_job_trans: "same_job i j \<Longrightarrow> same_job j k \<Longrightarrow> same_job i k"
  by (cases "jb_status i = ''completed''") (simp_all add: same_job_def)

lemma execs_evolveD:
  "execs_evolve es fs \<Longrightarrow> d \<in> set es \<Longrightarrow> \<exists>e \<in> set fs. same_exec d e"
  "execs_evolve es fs \<Longrightarrow> e \<in> set fs \<Longrightarrow>
     ex_id e \<in> ex_id ` set es \<or> (\<forall>d \<in> set es. ex_job d = ex_job e \<longrightarrow> ex_attempt d < ex_attempt e)"
  unfolding execs_evolve_def by blast+

lemma execs_evolve_trans:
  assumes a: "execs_evolve es fs" "execs_evolve fs gs" and d: "distinct (map ex_id gs)"
  shows "execs_evolve es gs"
proof -
  have "\<exists>g \<in> set gs. same_exec d g" if "d \<in> set es" for d
  proof -
    obtain e where e: "e \<in> set fs" "same_exec d e" using execs_evolveD(1)[OF a(1) \<open>d \<in> set es\<close>] by blast
    obtain g where "g \<in> set gs" "same_exec e g" using execs_evolveD(1)[OF a(2) e(1)] by blast
    then show ?thesis using same_exec_trans[OF e(2)] by blast
  qed
  moreover have "ex_id g \<in> ex_id ` set es \<or> (\<forall>d \<in> set es. ex_job d = ex_job g \<longrightarrow> ex_attempt d < ex_attempt g)"
    if g: "g \<in> set gs" for g
  proof (cases "ex_id g \<in> ex_id ` set fs")
    case True
    then obtain f where f: "f \<in> set fs" "ex_id f = ex_id g" by auto
    then obtain h where h: "h \<in> set gs" "same_exec f h" using execs_evolveD(1)[OF a(2)] by blast
    then have "h = g" using id_inj[OF d] g f(2) by (simp add: same_exec_def)
    then have "ex_job f = ex_job g" "ex_attempt f = ex_attempt g" using h(2) by (simp_all add: same_exec_def)
    then show ?thesis using execs_evolveD(2)[OF a(1) f(1)] f(2) by simp
  next
    case False
    then have n: "\<forall>d \<in> set fs. ex_job d = ex_job g \<longrightarrow> ex_attempt d < ex_attempt g"
      using execs_evolveD(2)[OF a(2) g] by blast
    have "ex_attempt c < ex_attempt g" if "c \<in> set es" "ex_job c = ex_job g" for c
    proof -
      obtain f where "f \<in> set fs" "same_exec c f" using execs_evolveD(1)[OF a(1) \<open>c \<in> set es\<close>] by blast
      then have "f \<in> set fs" "ex_job f = ex_job g" "ex_attempt f = ex_attempt c"
        using that by (simp_all add: same_exec_def)
      then show ?thesis using n by metis
    qed
    then show ?thesis by blast
  qed
  ultimately show ?thesis unfolding execs_evolve_def by blast
qed

lemma jobs_evolve_trans: "jobs_evolve is js \<Longrightarrow> jobs_evolve js ks \<Longrightarrow> jobs_evolve is ks"
  unfolding jobs_evolve_def by (meson same_job_trans)

lemma frozen_at_trans: "frozen_at x s t \<Longrightarrow> frozen_at x t u \<Longrightarrow> frozen_at x s u"
  unfolding frozen_at_def by (elim conjE, intro conjI) (simp, simp, erule subset_trans, assumption)

lemma rows_frozen_trans:
  assumes "rows_frozen s t" "rows_frozen t u" "execs_evolve (st_execs s) (st_execs t)"
  shows "rows_frozen s u"
  using assms finished_evolve[OF assms(3)] unfolding rows_frozen_def by (meson frozen_at_trans)

interpretation rg: contract sound evolves
proof
  show "sound s \<Longrightarrow> evolves s s" for s by (simp add: evolves_def)
  show "evolves s u" if "evolves s t" "evolves t u" for s t u
  proof -
    have "distinct (map ex_id (st_execs u))" using that(2) by (simp add: evolves_def sound_def sound_execs_def)
    then show ?thesis
      using that execs_evolve_trans jobs_evolve_trans rows_frozen_trans unfolding evolves_def by blast
  qed
  show "evolves s t \<Longrightarrow> sound t" for s t by (simp add: evolves_def)
qed

section \<open>Chains of statements\<close>

lemma sql_Inr [simp]: "sql t r = Inr a \<longleftrightarrow> r = Inr a"
  by (simp add: sql_def split: sum.split)

lemma sql_ok [simp]: "sql t (Inr a) = Inr a"
  by (simp add: sql_def)

lemma bound_InrE:
  assumes "and_then (sql t r) (\<lambda>(a, b). f a b) = Inr c"
  obtains a b where "r = Inr (a, b)" "f a b = Inr c"
  using assms by (auto simp: and_then_Inr)

section \<open>Statements on jobs\<close>

text \<open>What a statement may do to a job so that nothing but the job can notice.\<close>

definition job_kept :: "job_row \<Rightarrow> job_row \<Rightarrow> bool" where
  "job_kept i j \<longleftrightarrow> same_job i j \<and> jb_score j = jb_score i
     \<and> (jb_status j = ''completed'' \<longrightarrow> jb_status i = ''completed'')"

lemma guard_completed: "audit_jobs_lifecycle_guard ''completed'' t \<longleftrightarrow> t = ''completed''"
  by (simp add: audit_jobs_lifecycle_guard_def)

lemma update_jobs_Inr:
  "update_jobs P f s = Inr (s', n) \<Longrightarrow>
     s' = s\<lparr>st_jobs := map (\<lambda>j. if P j then f j else j) (st_jobs s)\<rparr> \<and> n = length (filter P (st_jobs s))
     \<and> (\<forall>j \<in> set (st_jobs s). P j \<longrightarrow> audit_jobs_lifecycle_guard (jb_status j) (jb_status (f j))
         \<and> jb_status (f j) \<in> set JOB_STATUSES)"
  by (auto simp: update_jobs_def Let_def list_ex_iff split: if_splits)

lemma update_jobs_other:
  "update_jobs P f s = Inr (s', n) \<Longrightarrow> st_execs s' = st_execs s \<and> st_findings s' = st_findings s \<and> st_runs s' = st_runs s
     \<and> st_reports s' = st_reports s"
  by (frule update_jobs_Inr) simp

lemma finished_jobs [simp]: "finished (s\<lparr>st_jobs := js\<rparr>) x = finished s x"
  by (simp add: finished_def)

lemma rows_frozen_jobs [simp]: "rows_frozen s (s\<lparr>st_jobs := js\<rparr>)"
  by (simp add: rows_frozen_def frozen_at_def)

lemma sound_rows_jobs [simp]: "sound_rows (s\<lparr>st_jobs := js\<rparr>) = sound_rows s"
  by (simp add: sound_rows_def)

text \<open>The general rule: what the changed rows have to satisfy.\<close>

definition job_ok :: "exec_row list \<Rightarrow> job_row \<Rightarrow> bool" where
  "job_ok es j \<longleftrightarrow> (jb_score j \<noteq> None \<longrightarrow> jb_status j = ''completed'')
     \<and> (jb_status j = ''completed'' \<longrightarrow> (\<exists>e \<in> set es. ex_job e = jb_id j \<and> ex_status e = ''completed''))"

lemma sound_jobs_iff:
  "sound_jobs s \<longleftrightarrow> distinct (map jb_id (st_jobs s)) \<and> distinct (filter (\<lambda>d. d \<noteq> None) (map jb_delivery (st_jobs s)))
     \<and> (\<forall>j \<in> set (st_jobs s). jb_status j \<in> set JOB_STATUSES \<and> job_ok (st_execs s) j)"
  unfolding sound_jobs_def job_ok_def ..

lemma evolves_update_jobs:
  assumes s: "sound s" and u: "update_jobs P f s = Inr (s', n)"
    and k: "\<And>j. j \<in> set (st_jobs s) \<Longrightarrow> P j \<Longrightarrow> audit_jobs_lifecycle_guard (jb_status j) (jb_status (f j))
      \<Longrightarrow> same_job j (f j) \<and> job_ok (st_execs s) (f j)"
  shows "evolves s s'"
proof -
  let ?g = "\<lambda>j. if P j then f j else j"
  have s': "s' = s\<lparr>st_jobs := map ?g (st_jobs s)\<rparr>" using update_jobs_Inr[OF u] by simp
  have j: "distinct (map jb_id (st_jobs s))" "distinct (filter (\<lambda>d. d \<noteq> None) (map jb_delivery (st_jobs s)))" "\<And>j. j \<in> set (st_jobs s) \<Longrightarrow> jb_status j \<in> set JOB_STATUSES \<and> job_ok (st_execs s) j"
    using s unfolding sound_def sound_jobs_iff by blast+
  have g: "same_job j (?g j) \<and> jb_status (?g j) \<in> set JOB_STATUSES \<and> job_ok (st_execs s) (?g j)" if "j \<in> set (st_jobs s)" for j
    using that k update_jobs_Inr[OF u] j(3) by simp
  have ids: "map (jb_id \<circ> ?g) (st_jobs s) = map jb_id (st_jobs s)"
    "map (jb_delivery \<circ> ?g) (st_jobs s) = map jb_delivery (st_jobs s)"
    using g by (simp_all add: same_job_def)
  have ok: "\<forall>j \<in> set (map ?g (st_jobs s)). jb_status j \<in> set JOB_STATUSES \<and> job_ok (st_execs s) j"
    using g unfolding set_map by blast
  have "sound_jobs s'"
    unfolding sound_jobs_iff s' using j(1,2) ok by (simp add: ids del: set_map)
  moreover have "jobs_evolve (st_jobs s) (map ?g (st_jobs s))"
    unfolding jobs_evolve_def
  proof
    fix i
    assume i: "i \<in> set (st_jobs s)"
    then have "?g i \<in> set (map ?g (st_jobs s))" by (simp only: set_map) (rule imageI)
    then show "\<exists>j \<in> set (map ?g (st_jobs s)). same_job i j" using g[OF i] by blast
  qed
  ultimately show ?thesis
    using s by (simp add: evolves_def sound_def s')
qed

lemma kept_ok: "job_kept i j \<Longrightarrow> job_ok es i \<Longrightarrow> job_ok es j"
  by (auto simp: job_kept_def same_job_def job_ok_def)

lemma evolves_keep_jobs:
  assumes "sound s" "update_jobs P f s = Inr (s', n)"
    and k: "\<And>j. P j \<Longrightarrow> audit_jobs_lifecycle_guard (jb_status j) (jb_status (f j)) \<Longrightarrow> job_kept j (f j)"
  shows "evolves s s'"
proof (rule evolves_update_jobs[OF assms(1,2)])
  fix j
  assume j: "j \<in> set (st_jobs s)" "P j" "audit_jobs_lifecycle_guard (jb_status j) (jb_status (f j))"
  then have "job_kept j (f j)" using k by blast
  moreover have "job_ok (st_execs s) j" using assms(1) j(1) unfolding sound_def sound_jobs_iff by blast
  ultimately show "same_job j (f j) \<and> job_ok (st_execs s) (f j)"
    using kept_ok by (simp add: job_kept_def)
qed

section \<open>Statements on executions\<close>

lemma update_execs_Inr:
  "update_execs P f s = Inr (s', n) \<Longrightarrow>
     s' = s\<lparr>st_execs := map (\<lambda>e. if P e then f e else e) (st_execs s)\<rparr> \<and> n = length (filter P (st_execs s))
     \<and> (\<forall>e \<in> set (st_execs s). P e \<longrightarrow> audit_executions_freeze e (f e))"
  by (auto simp: update_execs_def Let_def list_ex_iff split: if_splits)

lemma update_execs_hit: "update_execs P f s = Inr (s', n) \<Longrightarrow> e \<in> set (st_execs s) \<Longrightarrow> P e \<Longrightarrow> f e \<in> set (st_execs s')"
  by (frule update_execs_Inr) (auto intro: rev_image_eqI)

lemma sound_execsD:
  assumes "sound_execs es" "d \<in> set es" "e \<in> set es" "ex_job d = ex_job e"
    and "ex_attempt d = ex_attempt e \<or> ex_status d = ''running'' \<and> ex_status e = ''running''"
  shows "d = e"
  using assms unfolding sound_execs_def by blast

lemma sound_execs_map:
  assumes s: "sound_execs es" and g: "\<And>e. e \<in> set es \<Longrightarrow> same_exec e (g e)"
  shows "sound_execs (map g es)"
proof -
  have k: "ex_id (g e) = ex_id e" "ex_job (g e) = ex_job e" "ex_attempt (g e) = ex_attempt e"
    "ex_status (g e) = ''running'' \<Longrightarrow> ex_status e = ''running''" if "e \<in> set es" for e
    using g[OF that] by (auto simp: same_exec_def)
  have "map ex_id (map g es) = map ex_id es" using k by simp
  then have "distinct (map ex_id (map g es))" using s unfolding sound_execs_def by argo
  moreover have "1 \<le> ex_attempt e \<and> (\<forall>a. 1 \<le> a \<and> a < ex_attempt e
      \<longrightarrow> (\<exists>d \<in> set (map g es). ex_job d = ex_job e \<and> ex_attempt d = a))" if e: "e \<in> set (map g es)" for e
  proof -
    obtain e0 where e0: "e0 \<in> set es" "e = g e0" using e by auto
    have "1 \<le> ex_attempt e0" "\<forall>a. 1 \<le> a \<and> a < ex_attempt e0 \<longrightarrow> (\<exists>d \<in> set es. ex_job d = ex_job e0 \<and> ex_attempt d = a)"
      using s e0(1) unfolding sound_execs_def by blast+
    moreover have "\<exists>d \<in> set (map g es). ex_job d = ex_job e \<and> ex_attempt d = a" if a: "1 \<le> a \<and> a < ex_attempt e" for a
    proof -
      obtain d where "d \<in> set es" "ex_job d = ex_job e0" "ex_attempt d = a"
        using calculation(2) a k e0 by auto
      then show ?thesis using k e0 by (intro bexI[of _ "g d"]) simp_all
    qed
    ultimately show ?thesis using k e0 by simp
  qed
  moreover have "d = e" if d: "d \<in> set (map g es)" and e: "e \<in> set (map g es)" and je: "ex_job d = ex_job e"
    and c: "ex_attempt d = ex_attempt e \<or> ex_status d = ''running'' \<and> ex_status e = ''running''" for d e
  proof -
    obtain d0 where d0: "d0 \<in> set es" "d = g d0" using d by auto
    obtain e0 where e0: "e0 \<in> set es" "e = g e0" using e by auto
    have "d0 = e0" by (rule sound_execsD[OF s d0(1) e0(1)]) (use je c d0 e0 k in auto)
    then show ?thesis using d0 e0 by simp
  qed
  ultimately show ?thesis
    unfolding sound_execs_def by blast
qed

lemma execs_evolve_map:
  assumes "\<And>e. e \<in> set es \<Longrightarrow> same_exec e (g e)"
  shows "execs_evolve es (map g es)"
proof -
  have "ex_id (g e) = ex_id e" if "e \<in> set es" for e using assms[OF that] by (simp add: same_exec_def)
  then show ?thesis using assms by (auto simp: execs_evolve_def)
qed

lemma frozen_atD:
  "frozen_at (rw_exec r) s t \<Longrightarrow> r \<in> set (st_reports t) \<Longrightarrow> r \<in> set (st_reports s)"
  "frozen_at (rn_exec q) s t \<Longrightarrow> q \<in> set (st_runs t) \<Longrightarrow> q \<in> set (st_runs s)"
  "frozen_at x s t \<Longrightarrow> w \<in> set (st_findings t) \<Longrightarrow> fw_exec w = Some x \<Longrightarrow> w \<in> set (st_findings s)"
proof -
  assume "frozen_at (rw_exec r) s t" "r \<in> set (st_reports t)"
  then have "r \<in> set (filter (\<lambda>p. rw_exec p = rw_exec r) (st_reports s))"
    by (metis (mono_tags, lifting) frozen_at_def mem_Collect_eq set_filter)
  then show "r \<in> set (st_reports s)" by simp
next
  assume "frozen_at (rn_exec q) s t" "q \<in> set (st_runs t)"
  then have "q \<in> set (filter (\<lambda>p. rn_exec p = rn_exec q) (st_runs s))"
    by (metis (mono_tags, lifting) frozen_at_def mem_Collect_eq set_filter)
  then show "q \<in> set (st_runs s)" by simp
qed (auto simp: frozen_at_def)

lemma evolves_commit:
  assumes s: "sound s" and jt: "st_jobs t = st_jobs s" "st_execs t = st_execs s"
    and fr: "\<And>y. y \<noteq> x \<Longrightarrow> frozen_at y s t"
    and x: "finished s x \<Longrightarrow> frozen_at x s t" "\<not> frozen_at x s t \<Longrightarrow> finished t' x"
    and u: "update_execs P f t = Inr (t', n)"
    and k: "\<And>e. P e \<Longrightarrow> audit_executions_freeze e (f e) \<Longrightarrow> same_exec e (f e)"
  shows "evolves s t'"
proof -
  let ?g = "\<lambda>e. if P e then f e else e"
  have t': "t' = t\<lparr>st_execs := map ?g (st_execs s)\<rparr>" using update_execs_Inr[OF u] jt by simp
  have g: "same_exec e (?g e)" if "e \<in> set (st_execs s)" for e
    using that k update_execs_Inr[OF u] jt by simp
  have es: "execs_evolve (st_execs s) (st_execs t')" using execs_evolve_map[OF g] t' by simp
  have rows: "st_reports t' = st_reports t" "st_runs t' = st_runs t" "st_findings t' = st_findings t" by (simp_all add: t')
  have se: "sound_execs (st_execs t')"
    using sound_execs_map[of "st_execs s" ?g] s g by (simp add: t' sound_def)
  have "jb_status j \<in> set JOB_STATUSES \<and> job_ok (st_execs t') j" if j: "j \<in> set (st_jobs t')" for j
  proof -
    have ok: "jb_status j \<in> set JOB_STATUSES" "job_ok (st_execs s) j" using s j jt by (simp_all add: t' sound_def sound_jobs_iff)
    have "\<exists>e \<in> set (st_execs t'). ex_job e = jb_id j \<and> ex_status e = ''completed''" if c: "jb_status j = ''completed''"
    proof -
      obtain e where e: "e \<in> set (st_execs s)" "ex_job e = jb_id j" "ex_status e = ''completed''"
        using ok c unfolding job_ok_def by blast
      obtain e' where "e' \<in> set (st_execs t')" "same_exec e e'" using execs_evolveD(1)[OF es e(1)] by blast
      then show ?thesis using e by (auto simp: same_exec_def)
    qed
    then show ?thesis using ok unfolding job_ok_def by blast
  qed
  then have sj: "sound_jobs t'" using s jt by (simp add: sound_jobs_iff t' sound_def)
  have fin: "finished s y \<Longrightarrow> finished t' y" for y using finished_evolve[OF es] .
  have fz: "frozen_at y s t \<or> finished t' y" for y
    by (cases "y = x"; cases "frozen_at x s t") (simp_all add: fr x(2))
  have "sound_rows s" using s by (simp add: sound_def)
  then have old: "r \<in> set (st_reports s) \<Longrightarrow> finished t' (rw_exec r)" "q \<in> set (st_runs s) \<Longrightarrow> finished t' (rn_exec q)"
    "w \<in> set (st_findings s) \<Longrightarrow> fw_exec w = Some y \<Longrightarrow> finished t' y" for r q w y
    using fin unfolding sound_rows_def by blast+
  have "finished t' (rw_exec r)" if "r \<in> set (st_reports t)" for r
    using fz[of "rw_exec r"] old(1)[of r] frozen_atD(1)[of r s t] that by blast
  moreover have "finished t' (rn_exec r)" if "r \<in> set (st_runs t)" for r
    using fz[of "rn_exec r"] old(2)[of r] frozen_atD(2)[of r s t] that by blast
  moreover have "finished t' y" if "r \<in> set (st_findings t)" "fw_exec r = Some y" for r y
    using fz[of y] old(3)[of r y] frozen_atD(3)[of y s t r] that by blast
  ultimately have "sound_rows t'" unfolding sound_rows_def rows by blast
  moreover have "rows_frozen s t'"
    unfolding rows_frozen_def
  proof (intro allI impI)
    fix y
    assume "finished s y"
    then have "frozen_at y s t" using fr x(1) by (cases "y = x") simp_all
    then show "frozen_at y s t'" by (simp add: frozen_at_def rows)
  qed
  ultimately show ?thesis
    using se sj es jt by (simp add: evolves_def sound_def t')
qed

lemma frozen_at_refl [simp]: "frozen_at y s s" by (simp add: frozen_at_def)

lemma evolves_update_execs:
  assumes "sound s" "update_execs P f s = Inr (s', n)"
    and "\<And>e. P e \<Longrightarrow> audit_executions_freeze e (f e) \<Longrightarrow> same_exec e (f e)"
  shows "evolves s s'"
  by (rule evolves_commit[OF assms(1) refl refl _ _ _ assms(2)]) (use assms(3) in auto)

section \<open>The statements keep the contract\<close>

text \<open>Attempt numbers are read first and used later: what the reader may rely on.\<close>

definition filled :: "string \<Rightarrow> int \<Rightarrow> store \<Rightarrow> bool" where
  "filled job n s \<longleftrightarrow> 1 \<le> n \<and> (\<forall>a. 1 \<le> a \<and> a < n \<longrightarrow> (\<exists>e \<in> set (st_execs s). ex_job e = job \<and> ex_attempt e = a))"

definition leased :: "execution_lease \<Rightarrow> store \<Rightarrow> bool" where
  "leased l s \<longleftrightarrow> (\<exists>e \<in> set (st_execs s). ex_id e = le_execution l \<and> ex_job e = le_job l
     \<and> ex_attempt e = le_attempt l \<and> ex_owner e = Some (le_owner l))"

lemma stable_filled [simp]: "rg.stable (filled job n)"
  unfolding rg.stable_def
proof (intro allI impI)
  fix s s'
  assume e: "evolves s s'" and f: "filled job n s"
  have "\<exists>d \<in> set (st_execs s'). ex_job d = job \<and> ex_attempt d = a" if a: "1 \<le> a \<and> a < n" for a
  proof -
    obtain d where d: "d \<in> set (st_execs s)" "ex_job d = job" "ex_attempt d = a"
      using f a unfolding filled_def by blast
    obtain d' where "d' \<in> set (st_execs s')" "same_exec d d'"
      using e execs_evolveD(1)[OF _ d(1)] unfolding evolves_def by blast
    then show ?thesis using d by (auto simp: same_exec_def)
  qed
  then show "filled job n s'" using f by (simp add: filled_def)
qed

lemma stable_leased [simp]: "rg.stable (leased l)"
  unfolding rg.stable_def
proof (intro allI impI)
  fix s s'
  assume e: "evolves s s'" and f: "leased l s"
  then obtain d where d: "d \<in> set (st_execs s)" "ex_id d = le_execution l" "ex_job d = le_job l"
    "ex_attempt d = le_attempt l" "ex_owner d = Some (le_owner l)" unfolding leased_def by blast
  obtain d' where "d' \<in> set (st_execs s')" "same_exec d d'"
    using e execs_evolveD(1)[OF _ d(1)] unfolding evolves_def by blast
  then show "leased l s'" using d by (auto simp: leased_def same_exec_def)
qed

lemma attempt_bound:
  "e \<in> set es \<Longrightarrow> ex_job e = job \<Longrightarrow> ex_attempt e \<le> foldr (\<lambda>e m. if ex_job e = job then max (ex_attempt e) m else m) es (0::int)"
  by (induction es) auto

lemma attempt_reached:
  "foldr (\<lambda>e m. if ex_job e = job then max (ex_attempt e) m else m) es (0::int) = 0
   \<or> (\<exists>e \<in> set es. ex_job e = job \<and> ex_attempt e = foldr (\<lambda>e m. if ex_job e = job then max (ex_attempt e) m else m) es 0)"
  by (induction es) (auto simp: max_def)

lemma attempt_nonneg: "0 \<le> foldr (\<lambda>e m. if ex_job e = job then max (ex_attempt e) m else m) es (0::int)"
  by (induction es) auto

lemma filled_next: "sound s \<Longrightarrow> filled job (next_attempt job s) s"
proof -
  assume s: "sound s"
  define m where "m = foldr (\<lambda>e m. if ex_job e = job then max (ex_attempt e) m else m) (st_execs s) (0::int)"
  have "\<exists>e \<in> set (st_execs s). ex_job e = job \<and> ex_attempt e = a" if a: "1 \<le> a" "a < m + 1" for a
  proof -
    obtain e where e: "e \<in> set (st_execs s)" "ex_job e = job" "ex_attempt e = m"
      using attempt_reached[of job "st_execs s"] a unfolding m_def by fastforce
    then show ?thesis using s a unfolding sound_def sound_execs_def by (cases "a = m") auto
  qed
  then show ?thesis using attempt_nonneg[of job "st_execs s"] by (simp add: filled_def next_attempt_def m_def)
qed

lemma sound_execs_snoc:
  assumes s: "sound_execs es" and n: "1 \<le> ex_attempt x"
    and f: "\<And>a. 1 \<le> a \<Longrightarrow> a < ex_attempt x \<Longrightarrow> \<exists>d \<in> set es. ex_job d = ex_job x \<and> ex_attempt d = a"
    and new: "\<And>e. e \<in> set es \<Longrightarrow> ex_id e \<noteq> ex_id x"
      "\<And>e. e \<in> set es \<Longrightarrow> ex_job e = ex_job x \<Longrightarrow> ex_attempt e \<noteq> ex_attempt x \<and> ex_status e \<noteq> ''running''"
  shows "sound_execs (es @ [x])"
proof -
  have "1 \<le> ex_attempt e \<and> (\<forall>a. 1 \<le> a \<and> a < ex_attempt e
      \<longrightarrow> (\<exists>d \<in> set (es @ [x]). ex_job d = ex_job e \<and> ex_attempt d = a))" if e: "e \<in> set (es @ [x])" for e
  proof (cases "e = x")
    case True
    have "\<exists>d \<in> set (es @ [x]). ex_job d = ex_job x \<and> ex_attempt d = a" if a: "1 \<le> a" "a < ex_attempt x" for a
      using f[OF a] by auto
    then show ?thesis using n True by blast
  next
    case False
    then have e: "e \<in> set es" using e by simp
    have "1 \<le> ex_attempt e" "\<forall>a. 1 \<le> a \<and> a < ex_attempt e \<longrightarrow> (\<exists>d \<in> set es. ex_job d = ex_job e \<and> ex_attempt d = a)"
      using s e unfolding sound_execs_def by blast+
    then show ?thesis by auto
  qed
  moreover have "d = e" if d: "d \<in> set (es @ [x])" and e: "e \<in> set (es @ [x])" and j: "ex_job d = ex_job e"
    and c: "ex_attempt d = ex_attempt e \<or> ex_status d = ''running'' \<and> ex_status e = ''running''" for d e
  proof (cases "d = x \<or> e = x")
    case True
    then show ?thesis using d e j c new(2)[of d] new(2)[of e] by auto
  next
    case False
    then show ?thesis using d e sound_execsD[OF s _ _ j c] by simp
  qed
  moreover have "distinct (map ex_id (es @ [x]))"
  proof -
    have "ex_id x \<notin> ex_id ` set es" using new(1) by (metis imageE)
    then show ?thesis using s by (simp add: sound_execs_def)
  qed
  ultimately show ?thesis unfolding sound_execs_def by blast
qed

lemma evolves_insert_attempt:
  assumes s: "sound s" and f: "filled job n s" and i: "insert_attempt eid job n owner t s = Inr (s', u)"
  shows "evolves s s' \<and> leased \<lparr>le_execution = eid, le_job = job, le_attempt = n, le_owner = owner\<rparr> s'"
proof -
  let ?e = "new_execution eid job n owner (tk_now t)"
  have s': "s' = s\<lparr>st_execs := st_execs s @ [?e]\<rparr>"
    and new: "\<And>x. x \<in> set (st_execs s) \<Longrightarrow> ex_id x \<noteq> eid \<and> \<not> (ex_job x = job \<and> (ex_attempt x = n \<or> ex_status x = ''running''))"
    using i by (auto simp: insert_attempt_def insert_exec_def new_execution_def list_ex_iff split: if_splits)
  have es: "sound_execs (st_execs s)" using s by (simp add: sound_def)
  have less: "ex_attempt d < n" if d: "d \<in> set (st_execs s)" "ex_job d = job" for d
  proof (rule ccontr)
    assume "\<not> ex_attempt d < n"
    then have "n < ex_attempt d" using new[OF d(1)] d(2) by auto
    then obtain c where "c \<in> set (st_execs s)" "ex_job c = job" "ex_attempt c = n"
      using es d f unfolding sound_execs_def filled_def by blast
    then show False using new by blast
  qed
  have e: "ex_id ?e = eid" "ex_job ?e = job" "ex_attempt ?e = n" "ex_status ?e = ''running''" "ex_owner ?e = Some owner"
    by (simp_all add: new_execution_def)
  have se: "sound_execs (st_execs s @ [?e])"
    by (rule sound_execs_snoc) (use es f new in \<open>auto simp: filled_def e\<close>)
  have ee: "execs_evolve (st_execs s) (st_execs s @ [?e])"
  proof -
    have "\<exists>e \<in> set (st_execs s @ [?e]). same_exec d e" if "d \<in> set (st_execs s)" for d
      using that by (intro bexI[of _ d]) simp_all
    then show ?thesis unfolding execs_evolve_def using less e by auto
  qed
  have fin: "finished s x \<Longrightarrow> finished s' x" for x
    using finished_evolve[of s s'] ee by (simp add: s')
  have sj: "sound_jobs s'"
    using s by (fastforce simp: s' sound_def sound_jobs_def)
  have "sound_rows s'"
    using s fin unfolding sound_def sound_rows_def by (simp add: s')
  moreover have "rows_frozen s s'" by (simp add: rows_frozen_def frozen_at_def s')
  ultimately have "evolves s s'" using se sj ee by (simp add: evolves_def sound_def s')
  then show ?thesis using e by (simp add: leased_def s')
qed

subsection \<open>The jobs\<close>

lemmas job_rules = job_kept_def same_job_def audit_jobs_lifecycle_guard_def owned_by_def job_str.simps

lemma evolves_requeue: "sound s \<Longrightarrow> requeue job t s = Inr (s', n) \<Longrightarrow> evolves s s'"
  unfolding requeue_def by (erule (1) evolves_keep_jobs) (auto simp: job_rules)

lemma evolves_launch: "sound s \<Longrightarrow> launch job t s = Inr (s', n) \<Longrightarrow> evolves s s'"
  unfolding launch_def by (erule (1) evolves_keep_jobs) (auto simp: job_rules)

lemma evolves_claim: "sound s \<Longrightarrow> claim job t s = Inr (s', n) \<Longrightarrow> evolves s s'"
  unfolding claim_def by (erule (1) evolves_keep_jobs) (auto simp: job_rules)

lemma evolves_clear_cancel: "sound s \<Longrightarrow> clear_cancel job s = Inr (s', n) \<Longrightarrow> evolves s s'"
  unfolding clear_cancel_def by (erule (1) evolves_keep_jobs) (auto simp: job_rules)

lemma evolves_fail_unowned: "sound s \<Longrightarrow> fail_unowned job reason t s = Inr (s', n) \<Longrightarrow> evolves s s'"
  unfolding fail_unowned_def by (erule (1) evolves_keep_jobs) (auto simp: job_rules)

lemma evolves_request_cancel: "sound s \<Longrightarrow> request_cancel user job t s = Inr (s', n) \<Longrightarrow> evolves s s'"
  unfolding request_cancel_def by (erule (1) evolves_keep_jobs) (auto simp: job_rules)

lemma evolves_reopen: "sound s \<Longrightarrow> reopen user job t s = Inr (s', n) \<Longrightarrow> evolves s s'"
  unfolding reopen_def by (erule (1) evolves_keep_jobs) (auto simp: job_rules)

lemma evolves_pin_job: "sound s \<Longrightarrow> pin_job job commit t s = Inr (s', n) \<Longrightarrow> evolves s s'"
  unfolding pin_job_def by (erule (1) evolves_keep_jobs) (auto simp: job_rules)

lemma evolves_release:
  assumes s: "sound s" and r: "release job s = Inr (s', n)"
  shows "evolves s s'"
proof (cases "list_ex (\<lambda>e. ex_job e = job \<and> ex_status e = ''running'') (st_execs s)")
  case True
  then show ?thesis using r s rg.evo_refl by (simp add: release_def)
next
  case False
  then have u: "update_jobs (\<lambda>j. jb_id j = job \<and> jb_status j = ''running'') (\<lambda>j. j\<lparr>jb_status := ''queued''\<rparr>) s = Inr (s', n)"
    using r by (simp add: release_def)
  show ?thesis by (rule evolves_keep_jobs[OF s u]) (auto simp: job_rules)
qed

lemma evolves_claim_oldest:
  assumes s: "sound s" and r: "claim_oldest locked t s = Inr (s', j)"
  shows "evolves s s'"
proof (cases "sort_key jb_created (filter (\<lambda>j. jb_status j = ''queued'' \<and> \<not> locked (jb_id j)) (st_jobs s))")
  case Nil
  then show ?thesis using r s rg.evo_refl by (simp add: claim_oldest_def)
next
  case (Cons j0 js)
  then obtain n where u: "update_jobs (\<lambda>x. jb_id x = jb_id j0)
      (\<lambda>x. x\<lparr>jb_status := ''running'', jb_started := Some (tk_now t)\<rparr>) s = Inr (s', n)"
    using r unfolding claim_oldest_def by (auto simp: map_sum_eq_Inr)
  show ?thesis by (rule evolves_keep_jobs[OF s u]) (auto simp: job_rules)
qed

lemma evolves_insert_job:
  assumes s: "sound s" and i: "insert_job j s = Inr (s', n)" and j: "jb_score j = None" "jb_status j = ''queued''"
  shows "evolves s s'"
proof (cases "s' = s")
  case True
  then show ?thesis using s rg.evo_refl by simp
next
  case False
  then have s': "s' = s\<lparr>st_jobs := st_jobs s @ [j]\<rparr>" and n: "jb_id j \<notin> jb_id ` set (st_jobs s)"
    "jb_delivery j \<noteq> None \<Longrightarrow> jb_delivery j \<notin> jb_delivery ` set (st_jobs s)"
    using i by (auto simp: insert_job_def list_ex_iff split: if_splits)
  have "sound_jobs s'" using s n j by (auto simp: sound_def sound_jobs_def s' JOB_STATUSES_def)
  moreover have "jobs_evolve (st_jobs s) (st_jobs s @ [j])"
    unfolding jobs_evolve_def
  proof
    fix i
    assume "i \<in> set (st_jobs s)"
    then show "\<exists>k \<in> set (st_jobs s @ [j]). same_job i k" by (intro bexI[of _ i]) simp_all
  qed
  ultimately show ?thesis using s by (simp add: evolves_def sound_def s')
qed

lemma evolves_create: "sound s \<Longrightarrow> create_tx cap (new_job jid user tenant url branch sha w) t s = Inr (s', n) \<Longrightarrow> evolves s s'"
  by (auto simp: create_tx_def Let_def sql_def new_job_def split: if_splits sum.splits intro: evolves_insert_job)

subsection \<open>The executions\<close>

lemma evolves_bind_commit: "sound s \<Longrightarrow> bind_commit eid owner commit t s = Inr (s', n) \<Longrightarrow> evolves s s'"
  unfolding bind_commit_def by (erule (1) evolves_update_execs) (auto simp: same_exec_def audit_executions_freeze_def)

lemma evolves_beat: "sound s \<Longrightarrow> beat eid owner t s = Inr (s', n) \<Longrightarrow> evolves s s'"
  unfolding beat_def by (erule (1) evolves_update_execs) (auto simp: same_exec_def holds_def)

lemma evolves_close_abandoned: "sound s \<Longrightarrow> close_abandoned eid reason now s = Inr (s', n) \<Longrightarrow> evolves s s'"
  unfolding close_abandoned_def by (erule (1) evolves_update_execs) (auto simp: same_exec_def)

lemma evolves_reap:
  assumes s: "sound s" and r: "reap_tx eid cutoff reason t s = Inr (s', b)"
  shows "evolves s s'"
proof (cases "find (\<lambda>e. ex_id e = eid \<and> ex_status e = ''running'' \<and> last_seen e < cutoff) (st_execs s)")
  case None
  then show ?thesis using r s rg.evo_refl by (simp add: reap_tx_def)
next
  case (Some e)
  then obtain s1 n1 s2 n2 n3 where 1: "close_abandoned eid reason (tk_now t) s = Inr (s1, n1)"
    and 2: "clear_cancel (ex_job e) s1 = Inr (s2, n2)" and 3: "release (ex_job e) s2 = Inr (s', n3)"
    using r by (auto simp: reap_tx_def elim!: bound_InrE)
  have "evolves s s1" using evolves_close_abandoned[OF s 1] .
  moreover have "evolves s1 s2" using evolves_clear_cancel[OF rg.evo_inv[OF calculation] 2] .
  moreover have "evolves s2 s'" using evolves_release[OF rg.evo_inv[OF calculation(2)] 3] .
  ultimately show ?thesis using rg.evo_trans by blast
qed

lemma evolves_ledger: "sound s \<Longrightarrow> evolves s (s\<lparr>st_phases := p\<rparr>)"
  by (simp add: evolves_def sound_def sound_jobs_def sound_rows_def finished_def rows_frozen_def frozen_at_def)

lemma evolves_started: "sound s \<Longrightarrow> log_phase_started job eid name t s = Inr (s', u) \<Longrightarrow> evolves s s'"
  using evolves_ledger by (auto simp: log_phase_started_def)

lemma evolves_completed: "sound s \<Longrightarrow> log_phase_completed job name status m t s = Inr (s', u) \<Longrightarrow> evolves s s'"
  using evolves_ledger rg.evo_refl by (auto simp: log_phase_completed_def split: option.splits)

lemma evolves_skipped: "sound s \<Longrightarrow> log_phase_skipped job eid name reason t s = Inr (s', u) \<Longrightarrow> evolves s s'"
  using evolves_ledger by (auto simp: log_phase_skipped_def)

lemma evolves_close_phases: "sound s \<Longrightarrow> close_phases eid t s = Inr (s', u) \<Longrightarrow> evolves s s'"
  using evolves_ledger by (auto simp: close_phases_def)

lemma leased_sound: "sound leased_store"
  by (simp add: leased_store_def sound_def sound_execs_def sound_jobs_def sound_rows_def new_execution_def JOB_STATUSES_def
      EXECUTION_STATUSES_def)

end
