(* ===== verification/Commit_Safety.thy ===== *)
theory Commit_Safety
  imports Store_Safety
begin

text \<open>
  What the commit of an execution does to the store: which rows it touches, that it keeps the
  contract of \<open>Store_Safety\<close>, whom it refuses, and what it leaves behind when it succeeds.
\<close>

section \<open>Rows of one execution\<close>

text \<open>A step that touches only the findings, scanner runs and report of the execution \<open>x\<close>.\<close>

definition confined :: "string \<Rightarrow> store \<Rightarrow> store \<Rightarrow> bool" where
  "confined x s t \<longleftrightarrow> st_jobs t = st_jobs s \<and> st_execs t = st_execs s \<and> (\<forall>y. y \<noteq> x \<longrightarrow> frozen_at y s t)"

lemma confined_refl [simp]: "confined x s s"
  by (simp add: confined_def)

lemma confined_trans: "confined x s t \<Longrightarrow> confined x t u \<Longrightarrow> confined x s u"
  unfolding confined_def using frozen_at_trans by metis

lemma confined_fold:
  assumes "\<And>a s t. f a s = Inr t \<Longrightarrow> confined x s t" "fold_ok f as s = Inr t"
  shows "confined x s t"
  using assms(2)
proof (induction as arbitrary: s)
  case (Cons a as)
  then obtain u where "f a s = Inr u" "fold_ok f as u = Inr t" by (auto simp: and_then_Inr)
  then show ?case using Cons.IH assms(1) confined_trans by blast
qed simp

lemma confined_upsert_finding:
  assumes "upsert_finding r s = Inr t" "fw_exec r = Some x"
  shows "confined x s t"
  using assms by (auto simp: upsert_finding_def confined_def frozen_at_def adopt_finding_def split: if_splits option.splits)

lemma confined_write_finding: "write_finding E l now f s = Inr t \<Longrightarrow> confined (le_execution l) s t"
  by (auto simp: write_finding_def split: option.splits if_splits intro: confined_upsert_finding)

lemma confined_delete_findings: "delete_findings P s = Inr t \<Longrightarrow> confined x s t"
  by (auto simp: delete_findings_def confined_def frozen_at_def split: if_splits)

lemma confined_write_findings: "write_findings E l now fs s = Inr t \<Longrightarrow> confined (le_execution l) s t"
  unfolding write_findings_def and_then_Inr
  using confined_fold[of "write_finding E l now"] confined_write_finding confined_delete_findings confined_trans by blast

lemma filter_upsert:
  assumes "\<And>r. r \<in> set xs \<Longrightarrow> P r \<Longrightarrow> k (f r) = k r \<and> k r \<noteq> y"
  shows "filter (\<lambda>r. k r = y) (map (\<lambda>r. if P r then f r else r) xs) = filter (\<lambda>r. k r = y) xs"
  using assms by (induction xs) auto

lemma confined_write_run: "write_run l r s = Inr t \<Longrightarrow> confined (le_execution l) s t"
  by (auto simp: write_run_def upsert_run_def confined_def frozen_at_def same_run_def adopt_run_def
      intro!: filter_upsert split: if_splits)

lemma confined_write_report: "write_report l fin s = Inr t \<Longrightarrow> confined (le_execution l) s t"
  by (auto simp: write_report_def upsert_report_def confined_def frozen_at_def adopt_report_def
      intro!: filter_upsert split: if_splits option.splits)

section \<open>The commit keeps the contract\<close>

lemma owned_running_Inr:
  "owned_running l s = Inr u \<Longrightarrow> \<exists>e \<in> set (st_execs s). ex_id e = le_execution l \<and> mine l e"
  by (auto simp: owned_running_def mine_def holds_def find_Some_iff split: option.splits if_splits)

lemma same_exec_close:
  "mine l e \<Longrightarrow> same_exec e (e\<lparr>ex_status := st, ex_finished := f, ex_failure := r, ex_canonical := c, ex_heartbeat := h\<rparr>)"
  by (simp add: same_exec_def mine_def holds_def)

text \<open>Closing the execution after its rows have been written.\<close>

lemma close_hits:
  assumes c: "confined x s t" and own: "owned_running l s = Inr u"
    and cl: "close_execution l status reason canonical now t = Inr (t', n)"
  shows "\<exists>e \<in> set (st_execs s). mine l e
     \<and> e\<lparr>ex_status := status, ex_finished := Some now, ex_failure := reason, ex_canonical := canonical,
         ex_heartbeat := Some now\<rparr> \<in> set (st_execs t')"
proof -
  obtain e where e: "e \<in> set (st_execs s)" "mine l e" using owned_running_Inr[OF own] by blast
  then show ?thesis
    using update_execs_hit[OF cl[unfolded close_execution_def], of e] c by (auto simp: confined_def)
qed

lemma evolves_close:
  assumes s: "sound s" and c: "confined (le_execution l) s t" and own: "owned_running l s = Inr u"
    and st: "status \<noteq> ''running''" and cl: "close_execution l status reason canonical now t = Inr (t', n)"
  shows "evolves s t'"
proof -
  obtain e where e: "e \<in> set (st_execs s)" "mine l e"
    "e\<lparr>ex_status := status, ex_finished := Some now, ex_failure := reason, ex_canonical := canonical,
       ex_heartbeat := Some now\<rparr> \<in> set (st_execs t')" using close_hits[OF c own cl] by blast
  have "\<not> finished s (le_execution l)"
    using s e id_inj[of "st_execs s"] unfolding finished_def sound_def sound_execs_def mine_def holds_def by metis
  moreover have "finished t' (le_execution l)"
    unfolding finished_def by (rule bexI[OF _ e(3)]) (use e(2) st in \<open>simp add: mine_def holds_def\<close>)
  ultimately show ?thesis
    by (intro evolves_commit[where x = "le_execution l", OF s _ _ _ _ _ cl[unfolded close_execution_def]])
      (use c same_exec_close in \<open>auto simp: confined_def\<close>)
qed

text \<open>The job moves with it.\<close>

lemma evolves_close_job:
  assumes s: "sound s" and cl: "close_job l status score reason now s = Inr (s', n)"
    and sc: "score \<noteq> None \<Longrightarrow> status = ''completed''"
    and ex: "status = ''completed'' \<Longrightarrow> \<exists>e \<in> set (st_execs s). ex_job e = le_job l \<and> ex_status e = ''completed''"
  shows "evolves s s'"
proof (rule evolves_update_jobs[OF s cl[unfolded close_job_def]])
  fix j :: job_row
  assume "jb_id j = le_job l \<and> jb_status j \<in> OPEN_JOB"
  then show "same_job j (j\<lparr>jb_status := status, jb_finished := Some now, jb_score := score, jb_error := reason\<rparr>)
    \<and> job_ok (st_execs s) (j\<lparr>jb_status := status, jb_finished := Some now, jb_score := score, jb_error := reason\<rparr>)"
    using sc ex by (auto simp: same_job_def job_ok_def OPEN_JOB_def)
qed

text \<open>The whole transaction, step by step.\<close>

lemma finalize_steps:
  assumes "finalize_tx E l fin t s = Inr (s', ())"
  obtains job s1 n1 s2 s3 s4 s5 n5 n6 where
    "owned_running l s = Inr ()" "find (\<lambda>j. jb_id j = le_job l) (st_jobs s) = Some job"
    "if jb_cancel job then clear_cancel (le_job l) s = Inr (s1, n1) else s1 = s"
    "write_findings E l (tk_now t) (fz_findings fin) s1 = Inr s2" "fold_ok (write_run l) (fz_runs fin) s2 = Inr s3"
    "write_report l fin s3 = Inr s4"
    "close_execution l (final_status (jb_cancel job) fin) (fz_failure fin) (fz_canonical fin) (tk_now t) s4 = Inr (s5, n5)"
    "close_job l (final_status (jb_cancel job) fin) (final_score (jb_cancel job) fin) (fz_failure fin) (tk_now t) s5 = Inr (s', n6)"
proof -
  obtain job where 1: "owned_running l s = Inr ()" "find (\<lambda>j. jb_id j = le_job l) (st_jobs s) = Some job"
    using assms by (auto simp: finalize_tx_def and_then_Inr ok_or_def split: option.splits)
  obtain s1 n1 where 2: "if jb_cancel job then clear_cancel (le_job l) s = Inr (s1, n1) else s1 = s"
    and r: "and_then (sql t (write_findings E l (tk_now t) (fz_findings fin) s1)) (\<lambda>s2.
      and_then (sql t (fold_ok (write_run l) (fz_runs fin) s2)) (\<lambda>s3.
      and_then (sql t (write_report l fin s3)) (\<lambda>s4.
      and_then (sql t (close_execution l (final_status (jb_cancel job) fin) (fz_failure fin) (fz_canonical fin) (tk_now t) s4)) (\<lambda>(s5, _).
      and_then (sql t (close_job l (final_status (jb_cancel job) fin) (final_score (jb_cancel job) fin) (fz_failure fin) (tk_now t) s5))
        (\<lambda>(s6, _). Inr (s6, ())))))) = Inr (s', ())"
    using assms 1 by (cases "jb_cancel job") (auto simp: finalize_tx_def Let_def elim!: bound_InrE)
  obtain s2 s3 s4 where 3: "write_findings E l (tk_now t) (fz_findings fin) s1 = Inr s2"
    "fold_ok (write_run l) (fz_runs fin) s2 = Inr s3" "write_report l fin s3 = Inr s4"
    and r: "and_then (sql t (close_execution l (final_status (jb_cancel job) fin) (fz_failure fin) (fz_canonical fin) (tk_now t) s4)) (\<lambda>(s5, _).
      and_then (sql t (close_job l (final_status (jb_cancel job) fin) (final_score (jb_cancel job) fin) (fz_failure fin) (tk_now t) s5))
        (\<lambda>(s6, _). Inr (s6, ()))) = Inr (s', ())"
    using r by (auto simp: and_then_Inr)
  obtain s5 n5 n6 where
    "close_execution l (final_status (jb_cancel job) fin) (fz_failure fin) (fz_canonical fin) (tk_now t) s4 = Inr (s5, n5)"
    "close_job l (final_status (jb_cancel job) fin) (final_score (jb_cancel job) fin) (fz_failure fin) (tk_now t) s5 = Inr (s', n6)"
    using r by (auto elim!: bound_InrE)
  then show thesis using that 1 2 3 by blast
qed

lemma final_score_completed: "final_score c fin \<noteq> None \<Longrightarrow> final_status c fin = ''completed''"
  by (auto simp: final_score_def Let_def split: if_splits)

lemma evolves_finalize:
  assumes s: "sound s" and l: "leased l s" and f: "finalize_tx E l fin t s = Inr (s', ())"
    and st: "fz_job_status fin \<noteq> ''running''"
  shows "evolves s s'"
proof -
  obtain job s1 n1 s2 s3 s4 s5 n5 n6 where own: "owned_running l s = Inr ()"
    and "find (\<lambda>j. jb_id j = le_job l) (st_jobs s) = Some job"
    and c: "if jb_cancel job then clear_cancel (le_job l) s = Inr (s1, n1) else s1 = s"
    and w: "write_findings E l (tk_now t) (fz_findings fin) s1 = Inr s2" "fold_ok (write_run l) (fz_runs fin) s2 = Inr s3"
      "write_report l fin s3 = Inr s4"
    and cl: "close_execution l (final_status (jb_cancel job) fin) (fz_failure fin) (fz_canonical fin) (tk_now t) s4 = Inr (s5, n5)"
    and cj: "close_job l (final_status (jb_cancel job) fin) (final_score (jb_cancel job) fin) (fz_failure fin) (tk_now t) s5 = Inr (s', n6)"
    by (rule finalize_steps[OF f])
  have 1: "evolves s s1" using c s evolves_clear_cancel rg.evo_refl by (simp split: if_splits)
  have ex: "st_execs s1 = st_execs s"
    using c by (auto simp: clear_cancel_def dest: update_jobs_other split: if_splits)
  then have own1: "owned_running l s1 = Inr ()" using own by (simp add: owned_running_def)
  have conf: "confined (le_execution l) s1 s4"
    using confined_write_findings[OF w(1)] confined_fold[OF _ w(2)] confined_write_run
      confined_write_report[OF w(3)] confined_trans by blast
  have st': "final_status (jb_cancel job) fin \<noteq> ''running''" using st by (simp add: final_status_def)
  have 2: "evolves s1 s5" by (rule evolves_close[OF rg.evo_inv[OF 1] conf own1 st' cl])
  have "\<exists>e \<in> set (st_execs s5). ex_job e = le_job l \<and> ex_status e = ''completed''"
    if fs: "final_status (jb_cancel job) fin = ''completed''"
  proof -
    obtain e where e: "e \<in> set (st_execs s1)" "mine l e"
      "e\<lparr>ex_status := ''completed'', ex_finished := Some (tk_now t), ex_failure := fz_failure fin,
         ex_canonical := fz_canonical fin, ex_heartbeat := Some (tk_now t)\<rparr> \<in> set (st_execs s5)"
      using close_hits[OF conf own1 cl] fs by auto
    obtain d where d: "d \<in> set (st_execs s)" "ex_id d = le_execution l" "ex_job d = le_job l"
      using l unfolding leased_def by blast
    have "e = d" using e d ex s id_inj[of "st_execs s" e d] by (simp add: sound_def sound_execs_def mine_def holds_def)
    then show ?thesis using d by (intro bexI[OF _ e(3)]) simp
  qed
  then have 3: "evolves s5 s'"
    using evolves_close_job[OF rg.evo_inv[OF 2] cj] final_score_completed by blast
  show ?thesis using 1 2 3 rg.evo_trans by blast
qed

lemma evolves_finalize_bare:
  assumes s: "sound s" and l: "leased l s" and f: "finalize_bare_tx l status reason t s = Inr (s', ())"
    and st: "status \<noteq> ''running''"
  shows "evolves s s'"
proof -
  obtain s1 n1 s2 n2 n3 where own: "owned_running l s = Inr ()" and 1: "close_bare l status reason (tk_now t) s = Inr (s1, n1)"
    and 2: "close_job l status None (Some reason) (tk_now t) s1 = Inr (s2, n2)" and 3: "clear_cancel (le_job l) s2 = Inr (s', n3)"
    using f by (auto simp: finalize_bare_tx_def and_then_Inr elim!: bound_InrE)
  obtain e where e: "e \<in> set (st_execs s)" "mine l e" using owned_running_Inr[OF own] by blast
  obtain d where d: "d \<in> set (st_execs s)" "ex_id d = le_execution l" "ex_job d = le_job l" using l unfolding leased_def by blast
  have "e = d" using e d s id_inj[of "st_execs s" e d] by (simp add: sound_def sound_execs_def mine_def holds_def)
  then have "\<exists>e \<in> set (st_execs s1). ex_job e = le_job l \<and> ex_status e = ''completed''" if "status = ''completed''"
    using update_execs_hit[OF 1[unfolded close_bare_def] e] d(3) that by (intro bexI) auto
  moreover have "evolves s s1"
    by (rule evolves_update_execs[OF s 1[unfolded close_bare_def]]) (auto simp: same_exec_def mine_def holds_def)
  ultimately have "evolves s s1" "evolves s1 s2" using evolves_close_job[OF rg.evo_inv 2] by auto
  moreover have "evolves s2 s'" using evolves_clear_cancel[OF rg.evo_inv 3] calculation(2) by blast
  ultimately show ?thesis using rg.evo_trans by blast
qed

end
