(* ===== verification/Run_Safety.thy ===== *)
theory Run_Safety
  imports Commit_Safety
begin

text \<open>
  Every program of the backend keeps the contract of the store, so every interleaving of them
  does: submissions, cancellations, retries, workers and the reaper.
\<close>

section \<open>Programs that keep what is known\<close>

definition steady :: "(store \<Rightarrow> bool) \<Rightarrow> 'a proc \<Rightarrow> bool" where
  "steady K p \<longleftrightarrow> rg.safe (\<lambda>_. K) K p"

named_theorems steady \<open>programs that keep the contract\<close>

lemma steady_ret [steady]: "steady K (Ret a)"
  by (simp add: steady_def rg.ret)

lemma steady_query:
  assumes "rg.stable K" "\<And>t s s' a. sound s \<Longrightarrow> K s \<Longrightarrow> f t s = Inr (s', a) \<Longrightarrow> evolves s s'" "\<And>r. steady K (k r)"
  shows "steady K (query f k)"
  unfolding steady_def by (rule rg.safe_query_simple[OF assms(1,2)]) (use assms(3) in \<open>simp_all add: steady_def\<close>)

lemma steady_must:
  assumes "rg.stable K" "\<And>t s s' a. sound s \<Longrightarrow> K s \<Longrightarrow> f t s = Inr (s', a) \<Longrightarrow> evolves s s'" "\<And>a. steady K (k a)"
  shows "steady K (must f k)"
  unfolding must_def by (rule steady_query[OF assms(1,2)]) (auto intro: steady_ret assms(3) split: sum.split)

lemma steady_transact:
  assumes "rg.stable K" "\<And>t s s' a. sound s \<Longrightarrow> K s \<Longrightarrow> f t s = Inr (s', a) \<Longrightarrow> evolves s s'" "\<And>r. steady K (k r)"
  shows "steady K (transact f k)"
  unfolding steady_def by (rule rg.safe_transact[OF assms(1,2)]) (use assms(3) in \<open>simp_all add: steady_def\<close>)

lemma steady_bind:
  assumes "steady K p" "\<And>a. steady K (k a)"
  shows "steady K (bind p k)"
  using assms unfolding steady_def by (rule rg.safe_bind)

lemma reads_evolves [simp]: "sound s \<Longrightarrow> reads g t s = Inr (s', a) \<Longrightarrow> evolves s s'"
  by (auto simp: reads_def rg.evo_refl)

lemma steady_reads:
  "rg.stable K \<Longrightarrow> (\<And>r. steady K (k r)) \<Longrightarrow> steady K (query (reads g) k)"
  by (rule steady_query) auto

lemma steady_must_reads:
  "rg.stable K \<Longrightarrow> (\<And>r. steady K (k r)) \<Longrightarrow> steady K (must (reads g) k)"
  by (rule steady_must) auto

lemma steady_within:
  assumes "steady K p" "rg.stable K"
  shows "steady K (within p n)"
proof -
  have "rg.safe (\<lambda>_ _. True) J (within p n)" if "rg.safe Q J p" for Q J
    using that
  proof (induction arbitrary: n rule: rg.safe.induct)
    case (ret J a)
    then show ?case by (simp add: rg.ret)
  next
    case (step J f)
    show ?case
    proof (cases n)
      case 0
      then show ?thesis by (simp add: rg.ret)
    next
      case (Suc m)
      show ?thesis unfolding within.simps Suc nat.case
        by (rule rg.step) (use step in \<open>fastforce\<close>)
    qed
  qed
  then have "rg.safe (\<lambda>_ _. True) K (within p n)" using assms(1) unfolding steady_def .
  from rg.safe_frame[OF this assms(2)] show ?thesis by (simp add: steady_def)
qed

section \<open>Leases\<close>

definition lease_known :: "app_error + execution_lease \<Rightarrow> store \<Rightarrow> bool" where
  "lease_known r s \<longleftrightarrow> (case r of Inl _ \<Rightarrow> True | Inr l \<Rightarrow> leased l s)"

lemma lease_known_simps [simp]: "lease_known (Inl e) s" "lease_known (Inr l) s = leased l s"
  by (simp_all add: lease_known_def)

lemma safe_open_attempt: "rg.safe lease_known (\<lambda>_. True) (open_attempt uuid job n)"
proof (induction n)
  case 0
  then show ?case by (simp add: rg.ret)
next
  case (Suc n)
  have "rg.safe lease_known (\<lambda>s. True \<and> filled job a s)
      (query (insert_attempt (uuid (MAX_OPEN_TRIES - n)) job a (uuid 0)) (\<lambda>r.
         case r of
           Inr _ \<Rightarrow> Ret (Inr \<lparr>le_execution = uuid (MAX_OPEN_TRIES - n), le_job = job, le_attempt = a, le_owner = uuid 0\<rparr>)
         | Inl (UniqueViolation, _) \<Rightarrow> open_attempt uuid job n
         | Inl (_, m) \<Rightarrow> Ret (Inl (Database m))))" for a
  proof (rule rg.safe_query[where C = "\<lambda>_. leased \<lparr>le_execution = uuid (MAX_OPEN_TRIES - n), le_job = job, le_attempt = a, le_owner = uuid 0\<rparr>"])
    fix e :: "sql_error \<times> string"
    obtain v m where e: "e = (v, m)" by (cases e)
    have "rg.safe lease_known (\<lambda>s. True \<and> filled job a s) (open_attempt uuid job n)"
      using rg.safe_weaken[OF Suc] by blast
    moreover have "rg.safe lease_known (\<lambda>s. True \<and> filled job a s) (Ret (Inl (Database m)))"
      by (simp add: rg.ret)
    ultimately show "rg.safe lease_known (\<lambda>s. True \<and> filled job a s)
      (case Inl e of
         Inr _ \<Rightarrow> Ret (Inr \<lparr>le_execution = uuid (MAX_OPEN_TRIES - n), le_job = job, le_attempt = a, le_owner = uuid 0\<rparr>)
       | Inl (UniqueViolation, _) \<Rightarrow> open_attempt uuid job n
       | Inl (_, m) \<Rightarrow> Ret (Inl (Database m)))" by (cases v) (simp_all add: e)
  qed (auto intro: rg.ret dest: evolves_insert_attempt)
  then show ?case unfolding open_attempt.simps
    by (intro rg.safe_must_reads[where C = "\<lambda>a. filled job a"])
      (auto simp: filled_next)
qed

lemma safe_begin_execution: "rg.safe lease_known (\<lambda>_. True) (begin_execution uuid job)"
proof -
  have open5: "rg.safe lease_known (\<lambda>_. True) (open_attempt uuid job MAX_OPEN_TRIES)" by (rule safe_open_attempt)
  have launched: "rg.safe lease_known (\<lambda>_. True) (query (launch job) (\<lambda>_. open_attempt uuid job MAX_OPEN_TRIES))"
    by (rule rg.safe_query_simple) (auto intro: evolves_launch open5)
  have requeued: "rg.safe lease_known (\<lambda>_. True)
      (must (requeue job) (\<lambda>_. query (launch job) (\<lambda>_. open_attempt uuid job MAX_OPEN_TRIES)))"
    by (rule rg.safe_must_simple) (auto intro: evolves_requeue launched)
  have current: "rg.safe lease_known (\<lambda>_. True) (must (reads (job_status_of job)) (\<lambda>current.
      case current of
        None \<Rightarrow> open_attempt uuid job MAX_OPEN_TRIES
      | Some status \<Rightarrow>
          if status \<in> {''failed'', ''cancelled'', ''partial'', ''engine_unavailable''}
          then must (requeue job) (\<lambda>_. query (launch job) (\<lambda>_. open_attempt uuid job MAX_OPEN_TRIES))
          else query (launch job) (\<lambda>_. open_attempt uuid job MAX_OPEN_TRIES)))"
  proof (rule rg.safe_must_simple)
    fix a :: "string option"
    show "rg.safe lease_known (\<lambda>_. True) (case a of
        None \<Rightarrow> open_attempt uuid job MAX_OPEN_TRIES
      | Some status \<Rightarrow>
          if status \<in> {''failed'', ''cancelled'', ''partial'', ''engine_unavailable''}
          then must (requeue job) (\<lambda>_. query (launch job) (\<lambda>_. open_attempt uuid job MAX_OPEN_TRIES))
          else query (launch job) (\<lambda>_. open_attempt uuid job MAX_OPEN_TRIES))"
      using open5 launched requeued by (cases a) simp_all
  qed simp_all
  show ?thesis unfolding begin_execution_def
  proof (rule rg.safe_must_simple)
    fix a :: "exec_row option"
    show "rg.safe lease_known (\<lambda>_. True) (case a of
        Some e \<Rightarrow> Ret (Inl (Conflict (''job '' @ job @ '' already has running execution '' @ ex_id e)))
      | None \<Rightarrow> must (reads (job_status_of job)) (\<lambda>current.
          case current of
            None \<Rightarrow> open_attempt uuid job MAX_OPEN_TRIES
          | Some status \<Rightarrow>
              if status \<in> {''failed'', ''cancelled'', ''partial'', ''engine_unavailable''}
              then must (requeue job) (\<lambda>_. query (launch job) (\<lambda>_. open_attempt uuid job MAX_OPEN_TRIES))
              else query (launch job) (\<lambda>_. open_attempt uuid job MAX_OPEN_TRIES)))"
    proof (cases a)
      case None
      then show ?thesis using current by (simp only: option.case)
    qed (simp add: rg.ret)
  qed simp_all
qed

section \<open>The pipeline\<close>

lemma steady_phase:
  assumes K: "rg.stable K" and b: "steady K body" and k: "\<And>r. steady K (k r)"
  shows "steady K (phase job eid name body k)"
proof -
  have "steady K (case r of
         None \<Rightarrow> k None
       | Some (Inr v) \<Rightarrow> query (log_phase_completed job name ''completed'' None) (\<lambda>_. k r)
       | Some (Inl e) \<Rightarrow> query (log_phase_completed job name ''failed'' (Some (error_text e))) (\<lambda>_. k r))" for r
    by (auto intro!: steady_query K k evolves_completed split: option.split sum.split)
  then show ?thesis unfolding phase_def
    by (intro steady_query steady_bind K b) (auto intro: evolves_started)
qed

lemma steady_run_step:
  assumes K: "rg.stable K" and b: "steady K body" and k: "\<And>r. steady K (k r)"
  shows "steady K (run_step l st st' name body k)"
proof -
  have "steady K (case r of
         None \<Rightarrow> Ret None
       | Some (Inr v) \<Rightarrow> k v
       | Some (Inl e) \<Rightarrow>
           query (reads (is_cancelled (le_job l))) (\<lambda>c.
             if cancel_seen c then finish st' CancelledOutcome
             else finish st' (FailedOutcome name (error_text e))))" for r
    by (auto simp: finish_def intro!: steady_reads steady_ret K k split: option.split sum.split)
  then have "steady K (phase (le_job l) (le_execution l) name body (\<lambda>r.
         case r of
           None \<Rightarrow> Ret None
         | Some (Inr v) \<Rightarrow> k v
         | Some (Inl e) \<Rightarrow>
             query (reads (is_cancelled (le_job l))) (\<lambda>c.
               if cancel_seen c then finish st' CancelledOutcome
               else finish st' (FailedOutcome name (error_text e)))))"
    by (intro steady_phase K b)
  then show ?thesis unfolding run_step_def
    by (intro steady_reads K) (auto simp: finish_def intro!: steady_ret steady_query K intro: evolves_beat)
qed

lemma steady_pure [steady]: "steady K (pure_phase r)"
  by (simp add: pure_phase_def steady_ret)

lemma steady_finish [steady]: "steady K (finish st out)"
  by (simp add: finish_def steady_ret)

lemma steady_analyze: "rg.stable K \<Longrightarrow> steady K (analyze P l fetched st)"
  unfolding analyze_def Let_def
  by (intro steady_run_step steady)
    (auto intro!: steady steady_query intro: evolves_beat split: option.split)

lemma steady_bind_snapshot: "rg.stable K \<Longrightarrow> steady K (bind_snapshot eid owner commit)"
  unfolding bind_snapshot_def by (intro steady_must steady_ret) (auto intro: evolves_bind_commit)

lemma steady_run_pipeline: "rg.stable K \<Longrightarrow> steady K (run_pipeline P l st inp)"
  unfolding run_pipeline_def Let_def
  by (intro steady_run_step steady)
    (auto intro!: steady_query steady_bind steady_bind_snapshot steady_analyze steady_finish
      intro: evolves_pin_job split: option.split sum.split)

lemma steady_pipeline: "rg.stable K \<Longrightarrow> steady K (pipeline P l st inp)"
  unfolding pipeline_def Let_def
  by (intro steady_phase steady)
    (auto intro!: steady_query steady_finish steady_run_pipeline intro: evolves_skipped)

lemma final_never_running: "fz_job_status (finalization_of st out) \<noteq> ''running''"
  by (cases out) (simp_all add: finalization_of_def default_finalization_def ENGINE_AVAILABLE_def)

lemma steady_finalize:
  "steady (leased l) (finalize_execution E l (finalization_of st out))"
  unfolding finalize_execution_def
proof (intro steady_transact steady_ret)
  fix t s s' a
  assume "sound s" "leased l s" "finalize_tx E l (finalization_of st out) t s = Inr (s', a)"
  then show "evolves s s'" using evolves_finalize final_never_running by (cases a) blast
qed simp

lemma steady_commit_run: "steady (leased l) (commit_run P l st out)"
proof -
  have "steady (leased l) (case r of
         Inr _ \<Rightarrow> Ret (Inr (st\<lparr>as_status := outcome_status out\<rparr>))
       | Inl _ \<Rightarrow> query (reads (\<lambda>s. find (\<lambda>j. jb_id j = le_job l) (st_jobs s)))
           (\<lambda>r. Ret (Inr (reread st r))))" for r :: "app_error + unit"
    by (auto intro!: steady_reads steady_ret split: sum.split)
  then show ?thesis unfolding commit_run_def
    by (intro steady_query steady_bind steady_finalize) (auto intro: evolves_close_phases)
qed

text \<open>A run opens its lease inside; what follows may rely on it.\<close>

lemma safe_any: "steady K p \<Longrightarrow> rg.safe (\<lambda>_ _. True) K p"
  unfolding steady_def by (erule rg.safe_mono) simp

lemma ok_leased_run:
  assumes "\<And>r. steady (leased l) (k r)"
  shows "rg.safe (\<lambda>_ _. True) (leased l) (bind (within (pipeline P l st inp) n) k)"
  by (intro safe_any steady_bind steady_within steady_pipeline assms) simp_all

lemma ok_execute: "rg.safe (\<lambda>_ _. True) (\<lambda>_. True) (execute_audit_job P job user url branch inp)"
proof -
  let ?st = "new_state job user url branch"
  let ?run = "\<lambda>r :: app_error + execution_lease. case r of
      Inl e \<Rightarrow> Ret (Inl e)
    | Inr lease \<Rightarrow> bind (within (pipeline P lease ?st inp) (pe_budget P)) (\<lambda>r.
        case r of Some (st', out) \<Rightarrow> commit_run P lease st' out
        | None \<Rightarrow> commit_run P lease ?st timed_out_outcome)"
  let ?skip = "query (reads (\<lambda>s. find (\<lambda>j. jb_id j = job) (st_jobs s)))
    (\<lambda>r. Ret (Inr (skipped_state ?st r))) :: (app_error + audit_state) proc"
  have run: "rg.safe (\<lambda>_ _. True) (lease_known r) (?run r)" for r
  proof (cases r)
    case (Inl e)
    then show ?thesis by (simp add: rg.ret)
  next
    case (Inr l)
    have "rg.safe (\<lambda>_ _. True) (leased l) (bind (within (pipeline P l ?st inp) (pe_budget P)) (\<lambda>r.
        case r of Some (st', out) \<Rightarrow> commit_run P l st' out
        | None \<Rightarrow> commit_run P l ?st timed_out_outcome))"
      by (rule ok_leased_run) (auto intro: steady_commit_run split: option.split)
    moreover have "lease_known r = leased l" using Inr by (simp add: fun_eq_iff)
    ultimately show ?thesis using Inr by simp
  qed
  have begun: "rg.safe (\<lambda>_ _. True) (\<lambda>_. True) (bind (begin_execution (pe_uuid P) job) ?run)"
    by (rule rg.safe_bind[OF safe_begin_execution run])
  have claimed: "steady (\<lambda>_. True) (claim_job_for_execution job)"
    unfolding claim_job_for_execution_def by (intro steady_must steady_ret) (auto intro: evolves_claim)
  have may: "steady (\<lambda>_. True) (may_execute_job job)"
    unfolding may_execute_job_def by (intro steady_must_reads steady_ret) simp
  have go: "rg.safe (\<lambda>_ _. True) (\<lambda>_. True) (bind (claim_job_for_execution job) (\<lambda>_. bind (begin_execution (pe_uuid P) job) ?run))"
    by (rule rg.safe_bind[OF safe_any[OF claimed] begun])
  have skip: "rg.safe (\<lambda>_ _. True) (\<lambda>_. True) ?skip" by (intro safe_any steady_reads steady_ret) simp
  show ?thesis unfolding execute_audit_job_def Let_def
  proof (rule rg.safe_bind[OF safe_any[OF may]])
    fix may :: "app_error + bool"
    show "rg.safe (\<lambda>_ _. True) (\<lambda>_. True) (if may = Inr True
      then bind (claim_job_for_execution job) (\<lambda>_. bind (begin_execution (pe_uuid P) job) ?run) else ?skip)"
      using go skip by presburger
  qed
qed

section \<open>The entry points\<close>

abbreviation free :: "'a proc \<Rightarrow> bool" where
  "free \<equiv> steady (\<lambda>_. True)"

lemma free_iff: "free p \<longleftrightarrow> rg.safe (\<lambda>_ _. True) (\<lambda>_. True) p"
  by (simp add: steady_def)

lemma free_fail: "free (fail_job_if_unowned job reason)"
  unfolding fail_job_if_unowned_def by (intro steady_must steady_ret) (auto intro: evolves_fail_unowned)

lemma free_run_audit_job: "free (run_audit_job P job user url branch token sha)"
  unfolding run_audit_job_def
  by (intro steady_bind steady_within)
    (auto simp: free_iff[of "execute_audit_job _ _ _ _ _ _"] intro!: ok_execute steady_ret steady_bind free_fail
      split: option.split sum.split)

lemma free_worker_turn: "free (worker_turn env locked token)"
proof -
  have "free (case r of
         Inr (Some j) \<Rightarrow>
           run_audit_job (env j) (jb_id j) (jb_user j) (jb_repo_url j) (jb_branch j) (Some (token j)) (jb_requested_sha j)
       | _ \<Rightarrow> Ret ())" for r :: "job_row option reply"
    by (auto intro: steady_ret free_run_audit_job split: sum.split option.split)
  then show ?thesis unfolding worker_turn_def
    by (intro steady_query) (auto intro: evolves_claim_oldest)
qed

lemma free_reap_all: "free (reap_all cutoff es)"
proof (induction cutoff es rule: reap_all.induct)
  case (2 cutoff e j es)
  have "free (reap_abandoned_execution e cutoff REAPED)"
    unfolding reap_abandoned_execution_def by (intro steady_transact steady_ret) (auto intro: evolves_reap)
  then show ?case using 2 by (simp add: steady_bind)
qed (simp add: steady_ret)

lemma free_reaper_pass: "free (reaper_pass cutoff)"
  unfolding reaper_pass_def by (intro steady_reads free_reap_all) simp

lemma free_queue_job: "free (queue_job jid cap (new_job jid user tenant url branch sha w) w)"
  unfolding queue_job_def
  by (intro steady_transact)
    (auto intro!: steady_ret steady_must_reads intro: evolves_create split: sum.split)

lemma free_create: "free (create_audit_job_attributed jid cap user tenant url branch requested w)"
  unfolding create_audit_job_attributed_def Let_def
  by (auto intro!: steady_ret steady_must_reads free_queue_job split: sum.split option.split)

lemma free_cancel: "free (cancel_job user job)"
  unfolding cancel_job_def by (intro steady_must steady_ret) (auto intro: evolves_request_cancel)

lemma free_retry: "free (retry_job user job)"
proof -
  have reopened: "free (must (reopen user job) (\<lambda>n. Ret (f n)))" for f :: "nat \<Rightarrow> app_error + unit"
    by (intro steady_must steady_ret) (auto intro: evolves_reopen)
  show ?thesis unfolding retry_job_def
    by (auto intro!: steady_ret steady_must_reads reopened split: option.split)
qed

lemma free_reports: "free (reconstruct_report_source decode job eid)" "free (load_stored_report job eid)"
  unfolding reconstruct_report_source_def load_stored_report_def
  by (auto intro!: steady_ret steady_must_reads split: option.split)

lemma free_reconstruct: "free (reconstruct_latest_audit job)"
proof -
  have score: "free (must (\<lambda>t s. map_sum id (\<lambda>j. (s, jb_score j)) (ok_or RowNotFound (find (\<lambda>j. jb_id j = job) (st_jobs s))))
      (\<lambda>x. Ret (f x)))" for f :: "64 word option \<Rightarrow> app_error + reconstructed_audit option"
    by (intro steady_must steady_ret) (auto simp: ok_or_def rg.evo_refl split: option.splits)
  show ?thesis unfolding reconstruct_latest_audit_def
    by (auto intro!: steady_ret steady_must_reads score split: option.split)
qed

text \<open>Everything the backend runs against the audit tables, each result dropped.\<close>

definition discard :: "'a proc \<Rightarrow> unit proc" where
  "discard p = bind p (\<lambda>_. Ret ())"

inductive backend :: "unit proc \<Rightarrow> bool" where
  "backend (discard (create_audit_job_attributed jid cap user tenant url branch requested w))"
| "backend (discard (cancel_job user job))"
| "backend (discard (retry_job user job))"
| "backend (worker_turn env locked token)"
| "backend (reaper_pass cutoff)"
| "backend (discard (reconstruct_report_source decode job eid))"
| "backend (discard (load_stored_report job eid))"
| "backend (discard (reconstruct_latest_audit job))"

inductive_cases backendE: "backend p"

lemma free_discard: "free p \<Longrightarrow> free (discard p)"
  by (simp add: discard_def steady_bind steady_ret)

lemma free_backend: "backend p \<Longrightarrow> free p"
  by (induction rule: backend.induct)
    (auto intro: free_discard free_create free_cancel free_retry free_worker_turn free_reaper_pass free_reports free_reconstruct)

lemma backend_kept: "backend p \<Longrightarrow> rg.kept p s"
  unfolding rg.kept_def using free_backend[unfolded free_iff] by (intro exI[of _ "\<lambda>_. True"]) simp


lemma cancel_step:
  "\<exists>p. pool_step (leased_store, [discard (cancel_job ''u1'' ''j1'')])
     (leased_store\<lparr>st_jobs := map (\<lambda>j. j\<lparr>jb_cancel := True, jb_cancel_at := Some 10\<rparr>) (st_jobs leased_store)\<rparr>, [p])"
proof -
  let ?s = "leased_store\<lparr>st_jobs := map (\<lambda>j. j\<lparr>jb_cancel := True, jb_cancel_at := Some 10\<rparr>) (st_jobs leased_store)\<rparr>"
  obtain f where f: "discard (cancel_job ''u1'' ''j1'') = Step f"
    by (simp add: discard_def cancel_job_def must_def query_def)
  have "fst (f lease_tick leased_store) = ?s"
    using f by (auto simp: discard_def cancel_job_def must_def query_def request_cancel_def update_jobs_def owned_by_def
        leased_store_def lease_tick_def audit_jobs_lifecycle_guard_def JOB_STATUSES_def EXECUTION_STATUSES_def)
  then show ?thesis using pool_step[of 0 "[discard (cancel_job ''u1'' ''j1'')]" f leased_store lease_tick] f by auto
qed


end
