(* ===== verification/Commit_Refinement.thy ===== *)
theory Commit_Refinement
  imports Run_Safety
begin

text \<open>
  The commit of an execution against its specification: one simultaneous update of all the tables,
  and the exact condition under which it happens.
\<close>

section \<open>The specification\<close>

definition holder :: "execution_lease \<Rightarrow> store \<Rightarrow> bool" where
  "holder l s \<longleftrightarrow> list_ex (mine l) (st_execs s)"

definition cancel_asked :: "execution_lease \<Rightarrow> store \<Rightarrow> bool" where
  "cancel_asked l s \<longleftrightarrow> list_ex (\<lambda>j. jb_id j = le_job l \<and> jb_cancel j) (st_jobs s)"

definition metadata_ok :: "audit_env \<Rightarrow> audit_finding \<Rightarrow> bool" where
  "metadata_ok E f \<longleftrightarrow> (case fd_metadata_json f of None \<Rightarrow> True | Some raw \<Rightarrow> env_parse E raw \<noteq> None)"

definition finding_row_of :: "execution_lease \<Rightarrow> time \<Rightarrow> audit_finding \<Rightarrow> finding_row" where
  "finding_row_of l now f =
     \<lparr>fw_job = le_job l, fw_exec = Some (le_execution l), fw_finding = stored_finding f, fw_created = now\<rparr>"

definition run_row_of :: "execution_lease \<Rightarrow> scanner_run_record \<Rightarrow> run_row" where
  "run_row_of l r = \<lparr>rn_exec = le_execution l, rn_scanner = sx_scanner r, rn_version = sx_version r,
     rn_parser = sx_parser r, rn_mode = sx_mode r, rn_image = sx_image r, rn_status = sx_status r,
     rn_count = sx_count r, rn_known = sx_known r, rn_detail = sx_detail r, rn_limitations = sx_limitations r\<rparr>"

definition report_rows_of :: "execution_lease \<Rightarrow> finalization \<Rightarrow> report_row list" where
  "report_rows_of l fin = map (\<lambda>m. \<lparr>rw_job = le_job l, rw_exec = le_execution l, rw_markdown = Some m, rw_html = fz_html fin,
     rw_json = fz_report fin, rw_version = report_version (fz_report fin),
     rw_canonical_version = canonical_version (fz_report fin)\<rparr>) (case fz_markdown fin of None \<Rightarrow> [] | Some m \<Rightarrow> [m])"

text \<open>A pending cancellation wins; a score needs complete coverage and a completed job.\<close>

definition settled_status :: "bool \<Rightarrow> finalization \<Rightarrow> string" where
  "settled_status asked fin = (if asked then ''cancelled'' else fz_job_status fin)"

definition settled_score :: "bool \<Rightarrow> finalization \<Rightarrow> 64 word option" where
  "settled_score asked fin =
     (if \<not> asked \<and> fz_coverage_complete fin \<and> fz_job_status fin = ''completed'' then fz_score fin else None)"

definition committed :: "execution_lease \<Rightarrow> finalization \<Rightarrow> time \<Rightarrow> store \<Rightarrow> store" where
  "committed l fin now s =
     (let status = settled_status (cancel_asked l s) fin; score = settled_score (cancel_asked l s) fin in
      s\<lparr>st_jobs := map (\<lambda>j. if jb_id j \<noteq> le_job l then j
           else
             (let j' = if jb_cancel j then j\<lparr>jb_cancel := False, jb_cancel_at := None\<rparr> else j in
              if jb_status j = ''completed'' then j'
              else j'\<lparr>jb_status := status, jb_finished := Some now, jb_score := score, jb_error := fz_failure fin\<rparr>)) (st_jobs s),
         st_execs := map (\<lambda>e. if mine l e
           then e\<lparr>ex_status := status, ex_finished := Some now, ex_failure := fz_failure fin, ex_canonical := fz_canonical fin,
                  ex_heartbeat := Some now\<rparr> else e) (st_execs s),
         st_findings := st_findings s @ map (finding_row_of l now) (fz_findings fin),
         st_runs := st_runs s @ map (run_row_of l) (fz_runs fin),
         st_reports := st_reports s @ report_rows_of l fin\<rparr>)"

text \<open>The commit takes place when the lease is live, the metadata parses, and the trigger lets the job move.\<close>

definition commits :: "audit_env \<Rightarrow> execution_lease \<Rightarrow> finalization \<Rightarrow> store \<Rightarrow> bool" where
  "commits E l fin s \<longleftrightarrow> holder l s \<and> list_all (metadata_ok E) (fz_findings fin)
     \<and> settled_status (cancel_asked l s) fin \<in> set EXECUTION_STATUSES
     \<and> list_ex (\<lambda>j. jb_id j = le_job l \<and>
         (jb_status j = ''completed'' \<or> audit_jobs_lifecycle_guard (jb_status j) (settled_status (cancel_asked l s) fin))) (st_jobs s)"

definition fresh :: "finalization \<Rightarrow> store \<Rightarrow> bool" where
  "fresh fin s \<longleftrightarrow> distinct (map fd_id (fz_findings fin)) \<and> distinct (map sx_scanner (fz_runs fin))
     \<and> fw_id ` set (st_findings s) \<inter> fd_id ` set (fz_findings fin) = {}"

lemma settled: "settled_status c fin = final_status c fin" "settled_score c fin = final_score c fin"
  by (auto simp: settled_status_def settled_score_def final_status_def final_score_def)

lemmas committed_final = committed_def[unfolded settled]
lemmas commits_final = commits_def[unfolded settled]

section \<open>The steps when nothing is in the way\<close>

definition ready :: "execution_lease \<Rightarrow> store \<Rightarrow> bool" where
  "ready l s \<longleftrightarrow> live_or_absent s (le_execution l) \<and> le_job l \<in> jb_id ` set (st_jobs s) \<and> le_execution l \<in> ex_id ` set (st_execs s)"

lemma ready_rows [simp]:
  "ready l (s\<lparr>st_findings := a\<rparr>) = ready l s" "ready l (s\<lparr>st_runs := b\<rparr>) = ready l s" "ready l (s\<lparr>st_reports := c\<rparr>) = ready l s"
  by (simp_all add: ready_def live_or_absent_def exec_status_def)

lemma stored_id [simp]: "fd_id (stored_finding f) = fd_id f"
  by (simp add: stored_finding_def)

lemma find_id_none: "fd_id f \<notin> fw_id ` set rs \<Longrightarrow> find (\<lambda>r. fw_id r = fd_id f) rs = None"
  by (simp add: find_None_iff) (metis image_eqI)

lemma write_finding_new:
  assumes "ready l s" "fd_id f \<notin> fw_id ` set (st_findings s)"
  shows "write_finding E l now f s = (if metadata_ok E f
    then Inr (s\<lparr>st_findings := st_findings s @ [finding_row_of l now f]\<rparr>) else Inl InvalidText)"
proof -
  have "upsert_finding \<lparr>fw_job = le_job l, fw_exec = Some (le_execution l), fw_finding = stored_finding f, fw_created = now\<rparr> s
    = Inr (s\<lparr>st_findings := st_findings s @ [finding_row_of l now f]\<rparr>)"
    using assms find_id_none[OF assms(2)]
    by (simp add: upsert_finding_def findings_require_live_parent_def parents_exist_def ready_def finding_row_of_def)
  then show ?thesis by (simp add: write_finding_def metadata_ok_def split: option.split)
qed

lemma fold_findings_new:
  assumes "ready l s" "distinct (map fd_id fs)" "fw_id ` set (st_findings s) \<inter> fd_id ` set fs = {}"
  shows "fold_ok (write_finding E l now) fs s = (if list_all (metadata_ok E) fs
    then Inr (s\<lparr>st_findings := st_findings s @ map (finding_row_of l now) fs\<rparr>) else Inl InvalidText)"
  using assms
proof (induction fs arbitrary: s)
  case (Cons f fs)
  let ?s = "s\<lparr>st_findings := st_findings s @ [finding_row_of l now f]\<rparr>"
  have w: "write_finding E l now f s = (if metadata_ok E f then Inr ?s else Inl InvalidText)"
    using Cons.prems by (intro write_finding_new) auto
  have "fw_id ` set (st_findings ?s) \<inter> fd_id ` set fs = {}"
    using Cons.prems(2,3) by (auto simp: finding_row_of_def)
  then have "fold_ok (write_finding E l now) fs ?s = (if list_all (metadata_ok E) fs
      then Inr (?s\<lparr>st_findings := st_findings ?s @ map (finding_row_of l now) fs\<rparr>) else Inl InvalidText)"
    using Cons.prems by (intro Cons.IH) simp_all
  then show ?case using w by simp
qed simp

lemma write_findings_new:
  assumes "ready l s" "distinct (map fd_id fs)" "fw_id ` set (st_findings s) \<inter> fd_id ` set fs = {}"
    and "\<And>r. r \<in> set (st_findings s) \<Longrightarrow> fw_exec r \<noteq> Some (le_execution l)"
  shows "write_findings E l now fs s = (if list_all (metadata_ok E) fs
    then Inr (s\<lparr>st_findings := st_findings s @ map (finding_row_of l now) fs\<rparr>) else Inl InvalidText)"
proof -
  have "fw_id (finding_row_of l now f) = fd_id f" for f by (simp add: finding_row_of_def)
  then have keep: "\<not> (fw_exec r = Some (le_execution l) \<and> fw_id r \<notin> fd_id ` set fs)"
    if "r \<in> set (st_findings s @ map (finding_row_of l now) fs)" for r
    using that assms(4) by auto
  have "delete_findings (\<lambda>r. fw_exec r = Some (le_execution l) \<and> fw_id r \<notin> fd_id ` set fs)
      (s\<lparr>st_findings := st_findings s @ map (finding_row_of l now) fs\<rparr>)
    = Inr (s\<lparr>st_findings := st_findings s @ map (finding_row_of l now) fs\<rparr>)"
  proof -
    have "filter (\<lambda>r. \<not> (fw_exec r = Some (le_execution l) \<and> fw_id r \<notin> fd_id ` set fs)) (st_findings s @ map (finding_row_of l now) fs)
      = st_findings s @ map (finding_row_of l now) fs" using keep by (intro filter_True) blast
    moreover have "\<not> list_ex (\<lambda>r. (fw_exec r = Some (le_execution l) \<and> fw_id r \<notin> fd_id ` set fs) \<and> \<not> findings_freeze_delete
        (s\<lparr>st_findings := st_findings s @ map (finding_row_of l now) fs\<rparr>) r) (st_findings s @ map (finding_row_of l now) fs)"
      using keep unfolding list_ex_iff by blast
    ultimately show ?thesis unfolding delete_findings_def by simp
  qed
  then show ?thesis unfolding write_findings_def fold_findings_new[OF assms(1-3)] by simp
qed

lemma write_runs_new:
  assumes "ready l s" "distinct (map sx_scanner rs)" "\<And>q. q \<in> set (st_runs s) \<Longrightarrow> rn_exec q = le_execution l \<Longrightarrow> rn_scanner q \<notin> sx_scanner ` set rs"
  shows "fold_ok (write_run l) rs s = Inr (s\<lparr>st_runs := st_runs s @ map (run_row_of l) rs\<rparr>)"
  using assms
proof (induction rs arbitrary: s)
  case (Cons r rs)
  let ?s = "s\<lparr>st_runs := st_runs s @ [run_row_of l r]\<rparr>"
  have "\<not> list_ex (same_run (run_row_of l r)) (st_runs s)"
    using Cons.prems(3) by (force simp: list_ex_iff same_run_def run_row_of_def)
  then have "write_run l r s = Inr ?s"
    using Cons.prems(1) unfolding write_run_def run_row_of_def[symmetric] by (simp add: upsert_run_def ready_def run_row_of_def)
  moreover have "fold_ok (write_run l) rs ?s = Inr (?s\<lparr>st_runs := st_runs ?s @ map (run_row_of l) rs\<rparr>)"
    using Cons.prems by (intro Cons.IH) (auto simp: run_row_of_def)
  ultimately show ?case by simp
qed simp

lemma write_report_new:
  assumes "ready l s" "\<And>r. r \<in> set (st_reports s) \<Longrightarrow> rw_exec r \<noteq> le_execution l"
  shows "write_report l fin s = Inr (s\<lparr>st_reports := st_reports s @ report_rows_of l fin\<rparr>)"
  using assms by (auto simp: write_report_def report_rows_of_def upsert_report_def parents_exist_def list_ex_iff ready_def
      split: option.split)

section \<open>The refinement\<close>

lemma find_unique:
  assumes "distinct (map k xs)" "x \<in> set xs" "k x = v"
  shows "find (\<lambda>y. k y = v) xs = Some x"
  using assms by (induction xs) (auto simp: image_iff)

lemma owned_running_iff:
  assumes "sound s"
  shows "owned_running l s = Inr () \<longleftrightarrow> holder l s"
proof
  assume "owned_running l s = Inr ()"
  then show "holder l s" using owned_running_Inr unfolding holder_def list_ex_iff by blast
next
  assume "holder l s"
  then obtain e where e: "e \<in> set (st_execs s)" "mine l e" unfolding holder_def list_ex_iff by blast
  have "find (\<lambda>e. ex_id e = le_execution l) (st_execs s) = Some e"
    by (rule find_unique) (use assms e in \<open>simp_all add: sound_def sound_execs_def mine_def holds_def\<close>)
  then show "owned_running l s = Inr ()" using e by (simp add: owned_running_def mine_def holds_def)
qed

lemma job_inj: "distinct (map jb_id js) \<Longrightarrow> k \<in> set js \<Longrightarrow> j \<in> set js \<Longrightarrow> jb_id k = i \<Longrightarrow> jb_id j = i \<Longrightarrow> k = j"
  by (auto simp: distinct_map dest: inj_onD)

lemma job_of_lease:
  assumes "distinct (map jb_id js)" "j \<in> set js" "jb_id j = i"
  shows "list_ex (\<lambda>j. jb_id j = i \<and> Q j) js = Q j"
proof
  assume "list_ex (\<lambda>j. jb_id j = i \<and> Q j) js"
  then obtain k where "k \<in> set js" "jb_id k = i" "Q k" unfolding list_ex_iff by blast
  then show "Q j" using assms by (auto simp: distinct_map dest: inj_onD)
qed (use assms in \<open>auto simp: list_ex_iff\<close>)

lemma update_one_job:
  assumes "distinct (map jb_id (st_jobs s))" "j \<in> set (st_jobs s)" "jb_id j = i"
  shows "update_jobs (\<lambda>j. jb_id j = i \<and> Q j) f s =
    (if \<not> Q j then Inr (s, 0)
     else if \<not> audit_jobs_lifecycle_guard (jb_status j) (jb_status (f j)) then Inl RestrictViolation
     else if jb_status (f j) \<notin> set JOB_STATUSES then Inl CheckViolation
     else Inr (s\<lparr>st_jobs := map (\<lambda>j. if jb_id j = i then f j else j) (st_jobs s)\<rparr>, 1))"
proof -
  have uniq: "k = j" if "k \<in> set (st_jobs s)" "jb_id k = i" for k
    using that assms by (auto simp: distinct_map dest: inj_onD)
  have f: "filter (\<lambda>j. jb_id j = i \<and> Q j) (st_jobs s) = (if Q j then [j] else [])"
  proof -
    have "filter (\<lambda>k. jb_id k = i \<and> Q k) xs = (if Q j \<and> j \<in> set xs then [j] else [])"
      if "set xs \<subseteq> set (st_jobs s)" "distinct xs" for xs
      using that by (induction xs) (use uniq assms(3) in auto)
    then show ?thesis using assms by (simp add: distinct_map)
  qed
  have m: "map (\<lambda>k. if jb_id k = i \<and> Q k then f k else k) (st_jobs s) =
      (if Q j then map (\<lambda>k. if jb_id k = i then f k else k) (st_jobs s) else st_jobs s)"
    using uniq by (cases "Q j") (auto intro!: map_idI)
  show ?thesis by (simp add: update_jobs_def Let_def f m)
qed

definition uncancelled :: "execution_lease \<Rightarrow> job_row \<Rightarrow> job_row" where
  "uncancelled l j = (if jb_id j = le_job l \<and> jb_cancel j then j\<lparr>jb_cancel := False, jb_cancel_at := None\<rparr> else j)"

lemma uncancelled_simps [simp]: "jb_id (uncancelled l j) = jb_id j" "jb_status (uncancelled l j) = jb_status j"
  by (simp_all add: uncancelled_def)

lemma clear_step:
  assumes "sound s" "j \<in> set (st_jobs s)" "jb_id j = le_job l"
  shows "\<exists>n. (if jb_cancel j then sql t (clear_cancel (le_job l) s) else Inr (s, 0)) =
    Inr (s\<lparr>st_jobs := map (uncancelled l) (st_jobs s)\<rparr>, n)"
proof -
  have d: "distinct (map jb_id (st_jobs s))" "jb_status j \<in> set JOB_STATUSES"
    using assms unfolding sound_def sound_jobs_iff by blast+
  have uniq: "k = j" if "k \<in> set (st_jobs s)" "jb_id k = le_job l" for k
    using job_inj[OF d(1) that(1) assms(2) that(2) assms(3)] .
  show ?thesis
  proof (cases "jb_cancel j")
    case True
    have "map (\<lambda>k. if jb_id k = le_job l then k\<lparr>jb_cancel := False, jb_cancel_at := None\<rparr> else k) (st_jobs s)
        = map (uncancelled l) (st_jobs s)"
      using uniq True by (auto simp: uncancelled_def)
    then show ?thesis
      using True update_one_job[OF d(1) assms(2,3), of "\<lambda>_. True" "\<lambda>k. k\<lparr>jb_cancel := False, jb_cancel_at := None\<rparr>"] d(2)
      by (simp add: clear_cancel_def audit_jobs_lifecycle_guard_def)
  next
    case False
    have "map (uncancelled l) (st_jobs s) = st_jobs s"
      by (rule map_idI) (use uniq False in \<open>auto simp: uncancelled_def\<close>)
    then show ?thesis using False by simp
  qed
qed

lemma close_execution_eq:
  assumes "holder l s"
  shows "close_execution l status reason canonical now s =
    (if status \<in> set EXECUTION_STATUSES
     then Inr (s\<lparr>st_execs := map (\<lambda>e. if mine l e then e\<lparr>ex_status := status, ex_finished := Some now, ex_failure := reason,
         ex_canonical := canonical, ex_heartbeat := Some now\<rparr> else e) (st_execs s)\<rparr>, length (filter (mine l) (st_execs s)))
     else Inl CheckViolation)"
proof -
  have "\<not> list_ex (\<lambda>e. \<not> audit_executions_freeze e (e\<lparr>ex_status := status, ex_finished := Some now, ex_failure := reason,
      ex_canonical := canonical, ex_heartbeat := Some now\<rparr>)) (filter (mine l) (st_execs s))"
    by (auto simp: list_ex_iff audit_executions_freeze_def mine_def holds_def)
  moreover have "list_ex (\<lambda>e. b) (filter (mine l) (st_execs s)) = b" for b
    using assms by (auto simp: holder_def list_ex_iff)
  ultimately show ?thesis unfolding close_execution_def update_execs_def Let_def by simp
qed

lemma close_job_eq:
  assumes s: "sound s" and j: "j \<in> set (st_jobs s)" "jb_id j = le_job l" and st: "status \<in> set EXECUTION_STATUSES"
    and u: "st_jobs u = map (uncancelled l) (st_jobs s)"
  shows "close_job l status score reason now u =
    (if jb_status j = ''completed'' then Inr (u, 0)
     else if audit_jobs_lifecycle_guard (jb_status j) status
     then Inr (u\<lparr>st_jobs := map (\<lambda>j. if jb_id j = le_job l
         then j\<lparr>jb_status := status, jb_finished := Some now, jb_score := score, jb_error := reason\<rparr> else j)
           (map (uncancelled l) (st_jobs s))\<rparr>, 1)
     else Inl RestrictViolation)"
proof -
  have d: "distinct (map jb_id (st_jobs s))" and known: "jb_status j \<in> set JOB_STATUSES"
    using s j unfolding sound_def sound_jobs_iff by blast+
  have "distinct (map jb_id (st_jobs u))" using d by (simp add: u o_def)
  moreover have "uncancelled l j \<in> set (st_jobs u)" using j by (simp add: u)
  moreover have "jb_status j \<in> OPEN_JOB \<longleftrightarrow> jb_status j \<noteq> ''completed''"
    using known by (auto simp: OPEN_JOB_def JOB_STATUSES_def EXECUTION_STATUSES_def)
  moreover have "status \<in> set JOB_STATUSES" using st by (simp add: JOB_STATUSES_def)
  ultimately show ?thesis
    unfolding close_job_def by (subst update_one_job[where j = "uncancelled l j"]) (simp_all add: j u)
qed

lemma job_rows_eq:
  assumes d: "distinct (map jb_id js)" and j: "j \<in> set js" "jb_id j = le_job l"
  shows "map (\<lambda>k. if jb_id k \<noteq> le_job l then k
      else (let k' = if jb_cancel k then k\<lparr>jb_cancel := False, jb_cancel_at := None\<rparr> else k in
        if jb_status k = ''completed'' then k' else f k')) js =
    (if jb_status j = ''completed'' then map (uncancelled l) js
     else map (\<lambda>k. if jb_id k = le_job l then f k else k) (map (uncancelled l) js))"
proof -
  have "k = j" if "k \<in> set js" "jb_id k = le_job l" for k
    using job_inj[OF d that(1) j(1) that(2) j(2)] .
  then have "jb_status k = jb_status j" if "k \<in> set js" "jb_id k = le_job l" for k
    using that by blast
  then show ?thesis by (cases "jb_status j = ''completed''") (auto simp: uncancelled_def Let_def)
qed


definition partial_result :: finalization where
  "partial_result = default_finalization\<lparr>fz_markdown := Some ''report'', fz_job_status := ''partial'',
     fz_failure := Some ''osv-scanner failed''\<rparr>"


end
