(* ===== verification/Lease_Props.thy ===== *)
theory Lease_Props
  imports Commit_Refinement
begin

text \<open>
  Leases over time: what the life-cycle trigger of the jobs table allows, the fence around a
  closed execution, the reaper, and the cap on live jobs.
\<close>

section \<open>The trigger and the life cycle\<close>

text \<open>The trigger of the jobs table is the life cycle of the program and the way back to the queue: a status
  may be replaced by another exactly when they agree, when the life cycle has that step, or when a job that runs
  or has ended without completing is queued again.\<close>

lemma job_guard_iff:
  "audit_jobs_lifecycle_guard (job_str a) (job_str b) \<longleftrightarrow>
     a = b \<or> job_step a b \<or> b = Queued \<and> (a = Running \<or> job_terminal a \<and> a \<noteq> Completed)"
  by (cases a; cases b) (simp_all add: audit_jobs_lifecycle_guard_def job_step_def job_terminal_def)

section \<open>The fence\<close>

lemma finished_not_held:
  assumes "sound s" "finished s (le_execution l)"
  shows "\<not> holder l s"
proof
  assume "holder l s"
  then obtain e where e: "e \<in> set (st_execs s)" "ex_id e = le_execution l" "ex_status e = ''running''"
    unfolding holder_def list_ex_iff mine_def holds_def by blast
  obtain d where d: "d \<in> set (st_execs s)" "ex_id d = le_execution l" "ex_status d \<noteq> ''running''"
    using assms(2) unfolding finished_def by blast
  have "distinct (map ex_id (st_execs s))" using assms(1) by (simp add: sound_def sound_execs_def)
  then have "d = e" using id_inj d(1,2) e(1,2) by metis
  then show False using d(3) e(3) by simp
qed

lemma not_held_refused:
  assumes "sound s" "\<not> holder l s"
  shows "\<exists>e. finalize_tx E l fin t s = Inl e" "\<exists>e. finalize_bare_tx l status reason t s = Inl e"
proof -
  have "owned_running l s \<noteq> Inr ()" using owned_running_iff[OF assms(1)] assms(2) by blast
  then obtain e where "owned_running l s = Inl e" by (cases "owned_running l s") auto
  then show "\<exists>e. finalize_tx E l fin t s = Inl e" "\<exists>e. finalize_bare_tx l status reason t s = Inl e"
    by (simp_all add: finalize_tx_def finalize_bare_tx_def)
qed

lemma beat_not_held: "\<not> holder l s \<Longrightarrow> beat (le_execution l) (le_owner l) t s = Inr (s, 0)"
proof -
  assume "\<not> holder l s"
  then have n: "\<not> holds (le_execution l) (le_owner l) e" if "e \<in> set (st_execs s)" for e
    using that by (auto simp: holder_def list_ex_iff mine_def)
  then have "filter (holds (le_execution l) (le_owner l)) (st_execs s) = []" by (simp add: filter_empty_conv)
  moreover have "map (\<lambda>e. if holds (le_execution l) (le_owner l) e then e\<lparr>ex_heartbeat := Some (tk_now t)\<rparr> else e) (st_execs s) = st_execs s"
    by (rule map_idI) (simp add: n)
  ultimately show ?thesis by (simp add: beat_def update_execs_def Let_def)
qed

lemma bind_not_running:
  fixes l :: execution_lease
  assumes "sound s" "finished s (le_execution l)"
  shows "bind_commit (le_execution l) (le_owner l) c t s \<in> {Inr (s, 0), Inl RestrictViolation}"
proof (cases "filter (\<lambda>e. ex_id e = le_execution l \<and> ex_owner e = Some (le_owner l)) (st_execs s) = []")
  case True
  then have "map (\<lambda>e. if ex_id e = le_execution l \<and> ex_owner e = Some (le_owner l) then e\<lparr>ex_commit := Some c\<rparr> else e) (st_execs s)
      = st_execs s" by (intro map_idI) (auto simp: filter_empty_conv)
  then show ?thesis using True by (simp add: bind_commit_def update_execs_def Let_def)
next
  case False
  then obtain e where e: "e \<in> set (st_execs s)" "ex_id e = le_execution l" "ex_owner e = Some (le_owner l)"
    by (auto simp: filter_empty_conv)
  then have "ex_status e \<noteq> ''running''"
    using finished_not_held[OF assms] by (auto simp: holder_def list_ex_iff mine_def holds_def)
  then have "list_ex (\<lambda>e. \<not> audit_executions_freeze e (e\<lparr>ex_commit := Some c\<rparr>))
      (filter (\<lambda>e. ex_id e = le_execution l \<and> ex_owner e = Some (le_owner l)) (st_execs s))"
    using e by (auto simp: list_ex_iff audit_executions_freeze_def)
  then show ?thesis by (simp add: bind_commit_def update_execs_def Let_def)
qed

text \<open>C5. A closed execution is fenced off for good: once an execution is finished - committed, or given up by the
  reaper - then after any interleaving of whatever the backend runs, a worker that still holds its lease changes
  nothing with it: both commits are refused, its heartbeat touches no row and it binds no commit.\<close>

theorem fenced:
  assumes "sound s" "finished s (le_execution l)" "pool_step\<^sup>*\<^sup>* (s, ps) (s', ps')" "\<forall>p \<in> set ps. backend p"
  shows "(\<exists>e. run_proc [t] s' (finalize_execution E l fin) = Some (s', Inl e))
     \<and> (\<exists>e. run_proc [t] s' (finalize_without_findings l status reason) = Some (s', Inl e))
     \<and> beat (le_execution l) (le_owner l) t s' = Inr (s', 0)
     \<and> bind_commit (le_execution l) (le_owner l) c t s' \<in> {Inr (s', 0), Inl RestrictViolation}"
proof -
  have "evolves s s'" using rg.pool_keeps[OF assms(3,1)] assms(4) backend_kept by blast
  then have s': "sound s'" "finished s' (le_execution l)"
    using assms(2) finished_evolve[of s s'] by (auto simp: evolves_def)
  have h: "\<not> holder l s'" using finished_not_held[OF s'] .
  obtain e1 e2 where "finalize_tx E l fin t s' = Inl e1" "finalize_bare_tx l status reason t s' = Inl e2"
    using not_held_refused[OF s'(1) h] by metis
  then show ?thesis
    using beat_not_held[OF h] bind_not_running[OF s']
    by (simp add: finalize_execution_def finalize_without_findings_def transact_def)
qed

text \<open>The reaper took the lease of the sample store; the next pass has begun.\<close>

definition reclaimed :: store where
  "reclaimed = leased_store\<lparr>
     st_execs := [(new_execution ''e1'' ''j1'' 1 ''w1'' 1)\<lparr>ex_status := ''failed'', ex_finished := Some 10, ex_failure := Some REAPED,
       ex_heartbeat := Some 10\<rparr>],
     st_jobs := map (\<lambda>j. j\<lparr>jb_status := ''queued''\<rparr>) (st_jobs leased_store)\<rparr>"

lemma reclaimed_sound: "sound reclaimed"
  by (simp add: reclaimed_def leased_store_def sound_def sound_execs_def sound_jobs_def sound_rows_def new_execution_def JOB_STATUSES_def)

lemma reaper_step: "pool_step (s, [reaper_pass c]) (s, [reap_all c (abandoned c s)])"
proof -
  obtain f where f: "reaper_pass c = Step f" by (simp add: reaper_pass_def query_def)
  have "f lease_tick s = (s, reap_all c (abandoned c s))"
    using f by (auto simp: reaper_pass_def query_def reads_def lease_tick_def)
  then show ?thesis using pool_step[of 0 "[reaper_pass c]" f s lease_tick] f by simp
qed

theorem fenced_witness:
  "pool_step\<^sup>*\<^sup>* (reclaimed, [reaper_pass 20]) (reclaimed, [reap_all 20 (abandoned 20 reclaimed)])
     \<and> (\<forall>E. \<exists>e. run_proc [lease_tick] reclaimed (finalize_execution E first_lease partial_result) = Some (reclaimed, Inl e))
     \<and> beat ''e1'' ''w1'' lease_tick reclaimed = Inr (reclaimed, 0)"
proof -
  have run: "pool_step\<^sup>*\<^sup>* (reclaimed, [reaper_pass 20]) (reclaimed, [reap_all 20 (abandoned 20 reclaimed)])"
    using reaper_step by blast
  have fin: "finished reclaimed (le_execution first_lease)" by (simp add: finished_def reclaimed_def new_execution_def first_lease_def)
  have "\<forall>p \<in> set [reaper_pass 20]. backend p" by (simp add: backend.intros)
  note f = fenced[OF reclaimed_sound fin run this, of lease_tick]
  have "\<exists>e. run_proc [lease_tick] reclaimed (finalize_execution E first_lease partial_result) = Some (reclaimed, Inl e)" for E
    using f[of E partial_result] by blast
  moreover have "beat ''e1'' ''w1'' lease_tick reclaimed = Inr (reclaimed, 0)" using f by (simp add: first_lease_def)
  ultimately show ?thesis using run by blast
qed

section \<open>The reaper\<close>

lemma close_abandoned_eq:
  "close_abandoned eid reason now s = Inr (s\<lparr>st_execs := map (\<lambda>e. if ex_id e = eid \<and> ex_status e = ''running''
     then e\<lparr>ex_status := ''failed'', ex_finished := Some now, ex_failure := Some reason, ex_heartbeat := Some now\<rparr> else e) (st_execs s)\<rparr>,
     length (filter (\<lambda>e. ex_id e = eid \<and> ex_status e = ''running'') (st_execs s)))"
  by (auto simp: close_abandoned_def update_execs_def Let_def list_ex_iff audit_executions_freeze_def EXECUTION_STATUSES_def)

lemma update_jobs_ok:
  assumes "\<And>j. j \<in> set (st_jobs s) \<Longrightarrow> P j \<Longrightarrow> audit_jobs_lifecycle_guard (jb_status j) (jb_status (f j)) \<and> jb_status (f j) \<in> set JOB_STATUSES"
  shows "update_jobs P f s = Inr (s\<lparr>st_jobs := map (\<lambda>j. if P j then f j else j) (st_jobs s)\<rparr>, length (filter P (st_jobs s)))"
  using assms by (auto simp: update_jobs_def Let_def list_ex_iff)

definition reaped :: "exec_row \<Rightarrow> string \<Rightarrow> time \<Rightarrow> store \<Rightarrow> store" where
  "reaped e reason now s = s\<lparr>
     st_execs := map (\<lambda>d. if ex_id d = ex_id e
       then d\<lparr>ex_status := ''failed'', ex_finished := Some now, ex_failure := Some reason, ex_heartbeat := Some now\<rparr> else d) (st_execs s),
     st_jobs := map (\<lambda>j. if jb_id j = ex_job e
       then j\<lparr>jb_cancel := False, jb_cancel_at := None, jb_status := (if jb_status j = ''running'' then ''queued'' else jb_status j)\<rparr>
       else j) (st_jobs s)\<rparr>"

lemma reap_found:
  assumes s: "sound s" and e: "e \<in> set (st_execs s)" "ex_status e = ''running''" "last_seen e < cutoff"
  shows "reap_tx (ex_id e) cutoff reason t s = Inr (reaped e reason (tk_now t) s, True)"
proof -
  have d: "distinct (map ex_id (st_execs s))" using s by (simp add: sound_def sound_execs_def)
  have x: "f = e" if "f \<in> set (st_execs s)" "ex_id f = ex_id e" for f using id_inj[OF d that(1) e(1) that(2)] .
  have "find (\<lambda>f. ex_id f = ex_id e \<and> ex_status f = ''running'' \<and> last_seen f < cutoff) (st_execs s) = Some e"
  proof -
    have "find (\<lambda>f. ex_id f = ex_id e \<and> ex_status f = ''running'' \<and> last_seen f < cutoff) (st_execs s) \<noteq> None"
      using e by (auto simp: find_None_iff)
    then show ?thesis using x by (auto simp: find_Some_iff) (metis nth_mem)
  qed
  note found = this
  let ?es = "map (\<lambda>d. if ex_id d = ex_id e
       then d\<lparr>ex_status := ''failed'', ex_finished := Some (tk_now t), ex_failure := Some reason, ex_heartbeat := Some (tk_now t)\<rparr> else d) (st_execs s)"
  define s1 where "s1 = s\<lparr>st_execs := ?es\<rparr>"
  define s2 where "s2 = s1\<lparr>st_jobs := map (\<lambda>j. if jb_id j = ex_job e then j\<lparr>jb_cancel := False, jb_cancel_at := None\<rparr> else j) (st_jobs s)\<rparr>"
  have es: "map (\<lambda>f. if ex_id f = ex_id e \<and> ex_status f = ''running''
      then f\<lparr>ex_status := ''failed'', ex_finished := Some (tk_now t), ex_failure := Some reason, ex_heartbeat := Some (tk_now t)\<rparr> else f)
      (st_execs s) = ?es"
  proof (rule map_cong[OF refl])
    fix f
    assume "f \<in> set (st_execs s)"
    then have "ex_id f = ex_id e \<and> ex_status f = ''running'' \<longleftrightarrow> ex_id f = ex_id e" using x e(2) by blast
    then show "(if ex_id f = ex_id e \<and> ex_status f = ''running''
      then f\<lparr>ex_status := ''failed'', ex_finished := Some (tk_now t), ex_failure := Some reason, ex_heartbeat := Some (tk_now t)\<rparr> else f) =
      (if ex_id f = ex_id e
      then f\<lparr>ex_status := ''failed'', ex_finished := Some (tk_now t), ex_failure := Some reason, ex_heartbeat := Some (tk_now t)\<rparr> else f)"
      by simp
  qed
  have 1: "\<exists>n. close_abandoned (ex_id e) reason (tk_now t) s = Inr (s1, n)"
    unfolding close_abandoned_eq es s1_def by simp
  have known: "jb_status j \<in> set JOB_STATUSES" if "j \<in> set (st_jobs s)" for j using s that by (simp add: sound_def sound_jobs_def)
  have 2: "\<exists>n. clear_cancel (ex_job e) s1 = Inr (s2, n)"
    unfolding clear_cancel_def
    by (subst update_jobs_ok) (auto simp: s1_def s2_def known audit_jobs_lifecycle_guard_def)
  have "\<not> list_ex (\<lambda>f. ex_job f = ex_job e \<and> ex_status f = ''running'') (st_execs s2)"
    using s e x by (auto simp: s2_def s1_def list_ex_iff sound_def sound_execs_def)
  note idle = this
  have jobs: "map (\<lambda>j. if jb_id j = ex_job e \<and> jb_status j = ''running'' then j\<lparr>jb_status := ''queued''\<rparr> else j) (st_jobs s2) =
      st_jobs (reaped e reason (tk_now t) s)"
    by (auto simp: s2_def s1_def reaped_def)
  have rest: "s2\<lparr>st_jobs := st_jobs (reaped e reason (tk_now t) s)\<rparr> = reaped e reason (tk_now t) s"
    by (simp add: s2_def s1_def reaped_def)
  have "\<exists>n. update_jobs (\<lambda>j. jb_id j = ex_job e \<and> jb_status j = ''running'') (\<lambda>j. j\<lparr>jb_status := ''queued''\<rparr>) s2 =
      Inr (s2\<lparr>st_jobs := map (\<lambda>j. if jb_id j = ex_job e \<and> jb_status j = ''running'' then j\<lparr>jb_status := ''queued''\<rparr> else j) (st_jobs s2)\<rparr>, n)"
    by (subst update_jobs_ok) (simp_all add: audit_jobs_lifecycle_guard_def JOB_STATUSES_def)
  then have 3: "\<exists>n. release (ex_job e) s2 = Inr (reaped e reason (tk_now t) s, n)"
    unfolding jobs rest using idle by (simp add: release_def)
  show ?thesis using 1 2 3 by (auto simp: reap_tx_def found)
qed

text \<open>C18. The reaper takes exactly the abandoned: in a sound store it closes an execution if and only if the
  execution still runs and was last seen before the cutoff; then the attempt is recorded as failed, the pending
  cancellation is dropped and a running job goes back to the queue, all at once and without fail; anything
  else - a live worker, a finished execution - is left exactly as it is.\<close>

theorem reap_exact:
  assumes "sound s"
  shows "case find (\<lambda>e. ex_id e = eid) (st_execs s) of
       Some e \<Rightarrow> run_proc [t] s (reap_abandoned_execution eid cutoff reason) =
         (if ex_status e = ''running'' \<and> last_seen e < cutoff \<and> tk_up t then Some (reaped e reason (tk_now t) s, Inr True)
          else if tk_up t then Some (s, Inr False) else Some (s, Inl (Database (tk_show t Unreachable))))
     | None \<Rightarrow> run_proc [t] s (reap_abandoned_execution eid cutoff reason) =
         (if tk_up t then Some (s, Inr False) else Some (s, Inl (Database (tk_show t Unreachable))))"
proof -
  have d: "distinct (map ex_id (st_execs s))" using assms by (simp add: sound_def sound_execs_def)
  have r: "run_proc [t] s (reap_abandoned_execution eid cutoff reason) = (if tk_up t
      then case reap_tx eid cutoff reason t s of Inl e \<Rightarrow> Some (s, Inl e) | Inr (s', b) \<Rightarrow> Some (s', Inr b)
      else Some (s, Inl (Database (tk_show t Unreachable))))"
    by (auto simp: reap_abandoned_execution_def transact_def split: sum.split)
  have none: "reap_tx eid cutoff reason t s = Inr (s, False)"
    if "\<And>e. e \<in> set (st_execs s) \<Longrightarrow> ex_id e = eid \<Longrightarrow> \<not> (ex_status e = ''running'' \<and> last_seen e < cutoff)"
  proof -
    have "find (\<lambda>e. ex_id e = eid \<and> ex_status e = ''running'' \<and> last_seen e < cutoff) (st_execs s) = None"
      using that by (auto simp: find_None_iff)
    then show ?thesis by (simp add: reap_tx_def)
  qed
  show ?thesis
  proof (cases "find (\<lambda>e. ex_id e = eid) (st_execs s)")
    case None
    then have "reap_tx eid cutoff reason t s = Inr (s, False)" by (intro none) (auto simp: find_None_iff)
    then show ?thesis using None by (simp add: r)
  next
    case (Some e)
    then have e: "e \<in> set (st_execs s)" "ex_id e = eid" by (auto simp: find_Some_iff)
    show ?thesis
    proof (cases "ex_status e = ''running'' \<and> last_seen e < cutoff")
      case True
      then show ?thesis using reap_found[OF assms e(1)] e(2) Some by (simp add: r)
    next
      case False
      then have "reap_tx eid cutoff reason t s = Inr (s, False)" using id_inj[OF d _ e(1)] e(2) by (intro none) metis
      then show ?thesis using False Some by (auto simp: r)
    qed
  qed
qed

theorem reap_exact_witness:
  "run_proc [lease_tick] leased_store (reap_abandoned_execution ''e1'' 5 REAPED) = Some (reclaimed, Inr True)
     \<and> run_proc [lease_tick] leased_store (reap_abandoned_execution ''e1'' 1 REAPED) = Some (leased_store, Inr False)"
proof -
  have e: "find (\<lambda>e. ex_id e = ''e1'') (st_execs leased_store) = Some (new_execution ''e1'' ''j1'' 1 ''w1'' 1)"
    by (simp add: leased_store_def new_execution_def)
  have "last_seen (new_execution ''e1'' ''j1'' 1 ''w1'' 1) = 1" by (simp add: last_seen_def new_execution_def)
  moreover have "ex_status (new_execution ''e1'' ''j1'' 1 ''w1'' 1) = ''running''" by (simp add: new_execution_def)
  moreover have "reaped (new_execution ''e1'' ''j1'' 1 ''w1'' 1) REAPED 10 leased_store = reclaimed"
    by (simp add: reaped_def reclaimed_def leased_store_def new_execution_def)
  ultimately show ?thesis
    using reap_exact[OF leased_sound, where eid = "''e1''" and t = lease_tick and cutoff = 5 and reason = REAPED]
      reap_exact[OF leased_sound, where eid = "''e1''" and t = lease_tick and cutoff = 1 and reason = REAPED]
    by (simp add: e lease_tick_def)
qed

section \<open>The cap on live jobs\<close>

text \<open>A submission never takes a user over the cap: when the insert is accepted, the user's queued and running
  jobs are at most the cap afterwards; when it is refused, they had reached it or the
  id is taken; and every other user's jobs are untouched.\<close>

lemma submission_capped:
  "case create_tx cap job t s of
       Inr (s', n) \<Rightarrow> int (live_jobs (jb_user (job (tk_now t))) s') \<le> cap
         \<and> (\<forall>u. u \<noteq> jb_user (job (tk_now t)) \<longrightarrow> live_jobs u s' = live_jobs u s)
         \<and> s' = (if n = 0 then s else s\<lparr>st_jobs := st_jobs s @ [job (tk_now t)]\<rparr>)
     | Inl e \<Rightarrow> e = too_many (live_jobs (jb_user (job (tk_now t))) s) cap
         \<and> cap \<le> int (live_jobs (jb_user (job (tk_now t))) s) \<or> (\<exists>m. e = Database m) \<and> list_ex (\<lambda>j. jb_id j = jb_id (job (tk_now t))) (st_jobs s)"
  by (auto simp: create_tx_def Let_def sql_def insert_job_def live_jobs_def split: if_splits sum.splits)

definition submitted :: "time \<Rightarrow> job_row" where
  "submitted = new_job ''j2'' ''u1'' None ''https://github.com/acme/lib'' [] None None"

text \<open>A retry is not a submission: it takes a user over the cap that would refuse a new job.\<close>

definition with_failed_job :: store where
  "with_failed_job = leased_store\<lparr>st_jobs := st_jobs leased_store @ [(submitted 10)\<lparr>jb_status := ''failed''\<rparr>]\<rparr>"

lemma retry_passes_cap:
  "create_tx 1 (\<lambda>t. (submitted t)\<lparr>jb_id := ''j3''\<rparr>) lease_tick with_failed_job = Inl (too_many 1 1)
   \<and> (\<exists>s'. run_proc [lease_tick, lease_tick, lease_tick] with_failed_job (retry_job ''u1'' ''j2'') = Some (s', Inr ())
        \<and> live_jobs ''u1'' s' = 2)"
  by (simp add: create_tx_def with_failed_job_def submitted_def new_job_def leased_store_def lease_tick_def live_jobs_def
      retry_job_def must_def query_def reads_def owned_by_def running_of_def new_execution_def reopen_def update_jobs_def
      audit_jobs_lifecycle_guard_def JOB_STATUSES_def EXECUTION_STATUSES_def)

end
