(* ===== verification/Pipeline_Props.thy ===== *)
theory Pipeline_Props
  imports Orchestrator Store_Programs Canonical_Props Scanner_Props Fetch_Props
begin

text \<open>
  What the pipeline can hand to the commit, whatever the database answers and whoever else runs:
  a result comes from one fetched tree and one scan of it, it is complete only when every scanner
  succeeded, and it carries the report of exactly that scan.
\<close>

section \<open>What a program may return\<close>

inductive returns :: "'a proc \<Rightarrow> 'a \<Rightarrow> bool" where
  ret: "returns (Ret a) a"
| step: "returns (snd (f t s)) a \<Longrightarrow> returns (Step f) a"

inductive_simps returns_Ret [simp]: "returns (Ret a) b"

inductive_cases returns_StepE: "returns (Step f) a"

lemma returns_query:
  assumes "returns (query f k) a"
  obtains r where "returns (k r) a"
  using assms unfolding query_def
  by (elim returns_StepE) (auto split: sum.splits prod.splits if_splits)

lemma returns_must:
  assumes "returns (must f k) a"
  obtains m where "a = Inl (Database m)" | r where "returns (k r) a"
  using assms unfolding must_def
  by (elim returns_query) (auto split: sum.splits prod.splits)

lemma returns_bind:
  assumes "returns (bind p k) a"
  shows "\<exists>b. returns p b \<and> returns (k b) a"
  using assms
proof (induction p)
  case (Ret b)
  then show ?case by auto
next
  case (Step f)
  then obtain t s where "returns (snd (map_prod id (\<lambda>p. bind p k) (f t s))) a" by (auto elim: returns_StepE)
  then have "returns (bind (snd (f t s)) k) a" by simp
  then show ?case using Step.IH[of "f t" "f t s" "snd (f t s)"] by (auto intro: returns.step simp: snds.simps)
qed

lemma returns_within: "returns (within p n) (Some a) \<Longrightarrow> returns p (Some a)"
proof (induction p arbitrary: n)
  case (Step f)
  show ?case
  proof (cases n)
    case 0
    then show ?thesis using Step.prems by simp
  next
    case (Suc m)
    then obtain t s where "returns (within (snd (f t s)) m) (Some a)"
      using Step.prems by (auto elim: returns_StepE)
    then show ?thesis using Step.IH[of "f t" "f t s" "snd (f t s)"] by (auto intro: returns.step simp: snds.simps)
  qed
qed simp

lemma returns_phase:
  assumes "returns (phase job eid name body k) a"
  shows "\<exists>r. returns body r \<and> returns (k r) a"
proof -
  obtain r where r: "returns body r" "returns (case r of
         None \<Rightarrow> k None
       | Some (Inr v) \<Rightarrow> query (log_phase_completed job name ''completed'' None) (\<lambda>_. k r)
       | Some (Inl e) \<Rightarrow> query (log_phase_completed job name ''failed'' (Some (error_text e))) (\<lambda>_. k r)) a"
    using assms unfolding phase_def by (blast elim: returns_query dest: returns_bind)
  then have "returns (k r) a" by (auto split: option.splits sum.splits elim: returns_query)
  then show ?thesis using r(1) by blast
qed

text \<open>A step that is followed by a result has succeeded.\<close>

definition with_result :: "outcome \<Rightarrow> bool" where
  "with_result out \<longleftrightarrow> (case out of OkOutcome \<Rightarrow> True | PartialOutcome _ \<Rightarrow> True | _ \<Rightarrow> False)"

lemma with_result_simps [simp]:
  "with_result OkOutcome" "with_result (PartialOutcome m)" "\<not> with_result CancelledOutcome" "\<not> with_result (FailedOutcome n m)"
  by (simp_all add: with_result_def)

lemma returns_run_step:
  assumes "returns (run_step l st st' name body k) (Some (st2, out))" "with_result out"
  shows "\<exists>v. returns body (Some (Inr v)) \<and> returns (k v) (Some (st2, out))"
proof -
  obtain c where "returns (if cancel_seen c then finish st CancelledOutcome
     else query (beat (le_execution l) (le_owner l)) (\<lambda>_.
       phase (le_job l) (le_execution l) name body (\<lambda>r.
         case r of
           None \<Rightarrow> Ret None
         | Some (Inr v) \<Rightarrow> k v
         | Some (Inl e) \<Rightarrow>
             query (reads (is_cancelled (le_job l))) (\<lambda>c.
               if cancel_seen c then finish st' CancelledOutcome
               else finish st' (FailedOutcome name (error_text e)))))) (Some (st2, out))"
    using assms(1) unfolding run_step_def by (rule returns_query)
  then have "returns (query (beat (le_execution l) (le_owner l)) (\<lambda>_.
       phase (le_job l) (le_execution l) name body (\<lambda>r.
         case r of
           None \<Rightarrow> Ret None
         | Some (Inr v) \<Rightarrow> k v
         | Some (Inl e) \<Rightarrow>
             query (reads (is_cancelled (le_job l))) (\<lambda>c.
               if cancel_seen c then finish st' CancelledOutcome
               else finish st' (FailedOutcome name (error_text e)))))) (Some (st2, out))"
    using assms(2) by (auto simp: finish_def split: if_splits)
  then obtain r where r: "returns body r" "returns (case r of
           None \<Rightarrow> Ret None
         | Some (Inr v) \<Rightarrow> k v
         | Some (Inl e) \<Rightarrow>
             query (reads (is_cancelled (le_job l))) (\<lambda>c.
               if cancel_seen c then finish st' CancelledOutcome
               else finish st' (FailedOutcome name (error_text e)))) (Some (st2, out))"
    by (elim returns_query) (blast dest: returns_phase)
  then obtain v where "r = Some (Inr v)"
    using assms(2) by (auto simp: finish_def split: option.splits sum.splits if_splits elim!: returns_query)
  then show ?thesis using r by auto
qed

lemma returns_pure [simp]: "returns (pure_phase r) x \<longleftrightarrow> x = Some r"
  by (auto simp: pure_phase_def)

lemma returns_finish [simp]: "returns (finish st out) x \<longleftrightarrow> x = Some (st, out)"
  by (auto simp: finish_def)

section \<open>The result of a run\<close>

definition scan_finding_list :: "scanner_result list \<Rightarrow> audit_finding list" where
  "scan_finding_list results = concat (map res_findings (filter usable results))"

text \<open>One fetched tree, one scan of it, and the audit and report that are made of both.\<close>

definition result_of ::
  "pipeline_env \<Rightarrow> execution_lease \<Rightarrow> audit_state \<Rightarrow> audit_state \<Rightarrow> fetched_repo \<Rightarrow> scanner_result list
     \<Rightarrow> audit_document \<Rightarrow> audit_report \<Rightarrow> bool" where
  "result_of P l st st' fetched results audit report \<longleftrightarrow>
     scan_results P fetched = Some results
     \<and> as_findings st' = np_valid (normalize_findings_for_persist (pe_audit P) (scan_finding_list results))
     \<and> as_score st' = map_option half_double (score_scan (as_complete st') (length (as_findings st')))
     \<and> (as_complete st' \<longleftrightarrow> list_all usable results
          \<and> np_invalid (normalize_findings_for_persist (pe_audit P) (scan_finding_list results)) = [])
     \<and> canonical_audit (pe_audit P) \<lparr>rq_scan_id = as_job st, rq_repository_url = as_repo_url st, rq_branch = as_repo_branch st,
          rq_owner = as_repo_owner st, rq_name = as_repo_name st, rq_snapshot_commit = rm_commit_sha (fr_metadata fetched),
          rq_file_count = ts_file_count (fr_snapshot fetched), rq_total_size = ts_total_size (fr_snapshot fetched),
          rq_results = results, rq_findings = scan_finding_list results, rq_score = as_score st'\<rparr> = Inr audit
     \<and> build_report audit \<lparr>ei_execution_id = le_execution l, ei_attempt_number = le_attempt l\<rparr> = Inr report
     \<and> map_option Inr (as_canonical st') = Some (pe_encode_audit P audit)
     \<and> map_option Inr (as_report st') = Some (pe_encode_report P report)
     \<and> as_markdown st' = Some (render_markdown (pe_fmt P) report)
     \<and> as_html st' = Some (render_html (pe_fmt P) report)"

lemma map_sum_ok: "map_option Inr x = Some r \<longleftrightarrow> (\<exists>v. x = Some v \<and> r = Inr v)"
  by (cases x) auto

lemma report_phase_Inr:
  assumes "report_phase P l st fetched results fs = Inr st'"
  shows "\<exists>audit report c d. canonical_audit (pe_audit P) (request_of st fetched results fs) = Inr audit
    \<and> build_report audit \<lparr>ei_execution_id = le_execution l, ei_attempt_number = le_attempt l\<rparr> = Inr report
    \<and> pe_encode_audit P audit = Inr c \<and> pe_encode_report P report = Inr d
    \<and> st' = st\<lparr>as_canonical := Some c, as_report := Some d, as_html := Some (render_html (pe_fmt P) report),
         as_markdown := Some (render_markdown (pe_fmt P) report)\<rparr>"
  using assms by (auto simp: report_phase_def split: sum.splits)

lemma analyze_result:
  assumes "returns (analyze P l fetched st) (Some (st', out))" "with_result out"
    and st: "as_commit st = rm_commit_sha (fr_metadata fetched)"
  shows "\<exists>results audit report. result_of P l st st' fetched results audit report \<and> out = end_of_pipeline st'"
proof -
  let ?st1 = "case scan_results P fetched of None \<Rightarrow> st | Some results \<Rightarrow> scanned_state results st"
  let ?st2 = "normalized_state P ?st1"
  let ?st3 = "scored_state ?st2"
  obtain v where scan: "returns (case scan_results P fetched of
       None \<Rightarrow> Ret None
     | Some results \<Rightarrow> query (beat (le_execution l) (le_owner l)) (\<lambda>_. pure_phase (scan_phase results))) (Some (Inr v))"
    and rest: "returns (run_step l ?st1 ?st2 ''normalize'' (pure_phase (Inr ())) (\<lambda>_.
          run_step l ?st2 ?st2 ''score'' (pure_phase (Inr ())) (\<lambda>_.
          run_step l ?st3 ?st3 ''report''
            (pure_phase (report_phase P l ?st3 fetched (the (scan_results P fetched)) (as_findings ?st1))) (\<lambda>st4.
          run_step l st4 st4 ''deliver'' (pure_phase (deliver_phase st4)) (\<lambda>_.
            finish st4 (end_of_pipeline st4)))))) (Some (st', out))"
    using returns_run_step[OF assms(1)[unfolded analyze_def Let_def] assms(2)] by blast
  obtain results where r: "scan_results P fetched = Some results" using scan by (auto split: option.splits)
  have st1: "?st1 = scanned_state results st" by (simp add: r)
  obtain st4 where rep: "report_phase P l ?st3 fetched results (as_findings ?st1) = Inr st4"
    and fin: "st' = st4" "out = end_of_pipeline st4"
    using rest assms(2) by (fastforce simp: r dest!: returns_run_step)
  define s1 where "s1 = scanned_state results st"
  define s3 where "s3 = scored_state (normalized_state P s1)"
  obtain audit report c d where a: "canonical_audit (pe_audit P) (request_of s3 fetched results (as_findings s1)) = Inr audit"
    "build_report audit \<lparr>ei_execution_id = le_execution l, ei_attempt_number = le_attempt l\<rparr> = Inr report"
    "pe_encode_audit P audit = Inr c" "pe_encode_report P report = Inr d"
    and st4: "st4 = s3\<lparr>as_canonical := Some c, as_report := Some d, as_html := Some (render_html (pe_fmt P) report),
         as_markdown := Some (render_markdown (pe_fmt P) report)\<rparr>"
    using report_phase_Inr[OF rep] unfolding st1 s1_def s3_def by blast
  have "results \<noteq> []" using r by (auto simp: scan_results_def Let_def bind_eq_Some_conv)
  then have cov: "cov_complete (canonical_coverage (canonical_scanner_runs results)) \<longleftrightarrow> list_all usable results"
    by (simp add: Canonical_Props.coverage_complete)
  have s1: "as_findings s1 = scan_finding_list results" "as_complete s1 \<longleftrightarrow> list_all usable results"
    "as_commit s1 = as_commit st" "as_job s1 = as_job st" "as_repo_url s1 = as_repo_url st" "as_repo_branch s1 = as_repo_branch st"
    "as_repo_owner s1 = as_repo_owner st" "as_repo_name s1 = as_repo_name st"
    using cov by (simp_all add: s1_def scanned_state_def aggregate_scan_results_def Let_def scan_finding_list_def)
  let ?N = "normalize_findings_for_persist (pe_audit P) (scan_finding_list results)"
  have s3: "as_findings s3 = np_valid ?N" "as_complete s3 \<longleftrightarrow> list_all usable results \<and> np_invalid ?N = []"
    "as_commit s3 = as_commit st" "as_job s3 = as_job st" "as_repo_url s3 = as_repo_url st" "as_repo_branch s3 = as_repo_branch st"
    "as_repo_owner s3 = as_repo_owner st" "as_repo_name s3 = as_repo_name st"
    "as_score s3 = map_option half_double (score_scan (as_complete s3) (length (as_findings s3)))"
    using s1 by (auto simp: s3_def scored_state_def normalized_state_def Let_def)
  have "result_of P l st st' fetched results audit report"
    unfolding result_of_def using a s1(1) s3 st fin(1) by (auto simp: st4 r request_of_def)
  then show ?thesis using fin by blast
qed

lemma run_pipeline_result:
  assumes "returns (run_pipeline P l st inp) (Some (st', out))" "with_result out"
  shows "\<exists>fetched results audit report. fetch_phase P st inp = Inr fetched \<and> result_of P l st st' fetched results audit report
     \<and> out = end_of_pipeline st'"
proof -
  obtain fetched where body: "returns (pure_phase (fetch_phase P st inp)) (Some (Inr fetched))"
    and rest: "returns (case as_commit (bound_state fetched st) of
         None \<Rightarrow> analyze P l fetched (bound_state fetched st)
       | Some commit \<Rightarrow>
           query (pin_job (le_job l) commit) (\<lambda>_.
           bind (bind_snapshot (le_execution l) (le_owner l) commit) (\<lambda>r.
             case r of
               Inl e \<Rightarrow> finish (bound_state fetched st) (FailedOutcome ''fetch'' (error_text e))
             | Inr _ \<Rightarrow> analyze P l fetched ((bound_state fetched st)
                 \<lparr>as_visibility := Some (visibility_name (rm_visibility (fr_metadata fetched)))\<rparr>)))) (Some (st', out))"
    using returns_run_step[OF assms(1)[unfolded run_pipeline_def Let_def] assms(2)] by blast
  have f: "fetch_phase P st inp = Inr fetched" using body by simp
  obtain v where "returns (analyze P l fetched ((bound_state fetched st)\<lparr>as_visibility := v\<rparr>)) (Some (st', out))"
  proof (cases "as_commit (bound_state fetched st)")
    case None
    then show ?thesis using rest that[of "as_visibility (bound_state fetched st)"] by simp
  next
    case (Some commit)
    then obtain r :: "app_error + unit" where r: "returns (case r of
               Inl e \<Rightarrow> finish (bound_state fetched st) (FailedOutcome ''fetch'' (error_text e))
             | Inr u \<Rightarrow> analyze P l fetched ((bound_state fetched st)
                 \<lparr>as_visibility := Some (visibility_name (rm_visibility (fr_metadata fetched)))\<rparr>)) (Some (st', out))"
      using rest by simp (erule returns_query, drule returns_bind, blast)
    then show ?thesis using assms(2) that by (cases r) auto
  qed
  then have a: "returns (analyze P l fetched ((bound_state fetched st)\<lparr>as_visibility := v\<rparr>)) (Some (st', out))" .
  have c: "as_commit ((bound_state fetched st)\<lparr>as_visibility := v\<rparr>) = rm_commit_sha (fr_metadata fetched)"
    by (simp add: bound_state_def)
  obtain results audit report where "result_of P l ((bound_state fetched st)\<lparr>as_visibility := v\<rparr>) st' fetched results audit report"
    "out = end_of_pipeline st'" using analyze_result[OF a assms(2) c] by blast
  moreover have "result_of P l ((bound_state fetched st)\<lparr>as_visibility := v\<rparr>) = result_of P l st"
    by (simp add: fun_eq_iff result_of_def bound_state_def)
  ultimately have "result_of P l st st' fetched results audit report" by simp
  then show ?thesis using f \<open>out = end_of_pipeline st'\<close> by blast
qed

text \<open>C6. A run that ends with a result fetched one tree and scanned it once: whatever the database answers
  and whoever else runs, the committed findings, score, canonical audit and report are those of that scan; the
  outcome is complete exactly when every scanner succeeded and no finding was rejected, and only then is there
  a score, of at most nine.\<close>

theorem run_result:
  assumes "returns (pipeline P l st inp) (Some (st', out))" "with_result out"
  shows "\<exists>named fetched results audit report.
     named = st\<lparr>as_repo_owner := extract_repo_owner (as_repo_url st), as_repo_name := extract_repo_name (as_repo_url st)\<rparr>
     \<and> fetch_phase P named inp = Inr fetched \<and> result_of P l named st' fetched results audit report
     \<and> (out = OkOutcome \<longleftrightarrow> list_all usable results
          \<and> np_invalid (normalize_findings_for_persist (pe_audit P) (scan_finding_list results)) = [])
     \<and> fz_findings (finalization_of st' out) = as_findings st'
     \<and> fz_score (finalization_of st' out) =
         (if out = OkOutcome then Some (half_double (min 18 (20 - 3 * length (as_findings st')))) else None)
     \<and> fz_markdown (finalization_of st' out) = Some (render_markdown (pe_fmt P) report)"
proof -
  let ?named = "st\<lparr>as_repo_owner := extract_repo_owner (as_repo_url st), as_repo_name := extract_repo_name (as_repo_url st)\<rparr>"
  obtain r where "returns (if ENGINE_AVAILABLE then run_pipeline P l ?named inp
        else query (log_phase_skipped (le_job l) (Some (le_execution l)) ''engine_unavailable''
               ENGINE_UNAVAILABLE_REASON) (\<lambda>_. finish (unanalyzed_state ?named) OkOutcome)) (Some (st', out))"
    using returns_phase[OF assms(1)[unfolded pipeline_def Let_def]] by blast
  then have "returns (run_pipeline P l ?named inp) (Some (st', out))" by (simp add: ENGINE_AVAILABLE_def)
  then obtain fetched results audit report where r: "fetch_phase P ?named inp = Inr fetched"
    "result_of P l ?named st' fetched results audit report" "out = end_of_pipeline st'"
    using run_pipeline_result assms(2) by blast
  have "out = OkOutcome \<longleftrightarrow> as_complete st'" by (simp add: r(3) end_of_pipeline_def)
  moreover have "out = OkOutcome \<or> (\<exists>m. out = PartialOutcome m)" by (simp add: r(3) end_of_pipeline_def)
  ultimately show ?thesis using r
    by (intro exI[of _ ?named] exI[of _ fetched] exI[of _ results] exI[of _ audit] exI[of _ report])
      (auto simp: result_of_def finalization_of_def score_scan_def)
qed

section \<open>A run\<close>

definition failing_native :: runtime where
  "failing_native = (native_runtime (sandbox_host []) [])\<lparr>rt_native := (native_sample [])\<lparr>nh_scratch_error := Some ''full''\<rparr>\<rparr>"

definition sample_pipeline :: pipeline_env where
  "sample_pipeline = \<lparr>pe_audit = sample_env, pe_fetch = sample_fetch_env, pe_temp = sample_dest, pe_scan = plain_env,
     pe_formats = plain_formats, pe_uuid = (\<lambda>_. ''id''),
     pe_secret = native_runtime (sandbox_host []) [Exited True, StderrDone (Inr [])], pe_dependency = failing_native,
     pe_sast = failing_native, pe_parse_url = (\<lambda>_. None), pe_osv_proxy = None, pe_osv_cancelled = False,
     pe_encode_audit = (\<lambda>_. Inr JNull), pe_encode_report = (\<lambda>_. Inr JNull), pe_fmt = (\<lambda>_. ''9.0''),
     pe_debug_score = (\<lambda>_. []), pe_platform_token = None, pe_budget = 100, pe_outer_budget = 200\<rparr>"

definition sample_start :: audit_state where
  "sample_start = new_state ''j1'' ''u1'' ''https://github.com/acme/app'' []"

definition sample_input :: execution_input where
  "sample_input = \<lparr>ei_github_token = None, ei_requested_sha = Some sample_sha\<rparr>"

text \<open>Runs in a database that answers nothing, except where an answer is needed.\<close>

lemma returns_down: "returns (k (Inl (Unreachable, []))) a \<Longrightarrow> returns (query f k) a"
  unfolding query_def by (rule returns.step[where t = "\<lparr>tk_now = 0, tk_up = False, tk_show = \<lambda>_. []\<rparr>"]) simp

lemma returns_bindI: "returns p b \<Longrightarrow> returns (k b) a \<Longrightarrow> returns (bind p k) a"
  by (induction rule: returns.induct) (auto intro: returns.step)

lemma returns_phaseI:
  assumes "returns body r" "returns (k r) a"
  shows "returns (phase job eid name body k) a"
proof -
  have "returns (case r of
         None \<Rightarrow> k None
       | Some (Inr v) \<Rightarrow> query (log_phase_completed job name ''completed'' None) (\<lambda>_. k r)
       | Some (Inl e) \<Rightarrow> query (log_phase_completed job name ''failed'' (Some (error_text e))) (\<lambda>_. k r)) a"
    using assms(2) by (auto intro: returns_down split: option.split sum.split)
  then show ?thesis unfolding phase_def by (intro returns_down returns_bindI[OF assms(1)])
qed

lemma returns_run_stepI:
  assumes "returns body (Some (Inr v))" "returns (k v) a"
  shows "returns (run_step l st st' name body k) a"
  unfolding run_step_def
  by (intro returns_down) (simp add: cancel_seen_def, intro returns_down returns_phaseI[OF assms(1)], simp add: assms(2))

lemma native_full:
  "nh_scratch_error h = Some e \<Longrightarrow> \<exists>m. map_option snd (run_native F h u rules sn inp) = Some (Inl (Internal m))"
  by (cases "resolve_binary h (sn_name sn)") (simp_all add: run_native_def)

lemma sample_sast:
  "\<exists>r. run_sast_scan plain_env plain_formats u failing_native inp = Some r \<and> (\<exists>m. res_outcome r = RunFailed m)"
proof -
  obtain m where "map_option snd (run_native plain_formats ((native_sample [])\<lparr>nh_scratch_error := Some ''full''\<rparr>) ''u'' ''/rules''
      (semgrep ''/rules'') inp) = Some (Inl (Internal m))"
    using native_full[of "(native_sample [])\<lparr>nh_scratch_error := Some ''full''\<rparr>" "''full''"] by fastforce
  then have "backend_run plain_formats failing_native (semgrep ''/rules'') inp = Some (Inl (Internal m))"
    by (simp add: backend_run_def failing_native_def native_runtime_def)
  then show ?thesis
    by (simp add: run_sast_scan_def execute_def failing_native_def native_runtime_def Scanner_Runtime.classify_def)
qed

lemma sample_scans:
  "\<exists>r1 r2 r3. scan_results sample_pipeline f = Some [r1, r2, r3] \<and> res_outcome r1 = Success 1
     \<and> (\<exists>m. res_outcome r2 = RunFailed m) \<and> (\<exists>m. res_outcome r3 = RunFailed m)"
proof -
  obtain r3 m where 3: "run_sast_scan plain_env plain_formats (\<lambda>_. ''id'') failing_native (scan_input_of f) = Some r3"
    "res_outcome r3 = RunFailed m" using sample_sast by blast
  obtain r2 where 2: "run_dependency_scan plain_env plain_formats (\<lambda>_. ''id'') (\<lambda>_. None) None False failing_native (scan_input_of f) = Some r2"
    "\<exists>m. res_outcome r2 = RunFailed m" by (simp add: run_dependency_scan_def resolve_osv_egress_proxy_def blank_def)
  obtain r1 where 1: "run_secret_scan plain_env plain_formats (\<lambda>_. ''id'')
      (native_runtime (sandbox_host []) [Exited True, StderrDone (Inr [])]) (scan_input_of f) = Some r1"
    "res_outcome r1 = Success 1" unfolding run_secret_scan_def native_sample_execute by (simp add: native_sample_outcome)
  show ?thesis using 1 2 3 by (simp add: scan_results_def Let_def sample_pipeline_def)
qed

definition sample_fetched :: fetched_repo where
  "sample_fetched = \<lparr>fr_dir = sample_dest, fr_metadata = sample_metadata\<lparr>rm_commit_sha := Some sample_sha\<rparr>,
     fr_snapshot = empty_snapshot sample_sha\<rparr>"

lemma sample_fetches: "as_repo_url st = ''https://github.com/acme/app'' \<Longrightarrow> as_repo_branch st = [] \<Longrightarrow>
    fetch_phase sample_pipeline st sample_input = Inr sample_fetched"
proof -
  have "fetch_token sample_pipeline sample_input = []"
    by (simp add: fetch_token_def sample_input_def github_token_def sample_pipeline_def)
  then show "as_repo_url st = ''https://github.com/acme/app'' \<Longrightarrow> as_repo_branch st = [] \<Longrightarrow> ?thesis"
    using sample_fetch by (simp add: fetch_phase_def sample_pipeline_def sample_input_def sample_fetched_def)
qed

lemma sample_report:
  assumes "as_job st = ''j1''" "as_repo_url st = ''https://github.com/acme/app''" "as_commit st = Some sample_sha" "as_score st = None"
    and "results \<noteq> []"
  shows "\<exists>st'. report_phase sample_pipeline l st f results fs = Inr st' \<and> as_markdown st' \<noteq> None"
proof -
  have "validate_snapshot_commit (Some sample_sha) = Inr (Some sample_sha)" by code_simp
  then obtain a where "canonical_audit sample_env (request_of st f results fs) = Inr a"
    using assms by (auto simp: canonical_audit_def request_of_def Let_def blank_visible[of "CHR ''j''"] blank_visible[of "CHR ''h''"] is_visible_def in_range_def)
  moreover from this obtain r where
    "build_report a \<lparr>ei_execution_id = le_execution l, ei_attempt_number = le_attempt l\<rparr> = Inr r"
    by (auto simp: canonical_audit_def and_then_Inr Let_def document_of_def build_report_def split: if_splits)
  ultimately show ?thesis by (simp add: report_phase_def sample_pipeline_def)
qed

lemma sample_bind: "returns (bind_snapshot ''e1'' ''w1'' c) (Inr ())"
  unfolding bind_snapshot_def must_def query_def
  by (rule returns.step[where t = lease_tick and s = leased_store])
    (simp add: lease_tick_def leased_store_def bind_commit_def update_execs_def new_execution_def
      audit_executions_freeze_def EXECUTION_STATUSES_def)

lemma sample_scan_phase:
  "res_outcome r1 = Success 1 \<Longrightarrow> res_outcome r2 = RunFailed m \<Longrightarrow> res_outcome r3 = RunFailed n \<Longrightarrow> scan_phase [r1, r2, r3] = Inr ()"
  by (simp add: scan_phase_def usable_def Canonical_Schema.is_success_def)

lemma sample_pipeline_runs: "\<exists>st' out. returns (pipeline sample_pipeline first_lease sample_start sample_input) (Some (st', out)) \<and> with_result out"
proof -
  let ?P = sample_pipeline and ?l = first_lease
  let ?named = "sample_start\<lparr>as_repo_owner := extract_repo_owner (as_repo_url sample_start),
    as_repo_name := extract_repo_name (as_repo_url sample_start)\<rparr>"
  define st where "st = (bound_state sample_fetched ?named)\<lparr>as_visibility := Some (visibility_name (rm_visibility (fr_metadata sample_fetched)))\<rparr>"
  obtain r1 r2 r3 where scans: "scan_results ?P sample_fetched = Some [r1, r2, r3]" "res_outcome r1 = Success 1"
    "\<exists>m. res_outcome r2 = RunFailed m" "\<exists>m. res_outcome r3 = RunFailed m" using sample_scans by blast
  define s1 where "s1 = scanned_state [r1, r2, r3] st"
  define s2 where "s2 = normalized_state ?P s1"
  define s3 where "s3 = scored_state s2"
  have "\<not> list_all usable [r1, r2, r3]" using scans by (auto simp: usable_def Canonical_Schema.is_success_def)
  then have "\<not> as_complete s1"
    using coverage_complete(1)[of "[r1, r2, r3]"] coverage_complete(2) by (simp add: s1_def scanned_state_def aggregate_scan_results_def Let_def)
  then have "as_score s3 = None" by (simp add: s3_def s2_def scored_state_def normalized_state_def Let_def score_scan_def)
  moreover have "as_job s3 = ''j1''" "as_repo_url s3 = ''https://github.com/acme/app''" "as_commit s3 = Some sample_sha"
    by (simp_all add: s3_def s2_def s1_def st_def scored_state_def normalized_state_def scanned_state_def Let_def bound_state_def
        sample_start_def new_state_def sample_fetched_def aggregate_scan_results_def)
  ultimately obtain s4 where s4: "report_phase ?P ?l s3 sample_fetched [r1, r2, r3] (as_findings s1) = Inr s4" "as_markdown s4 \<noteq> None"
    using sample_report[of s3 "[r1, r2, r3]"] by blast
  have an: "returns (analyze ?P ?l sample_fetched st) (Some (s4, end_of_pipeline s4))"
    unfolding analyze_def Let_def scans(1) option.case option.sel s1_def[symmetric] s2_def[symmetric] s3_def[symmetric]
    using scans sample_scan_phase s4
    by (intro returns_run_stepI[where v = "()"] returns_run_stepI[where v = s4] returns_down) (auto simp: deliver_phase_def)
  have f: "fetch_phase ?P ?named sample_input = Inr sample_fetched"
    by (rule sample_fetches) (simp_all add: sample_start_def new_state_def)
  have "as_commit (bound_state sample_fetched ?named) = Some sample_sha" by (simp add: bound_state_def sample_fetched_def)
  then have "returns (run_pipeline ?P ?l ?named sample_input) (Some (s4, end_of_pipeline s4))"
    unfolding run_pipeline_def Let_def
    by (intro returns_run_stepI[where v = sample_fetched])
      (simp_all add: f, intro returns_down returns_bindI[where b = "Inr ()"], simp_all add: first_lease_def sample_bind
        an[unfolded st_def first_lease_def])
  then have "returns (pipeline ?P ?l sample_start sample_input) (Some (s4, end_of_pipeline s4))"
    unfolding pipeline_def Let_def by (intro returns_phaseI) (simp_all add: ENGINE_AVAILABLE_def)
  moreover have "with_result (end_of_pipeline s4)" by (simp add: end_of_pipeline_def)
  ultimately show ?thesis by blast
qed

theorem run_result_witness:
  "\<exists>st' out fetched. returns (pipeline sample_pipeline first_lease sample_start sample_input) (Some (st', out))
     \<and> fetch_phase sample_pipeline (sample_start\<lparr>as_repo_owner := ''acme'', as_repo_name := ''app''\<rparr>) sample_input = Inr fetched
     \<and> fz_findings (finalization_of st' out) = as_findings st'"
proof -
  obtain st' out where r: "returns (pipeline sample_pipeline first_lease sample_start sample_input) (Some (st', out))" "with_result out"
    using sample_pipeline_runs by blast
  have "extract_repo_owner (as_repo_url sample_start) = ''acme''" "extract_repo_name (as_repo_url sample_start) = ''app''"
    by code_simp+
  then show ?thesis using run_result[OF r] r(1) by auto
qed

end
