(* ===== verification/Spec2Isabelle.thy ===== *)
theory Spec2Isabelle
  imports Boundary_Scans Contract_Props Canonical_Identity Egress_Props Tar_Polls Tar_Roundtrip Snapshot_Props Fetch_Props Report_Props Render_Props Lease_Props Pipeline_Props
begin

text \<open>
  FireCrow audits GitHub repositories: it pins a commit, downloads and unpacks its archive, runs three
  scanners over the tree in hardened containers, normalises what they report into a canonical audit, renders
  a report, and commits everything in one transaction.  Two further programs guard the worker: an
  authorization plugin of the Docker daemon and a filtering egress proxy.  This development models the part
  of the Rust code that decides something and proves what the decisions guarantee.

  \<^bold>\<open>Conventions.\<close>  A Rust string is the list of its UTF-8 bytes (\<open>Rust_Str\<close>); a fallible function returns
  \<open>error + value\<close> with its error type as a datatype; machine integers are words where their width can be
  seen and \<open>int\<close>/\<open>nat\<close> where an explicit cap rules out a wrap-around; a JSON value is the document type
  of \<open>serde_json\<close> (\<open>Json_Value\<close>); a \<open>BTreeMap\<close> is a strictly sorted association list with the ordered-map
  interface of \<open>Prelude\<close>.  A panic is \<open>None\<close> of the option that a function which can panic returns.

  \<^bold>\<open>Parameters.\<close>  What is not under \<open>src/\<close> is an argument of the definitions that use it: the JSON parser
  and the derived decoders and encoders (\<open>env_parse\<close>, \<open>pj\<close>, \<open>decode\<close>), the \<open>url\<close> crate (\<open>parse_url\<close>), SHA-256,
  the Unicode tables, the compiled regular expressions, the formatting of floating-point numbers, the name
  resolver and the outcome of connections, the Docker client and its processes (as event lists), the gzip
  decoder (as a list of chunks), the HTTP client, the file system (as a map from paths), the clock and the
  PostgreSQL server (as a list of rows per table under the triggers of \<open>backend/migrations\<close>).  A hypothesis on a
  parameter states documented behaviour of it and is witnessed.

  \<^bold>\<open>Theories.\<close>
  \<^item> Docker authorization plugin (\<open>docker-authz-plugin/src\<close>).  \<open>Authz_Wire\<close>: base64, path normalisation, query
    parameters, host paths, scanner names of \<open>lib.rs\<close>.  \<open>Authz_Policy\<close>: \<open>Plugin\<close> with its owned-id registry and log,
    \<open>decide\<close>, \<open>pull_policy\<close>, \<open>target_policy\<close>, \<open>create_policy\<close>, \<open>observe\<close>.  \<open>Authz_Server\<close>: the protocol server
    of \<open>main.rs\<close>.  \<open>Authz_Props\<close>: which requests are allowed, as equivalences; ownership and the completeness of
    the log over every run, by an invariant of the step relation and a locale interpreted on the registry.
  \<^item> Contract.  \<open>Lifecycle\<close>: the pipeline states and job states as state machines under one locale
    (\<open>schemas/scan_contract.rs\<close>, \<open>models/user.rs\<close>).  \<open>Scan_Contract\<close>, \<open>Contract_Props\<close>: normalisation and the validators
    of \<open>schemas/scan_contract.rs\<close>.
  \<^item> Canonical audit (\<open>schemas/canonical_audit.rs\<close>, \<open>orchestrator/canonical_audit.rs\<close>).  \<open>Canonical_Schema\<close>,
    \<open>Canonical_Audit\<close>: the document and its construction.  \<open>Canonical_Props\<close>, \<open>Canonical_Identity\<close>: coverage is
    honest, nothing is lost, the order of the input does not matter, the persisted form agrees.
  \<^item> Egress (\<open>services/egress_policy.rs\<close>, \<open>bin/egress_proxy.rs\<close>).  \<open>Egress_Policy\<close>, \<open>Egress_Proxy\<close>: the policy and the
    proxy as a list of effects.  \<open>Egress_Props\<close>: the allowlist and the blocked ranges as equivalences, pinning.
  \<^item> Sandbox (\<open>services/sandbox.rs\<close>).  \<open>Sandbox\<close>: specification, policy, argument vector, the supervised run over
    process events.  \<open>Sandbox_Props\<close>, \<open>Sandbox_Runs\<close>: the policy as an equivalence, cleanup, termination.
    \<open>Boundary\<close>, \<open>Boundary_Scans\<close>: the sandbox against the plugin, for any specification and for the three scanners.
  \<^item> Scanners (\<open>agents/scanner.rs\<close>, \<open>services/native_exec.rs\<close>, \<open>services/redaction.rs\<close>).  \<open>Scanner_Runtime\<close>, \<open>Report_Decode\<close>,
    \<open>Gitleaks\<close>, \<open>Osv\<close>, \<open>Semgrep\<close>, \<open>Redaction\<close>, \<open>Native_Exec\<close>: the descriptors, both backends and the adapters.
    \<open>Scanner_Props\<close>: honest results, the trust table of Semgrep, well-typed findings, severities.
  \<^item> Fetch (\<open>agents/fetch.rs\<close>).  \<open>Repo_Fetch\<close>: the requests and the directory.  \<open>Tar_Archive\<close>, \<open>Tar_Extract\<close>: the tar reader
    and the extraction loop over the decoder's chunks.  \<open>Repo_Snapshot\<close>: the inventory walk.  \<open>Fetch_Props\<close>,
    \<open>Tar_Props\<close>, \<open>Tar_Roundtrip\<close>, \<open>Tar_Polls\<close>, \<open>Snapshot_Props\<close>: pinning and cleanup, confinement and caps, the round
    trip with a reference writer, cancellation, the walk against plain recursion.
  \<^item> Report (\<open>schemas/report.rs\<close>, \<open>services/reporter.rs\<close>).  \<open>Audit_Report\<close>, \<open>Report_Render\<close>: the report model and both
    renderers.  \<open>Report_Props\<close>, \<open>Render_Props\<close>: the verdict, and that no text changes the structure of a page.
  \<^item> Errors (\<open>error.rs\<close>).  \<open>App_Error\<close>: classes, status codes and what a client may see.
  \<^item> Persistence and orchestration (\<open>orchestrator/execution.rs\<close>, \<open>orchestrator/mod.rs\<close>, \<open>workers/mod.rs\<close>,
    \<open>api/routes_audit.rs\<close>, \<open>backend/migrations\<close>).  \<open>Audit_Store\<close>: the tables, constraints and triggers, and programs
    over them that send one statement or transaction at a time.  \<open>Execution\<close>, \<open>Execution_Commit\<close>: leases, the reaper, the
    commit and the read paths.  \<open>Job_Queue\<close>: submission, cancellation, retry, claims and the phase ledger.
    \<open>Orchestrator\<close>: the pipeline from fetch to commit and the worker around it.  \<open>Store_Programs\<close>: a pool of programs
    stepping in any order and the locale \<open>contract\<close> (an invariant, and a relation the store may evolve by);
    \<open>Store_Safety\<close>, \<open>Commit_Safety\<close>, \<open>Run_Safety\<close>: its interpretation on the audit tables, statement by statement, then
    for every program of the backend.  \<open>Commit_Refinement\<close>: the commit against one simultaneous update of all
    tables.  \<open>Lease_Props\<close>: closed executions are fenced off, the reaper takes exactly the abandoned ones, the trigger is
    the life cycle, the submission cap.  \<open>Pipeline_Props\<close>: what a run hands to the commit, for any answers of the database.

  \<^bold>\<open>Recursion, bounds and fuel.\<close>  Every definition is total, and no proof assumes that a loop ends.  Loops over
  input consume it; the extraction loop and the walk have explicit measures (bytes not yet inflated, entries not
  yet visited); the event loops of the sandbox and of native runs recurse over their events and return \<open>None\<close>
  when the events end before the run does.  The five tries of \<open>begin_execution\<close> are a count-down.  The caps of
  the code (\<open>MAX_BODY_BYTES\<close>, \<open>MAX_HEAD_BYTES\<close>, \<open>MAX_TOTAL_BYTES\<close>, \<open>MAX_FILE_BYTES\<close>, entry and depth caps, output caps) are the
  code's own constants and are parts of the theorems that mention them.

  \<^bold>\<open>Not modelled.\<close>  The HTTP handlers and their middleware, accounts, sessions and second factors, payment,
  tenants, storage, mail and Telegram delivery, the AI narrative and its providers, the housekeeping loops, and
  the start-up code: they are sequences of calls to libraries, or wrap the parts above for a client.  Of the SQL
  schema only the tables, constraints and triggers of the audit are modelled; column widths, the text that
  JSONB normalises, and the deletion of users and jobs are not.  Logging and progress broadcasts only read.
\<close>

end
